(* ===== verification/Prelude.thy ===== *)
theory Prelude
  imports Main
begin

text \<open>
  The shared vocabulary of the development.

  \<^item> Go errors as values (\<open>go_error\<close>), with \<open>errors.Is\<close> and the reason
    predicates of the Kubernetes API errors.
  \<^item> The effect type \<open>io\<close>: a function of the world outside the plugin, returning an
    error or a result, the list of the external calls it made, in order, and the world
    after them. Every function of the program that reads or changes something outside
    its own memory is a value of this type.
  \<^item> Which calls an effect can make (\<open>only_calls\<close>) and in which order (\<open>guarded\<close>).
\<close>

named_theorems io_simps \<open>evaluation of effects\<close>
named_theorems calls_rules \<open>rules for the calls an effect can make\<close>
named_theorems keeps_rules \<open>rules for what an effect leaves unchanged\<close>
named_theorems run_iffs \<open>the runs of an effect that end in a given way\<close>
named_theorems guard_rules \<open>rules for the order of the calls of an effect\<close>

section \<open>Errors\<close>

datatype sentinel = ErrWALNotFound | ErrInvalidWALName | ErrConnectivity | ErrGeneric

datatype api_reason = NotFound | AlreadyExists | Conflict | Forbidden | OtherReason string

datatype grpc_code = GOutOfRange | GFailedPrecondition | GNotFound | GUnavailable
  | GInvalidArgument | GInternal

text \<open>
  \<open>Errorf f args e\<close> is \<open>fmt.Errorf\<close> with the format \<open>f\<close>, the texts \<open>args\<close> of its plain
  verbs and the error \<open>e\<close> its \<open>%w\<close> verb wraps, if any. \<open>Grpc_Status c f args e\<close> is
  \<open>status.Errorf\<close>; there the error \<open>e\<close> is only printed, not wrapped. \<open>Panic\<close> is a run-time
  panic, which the caller never sees as an error value. \<open>Opaque\<close> is any other error of a
  library. Messages are kept as format and arguments; nothing in the program reads them back.
\<close>

datatype go_error =
    Sentinel sentinel
  | Api_Error api_reason
  | Grpc_Status grpc_code string "string list" "go_error option"
  | Errorf string "string list" "go_error option"
  | SpoolManagementError string go_error
  | ConfigurationError "string list"
  | Joined "go_error list"
  | Panic string
  | Opaque string

fun errors_Is :: "go_error \<Rightarrow> sentinel \<Rightarrow> bool" where
  "errors_Is (Sentinel s) t = (s = t)"
| "errors_Is (Errorf _ _ (Some e)) t = errors_Is e t"
| "errors_Is (SpoolManagementError _ e) t = errors_Is e t"
| "errors_Is (Joined es) t = list_ex (\<lambda>e. errors_Is e t) es"
| "errors_Is _ t = False"

text \<open>The reason of the first API status in the chain of wrapped errors, if there is one.\<close>

fun api_reason_of :: "go_error \<Rightarrow> api_reason option" where
  "api_reason_of (Api_Error r) = Some r"
| "api_reason_of (Errorf _ _ (Some e)) = api_reason_of e"
| "api_reason_of (SpoolManagementError _ e) = api_reason_of e"
| "api_reason_of (Joined es) =
     foldr (\<lambda>e r. case api_reason_of e of Some x \<Rightarrow> Some x | None \<Rightarrow> r) es None"
| "api_reason_of _ = None"

definition IsNotFound :: "go_error \<Rightarrow> bool" where
  "IsNotFound e \<longleftrightarrow> api_reason_of e = Some NotFound"

definition IsAlreadyExists :: "go_error \<Rightarrow> bool" where
  "IsAlreadyExists e \<longleftrightarrow> api_reason_of e = Some AlreadyExists"

definition IsConflict :: "go_error \<Rightarrow> bool" where
  "IsConflict e \<longleftrightarrow> api_reason_of e = Some Conflict"

definition IsForbidden :: "go_error \<Rightarrow> bool" where
  "IsForbidden e \<longleftrightarrow> api_reason_of e = Some Forbidden"

lemmas api_reason_defs = IsNotFound_def IsAlreadyExists_def IsConflict_def IsForbidden_def

lemma api_reasons_exclusive:
  "IsNotFound e \<Longrightarrow> \<not> IsConflict e" "IsNotFound e \<Longrightarrow> \<not> IsAlreadyExists e"
  "IsAlreadyExists e \<Longrightarrow> \<not> IsConflict e" "IsAlreadyExists e \<Longrightarrow> \<not> IsNotFound e"
  "IsConflict e \<Longrightarrow> \<not> IsNotFound e" "IsConflict e \<Longrightarrow> \<not> IsAlreadyExists e"
  by (simp_all add: api_reason_defs)

section \<open>Effects\<close>

type_synonym ('c, 'w, 'a) io = "'w \<Rightarrow> (go_error + 'a) \<times> 'c list \<times> 'w"

definition io_return :: "'a \<Rightarrow> ('c, 'w, 'a) io" where
  "io_return a = (\<lambda>w. (Inr a, [], w))"

definition io_fail :: "go_error \<Rightarrow> ('c, 'w, 'a) io" where
  "io_fail e = (\<lambda>w. (Inl e, [], w))"

definition io_lift :: "go_error + 'a \<Rightarrow> ('c, 'w, 'a) io" where
  "io_lift r = (\<lambda>w. (r, [], w))"

text \<open>One external call: its event, and the library's function on the world.\<close>

definition io_call :: "'c \<Rightarrow> ('w \<Rightarrow> (go_error + 'a) \<times> 'w) \<Rightarrow> ('c, 'w, 'a) io" where
  "io_call c op = (\<lambda>w. case op w of (r, w') \<Rightarrow> (r, [c], w'))"

text \<open>\<open>io_try m f\<close> runs \<open>m\<close> and hands \<open>f\<close> its error or its result; \<open>io_bind\<close> is the
  \<open>if err != nil { return err }\<close> idiom.\<close>

definition io_try :: "('c, 'w, 'a) io \<Rightarrow> (go_error + 'a \<Rightarrow> ('c, 'w, 'b) io) \<Rightarrow> ('c, 'w, 'b) io" where
  "io_try m f = (\<lambda>w. case m w of (r, cs, w') \<Rightarrow>
     (case f r w' of (r', cs', w'') \<Rightarrow> (r', cs @ cs', w'')))"

definition io_bind :: "('c, 'w, 'a) io \<Rightarrow> ('a \<Rightarrow> ('c, 'w, 'b) io) \<Rightarrow> ('c, 'w, 'b) io" where
  "io_bind m f = io_try m (\<lambda>r. case r of Inl e \<Rightarrow> io_fail e | Inr a \<Rightarrow> f a)"

text \<open>A sequence that is left as soon as one of its parts fails, for effects without a result.\<close>

definition io_seq :: "('c, 'w, unit) io \<Rightarrow> ('c, 'w, 'b) io \<Rightarrow> ('c, 'w, 'b) io" where
  "io_seq m n = io_bind m (\<lambda>_. n)"

text \<open>Rewriting the error of an effect, as \<open>return fmt.Errorf("...: %w", err)\<close> does.\<close>

definition io_map_error :: "(go_error \<Rightarrow> go_error) \<Rightarrow> ('c, 'w, 'a) io \<Rightarrow> ('c, 'w, 'a) io" where
  "io_map_error g m = io_try m (\<lambda>r. case r of Inl e \<Rightarrow> io_fail (g e) | Inr a \<Rightarrow> io_return a)"

definition io_result :: "('c, 'w, 'a) io \<Rightarrow> 'w \<Rightarrow> go_error + 'a" where
  "io_result m w = fst (m w)"

definition io_calls :: "('c, 'w, 'a) io \<Rightarrow> 'w \<Rightarrow> 'c list" where
  "io_calls m w = fst (snd (m w))"

definition io_world :: "('c, 'w, 'a) io \<Rightarrow> 'w \<Rightarrow> 'w" where
  "io_world m w = snd (snd (m w))"

lemma io_apply [io_simps]:
  "io_return a w = (Inr a, [], w)"
  "io_fail e w = (Inl e, [], w)"
  "io_lift r w = (r, [], w)"
  by (simp_all add: io_return_def io_fail_def io_lift_def)

lemma io_try_apply [io_simps]:
  "io_try m f w = (case m w of (r, cs, w') \<Rightarrow>
     (case f r w' of (r', cs', w'') \<Rightarrow> (r', cs @ cs', w'')))"
  by (simp add: io_try_def)

lemma io_call_apply [io_simps]: "io_call c op w = (case op w of (r, w') \<Rightarrow> (r, [c], w'))"
  by (simp add: io_call_def)

lemma io_bind_apply [io_simps]:
  "io_bind m f w = (case m w of (Inl e, cs, w') \<Rightarrow> (Inl e, cs, w')
     | (Inr a, cs, w') \<Rightarrow> (case f a w' of (r', cs', w'') \<Rightarrow> (r', cs @ cs', w'')))"
  by (auto simp: io_bind_def io_try_def io_fail_def split: prod.splits sum.splits)

lemma io_seq_apply [io_simps]: "io_seq m n w = io_bind m (\<lambda>_. n) w"
  by (simp add: io_seq_def)

lemma io_map_error_apply [io_simps]:
  "io_map_error g m w = (case m w of (Inl e, cs, w') \<Rightarrow> (Inl (g e), cs, w')
     | (Inr a, cs, w') \<Rightarrow> (Inr a, cs, w'))"
  by (auto simp: io_map_error_def io_try_def io_fail_def io_return_def split: prod.splits sum.splits)

lemma io_split: "m w = (io_result m w, io_calls m w, io_world m w)"
  by (simp add: io_result_def io_calls_def io_world_def)

lemma io_eqD:
  assumes "m w = (r, cs, w')"
  shows "io_result m w = r" "io_calls m w = cs" "io_world m w = w'"
  using assms by (simp_all add: io_result_def io_calls_def io_world_def)

text \<open>The monad laws, so that handlers can be regrouped.\<close>

lemma io_bind_return_left: "io_bind (io_return a) f = f a"
  by (rule ext) (simp add: io_simps split: prod.splits)

lemma io_bind_return_right: "io_bind m io_return = m"
  by (rule ext) (auto simp: io_simps split: prod.splits sum.splits)

lemma io_bind_assoc: "io_bind (io_bind m f) g = io_bind m (\<lambda>a. io_bind (f a) g)"
  by (rule ext) (auto simp: io_simps split: prod.splits sum.splits)

lemma io_bind_fail: "io_bind (io_fail e) f = io_fail e"
  by (rule ext) (simp add: io_simps)

subsection \<open>Which calls an effect can make\<close>

text \<open>
  \<open>only_calls P m\<close>: whatever the world answers, every call of \<open>m\<close> satisfies \<open>P\<close>. The rules
  follow the structure of the effect, so the calls of a whole handler are bounded by those of
  its parts.
\<close>

definition only_calls :: "('c \<Rightarrow> bool) \<Rightarrow> ('c, 'w, 'a) io \<Rightarrow> bool" where
  "only_calls P m \<longleftrightarrow> (\<forall>w. \<forall>c \<in> set (io_calls m w). P c)"

lemma only_callsD: "only_calls P m \<Longrightarrow> c \<in> set (io_calls m w) \<Longrightarrow> P c"
  by (auto simp: only_calls_def)

lemma only_calls_run: "only_calls P m \<Longrightarrow> m w = (r, cs, w') \<Longrightarrow> \<forall>c \<in> set cs. P c"
  by (metis only_callsD io_eqD(2))

lemma only_calls_return [calls_rules]: "only_calls P (io_return a)"
  and only_calls_fail [calls_rules]: "only_calls P (io_fail e)"
  and only_calls_lift [calls_rules]: "only_calls P (io_lift r)"
  by (simp_all add: only_calls_def io_calls_def io_simps)

lemma only_calls_call [calls_rules]: "P c \<Longrightarrow> only_calls P (io_call c op)"
  by (auto simp: only_calls_def io_calls_def io_simps split: prod.splits)

lemma only_calls_try [calls_rules]:
  "only_calls P m \<Longrightarrow> (\<And>r. only_calls P (f r)) \<Longrightarrow> only_calls P (io_try m f)"
  unfolding only_calls_def io_calls_def io_try_def
  by (auto split: prod.splits) (metis fst_conv snd_conv)+

lemma only_calls_bind [calls_rules]:
  "only_calls P m \<Longrightarrow> (\<And>a. only_calls P (f a)) \<Longrightarrow> only_calls P (io_bind m f)"
  unfolding io_bind_def by (rule only_calls_try) (auto split: sum.splits intro: calls_rules)

lemma only_calls_seq [calls_rules]:
  "only_calls P m \<Longrightarrow> only_calls P n \<Longrightarrow> only_calls P (io_seq m n)"
  unfolding io_seq_def by (rule only_calls_bind)

lemma only_calls_map_error [calls_rules]: "only_calls P m \<Longrightarrow> only_calls P (io_map_error g m)"
  unfolding io_map_error_def
  by (rule only_calls_try) (auto split: sum.splits intro: calls_rules)

lemma only_calls_if [calls_rules]:
  "(b \<Longrightarrow> only_calls P m) \<Longrightarrow> (\<not> b \<Longrightarrow> only_calls P n) \<Longrightarrow> only_calls P (if b then m else n)"
  by simp

lemma only_calls_option [calls_rules]:
  "(x = None \<Longrightarrow> only_calls P m) \<Longrightarrow> (\<And>a. x = Some a \<Longrightarrow> only_calls P (f a)) \<Longrightarrow>
   only_calls P (case x of None \<Rightarrow> m | Some a \<Rightarrow> f a)"
  by (simp split: option.split)

lemma only_calls_sum [calls_rules]:
  "(\<And>a. x = Inl a \<Longrightarrow> only_calls P (f a)) \<Longrightarrow> (\<And>b. x = Inr b \<Longrightarrow> only_calls P (g b)) \<Longrightarrow>
   only_calls P (case x of Inl a \<Rightarrow> f a | Inr b \<Rightarrow> g b)"
  by (simp split: sum.split)

lemma only_calls_mono: "only_calls P m \<Longrightarrow> (\<And>c. P c \<Longrightarrow> Q c) \<Longrightarrow> only_calls Q m"
  by (auto simp: only_calls_def)

text \<open>
  \<open>guarded P Q cs\<close>: along the calls \<open>cs\<close>, no call satisfying \<open>Q\<close> comes before the first one
  satisfying \<open>P\<close>.
\<close>

fun guarded :: "('c \<Rightarrow> bool) \<Rightarrow> ('c \<Rightarrow> bool) \<Rightarrow> 'c list \<Rightarrow> bool" where
  "guarded P Q [] = True"
| "guarded P Q (c # cs) = (P c \<or> (\<not> Q c \<and> guarded P Q cs))"

lemma guarded_append [simp]:
  "guarded P Q (xs @ ys) \<longleftrightarrow> guarded P Q xs \<and> ((\<exists>x \<in> set xs. P x) \<or> guarded P Q ys)"
  by (induction xs) auto

lemma guarded_no_Q: "(\<forall>c \<in> set cs. \<not> Q c) \<Longrightarrow> guarded P Q cs"
  by (induction cs) auto

lemma guarded_nth:
  "guarded P Q cs \<Longrightarrow> i < length cs \<Longrightarrow> Q (cs ! i) \<Longrightarrow> \<exists>j \<le> i. P (cs ! j)"
proof (induction cs arbitrary: i)
  case Nil
  then show ?case by simp
next
  case (Cons c cs)
  show ?case
  proof (cases "P c")
    case True
    then show ?thesis by (metis nth_Cons_0 zero_le)
  next
    case False
    with Cons.prems obtain k where "i = Suc k" "k < length cs" "Q (cs ! k)" "guarded P Q cs"
      by (cases i) auto
    with Cons.IH [of k] show ?thesis by fastforce
  qed
qed

text \<open>
  The same for every run of an effect, and \<open>makes P m\<close>: every successful run of \<open>m\<close> makes a
  call satisfying \<open>P\<close>.
\<close>

definition guarded_io :: "('c \<Rightarrow> bool) \<Rightarrow> ('c \<Rightarrow> bool) \<Rightarrow> ('c, 'w, 'a) io \<Rightarrow> bool" where
  "guarded_io P Q m \<longleftrightarrow> (\<forall>w. guarded P Q (io_calls m w))"

definition makes :: "('c \<Rightarrow> bool) \<Rightarrow> ('c, 'w, 'a) io \<Rightarrow> bool" where
  "makes P m \<longleftrightarrow> (\<forall>w a. io_result m w = Inr a \<longrightarrow> (\<exists>c \<in> set (io_calls m w). P c))"

lemma guarded_ioD: "guarded_io P Q m \<Longrightarrow> guarded P Q (io_calls m w)"
  by (simp add: guarded_io_def)

lemma guarded_io_no_Q: "only_calls (\<lambda>c. \<not> Q c) m \<Longrightarrow> guarded_io P Q m"
  by (auto simp: guarded_io_def only_calls_def intro: guarded_no_Q)

lemma guarded_io_pure [guard_rules]:
  "guarded_io P Q (io_return a)" "guarded_io P Q (io_fail e)" "guarded_io P Q (io_lift r)"
  by (simp_all add: guarded_io_def io_calls_def io_simps)

lemma guarded_io_call [guard_rules]: "P c \<or> \<not> Q c \<Longrightarrow> guarded_io P Q (io_call c op)"
  by (auto simp: guarded_io_def io_calls_def io_simps split: prod.splits)

lemma io_calls_bind:
  "io_calls (io_bind m f) w = io_calls m w @ (case io_result m w of
     Inl _ \<Rightarrow> [] | Inr a \<Rightarrow> io_calls (f a) (io_world m w))"
  by (auto simp: io_calls_def io_result_def io_world_def io_simps split: prod.splits sum.splits)

lemma io_result_bind:
  "io_result (io_bind m f) w = (case io_result m w of
     Inl e \<Rightarrow> Inl e | Inr a \<Rightarrow> io_result (f a) (io_world m w))"
  by (auto simp: io_calls_def io_result_def io_world_def io_simps split: prod.splits sum.splits)

lemma io_world_bind:
  "io_world (io_bind m f) w = (case io_result m w of
     Inl _ \<Rightarrow> io_world m w | Inr a \<Rightarrow> io_world (f a) (io_world m w))"
  by (auto simp: io_calls_def io_result_def io_world_def io_simps split: prod.splits sum.splits)

lemma only_calls_lift_bind:
  "(\<And>a. r = Inr a \<Longrightarrow> only_calls P (f a)) \<Longrightarrow> only_calls P (io_bind (io_lift r) f)"
  by (cases r) (simp_all add: only_calls_def io_calls_bind io_result_def io_calls_def io_world_def io_simps)

lemma guarded_io_bind [guard_rules]:
  "guarded_io P Q m \<Longrightarrow> (\<And>a. guarded_io P Q (f a)) \<Longrightarrow> guarded_io P Q (io_bind m f)"
  by (auto simp: guarded_io_def io_calls_bind split: sum.splits)

lemma guarded_io_seq:
  "guarded_io P Q m \<Longrightarrow> guarded_io P Q n \<Longrightarrow> guarded_io P Q (io_seq m n)"
  unfolding io_seq_def by (rule guarded_io_bind)

lemma guarded_io_bind_makes:
  "guarded_io P Q m \<Longrightarrow> makes P m \<Longrightarrow> guarded_io P Q (io_bind m f)"
  by (auto simp: guarded_io_def makes_def io_calls_bind split: sum.splits)

lemma guarded_io_seq_makes:
  "guarded_io P Q m \<Longrightarrow> makes P m \<Longrightarrow> guarded_io P Q (io_seq m n)"
  unfolding io_seq_def by (rule guarded_io_bind_makes)

lemma io_map_error_parts [simp]:
  "io_calls (io_map_error g m) w = io_calls m w" "io_world (io_map_error g m) w = io_world m w"
  "io_result (io_map_error g m) w = (case io_result m w of Inl e \<Rightarrow> Inl (g e) | Inr a \<Rightarrow> Inr a)"
  by (auto simp: io_calls_def io_result_def io_world_def io_simps split: prod.splits sum.splits)

lemma guarded_io_map_error [guard_rules]: "guarded_io P Q m \<Longrightarrow> guarded_io P Q (io_map_error g m)"
  by (simp add: guarded_io_def)

lemma guarded_io_if [guard_rules]:
  "(b \<Longrightarrow> guarded_io P Q m) \<Longrightarrow> (\<not> b \<Longrightarrow> guarded_io P Q n) \<Longrightarrow> guarded_io P Q (if b then m else n)"
  by simp

lemma guarded_io_option [guard_rules]:
  "(x = None \<Longrightarrow> guarded_io P Q m) \<Longrightarrow> (\<And>a. x = Some a \<Longrightarrow> guarded_io P Q (f a)) \<Longrightarrow>
   guarded_io P Q (case x of None \<Rightarrow> m | Some a \<Rightarrow> f a)"
  by (simp split: option.split)

lemma makes_call [guard_rules]: "P c \<Longrightarrow> makes P (io_call c op)"
  by (auto simp: makes_def io_calls_def io_result_def io_simps split: prod.splits)

lemma makes_map_error [guard_rules]: "makes P m \<Longrightarrow> makes P (io_map_error g m)"
  by (auto simp: makes_def split: sum.splits)

lemma makes_bind_left: "makes P m \<Longrightarrow> makes P (io_bind m f)"
  by (auto simp: makes_def io_calls_bind io_result_bind split: sum.splits)

lemma makes_bind_right: "(\<And>a. makes P (f a)) \<Longrightarrow> makes P (io_bind m f)"
  by (auto simp: makes_def io_calls_bind io_result_bind split: sum.splits)

text \<open>The successful runs of a sequence, and the ways it can be left.\<close>

lemma io_bind_run:
  "m w = (Inr a, cs, w1) \<Longrightarrow> io_bind m f w = (case f a w1 of (r, cs', w2) \<Rightarrow> (r, cs @ cs', w2))"
  "m w = (Inl err, cs, w1) \<Longrightarrow> io_bind m f w = (Inl err, cs, w1)"
  by (simp_all add: io_simps)

lemma io_bind_InrE:
  assumes "io_bind m f w = (Inr b, cs, w2)"
  obtains a cs1 w1 cs2 where "m w = (Inr a, cs1, w1)" "f a w1 = (Inr b, cs2, w2)" "cs = cs1 @ cs2"
  using assms by (auto simp: io_simps split: prod.splits sum.splits)

lemma io_call_InrE:
  assumes "io_call c op w = (Inr a, cs, w1)"
  shows "op w = (Inr a, w1)" "cs = [c]"
  using assms by (auto simp: io_simps split: prod.splits)

text \<open>The same as equivalences, for the simplifier.\<close>

lemma io_bind_Inr_iff [run_iffs]:
  "io_bind m f w = (Inr b, cs, w2) \<longleftrightarrow>
     (\<exists>a cs1 w1 cs2. m w = (Inr a, cs1, w1) \<and> f a w1 = (Inr b, cs2, w2) \<and> cs = cs1 @ cs2)"
  by (auto simp: io_simps split: prod.splits sum.splits)

lemma io_seq_Inr_iff [run_iffs]:
  "io_seq m n w = (Inr b, cs, w2) \<longleftrightarrow>
     (\<exists>a cs1 w1 cs2. m w = (Inr a, cs1, w1) \<and> n w1 = (Inr b, cs2, w2) \<and> cs = cs1 @ cs2)"
  by (simp add: io_seq_def io_bind_Inr_iff)

lemma io_call_iff [run_iffs]: "io_call c op w = (r, cs, w1) \<longleftrightarrow> op w = (r, w1) \<and> cs = [c]"
  by (auto simp: io_simps split: prod.splits)

lemma io_pure_iff [run_iffs]:
  "io_return a w = (r, cs, w1) \<longleftrightarrow> r = Inr a \<and> cs = [] \<and> w1 = w"
  "io_fail e w = (r, cs, w1) \<longleftrightarrow> r = Inl e \<and> cs = [] \<and> w1 = w"
  "io_lift x w = (r, cs, w1) \<longleftrightarrow> r = x \<and> cs = [] \<and> w1 = w"
  by (auto simp: io_simps)

lemma io_map_error_Inr_iff [run_iffs]: "io_map_error g m w = (Inr b, cs, w1) \<longleftrightarrow> m w = (Inr b, cs, w1)"
  by (auto simp: io_simps split: prod.splits sum.splits)

lemma io_try_iff:
  "io_try m f w = (r, cs, w2) \<longleftrightarrow>
     (\<exists>r1 cs1 w1 cs2. m w = (r1, cs1, w1) \<and> f r1 w1 = (r, cs2, w2) \<and> cs = cs1 @ cs2)"
  by (auto simp: io_try_def split: prod.splits)

text \<open>An effect whose failure is only logged.\<close>

lemma io_try_ignore_iff [run_iffs]:
  "io_try m (\<lambda>_. n) w = (r, cs, w2) \<longleftrightarrow>
     (\<exists>r1 cs1 w1 cs2. m w = (r1, cs1, w1) \<and> n w1 = (r, cs2, w2) \<and> cs = cs1 @ cs2)"
  by (rule io_try_iff)

subsection \<open>What an effect leaves unchanged\<close>

text \<open>\<open>keeps f m\<close>: no run of \<open>m\<close> changes the observation \<open>f\<close> of the world.\<close>

definition keeps :: "('w \<Rightarrow> 'b) \<Rightarrow> ('c, 'w, 'a) io \<Rightarrow> bool" where
  "keeps f m \<longleftrightarrow> (\<forall>w. f (io_world m w) = f w)"

lemma keeps_run: "keeps f m \<Longrightarrow> m w = (r, cs, w') \<Longrightarrow> f w' = f w"
  by (metis keeps_def io_eqD(3))

lemma keeps_pure [keeps_rules]: "keeps f (io_return a)" "keeps f (io_fail e)" "keeps f (io_lift r)"
  by (simp_all add: keeps_def io_world_def io_simps)

lemma keeps_call [keeps_rules]: "(\<And>w. f (snd (op w)) = f w) \<Longrightarrow> keeps f (io_call c op)"
  by (auto simp: keeps_def io_world_def io_simps split: prod.splits) (metis snd_conv)

lemma keeps_bind [keeps_rules]: "keeps f m \<Longrightarrow> (\<And>a. keeps f (g a)) \<Longrightarrow> keeps f (io_bind m g)"
  by (auto simp: keeps_def io_world_bind split: sum.splits)

lemma keeps_try [keeps_rules]: "keeps f m \<Longrightarrow> (\<And>r. keeps f (g r)) \<Longrightarrow> keeps f (io_try m g)"
  by (auto simp: keeps_def io_world_def io_try_def split: prod.splits) (metis snd_conv)+

lemma keeps_seq [keeps_rules]: "keeps f m \<Longrightarrow> keeps f n \<Longrightarrow> keeps f (io_seq m n)"
  unfolding io_seq_def by (rule keeps_bind)

lemma keeps_map_error [keeps_rules]: "keeps f m \<Longrightarrow> keeps f (io_map_error g m)"
  by (simp add: keeps_def)

lemma keeps_option [keeps_rules]:
  "(x = None \<Longrightarrow> keeps f m) \<Longrightarrow> (\<And>a. x = Some a \<Longrightarrow> keeps f (g a)) \<Longrightarrow>
   keeps f (case x of None \<Rightarrow> m | Some a \<Rightarrow> g a)"
  by (simp split: option.split)

lemma keeps_sum [keeps_rules]:
  "(\<And>a. x = Inl a \<Longrightarrow> keeps f (g a)) \<Longrightarrow> (\<And>b. x = Inr b \<Longrightarrow> keeps f (h b)) \<Longrightarrow>
   keeps f (case x of Inl a \<Rightarrow> g a | Inr b \<Rightarrow> h b)"
  by (simp split: sum.split)

lemma keeps_if [keeps_rules]:
  "(b \<Longrightarrow> keeps f m) \<Longrightarrow> (\<not> b \<Longrightarrow> keeps f n) \<Longrightarrow> keeps f (if b then m else n)"
  by simp

end
