(* ===== verification/Go_Lib.thy ===== *)
theory Go_Lib
  imports Prelude "HOL-Library.AList"
begin

text \<open>
  The parts of Go's standard library the program computes with: prefixes and suffixes of
  strings, \<open>strings.SplitAfterN(s, sep, 2)\<close>, \<open>strings.Replacer\<close> on single characters,
  \<open>path.Base\<close>, \<open>path.Clean\<close> and \<open>path.Join\<close>, the decimal printing of integers, and maps.
  A Go string is a \<open>string\<close> (a list of bytes). A Go map is \<open>None\<close> when it is nil, otherwise the
  list of its entries in the order one iteration visits them; only \<open>range\<close> loops can see
  that order.
\<close>

named_theorems go_map_simps \<open>lookups in Go maps\<close>

section \<open>Strings\<close>

definition HasPrefix :: "string \<Rightarrow> string \<Rightarrow> bool" where
  "HasPrefix s p \<longleftrightarrow> take (length p) s = p"

definition HasSuffix :: "string \<Rightarrow> string \<Rightarrow> bool" where
  "HasSuffix s p \<longleftrightarrow> length p \<le> length s \<and> drop (length s - length p) s = p"

text \<open>\<open>strings.SplitAfterN(s, "c", 2)\<close>: everything up to and including the first \<open>c\<close>, and the rest.\<close>

definition SplitAfter2 :: "char \<Rightarrow> string \<Rightarrow> string list" where
  "SplitAfter2 c s = (let n = length (takeWhile (\<lambda>x. x \<noteq> c) s) in
     if n = length s then [s] else [take (Suc n) s, drop (Suc n) s])"

text \<open>\<open>strings.NewReplacer(".", "_", "-", "_").Replace\<close>\<close>

definition Replace_dot_dash :: "string \<Rightarrow> string" where
  "Replace_dot_dash s = map (\<lambda>c. if c = CHR ''.'' \<or> c = CHR ''-'' then CHR ''_'' else c) s"

fun Join_strings :: "string \<Rightarrow> string list \<Rightarrow> string" where
  "Join_strings sep [] = ''''"
| "Join_strings sep [x] = x"
| "Join_strings sep (x # xs) = x @ sep @ Join_strings sep xs"

lemma HasPrefix_append [simp]: "HasPrefix (p @ s) p"
  by (simp add: HasPrefix_def)

lemma HasPrefix_iff: "HasPrefix s p \<longleftrightarrow> (\<exists>t. s = p @ t)"
  by (auto simp: HasPrefix_def) (metis append_take_drop_id)

lemma HasSuffix_iff: "HasSuffix s p \<longleftrightarrow> (\<exists>t. s = t @ p)"
  by (auto simp: HasSuffix_def) (metis append_take_drop_id)

lemma SplitAfter2_eq:
  "SplitAfter2 c s = (if c \<in> set s
     then [takeWhile (\<lambda>x. x \<noteq> c) s @ [c], tl (dropWhile (\<lambda>x. x \<noteq> c) s)] else [s])"
proof (cases "c \<in> set s")
  case True
  let ?t = "takeWhile (\<lambda>x. x \<noteq> c) s" and ?d = "dropWhile (\<lambda>x. x \<noteq> c) s"
  have d: "?d = c # tl ?d"
    using True by (metis (mono_tags, lifting) dropWhile_eq_Nil_conv hd_dropWhile list.collapse)
  have s: "s = ?t @ c # tl ?d" by (metis d takeWhile_dropWhile_id)
  have "length s = length ?t + Suc (length (tl ?d))"
    by (subst s) (simp only: length_append list.size)
  then have len: "length ?t \<noteq> length s" by linarith
  have "take (Suc (length ?t)) (?t @ c # tl ?d) = ?t @ [c]"
    "drop (Suc (length ?t)) (?t @ c # tl ?d) = tl ?d" by simp_all
  then have "take (Suc (length ?t)) s = ?t @ [c]" "drop (Suc (length ?t)) s = tl ?d"
    unfolding s [symmetric] .
  then show ?thesis
    by (simp only: SplitAfter2_def Let_def True len if_True if_False)
next
  case False
  then have "takeWhile (\<lambda>x. x \<noteq> c) s = s" by (simp only: takeWhile_eq_all_conv) blast
  with False show ?thesis by (simp only: SplitAfter2_def Let_def if_True if_False simp_thms)
qed

section \<open>Numbers\<close>

fun nat_digits10 :: "nat \<Rightarrow> string" where
  "nat_digits10 n = (if n < 10 then [char_of (48 + n)]
     else nat_digits10 (n div 10) @ [char_of (48 + n mod 10)])"

declare nat_digits10.simps [simp del]

definition Itoa :: "int \<Rightarrow> string" where
  "Itoa i = (if i < 0 then CHR ''-'' # nat_digits10 (nat (- i)) else nat_digits10 (nat i))"

section \<open>Slash-separated paths\<close>

definition is_slash :: "char \<Rightarrow> bool" where
  "is_slash c \<longleftrightarrow> c = CHR ''/''"

definition path_Base :: "string \<Rightarrow> string" where
  "path_Base p = (if p = '''' then ''.''
     else let t = rev (dropWhile is_slash (rev p));
              b = rev (takeWhile (\<lambda>c. \<not> is_slash c) (rev t))
          in if b = '''' then ''/'' else b)"

fun split_slash :: "string \<Rightarrow> string list" where
  "split_slash [] = [[]]"
| "split_slash (c # cs) = (if is_slash c then [] # split_slash cs
     else case split_slash cs of [] \<Rightarrow> [[c]] | x # xs \<Rightarrow> (c # x) # xs)"

text \<open>
  One element of the path: an empty element and \<open>.\<close> vanish, \<open>..\<close> removes the element before it,
  is dropped at the root, and is kept at the start of a relative path. The stack has the
  last element first.
\<close>

definition clean_step :: "bool \<Rightarrow> string list \<Rightarrow> string \<Rightarrow> string list" where
  "clean_step rooted st x = (if x = '''' \<or> x = ''.'' then st
     else if x = ''..'' then
       (case st of [] \<Rightarrow> (if rooted then [] else [''..'']) | y # ys \<Rightarrow> (if y = ''..'' then ''..'' # st else ys))
     else x # st)"

definition path_Clean :: "string \<Rightarrow> string" where
  "path_Clean p = (let rooted = (case p of [] \<Rightarrow> False | c # _ \<Rightarrow> is_slash c);
     body = Join_strings ''/'' (rev (foldl (clean_step rooted) [] (split_slash p)))
     in if rooted then CHR ''/'' # body else if body = '''' then ''.'' else body)"

definition path_Join :: "string list \<Rightarrow> string" where
  "path_Join ps = (case filter (\<lambda>p. p \<noteq> '''') ps of [] \<Rightarrow> ''''
     | qs \<Rightarrow> path_Clean (Join_strings ''/'' qs))"

lemma dropWhile_slash_id:
  assumes "p \<noteq> ''''" "\<forall>c \<in> set p. \<not> is_slash c"
  shows "dropWhile is_slash (rev p @ xs) = rev p @ xs"
proof (cases "rev p")
  case Nil
  with assms(1) show ?thesis by simp
next
  case (Cons c cs)
  then have "c \<in> set p" by (metis list.set_intros(1) set_rev)
  with assms(2) Cons show ?thesis by simp
qed

lemma path_Base_no_slash [simp]:
  assumes "p \<noteq> ''''" "\<forall>c \<in> set p. \<not> is_slash c"
  shows "path_Base p = p"
proof -
  have "dropWhile is_slash (rev p) = rev p" using dropWhile_slash_id [OF assms, of "[]"] by simp
  moreover have "takeWhile (\<lambda>c. \<not> is_slash c) (rev p) = rev p"
    using assms(2) by (simp add: takeWhile_eq_all_conv)
  ultimately show ?thesis using assms(1) by (simp only: path_Base_def Let_def rev_rev_ident if_False)
qed

lemma path_Base_dir [simp]:
  assumes "p \<noteq> ''''" "\<forall>c \<in> set p. \<not> is_slash c"
  shows "path_Base (d @ CHR ''/'' # p) = p"
proof -
  have tw: "takeWhile (\<lambda>c. \<not> is_slash c) (rev p @ CHR ''/'' # xs) = rev p" for xs
    using assms(2) by (subst takeWhile_append2) (auto simp: is_slash_def)
  show ?thesis using assms(1) by (simp add: path_Base_def Let_def dropWhile_slash_id [OF assms] tw)
qed

section \<open>Maps\<close>

type_synonym 'v gomap = "(string \<times> 'v) list option"

definition gm_entries :: "'v gomap \<Rightarrow> (string \<times> 'v) list" where
  "gm_entries m = (case m of None \<Rightarrow> [] | Some es \<Rightarrow> es)"

text \<open>\<open>v, ok := m[k]\<close>; and \<open>m[k]\<close> for a map to strings, the empty string if there is no entry.\<close>

definition gm_lookup :: "'v gomap \<Rightarrow> string \<Rightarrow> 'v option" where
  "gm_lookup m k = map_of (gm_entries m) k"

definition gm_str :: "string gomap \<Rightarrow> string \<Rightarrow> string" where
  "gm_str m k = (case gm_lookup m k of None \<Rightarrow> '''' | Some v \<Rightarrow> v)"

text \<open>
  \<open>m[k] = v\<close>. The program only stores into maps it has just made or checked, so the panic
  of a store into the nil map does not occur; the store is defined on the non-nil map.
\<close>

definition gm_put :: "string \<Rightarrow> 'v \<Rightarrow> 'v gomap \<Rightarrow> 'v gomap" where
  "gm_put k v m = Some (AList.update k v (gm_entries m))"

text \<open>Two maps hold the same entries, whatever order an iteration visits them in.\<close>

definition gm_equiv :: "'v gomap \<Rightarrow> 'v gomap \<Rightarrow> bool" where
  "gm_equiv m n \<longleftrightarrow> gm_lookup m = gm_lookup n"

definition gm_wf :: "'v gomap \<Rightarrow> bool" where
  "gm_wf m \<longleftrightarrow> distinct (map fst (gm_entries m))"

lemma gm_entries_simps [simp]: "gm_entries None = []" "gm_entries (Some es) = es"
  by (simp_all add: gm_entries_def)

lemma gm_lookup_None [go_map_simps]: "gm_lookup None k = None"
  by (simp add: gm_lookup_def)

lemma gm_lookup_put [go_map_simps]: "gm_lookup (gm_put k v m) = (gm_lookup m)(k \<mapsto> v)"
  by (simp add: gm_lookup_def gm_put_def update_conv' fun_eq_iff)

lemma gm_str_put [go_map_simps]: "gm_str (gm_put k v m) j = (if j = k then v else gm_str m j)"
  by (simp add: gm_str_def go_map_simps)

lemma gm_wf_put [simp]: "gm_wf m \<Longrightarrow> gm_wf (gm_put k v m)"
  by (simp add: gm_wf_def gm_put_def distinct_update)

lemma gm_wf_None [simp]: "gm_wf None"
  by (simp add: gm_wf_def)

end
