(* ===== verification/Metadata.thy ===== *)
theory Metadata
  imports Go_Lib
begin

text \<open>
  The constants of the plugin: \<open>internal/cnpgi/metadata/constants.go\<close> and the API group of
  \<open>api/v1/groupversion_info.go\<close>.
\<close>

definition PluginName :: string where
  "PluginName = ''barman-cloud.cloudnative-pg.io''"

definition ClusterLabelName :: string where
  "ClusterLabelName = ''barmancloud.cnpg.io/cluster''"

definition AppLabelValue :: string where
  "AppLabelValue = ''barman-cloud-plugin''"

definition ManagedByLabelValue :: string where
  "ManagedByLabelValue = ''plugin-barman-cloud''"

definition CheckEmptyWalArchiveFile :: string where
  "CheckEmptyWalArchiveFile = ''.check-empty-wal-archive''"

definition BarmanCertificatesPath :: string where
  "BarmanCertificatesPath = ''/barman-certificates''"

definition BarmanCertificatesFileName :: string where
  "BarmanCertificatesFileName = ''barman-ca.crt''"

record plugin_metadata =
  pm_Name :: string
  pm_Version :: string
  pm_DisplayName :: string
  pm_ProjectUrl :: string
  pm_RepositoryUrl :: string
  pm_License :: string
  pm_LicenseUrl :: string
  pm_Maturity :: string

definition Data :: plugin_metadata where
  "Data = \<lparr>pm_Name = PluginName, pm_Version = ''0.14.0'', pm_DisplayName = ''BarmanCloudInstance'',
     pm_ProjectUrl = ''https://github.com/cloudnative-pg/plugin-barman-cloud'',
     pm_RepositoryUrl = ''https://github.com/cloudnative-pg/plugin-barman-cloud'',
     pm_License = ''APACHE 2.0'',
     pm_LicenseUrl = ''https://github.com/cloudnative-pg/plugin-barman-cloud/LICENSE'',
     pm_Maturity = ''alpha''\<rparr>"

definition GroupVersion_Group :: string where
  "GroupVersion_Group = ''barmancloud.cnpg.io''"

definition GroupVersion_Version :: string where
  "GroupVersion_Version = ''v1''"

end
