(* ===== verification/Api_Types.thy ===== *)
theory Api_Types
  imports Metadata "HOL-Library.Word" "HOL-Library.List_Lexorder" "HOL-Library.Char_ord"
begin

text \<open>
  The data of the program: the ObjectStore resource of \<open>api/v1/objectstore_types.go\<close>, and the
  parts of the library types (Kubernetes, CloudNativePG, barman-cloud) whose fields the program
  reads or writes. A library type has the fields the program uses, and one opaque field for
  the rest where the whole value is handed to a library. Pointers that may be nil are options.
\<close>

section \<open>Kubernetes metadata\<close>

datatype namespaced_name = NamespacedName (nn_Namespace: string) (nn_Name: string)

text \<open>Keys are ordered by namespace and then by name.\<close>

instantiation namespaced_name :: linorder
begin

definition less_eq_namespaced_name :: "namespaced_name \<Rightarrow> namespaced_name \<Rightarrow> bool" where
  "less_eq_namespaced_name k j \<longleftrightarrow> nn_Namespace k < nn_Namespace j \<or>
     nn_Namespace k = nn_Namespace j \<and> nn_Name k \<le> nn_Name j"

definition less_namespaced_name :: "namespaced_name \<Rightarrow> namespaced_name \<Rightarrow> bool" where
  "less_namespaced_name k j \<longleftrightarrow> k \<le> j \<and> \<not> j \<le> (k :: namespaced_name)"

instance
  by standard (auto simp: less_eq_namespaced_name_def less_namespaced_name_def namespaced_name.expand)

end

lemma namespaced_name_le [simp]: "NamespacedName ns m \<le> NamespacedName ns n \<longleftrightarrow> m \<le> n"
  by (simp add: less_eq_namespaced_name_def)

lemma sorted_keys [simp]: "sorted (map (NamespacedName ns) names) \<longleftrightarrow> sorted names"
  by (induction names) auto

record owner_reference =
  or_APIVersion :: string
  or_Kind :: string
  or_Name :: string
  or_UID :: string
  or_BlockOwnerDeletion :: "bool option"
  or_Controller :: "bool option"

record object_meta =
  om_Namespace :: string
  om_Name :: string
  om_Labels :: "string gomap"
  om_OwnerReferences :: "owner_reference list"
  om_ResourceVersion :: nat

text \<open>\<open>client.ObjectKeyFromObject\<close>\<close>

definition object_key :: "object_meta \<Rightarrow> namespaced_name" where
  "object_key m = NamespacedName (om_Namespace m) (om_Name m)"

section \<open>barman-cloud configuration\<close>

record secret_key_selector =
  sk_Name :: string
  sk_Key :: string

record aws_credentials =
  aws_AccessKeyIDReference :: "secret_key_selector option"
  aws_SecretAccessKeyReference :: "secret_key_selector option"
  aws_RegionReference :: "secret_key_selector option"
  aws_SessionToken :: "secret_key_selector option"
  aws_InheritFromIAMRole :: bool

record azure_credentials =
  az_ConnectionString :: "secret_key_selector option"
  az_StorageAccount :: "secret_key_selector option"
  az_StorageKey :: "secret_key_selector option"
  az_StorageSasToken :: "secret_key_selector option"
  az_InheritFromAzureAD :: bool
  az_UseDefaultAzureCredentials :: bool

record google_credentials =
  gc_ApplicationCredentials :: "secret_key_selector option"

record barman_credentials =
  cred_AWS :: "aws_credentials option"
  cred_Azure :: "azure_credentials option"
  cred_Google :: "google_credentials option"

text \<open>\<open>bc_Wal\<close> is the \<open>maxParallel\<close> of the WAL section, when there is one.\<close>

record barman_configuration =
  bc_Credentials :: barman_credentials
  bc_EndpointCA :: "secret_key_selector option"
  bc_EndpointURL :: string
  bc_DestinationPath :: string
  bc_Wal :: "int option"
  bc_Rest :: string

section \<open>The ObjectStore resource\<close>

record env_var =
  ev_Name :: string
  ev_Value :: string
  ev_Source :: string

text \<open>Limits, requests and claims of a container, opaque; \<open>[]\<close> is the zero value.\<close>

type_synonym resource_requirements = "(string \<times> string) list"

record instance_sidecar_configuration =
  sc_Env :: "env_var list"
  sc_RetentionPolicyIntervalSeconds :: "64 word"
  sc_Resources :: resource_requirements
  sc_AdditionalContainerArgs :: "string list"
  sc_LogLevel :: string

record object_store_spec =
  oss_Configuration :: barman_configuration
  oss_RetentionPolicy :: string
  oss_InstanceSidecarConfiguration :: instance_sidecar_configuration

text \<open>A time is a number of nanoseconds since the Unix epoch.\<close>

type_synonym gtime = int

definition Unix :: "gtime \<Rightarrow> int" where
  "Unix t = t div 1000000000"

record recovery_window =
  rw_FirstRecoverabilityPoint :: "gtime option"
  rw_LastSuccessfulBackupTime :: "gtime option"
  rw_LastFailedBackupTime :: "gtime option"

definition zero_recovery_window :: recovery_window where
  "zero_recovery_window = \<lparr>rw_FirstRecoverabilityPoint = None, rw_LastSuccessfulBackupTime = None,
     rw_LastFailedBackupTime = None\<rparr>"

record object_store_status =
  ost_ServerRecoveryWindow :: "recovery_window gomap"

record object_store =
  os_Meta :: object_meta
  os_Spec :: object_store_spec
  os_Status :: object_store_status

definition os_Name :: "object_store \<Rightarrow> string" where
  "os_Name os = om_Name (os_Meta os)"

definition os_Namespace :: "object_store \<Rightarrow> string" where
  "os_Namespace os = om_Namespace (os_Meta os)"

definition os_Configuration :: "object_store \<Rightarrow> barman_configuration" where
  "os_Configuration os = oss_Configuration (os_Spec os)"

definition os_Sidecar :: "object_store \<Rightarrow> instance_sidecar_configuration" where
  "os_Sidecar os = oss_InstanceSidecarConfiguration (os_Spec os)"

section \<open>Clusters and backups of CloudNativePG\<close>

record plugin_configuration =
  pc_Name :: string
  pc_Enabled :: "bool option"
  pc_Parameters :: "string gomap"

record external_cluster =
  ec_Name :: string
  ec_ConnectionParameters :: "string gomap"
  ec_PluginConfiguration :: "plugin_configuration option"

record bootstrap_recovery =
  br_Source :: string
  br_RecoveryTarget :: "string option"

text \<open>
  \<open>cl_Bootstrap\<close> is nil, or a bootstrap section whose recovery stanza may be nil;
  \<open>cl_ReplicaCluster\<close> is the source of the replica cluster section, when there is one.
\<close>

record cluster =
  cl_Name :: string
  cl_Namespace :: string
  cl_UID :: string
  cl_Group :: string
  cl_Version :: string
  cl_Kind :: string
  cl_Plugins :: "plugin_configuration list"
  cl_Bootstrap :: "bootstrap_recovery option option"
  cl_ReplicaCluster :: "string option"
  cl_WalStorage :: bool
  cl_ImagePullPolicy :: string
  cl_CurrentPrimary :: string
  cl_Rest :: string

record barman_backup =
  bb_ID :: string
  bb_BackupName :: string
  bb_BeginTime :: gtime
  bb_EndTime :: gtime
  bb_BeginWal :: string
  bb_EndWal :: string
  bb_BeginLSN :: string
  bb_EndLSN :: string
  bb_TimeLine :: int
  bb_Error :: string

type_synonym catalog = "barman_backup list"

record backup_status =
  bs_Method :: string
  bs_Phase :: string
  bs_BackupID :: string
  bs_PluginMetadata :: "string gomap"
  bs_Credentials :: barman_credentials
  bs_EndpointCA :: "secret_key_selector option"
  bs_EndpointURL :: string
  bs_DestinationPath :: string
  bs_ServerName :: string
  bs_StartedAt :: "gtime option"
  bs_StoppedAt :: "gtime option"
  bs_BeginWal :: string
  bs_EndWal :: string
  bs_BeginLSN :: string
  bs_EndLSN :: string
  bs_Error :: string

record backup =
  bk_Name :: string
  bk_Namespace :: string
  bk_ClusterName :: string
  bk_Status :: backup_status

section \<open>RBAC\<close>

record policy_rule =
  pr_APIGroups :: "string list"
  pr_Verbs :: "string list"
  pr_Resources :: "string list"
  pr_ResourceNames :: "string list"
  pr_NonResourceURLs :: "string list"

record role =
  role_Meta :: object_meta
  role_Rules :: "policy_rule list"

record subject =
  sub_Kind :: string
  sub_APIGroup :: string
  sub_Name :: string
  sub_Namespace :: string

record role_ref =
  rr_APIGroup :: string
  rr_Kind :: string
  rr_Name :: string

record role_binding =
  rb_Meta :: object_meta
  rb_Subjects :: "subject list"
  rb_RoleRef :: role_ref

end
