(* ===== verification/Externals.thy ===== *)
theory Externals
  imports Api_Types
begin

text \<open>
  Everything the program calls that is not in this repository, as parameters.

  \<open>lib\<close> holds the library functions that only compute (CloudNativePG's methods on clusters,
  the string sets of \<open>machinery\<close>, JSON decoding, the constants of other modules). \<open>'w ext\<close> holds
  the operations on the world outside the process: the Kubernetes API, the barman-cloud
  tools, the file system, the clock, and \<open>retry.RetryOnConflict\<close>. The type \<open>'w\<close> of that world
  is arbitrary. Each operation is wrapped (\<open>Get_object_store\<close>, \<open>Archive_list\<close>, \<dots>) into an
  effect that leaves one event of type \<open>call\<close>.
\<close>

section \<open>Library functions that only compute\<close>

record lib =
  IsEnabled :: "plugin_configuration \<Rightarrow> bool"
  ExternalCluster :: "cluster \<Rightarrow> string \<Rightarrow> external_cluster option"
  IsReplica :: "cluster \<Rightarrow> bool"
  GetRecoverySourcePlugin :: "cluster \<Rightarrow> plugin_configuration option"
  IsEmptyWalArchiveCheckEnabled :: "cluster \<Rightarrow> bool"
  EnabledPluginNames :: "plugin_configuration list \<Rightarrow> string list"
  ToSortedList :: "string list \<Rightarrow> string list"
  GroupVersionString :: "string \<Rightarrow> string \<Rightarrow> string"
  DecodeCluster :: "string \<Rightarrow> go_error + cluster"
  GetKind :: "string \<Rightarrow> go_error + string"
  ReadyItemsToSlice :: "string list \<Rightarrow> string list"
  BackupPhaseCompleted :: string
  BackupMethodPlugin :: string
  GetBackupIDs :: "catalog \<Rightarrow> string list"
  GetFirstRecoverabilityPoint :: "catalog \<Rightarrow> gtime option"
  GetLastSuccessfulBackupTime :: "catalog \<Rightarrow> gtime option"
  FindBackupInfo :: "catalog \<Rightarrow> string \<Rightarrow> go_error + barman_backup option"
  LatestBackupInfo :: "catalog \<Rightarrow> barman_backup option"
  ToCompactISO8601 :: "gtime \<Rightarrow> string"
  AppendRestoreAdditionalCommandArgs :: "barman_configuration \<Rightarrow> string list \<Rightarrow> string list"
  UnmarshalBarmanCloudRestoreExitCode :: "int \<Rightarrow> go_error"
  BarmanCloudRestore :: string
  BackupTemporaryDirectory :: string
  LogPath :: string
  LogFileName :: string
  KubernetesAppLabelName :: string
  KubernetesAppInstanceLabelName :: string
  KubernetesAppVersionLabelName :: string
  KubernetesAppComponentLabelName :: string
  KubernetesAppManagedByLabelName :: string
  DatabaseComponentName :: string

section \<open>Events\<close>

datatype kube_call =
    Get_ObjectStore namespaced_name
  | Get_Cluster namespaced_name
  | Get_Role namespaced_name
  | Create_Role role
  | Patch_Role role role
  | List_Roles string string
  | Get_RoleBinding namespaced_name
  | Create_RoleBinding role_binding
  | Patch_RoleBinding role_binding role_binding
  | List_Backups string
  | Delete_Backup backup
  | Update_ObjectStore_Status object_store
  | Record_Event string string

datatype barman_call =
    Set_Credentials string string
  | New_Archiver
  | Check_Wal_Options string
  | Check_Wal_Destination
  | Delete_From_Spool string
  | Archive_Options string
  | Gather_Ready int "string list"
  | Archive_List "string list"
  | Restore_Options string
  | New_Restorer
  | Is_End_Of_Wal_Stream
  | Reset_End_Of_Wal_Stream
  | Set_End_Of_Wal_Stream
  | Restore_From_Spool string string
  | Restore_List "string list" string
  | Restore_One string string
  | Take_Backup string string
  | Executed_Backup_Info string string
  | Backup_List string
  | Delete_By_Policy string string
  | Provider_Options
  | Run_Restore "string list"

datatype os_call =
    File_Exists string
  | Ensure_Directory string
  | Ensure_Parent string
  | Remove_File string
  | Read_Link string
  | Move_Content string string
  | Make_Symlink string string
  | Now

datatype call = Kube kube_call | Barman barman_call | Os os_call

text \<open>The calls that change something in the Kubernetes API.\<close>

fun kube_write :: "call \<Rightarrow> bool" where
  "kube_write (Kube (Create_Role _)) = True"
| "kube_write (Kube (Patch_Role _ _)) = True"
| "kube_write (Kube (Create_RoleBinding _)) = True"
| "kube_write (Kube (Patch_RoleBinding _ _)) = True"
| "kube_write (Kube (Delete_Backup _)) = True"
| "kube_write (Kube (Update_ObjectStore_Status _)) = True"
| "kube_write (Kube (Record_Event _ _)) = True"
| "kube_write _ = False"

section \<open>Operations on the outside world\<close>

text \<open>
  The values the constructors of \<open>archiver\<close> and \<open>restorer\<close> return, identified by what they
  were made of; \<open>wal_result\<close> is one entry of the result of a restorer.
\<close>

datatype archiver = Archiver "string list" string string string
datatype restorer = Restorer "string list" string

record wal_result =
  wr_WalName :: string
  wr_Err :: "go_error option"

text \<open>How \<open>barman-cloud-restore\<close> ended: an exit status, or a failure to run it.\<close>

datatype exec_failure = Exit_Error int | Exec_Error go_error

type_synonym ('w, 'a) op = "'w \<Rightarrow> (go_error + 'a) \<times> 'w"

record 'w ext =
  environ :: "string list"
  k_get_object_store :: "namespaced_name \<Rightarrow> ('w, object_store) op"
  k_get_cluster :: "namespaced_name \<Rightarrow> ('w, cluster) op"
  k_get_role :: "namespaced_name \<Rightarrow> ('w, role) op"
  k_create_role :: "role \<Rightarrow> ('w, unit) op"
  k_patch_role :: "role \<Rightarrow> role \<Rightarrow> ('w, unit) op"
  k_list_roles :: "string \<Rightarrow> string \<Rightarrow> ('w, role list) op"
  k_get_role_binding :: "namespaced_name \<Rightarrow> ('w, role_binding) op"
  k_create_role_binding :: "role_binding \<Rightarrow> ('w, unit) op"
  k_patch_role_binding :: "role_binding \<Rightarrow> role_binding \<Rightarrow> ('w, unit) op"
  k_list_backups :: "string \<Rightarrow> ('w, backup list) op"
  k_delete_backup :: "backup \<Rightarrow> ('w, unit) op"
  k_update_object_store_status :: "object_store \<Rightarrow> ('w, unit) op"
  k_record_event :: "string \<Rightarrow> string \<Rightarrow> ('w, unit) op"
  b_set_credentials :: "string \<Rightarrow> barman_configuration \<Rightarrow> string list \<Rightarrow> string \<Rightarrow> ('w, string list) op"
  b_new_archiver :: "string list \<Rightarrow> string \<Rightarrow> string \<Rightarrow> string \<Rightarrow> ('w, archiver) op"
  b_check_wal_options :: "archiver \<Rightarrow> barman_configuration \<Rightarrow> string \<Rightarrow> ('w, string list) op"
  b_check_wal_destination :: "archiver \<Rightarrow> string list \<Rightarrow> ('w, unit) op"
  b_delete_from_spool :: "archiver \<Rightarrow> string \<Rightarrow> ('w, bool) op"
  b_archive_options :: "archiver \<Rightarrow> barman_configuration \<Rightarrow> string \<Rightarrow> ('w, string list) op"
  b_gather_ready :: "int \<Rightarrow> string list \<Rightarrow> string \<Rightarrow> 'w \<Rightarrow> string list \<times> 'w"
  b_archive_list :: "archiver \<Rightarrow> string list \<Rightarrow> string list \<Rightarrow> 'w \<Rightarrow> go_error option list \<times> 'w"
  b_restore_options :: "barman_configuration \<Rightarrow> string \<Rightarrow> ('w, string list) op"
  b_new_restorer :: "string list \<Rightarrow> string \<Rightarrow> ('w, restorer) op"
  b_is_end_of_wal_stream :: "restorer \<Rightarrow> ('w, bool) op"
  b_reset_end_of_wal_stream :: "restorer \<Rightarrow> ('w, unit) op"
  b_set_end_of_wal_stream :: "restorer \<Rightarrow> ('w, unit) op"
  b_restore_from_spool :: "restorer \<Rightarrow> string \<Rightarrow> string \<Rightarrow> ('w, bool) op"
  b_restore_list :: "restorer \<Rightarrow> string list \<Rightarrow> string \<Rightarrow> string list \<Rightarrow> 'w \<Rightarrow> wal_result list \<times> 'w"
  b_restore_one :: "restorer \<Rightarrow> string \<Rightarrow> string \<Rightarrow> string list \<Rightarrow> ('w, unit) op"
  b_take_backup :: "barman_configuration \<Rightarrow> string \<Rightarrow> string \<Rightarrow> string list \<Rightarrow> string \<Rightarrow> ('w, unit) op"
  b_executed_backup_info :: "barman_configuration \<Rightarrow> string \<Rightarrow> string \<Rightarrow> string list \<Rightarrow> ('w, barman_backup) op"
  b_backup_list :: "barman_configuration \<Rightarrow> string \<Rightarrow> string list \<Rightarrow> ('w, catalog) op"
  b_delete_by_policy :: "barman_configuration \<Rightarrow> string \<Rightarrow> string list \<Rightarrow> string \<Rightarrow> ('w, unit) op"
  b_provider_options :: "string list \<Rightarrow> barman_configuration \<Rightarrow> ('w, string list) op"
  b_run_restore :: "string list \<Rightarrow> string list \<Rightarrow> 'w \<Rightarrow> exec_failure option \<times> 'w"
  o_file_exists :: "string \<Rightarrow> ('w, bool) op"
  o_ensure_directory :: "string \<Rightarrow> ('w, unit) op"
  o_ensure_parent :: "string \<Rightarrow> ('w, unit) op"
  o_remove_file :: "string \<Rightarrow> ('w, unit) op"
  o_read_link :: "string \<Rightarrow> 'w \<Rightarrow> string \<times> 'w"
  o_move_content :: "string \<Rightarrow> string \<Rightarrow> ('w, unit) op"
  o_symlink :: "string \<Rightarrow> string \<Rightarrow> ('w, unit) op"
  o_now :: "'w \<Rightarrow> gtime \<times> 'w"
  retry_on_conflict :: "(nat \<Rightarrow> (call, 'w, unit) io) \<Rightarrow> (call, 'w, unit) io"

type_synonym ('w, 'a) eff = "(call, 'w, 'a) io"

text \<open>An operation that cannot fail.\<close>

definition pure_op :: "('w \<Rightarrow> 'a \<times> 'w) \<Rightarrow> ('w, 'a) op" where
  "pure_op f = (\<lambda>w. case f w of (a, w') \<Rightarrow> (Inr a, w'))"

lemma pure_op_apply [io_simps]: "pure_op f w = (case f w of (a, w') \<Rightarrow> (Inr a, w'))"
  by (simp add: pure_op_def)

section \<open>The operations as effects\<close>

text \<open>
  These are abbreviations, so that the rules of \<open>io_simps\<close> and \<open>calls_rules\<close> on \<open>io_call\<close> apply
  to them.
\<close>

abbreviation get_object_store where
  "get_object_store e key \<equiv> io_call (Kube (Get_ObjectStore key)) (k_get_object_store e key)"

abbreviation get_cluster where
  "get_cluster e key \<equiv> io_call (Kube (Get_Cluster key)) (k_get_cluster e key)"

abbreviation get_role where
  "get_role e key \<equiv> io_call (Kube (Get_Role key)) (k_get_role e key)"

abbreviation create_role where
  "create_role e r \<equiv> io_call (Kube (Create_Role r)) (k_create_role e r)"

abbreviation patch_role where
  "patch_role e old new \<equiv> io_call (Kube (Patch_Role old new)) (k_patch_role e old new)"

abbreviation list_roles where
  "list_roles e ns label \<equiv> io_call (Kube (List_Roles ns label)) (k_list_roles e ns label)"

abbreviation get_role_binding where
  "get_role_binding e key \<equiv> io_call (Kube (Get_RoleBinding key)) (k_get_role_binding e key)"

abbreviation create_role_binding where
  "create_role_binding e b \<equiv> io_call (Kube (Create_RoleBinding b)) (k_create_role_binding e b)"

abbreviation patch_role_binding where
  "patch_role_binding e old new \<equiv> io_call (Kube (Patch_RoleBinding old new)) (k_patch_role_binding e old new)"

abbreviation list_backups where
  "list_backups e ns \<equiv> io_call (Kube (List_Backups ns)) (k_list_backups e ns)"

abbreviation delete_backup where
  "delete_backup e b \<equiv> io_call (Kube (Delete_Backup b)) (k_delete_backup e b)"

abbreviation update_object_store_status where
  "update_object_store_status e os \<equiv> io_call (Kube (Update_ObjectStore_Status os)) (k_update_object_store_status e os)"

abbreviation record_event where
  "record_event e reason msg \<equiv> io_call (Kube (Record_Event reason msg)) (k_record_event e reason msg)"

abbreviation set_credentials where
  "set_credentials e ns conf environment cert \<equiv> io_call (Barman (Set_Credentials ns cert)) (b_set_credentials e ns conf environment cert)"

abbreviation new_archiver where
  "new_archiver e environment spool pgdata marker \<equiv> io_call (Barman New_Archiver) (b_new_archiver e environment spool pgdata marker)"

abbreviation check_wal_options where
  "check_wal_options e arch conf server \<equiv> io_call (Barman (Check_Wal_Options server)) (b_check_wal_options e arch conf server)"

abbreviation check_wal_destination where
  "check_wal_destination e arch opts \<equiv> io_call (Barman Check_Wal_Destination) (b_check_wal_destination e arch opts)"

abbreviation delete_from_spool where
  "delete_from_spool e arch wal \<equiv> io_call (Barman (Delete_From_Spool wal)) (b_delete_from_spool e arch wal)"

abbreviation archive_options where
  "archive_options e arch conf server \<equiv> io_call (Barman (Archive_Options server)) (b_archive_options e arch conf server)"

abbreviation gather_ready where
  "gather_ready e maxResults skip pgdata \<equiv> io_call (Barman (Gather_Ready maxResults skip)) (pure_op (b_gather_ready e maxResults skip pgdata))"

abbreviation archive_list where
  "archive_list e arch wals opts \<equiv> io_call (Barman (Archive_List wals)) (pure_op (b_archive_list e arch wals opts))"

abbreviation restore_options where
  "restore_options e conf server \<equiv> io_call (Barman (Restore_Options server)) (b_restore_options e conf server)"

abbreviation new_restorer where
  "new_restorer e environment spool \<equiv> io_call (Barman New_Restorer) (b_new_restorer e environment spool)"

abbreviation is_end_of_wal_stream where
  "is_end_of_wal_stream e rest \<equiv> io_call (Barman Is_End_Of_Wal_Stream) (b_is_end_of_wal_stream e rest)"

abbreviation reset_end_of_wal_stream where
  "reset_end_of_wal_stream e rest \<equiv> io_call (Barman Reset_End_Of_Wal_Stream) (b_reset_end_of_wal_stream e rest)"

abbreviation set_end_of_wal_stream where
  "set_end_of_wal_stream e rest \<equiv> io_call (Barman Set_End_Of_Wal_Stream) (b_set_end_of_wal_stream e rest)"

abbreviation restore_from_spool where
  "restore_from_spool e rest wal dest \<equiv> io_call (Barman (Restore_From_Spool wal dest)) (b_restore_from_spool e rest wal dest)"

abbreviation restore_list where
  "restore_list e rest wals dest opts \<equiv> io_call (Barman (Restore_List wals dest)) (pure_op (b_restore_list e rest wals dest opts))"

abbreviation restore_one where
  "restore_one e rest wal dest opts \<equiv> io_call (Barman (Restore_One wal dest)) (b_restore_one e rest wal dest opts)"

abbreviation take_backup where
  "take_backup e conf name server environment tmp \<equiv> io_call (Barman (Take_Backup name server)) (b_take_backup e conf name server environment tmp)"

abbreviation executed_backup_info where
  "executed_backup_info e conf name server environment \<equiv> io_call (Barman (Executed_Backup_Info name server)) (b_executed_backup_info e conf name server environment)"

abbreviation backup_list where
  "backup_list e conf server environment \<equiv> io_call (Barman (Backup_List server)) (b_backup_list e conf server environment)"

abbreviation delete_by_policy where
  "delete_by_policy e conf server environment policy \<equiv> io_call (Barman (Delete_By_Policy server policy)) (b_delete_by_policy e conf server environment policy)"

abbreviation provider_options where
  "provider_options e opts conf \<equiv> io_call (Barman Provider_Options) (b_provider_options e opts conf)"

abbreviation run_restore where
  "run_restore e opts environment \<equiv> io_call (Barman (Run_Restore opts)) (pure_op (b_run_restore e opts environment))"

abbreviation file_exists where
  "file_exists e file \<equiv> io_call (Os (File_Exists file)) (o_file_exists e file)"

abbreviation ensure_directory where
  "ensure_directory e dir \<equiv> io_call (Os (Ensure_Directory dir)) (o_ensure_directory e dir)"

abbreviation ensure_parent where
  "ensure_parent e file \<equiv> io_call (Os (Ensure_Parent file)) (o_ensure_parent e file)"

abbreviation remove_file where
  "remove_file e file \<equiv> io_call (Os (Remove_File file)) (o_remove_file e file)"

abbreviation read_link where
  "read_link e file \<equiv> io_call (Os (Read_Link file)) (pure_op (o_read_link e file))"

abbreviation move_content where
  "move_content e src dst \<equiv> io_call (Os (Move_Content src dst)) (o_move_content e src dst)"

abbreviation make_symlink where
  "make_symlink e target link \<equiv> io_call (Os (Make_Symlink target link)) (o_symlink e target link)"

abbreviation time_now where
  "time_now e \<equiv> io_call (Os Now) (pure_op (o_now e))"

section \<open>Retrying\<close>

text \<open>
  \<open>retry.RetryOnConflict(backoff, fn)\<close> calls \<open>fn\<close> until it returns something that is not a
  conflict, or until the backoff allows no further attempt, and then returns what the last
  attempt returned. The closure gets the number of the attempt, so that it can keep state
  between attempts. \<open>attempts f i n\<close> makes at most \<open>n\<close> attempts after the first, which is
  number \<open>i\<close>; \<open>retry_law\<close> is the documented behaviour.
\<close>

primrec attempts :: "(nat \<Rightarrow> ('w, unit) eff) \<Rightarrow> nat \<Rightarrow> nat \<Rightarrow> ('w, unit) eff" where
  "attempts f i 0 = f i"
| "attempts f i (Suc n) = io_try (f i) (\<lambda>r. case r of
     Inl err \<Rightarrow> if IsConflict err then attempts f (Suc i) n else io_fail err
   | Inr u \<Rightarrow> io_return u)"

definition retry_law :: "'w ext \<Rightarrow> bool" where
  "retry_law e \<longleftrightarrow> (\<forall>f w. \<exists>n. retry_on_conflict e f w = attempts f 0 n w)"

lemma retry_lawE:
  assumes "retry_law e"
  obtains n where "retry_on_conflict e f w = attempts f 0 n w"
  using assms unfolding retry_law_def by blast

lemma attempts_success:
  "f i w = (Inr u, cs, w') \<Longrightarrow> attempts f i n w = (Inr u, cs, w')"
  by (cases n) (simp_all add: io_simps)

lemma attempts_error:
  "f i w = (Inl err, cs, w') \<Longrightarrow> \<not> IsConflict err \<Longrightarrow> attempts f i n w = (Inl err, cs, w')"
  by (cases n) (simp_all add: io_simps)

lemma only_calls_attempts:
  "(\<And>i. only_calls P (f i)) \<Longrightarrow> only_calls P (attempts f i n)"
  by (induction n arbitrary: i) (auto intro!: calls_rules)

text \<open>Whatever the number of attempts, a retried closure makes no other calls than the closure does.\<close>

lemma only_calls_retry [calls_rules]:
  assumes "retry_law e" "\<And>i. only_calls P (f i)"
  shows "only_calls P (retry_on_conflict e f)"
  unfolding only_calls_def
proof (intro allI ballI)
  fix w c assume c: "c \<in> set (io_calls (retry_on_conflict e f) w)"
  obtain n where "retry_on_conflict e f w = attempts f 0 n w" using assms(1) by (rule retry_lawE)
  with c have "c \<in> set (io_calls (attempts f 0 n) w)" by (simp add: io_calls_def)
  then show "P c" by (rule only_callsD [OF only_calls_attempts [OF assms(2)]])
qed

lemma keeps_attempts: "(\<And>i. keeps g (f i)) \<Longrightarrow> keeps g (attempts f i n)"
  by (induction n arbitrary: i) (auto intro!: keeps_rules)

lemma keeps_retry [keeps_rules]:
  assumes "retry_law e" "\<And>i. keeps g (f i)"
  shows "keeps g (retry_on_conflict e f)"
  unfolding keeps_def
proof
  fix w
  obtain n where "retry_on_conflict e f w = attempts f 0 n w" using assms(1) by (rule retry_lawE)
  then show "g (io_world (retry_on_conflict e f) w) = g w"
    using keeps_attempts [of g f 0 n] assms(2) by (simp add: keeps_def io_world_def)
qed

text \<open>The stores of an API server: reading does not change it.\<close>

definition store_api_law :: "'w ext \<Rightarrow> ('w \<Rightarrow> namespaced_name \<Rightarrow> object_store option) \<Rightarrow> bool" where
  "store_api_law e stores \<longleftrightarrow> (\<forall>k w. k_get_object_store e k w =
     (case stores w k of Some os \<Rightarrow> Inr os | None \<Rightarrow> Inl (Api_Error NotFound), w))"

section \<open>Concrete parameters\<close>

text \<open>
  An environment in which every operation fails, and a library of simple functions: the
  witnesses of the theorems start from them and put in the operations they need.
\<close>

definition unavailable :: "('w, 'a) op" where
  "unavailable = (\<lambda>w. (Inl (Opaque ''unavailable''), w))"

definition sample_lib :: lib where
  "sample_lib = \<lparr>
     IsEnabled = (\<lambda>p. pc_Enabled p \<noteq> Some False),
     ExternalCluster = (\<lambda>c n. None), IsReplica = (\<lambda>c. cl_ReplicaCluster c \<noteq> None),
     GetRecoverySourcePlugin = (\<lambda>c. None), IsEmptyWalArchiveCheckEnabled = (\<lambda>c. True),
     EnabledPluginNames = (\<lambda>ps. map pc_Name (filter (\<lambda>p. pc_Enabled p \<noteq> Some False) ps)),
     ToSortedList = (\<lambda>xs. sort (remdups xs)),
     GroupVersionString = (\<lambda>g v. if g = '''' then v else g @ ''/'' @ v),
     DecodeCluster = (\<lambda>j. Inl (Opaque ''decode'')), GetKind = (\<lambda>j. Inr j), ReadyItemsToSlice = (\<lambda>xs. xs),
     BackupPhaseCompleted = ''completed'', BackupMethodPlugin = ''plugin'',
     GetBackupIDs = map bb_ID, GetFirstRecoverabilityPoint = (\<lambda>c. None),
     GetLastSuccessfulBackupTime = (\<lambda>c. None), FindBackupInfo = (\<lambda>c t. Inr None),
     LatestBackupInfo = (\<lambda>c. case c of [] \<Rightarrow> None | b # _ \<Rightarrow> Some b), ToCompactISO8601 = (\<lambda>t. Itoa t),
     AppendRestoreAdditionalCommandArgs = (\<lambda>c xs. xs),
     UnmarshalBarmanCloudRestoreExitCode = (\<lambda>n. Opaque (''exit '' @ Itoa n)),
     BarmanCloudRestore = ''barman-cloud-restore'', BackupTemporaryDirectory = ''/controller/backup'',
     LogPath = ''/controller/log'', LogFileName = ''postgres'',
     KubernetesAppLabelName = ''app.kubernetes.io/name'',
     KubernetesAppInstanceLabelName = ''app.kubernetes.io/instance'',
     KubernetesAppVersionLabelName = ''app.kubernetes.io/version'',
     KubernetesAppComponentLabelName = ''app.kubernetes.io/component'',
     KubernetesAppManagedByLabelName = ''app.kubernetes.io/managed-by'',
     DatabaseComponentName = ''database''\<rparr>"

definition sample_ext :: "'w ext" where
  "sample_ext = \<lparr>environ = [],
     k_get_object_store = (\<lambda>_. unavailable), k_get_cluster = (\<lambda>_. unavailable),
     k_get_role = (\<lambda>_. unavailable), k_create_role = (\<lambda>_. unavailable), k_patch_role = (\<lambda>_ _. unavailable),
     k_list_roles = (\<lambda>_ _. unavailable), k_get_role_binding = (\<lambda>_. unavailable),
     k_create_role_binding = (\<lambda>_. unavailable), k_patch_role_binding = (\<lambda>_ _. unavailable),
     k_list_backups = (\<lambda>_. unavailable), k_delete_backup = (\<lambda>_. unavailable),
     k_update_object_store_status = (\<lambda>_. unavailable), k_record_event = (\<lambda>_ _. unavailable),
     b_set_credentials = (\<lambda>_ _ _ _. unavailable), b_new_archiver = (\<lambda>a b c d w. (Inr (Archiver a b c d), w)),
     b_check_wal_options = (\<lambda>_ _ _. unavailable), b_check_wal_destination = (\<lambda>_ _. unavailable),
     b_delete_from_spool = (\<lambda>_ _. unavailable), b_archive_options = (\<lambda>_ _ _. unavailable),
     b_gather_ready = (\<lambda>_ _ _ w. ([], w)),
     b_archive_list = (\<lambda>_ ws _ w. (map (\<lambda>_. Some (Opaque ''unavailable'')) ws, w)),
     b_restore_options = (\<lambda>_ _. unavailable), b_new_restorer = (\<lambda>a b w. (Inr (Restorer a b), w)),
     b_is_end_of_wal_stream = (\<lambda>_. unavailable), b_reset_end_of_wal_stream = (\<lambda>_. unavailable),
     b_set_end_of_wal_stream = (\<lambda>_. unavailable), b_restore_from_spool = (\<lambda>_ _ _. unavailable),
     b_restore_list = (\<lambda>_ ws _ _ w. (map (\<lambda>n. \<lparr>wr_WalName = n, wr_Err = Some (Sentinel ErrGeneric)\<rparr>) ws, w)),
     b_restore_one = (\<lambda>_ _ _ _. unavailable), b_take_backup = (\<lambda>_ _ _ _ _. unavailable),
     b_executed_backup_info = (\<lambda>_ _ _ _. unavailable), b_backup_list = (\<lambda>_ _ _. unavailable),
     b_delete_by_policy = (\<lambda>_ _ _ _. unavailable), b_provider_options = (\<lambda>_ _. unavailable),
     b_run_restore = (\<lambda>_ _ w. (Some (Exit_Error 1), w)),
     o_file_exists = (\<lambda>_. unavailable), o_ensure_directory = (\<lambda>_. unavailable),
     o_ensure_parent = (\<lambda>_. unavailable), o_remove_file = (\<lambda>_. unavailable), o_read_link = (\<lambda>_ w. ('''', w)),
     o_move_content = (\<lambda>_ _. unavailable), o_symlink = (\<lambda>_ _. unavailable), o_now = (\<lambda>w. (0, w)),
     retry_on_conflict = (\<lambda>f. attempts f 0 3)\<rparr>"

definition sample_cluster :: cluster where
  "sample_cluster = \<lparr>cl_Name = ''pg'', cl_Namespace = ''ns'', cl_UID = ''uid-1'',
     cl_Group = ''postgresql.cnpg.io'', cl_Version = ''v1'', cl_Kind = ''Cluster'', cl_Plugins = [],
     cl_Bootstrap = None, cl_ReplicaCluster = None, cl_WalStorage = False,
     cl_ImagePullPolicy = '''', cl_CurrentPrimary = ''pg-1'', cl_Rest = ''''\<rparr>"

definition sample_configuration :: barman_configuration where
  "sample_configuration = \<lparr>bc_Credentials = \<lparr>cred_AWS = None, cred_Azure = None, cred_Google = None\<rparr>,
     bc_EndpointCA = None, bc_EndpointURL = '''', bc_DestinationPath = ''s3://backups/'', bc_Wal = None,
     bc_Rest = ''''\<rparr>"

definition sample_store :: "string \<Rightarrow> object_store" where
  "sample_store n = \<lparr>os_Meta = \<lparr>om_Namespace = ''ns'', om_Name = n, om_Labels = None,
       om_OwnerReferences = [], om_ResourceVersion = 1\<rparr>,
     os_Spec = \<lparr>oss_Configuration = sample_configuration, oss_RetentionPolicy = '''',
       oss_InstanceSidecarConfiguration = \<lparr>sc_Env = [], sc_RetentionPolicyIntervalSeconds = 1800,
         sc_Resources = [], sc_AdditionalContainerArgs = [], sc_LogLevel = ''info''\<rparr>\<rparr>,
     os_Status = \<lparr>ost_ServerRecoveryWindow = None\<rparr>\<rparr>"

lemma sample_store_simps [simp]:
  "os_Name (sample_store n) = n" "os_Namespace (sample_store n) = ''ns''"
  "os_Configuration (sample_store n) = sample_configuration"
  by (simp_all add: sample_store_def os_Name_def os_Namespace_def os_Configuration_def)

lemma sample_ext_retry [simp]: "retry_law sample_ext"
  by (auto simp: retry_law_def sample_ext_def)

lemma retry_law_update [simp]: "retry_on_conflict e' = retry_on_conflict e \<Longrightarrow> retry_law e' = retry_law e"
  by (simp add: retry_law_def)

end
