(* ===== verification/Config.thy ===== *)
theory Config
  imports Externals
begin

text \<open>
  The configuration of the plugin, read from a Cluster: \<open>internal/cnpgi/operator/config/config.go\<close>.
\<close>

section \<open>Configuration errors\<close>

text \<open>A pointer to a \<open>ConfigurationError\<close>: nil, or its messages.\<close>

type_synonym configuration_error = "string list option"

definition ConfigurationError_Error :: "string list \<Rightarrow> string" where
  "ConfigurationError_Error messages = Join_strings '','' messages"

definition NewConfigurationError :: configuration_error where
  "NewConfigurationError = Some []"

definition WithMessage :: "configuration_error \<Rightarrow> string \<Rightarrow> configuration_error" where
  "WithMessage e msg = (case e of None \<Rightarrow> Some [msg] | Some messages \<Rightarrow> Some (messages @ [msg]))"

definition IsEmpty :: "string list \<Rightarrow> bool" where
  "IsEmpty messages \<longleftrightarrow> length messages = 0"

section \<open>The configuration\<close>

record config =
  cfg_Cluster :: cluster
  cfg_BarmanObjectName :: string
  cfg_ServerName :: string
  cfg_RecoveryBarmanObjectName :: string
  cfg_RecoveryServerName :: string
  cfg_ReplicaSourceBarmanObjectName :: string
  cfg_ReplicaSourceServerName :: string

definition GetBarmanObjectKey :: "config \<Rightarrow> namespaced_name" where
  "GetBarmanObjectKey c = NamespacedName (cl_Namespace (cfg_Cluster c)) (cfg_BarmanObjectName c)"

definition GetRecoveryBarmanObjectKey :: "config \<Rightarrow> namespaced_name" where
  "GetRecoveryBarmanObjectKey c =
     NamespacedName (cl_Namespace (cfg_Cluster c)) (cfg_RecoveryBarmanObjectName c)"

definition GetReplicaSourceBarmanObjectKey :: "config \<Rightarrow> namespaced_name" where
  "GetReplicaSourceBarmanObjectKey c =
     NamespacedName (cl_Namespace (cfg_Cluster c)) (cfg_ReplicaSourceBarmanObjectName c)"

text \<open>The string set is represented by the list of the names put into it.\<close>

definition put_if_set :: "string \<Rightarrow> string list \<Rightarrow> string list" where
  "put_if_set name names = (if length name > 0 then names @ [name] else names)"

definition GetReferredBarmanObjectsKey :: "lib \<Rightarrow> config \<Rightarrow> namespaced_name list" where
  "GetReferredBarmanObjectsKey L c =
     (let objectNames = put_if_set (cfg_ReplicaSourceBarmanObjectName c)
            (put_if_set (cfg_RecoveryBarmanObjectName c) (put_if_set (cfg_BarmanObjectName c) []))
      in map (\<lambda>name. NamespacedName (cl_Namespace (cfg_Cluster c)) name) (ToSortedList L objectNames))"

definition Validate :: "config \<Rightarrow> go_error option" where
  "Validate c = (let err = NewConfigurationError in
     if length (cfg_BarmanObjectName c) = 0 \<and> length (cfg_RecoveryBarmanObjectName c) = 0 \<and>
        length (cfg_ReplicaSourceBarmanObjectName c) = 0
     then map_option ConfigurationError
       (WithMessage err ''no reference to barmanObjectName have been included'')
     else None)"

section \<open>Reading the Cluster\<close>

record plugin =
  plg_Cluster :: cluster
  plg_Parameters :: "string gomap"
  plg_PluginIndex :: int

text \<open>The loop of \<open>NewPlugin\<close> does not stop at the first match: the last one wins.\<close>

fun new_plugin_loop :: "string \<Rightarrow> int \<Rightarrow> plugin_configuration list \<Rightarrow> plugin \<Rightarrow> plugin" where
  "new_plugin_loop name idx [] result = result"
| "new_plugin_loop name idx (cfg # cfgs) result = new_plugin_loop name (idx + 1) cfgs
     (if pc_Name cfg = name
      then result\<lparr>plg_PluginIndex := idx, plg_Parameters := pc_Parameters cfg\<rparr> else result)"

definition NewPlugin :: "cluster \<Rightarrow> string \<Rightarrow> plugin" where
  "NewPlugin c name = new_plugin_loop name 0 (cl_Plugins c)
     \<lparr>plg_Cluster = c, plg_Parameters = None, plg_PluginIndex = -1\<rparr>"

text \<open>The loop that looks for the server name, over the enabled entries of this plugin.\<close>

fun server_name_loop :: "lib \<Rightarrow> plugin_configuration list \<Rightarrow> string \<Rightarrow> string" where
  "server_name_loop L [] serverName = serverName"
| "server_name_loop L (p # ps) serverName = server_name_loop L ps
     (if IsEnabled L p \<and> pc_Name p = PluginName
      then (case gm_lookup (pc_Parameters p) ''serverName'' of Some v \<Rightarrow> v | None \<Rightarrow> serverName)
      else serverName)"

definition getRecoverySourcePlugin :: "lib \<Rightarrow> cluster \<Rightarrow> plugin_configuration option" where
  "getRecoverySourcePlugin L c = (case cl_Bootstrap c of
     None \<Rightarrow> None
   | Some None \<Rightarrow> None
   | Some (Some recoveryConfig) \<Rightarrow>
       if length (br_Source recoveryConfig) = 0 then None
       else (case ExternalCluster L c (br_Source recoveryConfig) of
           None \<Rightarrow> None
         | Some recoveryExternalCluster \<Rightarrow> ec_PluginConfiguration recoveryExternalCluster))"

definition getReplicaSourcePlugin :: "lib \<Rightarrow> cluster \<Rightarrow> plugin_configuration option" where
  "getReplicaSourcePlugin L c = (case cl_ReplicaCluster c of
     None \<Rightarrow> None
   | Some source \<Rightarrow>
       if length source = 0 then None
       else (case ExternalCluster L c source of
           None \<Rightarrow> None
         | Some recoveryExternalCluster \<Rightarrow> ec_PluginConfiguration recoveryExternalCluster))"

definition getRecoveryParameters :: "lib \<Rightarrow> cluster \<Rightarrow> string gomap" where
  "getRecoveryParameters L c = (case getRecoverySourcePlugin L c of
     None \<Rightarrow> None
   | Some p \<Rightarrow> if pc_Name p \<noteq> PluginName then None else pc_Parameters p)"

definition getReplicaSourceParameters :: "lib \<Rightarrow> cluster \<Rightarrow> string gomap" where
  "getReplicaSourceParameters L c = (case getReplicaSourcePlugin L c of
     None \<Rightarrow> None
   | Some p \<Rightarrow> if pc_Name p \<noteq> PluginName then None else pc_Parameters p)"

text \<open>Object name and server name of a source: the server name defaults to the cluster's name.\<close>

definition source_names :: "cluster \<Rightarrow> string gomap \<Rightarrow> string \<times> string" where
  "source_names c parameters = (case parameters of
     None \<Rightarrow> ('''', '''')
   | Some _ \<Rightarrow>
       let objectName = gm_str parameters ''barmanObjectName'';
           serverName = gm_str parameters ''serverName''
       in (objectName, if length serverName = 0 then cl_Name c else serverName))"

definition NewFromCluster :: "lib \<Rightarrow> cluster \<Rightarrow> config" where
  "NewFromCluster L c =
     (let helper = NewPlugin c PluginName;
          serverName = server_name_loop L (cl_Plugins c) (cl_Name c);
          (recoveryBarmanObjectName, recoveryServerName) = source_names c (getRecoveryParameters L c);
          (replicaSourceBarmanObjectName, replicaSourceServerName) =
            source_names c (getReplicaSourceParameters L c)
      in \<lparr>cfg_Cluster = c,
          cfg_BarmanObjectName = gm_str (plg_Parameters helper) ''barmanObjectName'',
          cfg_ServerName = serverName,
          cfg_RecoveryBarmanObjectName = recoveryBarmanObjectName,
          cfg_RecoveryServerName = recoveryServerName,
          cfg_ReplicaSourceBarmanObjectName = replicaSourceBarmanObjectName,
          cfg_ReplicaSourceServerName = replicaSourceServerName\<rparr>)"

definition NewFromClusterJSON :: "lib \<Rightarrow> string \<Rightarrow> go_error + config" where
  "NewFromClusterJSON L clusterJSON = (case DecodeCluster L clusterJSON of
     Inl e \<Rightarrow> Inl e | Inr c \<Rightarrow> Inr (NewFromCluster L c))"

section \<open>Properties\<close>

text \<open>What \<open>stringset.ToSortedList\<close> documents: the elements of the set, sorted, each once.\<close>

definition sorted_list_law :: "lib \<Rightarrow> bool" where
  "sorted_list_law L \<longleftrightarrow> (\<forall>xs. set (ToSortedList L xs) = set xs \<and>
     distinct (ToSortedList L xs) \<and> sorted (ToSortedList L xs))"

lemma sorted_list_lawD [simp]:
  assumes "sorted_list_law L"
  shows "set (ToSortedList L xs) = set xs" "distinct (ToSortedList L xs)" "sorted (ToSortedList L xs)"
  using assms by (simp_all add: sorted_list_law_def)

lemma sample_lib_sorted [simp]: "sorted_list_law sample_lib"
  by (simp add: sorted_list_law_def sample_lib_def)

lemma NewFromCluster_Cluster [simp]: "cfg_Cluster (NewFromCluster L c) = c"
  by (simp add: NewFromCluster_def Let_def split: prod.split)

text \<open>The names of object stores a configuration mentions.\<close>

definition referred_names :: "config \<Rightarrow> string set" where
  "referred_names c = {cfg_BarmanObjectName c, cfg_RecoveryBarmanObjectName c,
     cfg_ReplicaSourceBarmanObjectName c} - {''''}"

lemma referred_keys_facts:
  assumes "sorted_list_law L"
  shows "GetReferredBarmanObjectsKey L c =
      sorted_list_of_set (NamespacedName (cl_Namespace (cfg_Cluster c)) ` referred_names c) \<and>
    (Validate c = None \<longleftrightarrow> GetReferredBarmanObjectsKey L c \<noteq> [])"
proof -
  define ns where "ns = put_if_set (cfg_ReplicaSourceBarmanObjectName c)
    (put_if_set (cfg_RecoveryBarmanObjectName c) (put_if_set (cfg_BarmanObjectName c) []))"
  have s: "set ns = referred_names c" by (auto simp: ns_def put_if_set_def referred_names_def)
  have G: "GetReferredBarmanObjectsKey L c = map (NamespacedName (cl_Namespace (cfg_Cluster c))) (ToSortedList L ns)"
    by (simp add: GetReferredBarmanObjectsKey_def ns_def Let_def)
  have e: "GetReferredBarmanObjectsKey L c = [] \<longleftrightarrow> referred_names c = {}"
    using sorted_list_lawD(1) [OF assms, of ns] s by (metis G list.map_disc_iff set_empty)
  have v: "Validate c = None \<longleftrightarrow> referred_names c \<noteq> {}"
    by (auto simp: Validate_def Let_def WithMessage_def NewConfigurationError_def referred_names_def)
  have d: "distinct (GetReferredBarmanObjectsKey L c)" "sorted (GetReferredBarmanObjectsKey L c)"
    unfolding G using sorted_list_lawD(2,3) [OF assms, of ns] by (simp_all add: distinct_map inj_on_def)
  have "sorted_list_of_set (set (GetReferredBarmanObjectsKey L c)) = GetReferredBarmanObjectsKey L c"
    by (rule sorted_list_of_set.idem_if_sorted_distinct [OF d(2,1)])
  moreover have "set (GetReferredBarmanObjectsKey L c) = NamespacedName (cl_Namespace (cfg_Cluster c)) ` referred_names c"
    using sorted_list_lawD(1) [OF assms, of ns] s by (simp add: G)
  ultimately show ?thesis using e v by simp
qed

lemma referred_keys_set:
  assumes "sorted_list_law L"
  shows "set (GetReferredBarmanObjectsKey L c) = NamespacedName (cl_Namespace (cfg_Cluster c)) ` referred_names c"
    "Validate c = None \<longleftrightarrow> GetReferredBarmanObjectsKey L c \<noteq> []"
  using referred_keys_facts [OF assms] by (auto simp: referred_names_def)

text \<open>
  Referred object stores. The keys a configuration refers to are the sorted list of
  its non-empty object store names, each once, in the namespace of the cluster; and \<open>Validate\<close> accepts
  a configuration exactly when there is at least one of them.
\<close>

theorem referred_keys_exact:
  assumes "sorted_list_law L"
  shows "GetReferredBarmanObjectsKey L c =
      sorted_list_of_set (NamespacedName (cl_Namespace (cfg_Cluster c)) ` referred_names c) \<and>
    (Validate c = None \<longleftrightarrow> GetReferredBarmanObjectsKey L c \<noteq> [])"
  using assms by (rule referred_keys_facts)

definition three_names :: config where
  "three_names = \<lparr>cfg_Cluster = sample_cluster,
      cfg_BarmanObjectName = ''b'', cfg_ServerName = ''pg'', cfg_RecoveryBarmanObjectName = ''a'',
      cfg_RecoveryServerName = ''old'', cfg_ReplicaSourceBarmanObjectName = ''b'',
      cfg_ReplicaSourceServerName = ''old''\<rparr>"

theorem referred_keys_exact_witness:
  "sorted_list_of_set (NamespacedName ''ns'' ` referred_names three_names) = [NamespacedName ''ns'' ''a'', NamespacedName ''ns'' ''b''] \<and>
   Validate three_names = None"
proof -
  have "GetReferredBarmanObjectsKey sample_lib three_names = [NamespacedName ''ns'' ''a'', NamespacedName ''ns'' ''b'']"
    "cl_Namespace (cfg_Cluster three_names) = ''ns''" by code_simp+
  then show ?thesis using referred_keys_exact [OF sample_lib_sorted, of three_names] by simp
qed

text \<open>The values of the \<open>serverName\<close> parameter in the enabled entries of this plugin, in order.\<close>

definition enabled_server_names :: "lib \<Rightarrow> plugin_configuration list \<Rightarrow> string list" where
  "enabled_server_names L ps = List.map_filter (\<lambda>p. if IsEnabled L p \<and> pc_Name p = PluginName
     then gm_lookup (pc_Parameters p) ''serverName'' else None) ps"

lemma server_name_loop_eq:
  "server_name_loop L ps d =
     (if enabled_server_names L ps = [] then d else last (enabled_server_names L ps))"
  by (induction ps arbitrary: d)
    (auto simp: enabled_server_names_def List.map_filter_def split: option.splits)

lemma new_plugin_loop_Parameters:
  "plg_Parameters (new_plugin_loop name i ps r) =
     (case filter (\<lambda>p. pc_Name p = name) ps of [] \<Rightarrow> plg_Parameters r | qs \<Rightarrow> pc_Parameters (last qs))"
  by (induction ps arbitrary: i r) (auto split: list.splits)

lemma source_names_nonempty:
  assumes "source_names c ps = (obj, srv)" "obj \<noteq> ''''"
  shows "gm_lookup ps ''barmanObjectName'' = Some obj \<and>
    srv = (if gm_str ps ''serverName'' = '''' then cl_Name c else gm_str ps ''serverName'')"
  using assms by (auto simp: source_names_def gm_str_def Let_def split: option.splits if_splits)

lemma getRecoveryParameters_found:
  assumes "gm_lookup (getRecoveryParameters L c) k = Some v"
  shows "\<exists>r ec p. cl_Bootstrap c = Some (Some r) \<and> br_Source r \<noteq> '''' \<and>
    ExternalCluster L c (br_Source r) = Some ec \<and> ec_PluginConfiguration ec = Some p \<and>
    pc_Name p = PluginName \<and> getRecoveryParameters L c = pc_Parameters p"
  using assms by (auto simp: getRecoveryParameters_def getRecoverySourcePlugin_def gm_lookup_def
      split: option.splits if_splits)

lemma getReplicaSourceParameters_found:
  assumes "gm_lookup (getReplicaSourceParameters L c) k = Some v"
  shows "\<exists>src ec p. cl_ReplicaCluster c = Some src \<and> src \<noteq> '''' \<and>
    ExternalCluster L c src = Some ec \<and> ec_PluginConfiguration ec = Some p \<and>
    pc_Name p = PluginName \<and> getReplicaSourceParameters L c = pc_Parameters p"
  using assms by (auto simp: getReplicaSourceParameters_def getReplicaSourcePlugin_def gm_lookup_def
      split: option.splits if_splits)

lemma NewFromCluster_fields:
  "cfg_BarmanObjectName (NewFromCluster L c) = gm_str (plg_Parameters (NewPlugin c PluginName)) ''barmanObjectName''"
  "cfg_ServerName (NewFromCluster L c) = server_name_loop L (cl_Plugins c) (cl_Name c)"
  "source_names c (getRecoveryParameters L c) =
     (cfg_RecoveryBarmanObjectName (NewFromCluster L c), cfg_RecoveryServerName (NewFromCluster L c))"
  "source_names c (getReplicaSourceParameters L c) =
     (cfg_ReplicaSourceBarmanObjectName (NewFromCluster L c), cfg_ReplicaSourceServerName (NewFromCluster L c))"
  by (simp_all add: NewFromCluster_def Let_def split: prod.split)

text \<open>
  C30. Where the names of a configuration come from. The server name is the last \<open>serverName\<close>
  parameter of the enabled entries of this plugin, or the name of the cluster. The object name is the
  parameter of the last entry of this plugin, whether it is enabled or not. A recovery
  object name is only set when the cluster bootstraps by recovery from an external cluster
  that exists and is configured with this very plugin, and then it is that entry's parameter,
  with the server name defaulting to the cluster's name; likewise for the replica source.
\<close>

theorem NewFromCluster_origin:
  "cfg_ServerName (NewFromCluster L c) = last (cl_Name c # enabled_server_names L (cl_Plugins c)) \<and>
    cfg_BarmanObjectName (NewFromCluster L c) = last ('''' # map (\<lambda>p. gm_str (pc_Parameters p) ''barmanObjectName'')
      (filter (\<lambda>p. pc_Name p = PluginName) (cl_Plugins c))) \<and>
    (cfg_RecoveryBarmanObjectName (NewFromCluster L c) \<noteq> '''' \<longrightarrow>
      (\<exists>r ec p. cl_Bootstrap c = Some (Some r) \<and> ExternalCluster L c (br_Source r) = Some ec \<and>
        ec_PluginConfiguration ec = Some p \<and> pc_Name p = PluginName \<and>
        gm_lookup (pc_Parameters p) ''barmanObjectName'' = Some (cfg_RecoveryBarmanObjectName (NewFromCluster L c)) \<and>
        cfg_RecoveryServerName (NewFromCluster L c) = (if gm_str (pc_Parameters p) ''serverName'' = ''''
          then cl_Name c else gm_str (pc_Parameters p) ''serverName''))) \<and>
    (cfg_ReplicaSourceBarmanObjectName (NewFromCluster L c) \<noteq> '''' \<longrightarrow>
      (\<exists>src ec p. cl_ReplicaCluster c = Some src \<and> ExternalCluster L c src = Some ec \<and>
        ec_PluginConfiguration ec = Some p \<and> pc_Name p = PluginName \<and>
        gm_lookup (pc_Parameters p) ''barmanObjectName'' = Some (cfg_ReplicaSourceBarmanObjectName (NewFromCluster L c)) \<and>
        cfg_ReplicaSourceServerName (NewFromCluster L c) = (if gm_str (pc_Parameters p) ''serverName'' = ''''
          then cl_Name c else gm_str (pc_Parameters p) ''serverName'')))"
proof (intro conjI impI)
  show "cfg_ServerName (NewFromCluster L c) = last (cl_Name c # enabled_server_names L (cl_Plugins c))"
    by (simp add: NewFromCluster_fields server_name_loop_eq)
next
  show "cfg_BarmanObjectName (NewFromCluster L c) = last ('''' # map (\<lambda>p. gm_str (pc_Parameters p) ''barmanObjectName'')
      (filter (\<lambda>p. pc_Name p = PluginName) (cl_Plugins c)))"
    unfolding NewFromCluster_fields NewPlugin_def new_plugin_loop_Parameters
    by (simp add: last_map gm_str_def gm_lookup_def split: list.split)
next
  assume "cfg_RecoveryBarmanObjectName (NewFromCluster L c) \<noteq> ''''"
  from source_names_nonempty [OF NewFromCluster_fields(3) this]
  have s: "gm_lookup (getRecoveryParameters L c) ''barmanObjectName'' = Some (cfg_RecoveryBarmanObjectName (NewFromCluster L c))"
    "cfg_RecoveryServerName (NewFromCluster L c) = (if gm_str (getRecoveryParameters L c) ''serverName'' = '''' then cl_Name c
      else gm_str (getRecoveryParameters L c) ''serverName'')" by simp_all
  from getRecoveryParameters_found [OF s(1)] s
  show "\<exists>r ec p. cl_Bootstrap c = Some (Some r) \<and> ExternalCluster L c (br_Source r) = Some ec \<and>
      ec_PluginConfiguration ec = Some p \<and> pc_Name p = PluginName \<and>
      gm_lookup (pc_Parameters p) ''barmanObjectName'' = Some (cfg_RecoveryBarmanObjectName (NewFromCluster L c)) \<and>
      cfg_RecoveryServerName (NewFromCluster L c) = (if gm_str (pc_Parameters p) ''serverName'' = ''''
        then cl_Name c else gm_str (pc_Parameters p) ''serverName'')" by metis
next
  assume "cfg_ReplicaSourceBarmanObjectName (NewFromCluster L c) \<noteq> ''''"
  from source_names_nonempty [OF NewFromCluster_fields(4) this]
  have s: "gm_lookup (getReplicaSourceParameters L c) ''barmanObjectName'' = Some (cfg_ReplicaSourceBarmanObjectName (NewFromCluster L c))"
    "cfg_ReplicaSourceServerName (NewFromCluster L c) = (if gm_str (getReplicaSourceParameters L c) ''serverName'' = '''' then cl_Name c
      else gm_str (getReplicaSourceParameters L c) ''serverName'')" by simp_all
  from getReplicaSourceParameters_found [OF s(1)] s
  show "\<exists>src ec p. cl_ReplicaCluster c = Some src \<and> ExternalCluster L c src = Some ec \<and>
      ec_PluginConfiguration ec = Some p \<and> pc_Name p = PluginName \<and>
      gm_lookup (pc_Parameters p) ''barmanObjectName'' = Some (cfg_ReplicaSourceBarmanObjectName (NewFromCluster L c)) \<and>
      cfg_ReplicaSourceServerName (NewFromCluster L c) = (if gm_str (pc_Parameters p) ''serverName'' = ''''
        then cl_Name c else gm_str (pc_Parameters p) ''serverName'')" by metis
qed

text \<open>A cluster that recovers from the external cluster \<open>origin\<close> and archives to \<open>store\<close>.\<close>

definition sample_plugin :: "string \<Rightarrow> plugin_configuration" where
  "sample_plugin store = \<lparr>pc_Name = PluginName, pc_Enabled = None,
     pc_Parameters = Some [(''barmanObjectName'', store)]\<rparr>"

definition recovering_cluster :: cluster where
  "recovering_cluster = sample_cluster\<lparr>cl_Plugins := [sample_plugin ''store''],
     cl_Bootstrap := Some (Some \<lparr>br_Source = ''origin'', br_RecoveryTarget = None\<rparr>)\<rparr>"

definition recovering_lib :: lib where
  "recovering_lib = sample_lib\<lparr>ExternalCluster := (\<lambda>c n. if n = ''origin'' then
     Some \<lparr>ec_Name = ''origin'', ec_ConnectionParameters = None,
       ec_PluginConfiguration = Some (sample_plugin ''old'')\<rparr> else None)\<rparr>"

theorem NewFromCluster_origin_witness:
  "cfg_RecoveryBarmanObjectName (NewFromCluster recovering_lib recovering_cluster) = ''old'' \<and>
   cfg_RecoveryServerName (NewFromCluster recovering_lib recovering_cluster) = ''pg'' \<and>
   cfg_BarmanObjectName (NewFromCluster recovering_lib recovering_cluster) = ''store'' \<and>
   (\<exists>r. cl_Bootstrap recovering_cluster = Some (Some r))"
proof -
  have c: "cfg_RecoveryBarmanObjectName (NewFromCluster recovering_lib recovering_cluster) = ''old''"
    "cfg_RecoveryServerName (NewFromCluster recovering_lib recovering_cluster) = ''pg''"
    "cfg_BarmanObjectName (NewFromCluster recovering_lib recovering_cluster) = ''store''"
    by code_simp+
  then have "cfg_RecoveryBarmanObjectName (NewFromCluster recovering_lib recovering_cluster) \<noteq> ''''" by simp
  with NewFromCluster_origin [of recovering_lib recovering_cluster] c show ?thesis by blast
qed

end
