(* ===== verification/Common_Env.thy ===== *)
theory Common_Env
  imports Externals
begin

text \<open>
  Process environments and certificate paths: \<open>internal/cnpgi/common/common.go\<close>.
  An environment is a list of \<open>KEY=value\<close> entries.
\<close>

definition ScratchDataDirectory :: string where
  "ScratchDataDirectory = ''/controller''"

definition CertificatesDir :: string where
  "CertificatesDir = ScratchDataDirectory @ ''/certificates/''"

definition BarmanEndpointCACertificateFileName :: string where
  "BarmanEndpointCACertificateFileName = ''barman-ca.crt''"

definition BarmanBackupEndpointCACertificateFileName :: string where
  "BarmanBackupEndpointCACertificateFileName = ''backup-'' @ BarmanEndpointCACertificateFileName"

definition BarmanRestoreEndpointCACertificateFileName :: string where
  "BarmanRestoreEndpointCACertificateFileName = ''restore-'' @ BarmanEndpointCACertificateFileName"

definition BarmanBackupEndpointCACertificateLocation :: string where
  "BarmanBackupEndpointCACertificateLocation = CertificatesDir @ BarmanBackupEndpointCACertificateFileName"

definition GetRestoreCABundleEnv :: "barman_configuration \<Rightarrow> string list" where
  "GetRestoreCABundleEnv configuration =
     (if bc_EndpointCA configuration \<noteq> None \<and> cred_AWS (bc_Credentials configuration) \<noteq> None
      then [''AWS_CA_BUNDLE='' @ BarmanBackupEndpointCACertificateLocation]
      else if bc_EndpointCA configuration \<noteq> None \<and> cred_Azure (bc_Credentials configuration) \<noteq> None
      then [''REQUESTS_CA_BUNDLE='' @ BarmanBackupEndpointCACertificateLocation]
      else [])"

text \<open>One round of the outer loop of \<open>MergeEnv\<close>; items without \<open>=\<close> are skipped.\<close>

definition merge_item :: "string list \<Rightarrow> string \<Rightarrow> string list" where
  "merge_item result incomingItem =
     (let incomingKV = SplitAfter2 CHR ''='' incomingItem in
      if length incomingKV \<noteq> 2 then result
      else let found = list_ex (\<lambda>item. HasPrefix item (incomingKV ! 0)) result;
               replaced = map (\<lambda>item. if HasPrefix item (incomingKV ! 0) then incomingItem else item) result
           in if found then replaced else replaced @ [incomingItem])"

definition MergeEnv :: "string list \<Rightarrow> string list \<Rightarrow> string list" where
  "MergeEnv environment incomingEnv = foldl merge_item environment incomingEnv"

definition BuildCertificateFilePath :: "string \<Rightarrow> string" where
  "BuildCertificateFilePath objectStoreName =
     path_Join [BarmanCertificatesPath, objectStoreName, BarmanCertificatesFileName]"

section \<open>Properties\<close>

text \<open>
  The value an environment gives to a key: that of the first entry for it, as \<open>getenv\<close> finds it.
\<close>

definition env_lookup :: "string list \<Rightarrow> string \<Rightarrow> string option" where
  "env_lookup es k = map_option (drop (Suc (length k))) (find (\<lambda>x. HasPrefix x (k @ ''='')) es)"

lemma HasPrefix_key:
  assumes "CHR ''='' \<notin> set k" "CHR ''='' \<notin> set j"
  shows "HasPrefix (j @ CHR ''='' # v) (k @ ''='') \<longleftrightarrow> j = k"
proof
  assume "HasPrefix (j @ CHR ''='' # v) (k @ ''='')"
  then obtain t where e: "j @ CHR ''='' # v = k @ CHR ''='' # t" by (auto simp: HasPrefix_iff)
  have "takeWhile (\<lambda>c. c \<noteq> CHR ''='') (j @ CHR ''='' # v) = j"
    "takeWhile (\<lambda>c. c \<noteq> CHR ''='') (k @ CHR ''='' # t) = k"
    using assms by (subst takeWhile_append2; auto)+
  with e show "j = k" by metis
next
  assume "j = k"
  then show "HasPrefix (j @ CHR ''='' # v) (k @ ''='')" by (simp add: HasPrefix_iff)
qed

lemma entry_cases:
  obtains (entry) j v where "x = j @ CHR ''='' # v" "CHR ''='' \<notin> set j"
  | (other) "CHR ''='' \<notin> set x"
  by (metis split_list_first)

lemma merge_item_entry:
  assumes "CHR ''='' \<notin> set j"
  shows "merge_item es (j @ CHR ''='' # v) =
    (let es' = map (\<lambda>x. if HasPrefix x (j @ ''='') then j @ CHR ''='' # v else x) es
     in if \<exists>x \<in> set es. HasPrefix x (j @ ''='') then es' else es' @ [j @ CHR ''='' # v])"
proof -
  have t: "takeWhile (\<lambda>x. x \<noteq> CHR ''='') (j @ CHR ''='' # v) = j"
    "dropWhile (\<lambda>x. x \<noteq> CHR ''='') (j @ CHR ''='' # v) = CHR ''='' # v"
    using assms by (subst takeWhile_append2 dropWhile_append2; auto)+
  have "SplitAfter2 CHR ''='' (j @ CHR ''='' # v) = [j @ ''='', v]"
    by (simp add: SplitAfter2_eq t)
  then show ?thesis by (simp add: merge_item_def Let_def list_ex_iff)
qed

lemma merge_item_other: "CHR ''='' \<notin> set x \<Longrightarrow> merge_item es x = es"
  by (simp add: merge_item_def SplitAfter2_eq)

lemma find_append_case:
  "find P (xs @ ys) = (case find P xs of None \<Rightarrow> find P ys | Some x \<Rightarrow> Some x)"
  by (induction xs) auto

lemma find_map_replace:
  assumes "\<And>x. P x \<Longrightarrow> Q x = Q y"
  shows "find Q (map (\<lambda>x. if P x then y else x) es) =
    map_option (\<lambda>x. if P x then y else x) (find Q es)"
  using assms by (induction es) auto

lemma env_lookup_merge_item:
  assumes k: "CHR ''='' \<notin> set k" and j: "CHR ''='' \<notin> set j"
  shows "env_lookup (merge_item es (j @ CHR ''='' # v)) k =
    (if k = j then Some v else env_lookup es k)"
proof -
  let ?P = "\<lambda>x. HasPrefix x (j @ ''='')" and ?Q = "\<lambda>x. HasPrefix x (k @ ''='')" and ?n = "j @ CHR ''='' # v"
  have pq: "?Q x = ?Q ?n" if "?P x" for x
  proof -
    from that obtain u where "x = j @ CHR ''='' # u" by (auto simp: HasPrefix_iff)
    then show ?thesis by (simp add: HasPrefix_key k j)
  qed
  have f: "find ?Q (map (\<lambda>x. if ?P x then ?n else x) es) = map_option (\<lambda>x. if ?P x then ?n else x) (find ?Q es)"
    by (rule find_map_replace) (rule pq)
  have no: "k \<noteq> j \<Longrightarrow> find ?Q es = Some x \<Longrightarrow> \<not> ?P x" for x
    using pq [of x] HasPrefix_key [OF k j, of v] by (auto simp: find_Some_iff)
  show ?thesis
  proof (cases "k = j")
    case True
    show ?thesis
    proof (cases "\<exists>x \<in> set es. ?P x")
      case True
      then obtain x where "find ?P es = Some x" by (metis find_None_iff not_Some_eq)
      moreover from this have "?P x" by (auto simp: find_Some_iff)
      ultimately show ?thesis using f True \<open>k = j\<close> j
        by (simp add: env_lookup_def merge_item_entry Let_def)
    next
      case False
      then have "find ?P es = None" by (auto simp: find_None_iff)
      then show ?thesis using f False \<open>k = j\<close> j
        by (simp add: env_lookup_def merge_item_entry Let_def find_append_case HasPrefix_key)
    qed
  next
    case False
    then have "find ?Q (map (\<lambda>x. if ?P x then ?n else x) es) = find ?Q es"
      unfolding f using no by (cases "find ?Q es") auto
    with False show ?thesis
      by (simp add: env_lookup_def merge_item_entry j Let_def find_append_case HasPrefix_key k split: option.split)
  qed
qed

text \<open>
  Merging environments is overriding. For every key, the merged environment gives the value
  of the last incoming entry for it, and the value of the first environment when no incoming
  entry names it; incoming entries without a value are ignored.
\<close>

theorem env_lookup_MergeEnv:
  assumes "CHR ''='' \<notin> set k"
  shows "env_lookup (MergeEnv es inc) k =
    (case env_lookup (rev inc) k of Some v \<Rightarrow> Some v | None \<Rightarrow> env_lookup es k)"
proof (induction inc rule: rev_induct)
  case Nil
  show ?case by (simp add: MergeEnv_def env_lookup_def)
next
  case (snoc x inc)
  show ?case
  proof (cases x rule: entry_cases)
    case (entry j v)
    have "env_lookup (rev (inc @ [x])) k = (if k = j then Some v else env_lookup (rev inc) k)"
      using entry assms by (auto simp: env_lookup_def HasPrefix_key)
    then show ?thesis using snoc.IH entry assms
      by (simp add: MergeEnv_def env_lookup_merge_item)
  next
    case other
    then have "\<not> HasPrefix x (k @ ''='')" by (auto simp: HasPrefix_iff)
    then have "env_lookup (rev (inc @ [x])) k = env_lookup (rev inc) k" by (simp add: env_lookup_def)
    then show ?thesis using snoc.IH other by (simp add: MergeEnv_def merge_item_other)
  qed
qed

theorem env_lookup_MergeEnv_witness:
  "env_lookup (MergeEnv [''A=1'', ''AB=2'', ''A=3''] [''A=4'', ''novalue'', ''C=5'']) ''A'' = Some ''4'' \<and>
   env_lookup (MergeEnv [''A=1'', ''AB=2'', ''A=3''] [''A=4'', ''novalue'', ''C=5'']) ''AB'' = Some ''2''"
  using env_lookup_MergeEnv [of "''A''" "[''A=1'', ''AB=2'', ''A=3'']" "[''A=4'', ''novalue'', ''C=5'']"]
    env_lookup_MergeEnv [of "''AB''" "[''A=1'', ''AB=2'', ''A=3'']" "[''A=4'', ''novalue'', ''C=5'']"]
  by (simp add: env_lookup_def HasPrefix_def)

lemma BuildCertificateFilePath_example:
  "BuildCertificateFilePath ''store'' = ''/barman-certificates/store/barman-ca.crt''"
  by code_simp

end
