(* ===== verification/Wal_Segment.thy ===== *)
theory Wal_Segment
  imports Go_Lib "HOL-Library.Word" "HOL-Library.Signed_Division"
begin

text \<open>
  WAL segment names: \<open>internal/cnpgi/common/wal_import.go\<close>.

  A segment is three \<open>int32\<close> numbers (timeline, log, segment), read as two's complement. Its
  name is their twenty-four hexadecimal digits. The two regular expressions of the source are
  kept as expressions (\<open>rx\<close>) and run by a backtracking matcher that tries alternatives in the
  order Go's leftmost-first semantics does and returns the captured groups.
\<close>

section \<open>The regular expressions\<close>

definition is_hex :: "char \<Rightarrow> bool" where
  "is_hex c \<longleftrightarrow> c \<in> set ''0123456789ABCDEFabcdef''"

text \<open>
  \<open>Hex\<close> is the class \<open>[\dA-Fa-f]\<close>; \<open>Group\<close> is a capturing group. A group on the branch of an
  alternative that was not taken captures the empty text, as \<open>FindStringSubmatch\<close> reports it.
\<close>

datatype rx = Eps | Hex | Lit string | Cat rx rx | Alt rx rx | Group rx

fun rx_groups :: "rx \<Rightarrow> nat" where
  "rx_groups (Cat a b) = rx_groups a + rx_groups b"
| "rx_groups (Alt a b) = rx_groups a + rx_groups b"
| "rx_groups (Group a) = Suc (rx_groups a)"
| "rx_groups _ = 0"

text \<open>All ways to match a prefix of the text: the captured groups and the text that is left.\<close>

fun rx_run :: "rx \<Rightarrow> string \<Rightarrow> (string list \<times> string) list" where
  "rx_run Eps s = [([], s)]"
| "rx_run Hex s = (case s of [] \<Rightarrow> [] | c # cs \<Rightarrow> if is_hex c then [([], cs)] else [])"
| "rx_run (Lit l) s = (if HasPrefix s l then [([], drop (length l) s)] else [])"
| "rx_run (Cat a b) s =
     concat (map (\<lambda>(g, r). map (\<lambda>(h, q). (g @ h, q)) (rx_run b r)) (rx_run a s))"
| "rx_run (Alt a b) s =
     map (\<lambda>(g, r). (g @ replicate (rx_groups b) '''', r)) (rx_run a s) @
     map (\<lambda>(g, r). (replicate (rx_groups a) '''' @ g, r)) (rx_run b s)"
| "rx_run (Group a) s =
     map (\<lambda>(g, r). (take (length s - length r) s # g, r)) (rx_run a s)"

text \<open>The expressions are anchored at both ends: the first way that leaves nothing is the match.\<close>

definition FindStringSubmatch :: "rx \<Rightarrow> string \<Rightarrow> string list" where
  "FindStringSubmatch e s = (case filter (\<lambda>(g, r). r = '''') (rx_run e s) of
     [] \<Rightarrow> [] | (g, r) # _ \<Rightarrow> s # g)"

definition MatchString :: "rx \<Rightarrow> string \<Rightarrow> bool" where
  "MatchString e s \<longleftrightarrow> list_ex (\<lambda>(g, r). r = '''') (rx_run e s)"

fun rx_times :: "nat \<Rightarrow> rx \<Rightarrow> rx" where
  "rx_times 0 e = Eps"
| "rx_times (Suc n) e = Cat e (rx_times n e)"

definition WALHexOctetRe :: rx where
  "WALHexOctetRe = Group (rx_times 8 Hex)"

definition WALTimeLineRe :: rx where
  "WALTimeLineRe = WALHexOctetRe"

definition WALSegmentNameRe :: rx where
  "WALSegmentNameRe = Cat WALHexOctetRe WALHexOctetRe"

definition WALRe :: rx where
  "WALRe = Cat WALTimeLineRe
     (Alt
       (Cat WALSegmentNameRe
         (Alt
           (Alt
             (Cat (Lit ''.'') (Cat (rx_times 8 Hex) (Lit ''.backup'')))
             (Lit ''.partial''))
           Eps))
       (Lit ''.history''))"

definition WALSegmentRe :: rx where
  "WALSegmentRe = Cat WALTimeLineRe WALSegmentNameRe"

section \<open>Hexadecimal numbers\<close>

definition hex_digit :: "char \<Rightarrow> nat" where
  "hex_digit c = (let n = of_char c in
     if n \<le> 57 then n - 48 else if n \<le> 70 then n - 55 else n - 87)"

definition hex_value :: "string \<Rightarrow> nat" where
  "hex_value s = foldl (\<lambda>a c. 16 * a + hex_digit c) 0 s"

text \<open>\<open>strconv.ParseInt(s, 16, 32)\<close>; \<open>None\<close> is its error.\<close>

definition ParseInt_16_32 :: "string \<Rightarrow> int option" where
  "ParseInt_16_32 s =
     (let (neg, ds) = (case s of [] \<Rightarrow> (False, [])
        | c # cs \<Rightarrow> if c = CHR ''-'' then (True, cs) else if c = CHR ''+'' then (False, cs) else (False, s))
      in if ds = '''' \<or> \<not> list_all is_hex ds then None
         else let v = int (hex_value ds) in
           if neg then (if v > 2 ^ 31 then None else Some (- v))
           else (if v \<ge> 2 ^ 31 then None else Some v))"

definition hex_char :: "nat \<Rightarrow> char" where
  "hex_char n = ''0123456789ABCDEF'' ! n"

fun hex_digits :: "nat \<Rightarrow> string" where
  "hex_digits n = (if n < 16 then [hex_char n] else hex_digits (n div 16) @ [hex_char (n mod 16)])"

declare hex_digits.simps [simp del]

definition zero_pad :: "nat \<Rightarrow> string \<Rightarrow> string" where
  "zero_pad n s = replicate (n - length s) CHR ''0'' @ s"

text \<open>The verb \<open>%08X\<close> on a signed number: the sign counts for the width.\<close>

definition fmt_08X :: "int \<Rightarrow> string" where
  "fmt_08X v = (if v < 0 then CHR ''-'' # zero_pad 7 (hex_digits (nat (- v)))
     else zero_pad 8 (hex_digits (nat v)))"

section \<open>Segments\<close>

type_synonym int32 = "32 word"
type_synonym int64 = "64 word"

record segment =
  Tli :: int32
  Log :: int32
  Seg :: int32

definition DefaultWALSegmentSize :: int64 where
  "DefaultWALSegmentSize = push_bit 24 1"

definition ErrBadWALSegmentName :: go_error where
  "ErrBadWALSegmentName = Errorf ''invalid WAL segment name'' [] None"

definition IsWALFile :: "string \<Rightarrow> bool" where
  "IsWALFile name = (let baseName = path_Base name in MatchString WALSegmentRe baseName)"

definition SegmentFromName :: "string \<Rightarrow> go_error + segment" where
  "SegmentFromName name =
     (let baseName = path_Base name; subMatches = FindStringSubmatch WALRe baseName in
      if length subMatches \<noteq> 4 then Inl ErrBadWALSegmentName
      else if length (subMatches ! 0) \<noteq> 24 then Inl ErrBadWALSegmentName
      else (case ParseInt_16_32 (subMatches ! 1) of
        None \<Rightarrow> Inl ErrBadWALSegmentName
      | Some tli \<Rightarrow> (case ParseInt_16_32 (subMatches ! 2) of
          None \<Rightarrow> Inl ErrBadWALSegmentName
        | Some log \<Rightarrow> (case ParseInt_16_32 (subMatches ! 3) of
            None \<Rightarrow> Inl ErrBadWALSegmentName
          | Some seg \<Rightarrow> Inr \<lparr>Tli = word_of_int tli, Log = word_of_int log, Seg = word_of_int seg\<rparr>))))"

text \<open>\<open>MustSegmentFromName\<close> panics where \<open>SegmentFromName\<close> fails.\<close>

definition MustSegmentFromName :: "string \<Rightarrow> go_error + segment" where
  "MustSegmentFromName name = (case SegmentFromName name of
     Inl e \<Rightarrow> Inl (Panic ''invalid WAL segment name'') | Inr s \<Rightarrow> Inr s)"

definition Name :: "segment \<Rightarrow> string" where
  "Name s = fmt_08X (sint (Tli s)) @ fmt_08X (sint (Log s)) @ fmt_08X (sint (Seg s))"

text \<open>Go's integer division truncates and panics when the divisor is zero.\<close>

definition WalSegmentsPerFile :: "int64 \<Rightarrow> go_error + int32" where
  "WalSegmentsPerFile walSegmentSize =
     (if walSegmentSize = 0 then Inl (Panic ''integer divide by zero'')
      else Inr (word_of_int (0xFFFFFFFF sdiv sint walSegmentSize)))"

text \<open>The body of the loop of \<open>NextSegments\<close>; \<open>++\<close> wraps around.\<close>

definition advance :: "int32 \<Rightarrow> bool \<Rightarrow> segment \<Rightarrow> segment" where
  "advance walSegPerFile skipLastSegment cur =
     (let cur = cur\<lparr>Seg := Seg cur + 1\<rparr> in
      if sint (Seg cur) > sint walSegPerFile \<or> (skipLastSegment \<and> Seg cur = walSegPerFile)
      then cur\<lparr>Log := Log cur + 1, Seg := 0\<rparr> else cur)"

fun next_segments_loop :: "int32 \<Rightarrow> bool \<Rightarrow> nat \<Rightarrow> segment \<Rightarrow> segment list" where
  "next_segments_loop w skip 0 cur = []"
| "next_segments_loop w skip (Suc n) cur = cur # next_segments_loop w skip n (advance w skip cur)"

text \<open>\<open>make\<close> with a negative capacity panics; the nil pointers are \<open>None\<close>.\<close>

definition NextSegments ::
  "segment \<Rightarrow> int \<Rightarrow> int option \<Rightarrow> int64 option \<Rightarrow> go_error + segment list" where
  "NextSegments segment count postgresVersion segmentSize =
     (if count < 0 then Inl (Panic ''makeslice: cap out of range'')
      else (case (case segmentSize of None \<Rightarrow> WalSegmentsPerFile DefaultWALSegmentSize
                  | Some n \<Rightarrow> WalSegmentsPerFile n) of
        Inl e \<Rightarrow> Inl e
      | Inr walSegPerFile \<Rightarrow>
          (let skipLastSegment = (case postgresVersion of None \<Rightarrow> False | Some v \<Rightarrow> v < 90300)
           in Inr (next_segments_loop walSegPerFile skipLastSegment (nat count) segment))))"

subsection \<open>What the expressions match\<close>

definition all_hex :: "nat \<Rightarrow> string \<Rightarrow> bool" where
  "all_hex n s \<longleftrightarrow> length s = n \<and> list_all is_hex s"

lemma list_all_take_drop: "list_all P xs \<longleftrightarrow> list_all P (take n xs) \<and> list_all P (drop n xs)"
  by (metis append_take_drop_id list_all_append)

lemma rx_run_hex_times:
  "rx_run (rx_times n Hex) s =
     (if n \<le> length s \<and> list_all is_hex (take n s) then [([], drop n s)] else [])"
proof (induction n arbitrary: s)
  case 0
  then show ?case by simp
next
  case (Suc n)
  then show ?case by (cases s) auto
qed

lemma rx_run_octet:
  "rx_run WALHexOctetRe s =
     (if 8 \<le> length s \<and> list_all is_hex (take 8 s) then [([take 8 s], drop 8 s)] else [])"
  by (simp add: WALHexOctetRe_def rx_run_hex_times del: rx_times.simps)

lemma rx_run_segment_name:
  "rx_run WALSegmentNameRe s =
     (if 16 \<le> length s \<and> list_all is_hex (take 16 s)
      then [([take 8 s, take 8 (drop 8 s)], drop 16 s)] else [])"
proof -
  have "take 16 s = take 8 s @ take 8 (drop 8 s)" using take_add [of 8 8 s] by simp
  then show ?thesis by (auto simp: WALSegmentNameRe_def rx_run_octet)
qed

lemma rx_groups_times [simp]: "rx_groups (rx_times n e) = n * rx_groups e"
  by (induction n) simp_all

lemma rx_groups_octet [simp]: "rx_groups WALHexOctetRe = 1" "rx_groups WALSegmentNameRe = 2"
  by (simp_all add: WALHexOctetRe_def WALSegmentNameRe_def del: rx_times.simps)

lemma IsWALFile_iff: "IsWALFile name \<longleftrightarrow> all_hex 24 (path_Base name)"
proof -
  let ?s = "path_Base name"
  have t: "take 24 ?s = take 8 ?s @ take 16 (drop 8 ?s)" using take_add [of 8 16 ?s] by simp
  have "MatchString WALSegmentRe ?s \<longleftrightarrow>
      length ?s = 24 \<and> list_all is_hex (take 24 ?s)"
    unfolding t by (auto simp: MatchString_def WALSegmentRe_def WALTimeLineRe_def rx_run_octet
        rx_run_segment_name split: if_splits)
  then show ?thesis by (auto simp: IsWALFile_def all_hex_def)
qed

lemma FindStringSubmatch_segment:
  assumes "all_hex 24 s"
  shows "FindStringSubmatch WALRe s = [s, take 8 s, take 8 (drop 8 s), drop 16 s]"
proof -
  have h: "list_all is_hex (take 8 s)" "list_all is_hex (take 16 (drop 8 s))"
    using assms list_all_take_drop [of is_hex s 8] by (auto simp: all_hex_def)
  show ?thesis using assms h
    by (simp add: FindStringSubmatch_def WALRe_def WALTimeLineRe_def rx_run_octet
        rx_run_segment_name all_hex_def HasPrefix_def del: rx_times.simps)
qed

lemma FindStringSubmatch_length24:
  assumes "length (FindStringSubmatch WALRe s) = 4" "length (FindStringSubmatch WALRe s ! 0) = 24"
  shows "all_hex 24 s"
proof -
  let ?r = "drop 8 s"
  have s: "length s = 24"
    using assms by (auto simp: FindStringSubmatch_def split: list.splits)
  have ne: "FindStringSubmatch WALRe s \<noteq> []" using assms(1) by auto
  have "list_all is_hex (take 8 s) \<and> list_all is_hex (take 16 ?r)"
  proof (rule ccontr)
    assume "\<not> ?thesis"
    then have "FindStringSubmatch WALRe s = []" using s
      by (auto simp: FindStringSubmatch_def WALRe_def WALTimeLineRe_def rx_run_octet
        rx_run_segment_name HasPrefix_def split: list.splits)
    with ne show False by simp
  qed
  then show ?thesis using s list_all_take_drop [of is_hex s 8] by (simp add: all_hex_def)
qed

subsection \<open>Printing and reading hexadecimal numbers\<close>

definition to_upper :: "char \<Rightarrow> char" where
  "to_upper c = (if c \<in> set ''abcdef'' then char_of (of_char c - 32 :: nat) else c)"

lemma hex_digit_lt: "is_hex c \<Longrightarrow> hex_digit c < 16"
  by (auto simp: is_hex_def hex_digit_def)

lemma to_upper_digit: "is_hex c \<Longrightarrow> to_upper c = hex_char (hex_digit c)"
proof -
  have "list_all (\<lambda>c. to_upper c = hex_char (hex_digit c)) ''0123456789ABCDEFabcdef''"
    by code_simp
  then show "is_hex c \<Longrightarrow> ?thesis" unfolding list_all_iff is_hex_def by blast
qed

lemma digit_hex:
  assumes "n < 16"
  shows "is_hex (hex_char n)" "hex_digit (hex_char n) = n"
proof -
  have "list_all (\<lambda>n. is_hex (hex_char n) \<and> hex_digit (hex_char n) = n) [0..<16]"
    by code_simp
  with assms show "is_hex (hex_char n)" "hex_digit (hex_char n) = n"
    unfolding list_all_iff by simp_all
qed

lemma foldl_hex: "foldl (\<lambda>a c. 16 * a + hex_digit c) b s = 16 ^ length s * b + hex_value s"
proof (induction s rule: rev_induct)
  case Nil
  then show ?case by (simp add: hex_value_def)
next
  case (snoc c s)
  then show ?case by (simp add: hex_value_def algebra_simps)
qed

lemma hex_value_append: "hex_value (s @ t) = 16 ^ length t * hex_value s + hex_value t"
  using foldl_hex [of "hex_value s" t] by (simp add: hex_value_def)

lemma hex_value_simps [simp]: "hex_value [] = 0" "hex_value [c] = hex_digit c"
  by (simp_all add: hex_value_def)

lemma hex_value_replicate_0 [simp]: "hex_value (replicate n CHR ''0'') = 0"
  by (induction n) (simp_all add: hex_value_def hex_digit_def)

lemma hex_value_lt: "list_all is_hex s \<Longrightarrow> hex_value s < 16 ^ length s"
proof (induction s rule: rev_induct)
  case Nil
  then show ?case by simp
next
  case (snoc c s)
  then have "hex_value s + 1 \<le> 16 ^ length s" "hex_digit c < 16" by (auto intro: hex_digit_lt)
  then have "16 * (hex_value s + 1) \<le> 16 * 16 ^ length s" "hex_digit c < 16" by simp_all
  then show ?case by (simp add: hex_value_append)
qed

lemma hex_digits_hex: "list_all is_hex (hex_digits n)"
proof (induction n rule: hex_digits.induct)
  case (1 n)
  then show ?case by (subst hex_digits.simps) (simp add: digit_hex(1))
qed

lemma hex_value_digits [simp]: "hex_value (hex_digits n) = n"
proof (induction n rule: hex_digits.induct)
  case (1 n)
  then show ?case by (subst hex_digits.simps) (simp add: hex_value_append digit_hex(2))
qed

lemma length_hex_digits: "n < 16 ^ Suc k \<Longrightarrow> length (hex_digits n) \<le> Suc k"
proof (induction k arbitrary: n)
  case 0
  then show ?case by (subst hex_digits.simps) simp
next
  case (Suc k)
  then have "n div 16 < 16 ^ Suc k" by (simp add: less_mult_imp_div_less)
  with Suc.IH [of "n div 16"] show ?case by (subst hex_digits.simps) simp
qed

lemma zero_pad_facts:
  assumes "n < 16 ^ 8"
  shows "all_hex 8 (zero_pad 8 (hex_digits n))" "hex_value (zero_pad 8 (hex_digits n)) = n"
proof -
  have "length (hex_digits n) \<le> 8" using length_hex_digits [of n 7] assms by simp
  then show "all_hex 8 (zero_pad 8 (hex_digits n))"
    by (simp add: all_hex_def zero_pad_def hex_digits_hex) (simp add: list_all_iff is_hex_def)
  show "hex_value (zero_pad 8 (hex_digits n)) = n"
    by (simp add: zero_pad_def hex_value_append)
qed

lemma radix_16_inj: "16 * a + c = 16 * b + d \<Longrightarrow> c < 16 \<Longrightarrow> d < 16 \<Longrightarrow> a = b \<and> c = d" for a b c d :: nat
  by arith

lemma hex_value_inj:
  "all_hex n s \<Longrightarrow> all_hex n t \<Longrightarrow> hex_value s = hex_value t \<Longrightarrow> map to_upper s = map to_upper t"
proof (induction n arbitrary: s t)
  case 0
  then show ?case by (simp add: all_hex_def)
next
  case (Suc n)
  from Suc.prems(1,2) obtain a c b d where s: "s = a @ [c]" and t: "t = b @ [d]"
    and h: "all_hex n a" "all_hex n b" "is_hex c" "is_hex d"
    by (cases s rule: rev_cases; cases t rule: rev_cases) (auto simp: all_hex_def)
  have lt: "hex_digit c < 16" "hex_digit d < 16" using h hex_digit_lt by auto
  from Suc.prems(3) have e: "16 * hex_value a + hex_digit c = 16 * hex_value b + hex_digit d"
    by (simp add: s t hex_value_append)
  have "hex_value a = hex_value b \<and> hex_digit c = hex_digit d" by (rule radix_16_inj [OF e lt])
  with Suc.IH [OF h(1,2)] show ?case using h by (simp add: s t to_upper_digit)
qed

text \<open>Printing gives upper case letters, so printing what was read is the upper case of the input.\<close>

lemma to_upper_hex_digits: "map to_upper (hex_digits n) = hex_digits n"
proof (induction n rule: hex_digits.induct)
  case (1 n)
  have d: "to_upper (hex_char k) = hex_char k" if "k < 16" for k
    by (simp only: to_upper_digit digit_hex that)
  show ?case
  proof (cases "n < 16")
    case True
    then show ?thesis by (simp add: hex_digits.simps [of n] d)
  next
    case False
    then show ?thesis using 1 [OF False] by (simp add: hex_digits.simps [of n] d)
  qed
qed

lemma fmt_08X_hex_value:
  assumes "all_hex 8 s"
  shows "fmt_08X (int (hex_value s)) = map to_upper s"
proof -
  have lt: "hex_value s < 16 ^ 8" using hex_value_lt [of s] assms by (simp add: all_hex_def)
  have "map to_upper (zero_pad 8 (hex_digits (hex_value s))) = map to_upper s"
    using assms zero_pad_facts [OF lt] by (intro hex_value_inj [where n = 8]) auto
  moreover have "map to_upper (zero_pad 8 (hex_digits (hex_value s))) = zero_pad 8 (hex_digits (hex_value s))"
    by (simp add: zero_pad_def to_upper_hex_digits) (simp add: to_upper_def)
  ultimately show ?thesis by (simp add: fmt_08X_def)
qed

lemma ParseInt_hex8:
  assumes "all_hex 8 s"
  shows "ParseInt_16_32 s = (if hex_value s < 2 ^ 31 then Some (int (hex_value s)) else None)"
proof (cases s)
  case Nil
  with assms show ?thesis by (simp add: all_hex_def)
next
  case (Cons c cs)
  with assms have "is_hex c" by (simp add: all_hex_def)
  then have "c \<noteq> CHR ''-''" "c \<noteq> CHR ''+''" by (auto simp: is_hex_def)
  with Cons assms show ?thesis by (auto simp: ParseInt_16_32_def all_hex_def)
qed

lemma ParseInt_fmt_08X:
  assumes "0 \<le> v" "v < 2 ^ 31"
  shows "ParseInt_16_32 (fmt_08X v) = Some v" "all_hex 8 (fmt_08X v)"
proof -
  have lt: "nat v < 16 ^ 8" using assms by simp
  show "all_hex 8 (fmt_08X v)" using zero_pad_facts(1) [OF lt] assms by (simp add: fmt_08X_def)
  with zero_pad_facts(2) [OF lt] assms show "ParseInt_16_32 (fmt_08X v) = Some v"
    by (simp add: ParseInt_hex8 fmt_08X_def)
qed

subsection \<open>Reading and printing segment names\<close>

lemma signed_take_bit_31:
  fixes v :: int
  assumes "- (2 ^ 31) \<le> v" "v < 2 ^ 31"
  shows "signed_take_bit 31 v = v"
  using assms by (simp add: signed_take_bit_int_eq_self)

lemma sint_int32: "- (2 ^ 31) \<le> v \<Longrightarrow> v < 2 ^ 31 \<Longrightarrow> sint (word_of_int v :: int32) = v"
  by (simp add: sint_sbintrunc' signed_take_bit_31)

lemma sint_int32_bounds: "- (2 ^ 31) \<le> sint (w :: int32)" "sint (w :: int32) < 2 ^ 31"
  using sint_range_size [of w] by (simp_all add: word_size)

lemma sint_int32_plus:
  "- (2 ^ 31) \<le> sint a + sint b \<Longrightarrow> sint a + sint b < 2 ^ 31 \<Longrightarrow> sint (a + b :: int32) = sint a + sint b"
  by (simp add: sint_word_ariths signed_take_bit_31)

definition seg_nonneg :: "segment \<Rightarrow> bool" where
  "seg_nonneg s \<longleftrightarrow> 0 \<le> sint (Tli s) \<and> 0 \<le> sint (Log s) \<and> 0 \<le> sint (Seg s)"

lemma hex_no_slash: "list_all is_hex s \<Longrightarrow> \<forall>c \<in> set s. \<not> is_slash c"
  by (auto simp: list_all_iff is_slash_def is_hex_def)

text \<open>The three numbers of a name of twenty-four digits.\<close>

definition name_parts :: "string \<Rightarrow> nat \<times> nat \<times> nat" where
  "name_parts b = (hex_value (take 8 b), hex_value (take 8 (drop 8 b)), hex_value (drop 16 b))"

lemma all_hex_parts:
  assumes "all_hex 24 b"
  shows "all_hex 8 (take 8 b)" "all_hex 8 (take 8 (drop 8 b))" "all_hex 8 (drop 16 b)"
proof -
  have "list_all is_hex b" "length b = 24" using assms by (simp_all add: all_hex_def)
  then show "all_hex 8 (take 8 b)" "all_hex 8 (take 8 (drop 8 b))" "all_hex 8 (drop 16 b)"
    by (auto simp: all_hex_def list_all_iff dest: in_set_takeD in_set_dropD)
qed

lemma SegmentFromName_eq:
  "SegmentFromName name =
     (let b = path_Base name; (t, l, g) = name_parts b in
      if all_hex 24 b \<and> t < 2 ^ 31 \<and> l < 2 ^ 31 \<and> g < 2 ^ 31
      then Inr \<lparr>Tli = word_of_int (int t), Log = word_of_int (int l), Seg = word_of_int (int g)\<rparr>
      else Inl ErrBadWALSegmentName)"
proof (cases "all_hex 24 (path_Base name)")
  case True
  note p = all_hex_parts [OF True]
  from True show ?thesis
    by (simp add: SegmentFromName_def FindStringSubmatch_segment ParseInt_hex8 [OF p(1)]
        ParseInt_hex8 [OF p(2)] ParseInt_hex8 [OF p(3)] name_parts_def Let_def all_hex_def
        split: option.split)
next
  case False
  then have "length (FindStringSubmatch WALRe (path_Base name)) \<noteq> 4 \<or>
      length (FindStringSubmatch WALRe (path_Base name) ! 0) \<noteq> 24"
    using FindStringSubmatch_length24 by blast
  with False show ?thesis by (auto simp: SegmentFromName_def Let_def name_parts_def)
qed

lemma Name_hex:
  assumes "seg_nonneg s"
  shows "all_hex 24 (Name s)" "path_Base (Name s) = Name s" "path_Base (d @ ''/'' @ Name s) = Name s"
    "name_parts (Name s) = (nat (sint (Tli s)), nat (sint (Log s)), nat (sint (Seg s)))"
proof -
  have b: "sint (Tli s) < 2 ^ 31" "sint (Log s) < 2 ^ 31" "sint (Seg s) < 2 ^ 31"
    using sint_int32_bounds by blast+
  have f: "all_hex 8 (fmt_08X v)" "hex_value (fmt_08X v) = nat v" if "0 \<le> v" "v < 2 ^ 31" for v
    using that zero_pad_facts [of "nat v"] by (auto simp: fmt_08X_def)
  have n: "0 \<le> sint (Tli s)" "0 \<le> sint (Log s)" "0 \<le> sint (Seg s)"
    using assms by (simp_all add: seg_nonneg_def)
  note f' = f [OF n(1) b(1)] f [OF n(2) b(2)] f [OF n(3) b(3)]
  show h: "all_hex 24 (Name s)" using f' by (simp add: Name_def all_hex_def)
  then have ne: "Name s \<noteq> ''''" "\<forall>c \<in> set (Name s). \<not> is_slash c"
    using hex_no_slash [of "Name s"] by (auto simp: all_hex_def)
  then show "path_Base (Name s) = Name s" "path_Base (d @ ''/'' @ Name s) = Name s"
    using path_Base_no_slash [OF ne] path_Base_dir [OF ne, of d] by simp_all
  show "name_parts (Name s) = (nat (sint (Tli s)), nat (sint (Log s)), nat (sint (Seg s)))"
    using f' by (simp add: name_parts_def Name_def all_hex_def)
qed

lemma SegmentFromName_of_Name:
  assumes "seg_nonneg s" "path_Base n = Name s"
  shows "SegmentFromName n = Inr s"
proof -
  have "sint (Tli s) < 2 ^ 31" "sint (Log s) < 2 ^ 31" "sint (Seg s) < 2 ^ 31"
    using sint_int32_bounds by blast+
  with assms Name_hex [OF assms(1)] show ?thesis
    by (simp add: SegmentFromName_eq Let_def seg_nonneg_def nat_less_iff)
qed

lemma Name_of_SegmentFromName:
  assumes "SegmentFromName name = Inr s"
  shows "seg_nonneg s" "IsWALFile name" "Name s = map to_upper (path_Base name)"
proof -
  let ?b = "path_Base name"
  from assms have h: "all_hex 24 ?b"
    and lt: "hex_value (take 8 ?b) < 2 ^ 31" "hex_value (take 8 (drop 8 ?b)) < 2 ^ 31"
      "hex_value (drop 16 ?b) < 2 ^ 31"
    and s: "s = \<lparr>Tli = word_of_int (int (hex_value (take 8 ?b))),
      Log = word_of_int (int (hex_value (take 8 (drop 8 ?b)))),
      Seg = word_of_int (int (hex_value (drop 16 ?b)))\<rparr>"
    by (auto simp: SegmentFromName_eq Let_def name_parts_def split: if_splits)
  have i: "sint (of_nat n :: int32) = int n" if "n < 2 ^ 31" for n
    using that sint_int32 [of "int n"] by simp
  note p = all_hex_parts [OF h]
  have "Name s = map to_upper (take 8 ?b @ take 8 (drop 8 ?b) @ drop 16 ?b)"
    using lt by (simp add: Name_def s i fmt_08X_hex_value [OF p(1)] fmt_08X_hex_value [OF p(2)]
        fmt_08X_hex_value [OF p(3)])
  also have "drop 16 ?b = drop 8 (drop 8 ?b)" by simp
  also have "take 8 ?b @ take 8 (drop 8 ?b) @ drop 8 (drop 8 ?b) = ?b"
    by (simp only: append_take_drop_id)
  finally show "Name s = map to_upper ?b" .
  show "seg_nonneg s" using lt by (simp add: seg_nonneg_def s i)
  show "IsWALFile name" using h by (simp only: IsWALFile_iff)
qed

text \<open>
  C32. Round trip of segment names. The name of a segment whose three numbers are not negative
  is a regular WAL file name, and reading it back, bare or behind any directory, gives the
  segment again.
\<close>

theorem SegmentFromName_Name:
  assumes "seg_nonneg s"
  shows "IsWALFile (Name s) \<and> SegmentFromName (Name s) = Inr s \<and>
    SegmentFromName (d @ ''/'' @ Name s) = Inr s"
  using Name_hex [OF assms] SegmentFromName_of_Name [OF assms] by (simp add: IsWALFile_iff)

theorem SegmentFromName_Name_witness:
  "SegmentFromName (''pg_wal'' @ ''/'' @ Name \<lparr>Tli = 1, Log = 2, Seg = 254\<rparr>) =
     Inr \<lparr>Tli = 1, Log = 2, Seg = 254\<rparr>"
  using SegmentFromName_Name [of "\<lparr>Tli = 1, Log = 2, Seg = 254\<rparr>" "''pg_wal''"]
  by (simp add: seg_nonneg_def)

text \<open>
  Canonical names. Whenever a name is read successfully, its numbers are not negative and
  printing them gives the last path element of the name with its letters in upper case.
\<close>

theorem Name_SegmentFromName:
  assumes "SegmentFromName name = Inr s"
  shows "seg_nonneg s \<and> IsWALFile name \<and> Name s = map to_upper (path_Base name)"
  using Name_of_SegmentFromName [OF assms] by simp

theorem Name_SegmentFromName_witness:
  "Name \<lparr>Tli = 1, Log = 2, Seg = 171\<rparr> = map to_upper (path_Base ''pg_wal/0000000100000002000000ab'')"
proof -
  have "SegmentFromName ''pg_wal/0000000100000002000000ab'' = Inr \<lparr>Tli = 1, Log = 2, Seg = 171\<rparr>"
    by code_simp
  from Name_SegmentFromName [OF this] show ?thesis by simp
qed

subsection \<open>Enumerating segments\<close>

text \<open>
  The abstract position of a segment within its timeline, when a log file holds \<open>m\<close> segments,
  and how many segments a log file holds: the servers before 9.3 skip the last one.
\<close>

definition position :: "int \<Rightarrow> segment \<Rightarrow> int" where
  "position m s = sint (Log s) * m + sint (Seg s)"

definition segments_per_log :: "int option \<Rightarrow> int64 option \<Rightarrow> int" where
  "segments_per_log postgresVersion segmentSize =
     0xFFFFFFFF div (case segmentSize of None \<Rightarrow> 2 ^ 24 | Some n \<Rightarrow> sint n) +
     (case postgresVersion of None \<Rightarrow> 1 | Some v \<Rightarrow> if v < 90300 then 0 else 1)"

lemma advance_position:
  assumes w: "0 < sint w" "sint w < 2 ^ 31 - 1" and m: "m = (if skip then sint w else sint w + 1)"
    and s: "0 \<le> sint (Seg s)" "sint (Seg s) < m" "sint (Log s) < 2 ^ 31 - 1"
  shows "position m (advance w skip s) = position m s + 1" "Tli (advance w skip s) = Tli s"
    "0 \<le> sint (Seg (advance w skip s))" "sint (Seg (advance w skip s)) < m"
    "sint (Log (advance w skip s)) \<le> sint (Log s) + 1"
proof -
  have g: "sint (Seg s + 1) = sint (Seg s) + 1"
    using w m s sint_int32_bounds [of "Seg s"] by (subst sint_int32_plus) (auto split: if_splits)
  have l: "sint (Log s + 1) = sint (Log s) + 1"
    using s sint_int32_bounds [of "Log s"] by (subst sint_int32_plus) auto
  have e: "Seg s + 1 = w \<longleftrightarrow> sint (Seg s) + 1 = sint w" using g by (metis signed_word_eqI)
  have A: "advance w skip s = (if sint (Seg s) + 1 = m
      then s\<lparr>Log := Log s + 1, Seg := 0\<rparr> else s\<lparr>Seg := Seg s + 1\<rparr>)"
    using m s by (auto simp: advance_def Let_def g e)
  have c: "sint (Log (advance w skip s)) = (if sint (Seg s) + 1 = m then sint (Log s) + 1 else sint (Log s))"
    "sint (Seg (advance w skip s)) = (if sint (Seg s) + 1 = m then 0 else sint (Seg s) + 1)"
    "Tli (advance w skip s) = Tli s"
    by (simp_all add: A g l)
  have "(sint (Log s) + 1) * m = sint (Log s) * m + m" by (simp add: distrib_right)
  with s c show "position m (advance w skip s) = position m s + 1" "Tli (advance w skip s) = Tli s"
    "0 \<le> sint (Seg (advance w skip s))" "sint (Seg (advance w skip s)) < m"
    "sint (Log (advance w skip s)) \<le> sint (Log s) + 1"
    by (auto simp: position_def)
qed

lemma next_segments_loop_spec:
  assumes w: "0 < sint w" "sint w < 2 ^ 31 - 1" and m: "m = (if skip then sint w else sint w + 1)"
  shows "0 \<le> sint (Seg s) \<Longrightarrow> sint (Seg s) < m \<Longrightarrow> sint (Log s) + int n < 2 ^ 31 \<Longrightarrow>
    length (next_segments_loop w skip n s) = n \<and>
    (\<forall>i < n. let t = next_segments_loop w skip n s ! i in
       Tli t = Tli s \<and> position m t = position m s + int i \<and> 0 \<le> sint (Seg t) \<and> sint (Seg t) < m)"
proof (induction n arbitrary: s)
  case 0
  then show ?case by simp
next
  case (Suc n)
  have lg: "sint (Log s) < 2 ^ 31 - 1 \<or> n = 0" using Suc.prems by auto
  show ?case
  proof (cases "n = 0")
    case True
    with Suc.prems show ?thesis by (simp add: Let_def)
  next
    case False
    with lg have "sint (Log s) < 2 ^ 31 - 1" by simp
    note a = advance_position [OF w m Suc.prems(1,2) this]
    have "sint (Log (advance w skip s)) + int n < 2 ^ 31" using a(5) Suc.prems(3) by simp
    note IH = Suc.IH [OF a(3,4) this]
    show ?thesis
    proof (intro conjI allI impI)
      show "length (next_segments_loop w skip (Suc n) s) = Suc n" using IH by simp
      fix i assume "i < Suc n"
      then show "let t = next_segments_loop w skip (Suc n) s ! i in
          Tli t = Tli s \<and> position m t = position m s + int i \<and> 0 \<le> sint (Seg t) \<and> sint (Seg t) < m"
        using IH a Suc.prems by (cases i) (auto simp: Let_def)
    qed
  qed
qed



end
