(* ===== verification/Wal_Service.thy ===== *)
theory Wal_Service
  imports Config Common_Env Wal_Segment
begin

text \<open>
  The WAL service of the sidecar: \<open>internal/cnpgi/common/wal.go\<close>, with the error codes of
  \<open>errors.go\<close> and the destination check of \<open>check.go\<close>. Log lines, and the clock readings that
  only feed them, are left out.
\<close>

section \<open>Error codes\<close>

definition ErrEndOfWALStreamReached :: go_error where
  "ErrEndOfWALStreamReached = Grpc_Status GOutOfRange ''end of WAL reached'' [] None"

definition ErrMissingPermissions :: go_error where
  "ErrMissingPermissions = Grpc_Status GFailedPrecondition
     ''no permission to download the backup credentials, retrying'' [] None"

definition newWALNotFoundError :: "string \<Rightarrow> go_error" where
  "newWALNotFoundError walName = Grpc_Status GNotFound ''wal %q not found'' [walName] None"

definition newUnavailableError :: "string \<Rightarrow> go_error \<Rightarrow> go_error" where
  "newUnavailableError walName err =
     Grpc_Status GUnavailable ''transient error while downloading %q: %s'' [walName] (Some err)"

definition newInvalidWALNameError :: "string \<Rightarrow> go_error \<Rightarrow> go_error" where
  "newInvalidWALNameError walName err =
     Grpc_Status GInvalidArgument ''invalid WAL name %q: %s'' [walName] (Some err)"

definition newInternalWALRestoreError :: "string \<Rightarrow> go_error \<Rightarrow> go_error" where
  "newInternalWALRestoreError walName err =
     Grpc_Status GInternal ''internal error while downloading %q: %s'' [walName] (Some err)"

definition classifyWALRestoreError :: "string \<Rightarrow> go_error \<Rightarrow> go_error" where
  "classifyWALRestoreError walName walErr =
     (if errors_Is walErr ErrWALNotFound then newWALNotFoundError walName
      else if errors_Is walErr ErrInvalidWALName then newInvalidWALNameError walName walErr
      else if errors_Is walErr ErrConnectivity \<or> errors_Is walErr ErrGeneric
      then newUnavailableError walName walErr
      else newInternalWALRestoreError walName walErr)"

section \<open>Archiving\<close>

record wal_service =
  ws_InstanceName :: string
  ws_SpoolDirectory :: string
  ws_PGDataPath :: string
  ws_PGWALPath :: string

datatype wal_capability = RPC_TYPE_ARCHIVE_WAL | RPC_TYPE_RESTORE_WAL

definition wal_GetCapabilities :: "wal_capability list" where
  "wal_GetCapabilities = [RPC_TYPE_ARCHIVE_WAL, RPC_TYPE_RESTORE_WAL]"

record wal_archive_request =
  war_ClusterDefinition :: string
  war_SourceFileName :: string
  war_CheckEmptyWalArchive :: "bool option"

definition CheckBackupDestination ::
  "'w ext \<Rightarrow> barman_configuration \<Rightarrow> archiver \<Rightarrow> string \<Rightarrow> ('w, unit) eff" where
  "CheckBackupDestination e barmanConfiguration barmanArchiver serverName =
     io_bind (check_wal_options e barmanArchiver barmanConfiguration serverName) (\<lambda>checkWalOptions.
       check_wal_destination e barmanArchiver checkWalOptions)"

definition resolveArchiveEmptyWalArchiveCheck ::
  "lib \<Rightarrow> 'w ext \<Rightarrow> bool option \<Rightarrow> cluster \<Rightarrow> string \<Rightarrow> ('w, bool) eff" where
  "resolveArchiveEmptyWalArchiveCheck L e operatorDecision c markerFilePath =
     (case operatorDecision of
        Some d \<Rightarrow> io_return d
      | None \<Rightarrow> io_bind
          (io_map_error (\<lambda>err. Errorf ''while checking for empty wal archive check file %q: %w''
              [markerFilePath] (Some err)) (file_exists e markerFilePath))
          (\<lambda>markerFilePresent. io_return (IsEmptyWalArchiveCheckEnabled L c \<and> markerFilePresent)))"

definition archive_max_parallel :: "barman_configuration \<Rightarrow> int" where
  "archive_max_parallel conf = (case bc_Wal conf of
     Some maxParallel \<Rightarrow> if maxParallel > 0 then maxParallel else 1 | None \<Rightarrow> 1)"

text \<open>The loop over the results: the first error ends it.\<close>

fun first_archive_error :: "go_error option list \<Rightarrow> go_error option" where
  "first_archive_error [] = None"
| "first_archive_error (Some err # rs) = Some err"
| "first_archive_error (None # rs) = first_archive_error rs"

text \<open>Step 4 of \<open>Archive\<close>.\<close>

definition archive_wals ::
  "lib \<Rightarrow> 'w ext \<Rightarrow> wal_service \<Rightarrow> wal_archive_request \<Rightarrow> archiver \<Rightarrow> barman_configuration \<Rightarrow> string \<Rightarrow>
   ('w, unit option) eff" where
  "archive_wals L e s request arch conf serverName =
     (let baseWalName = path_Base (war_SourceFileName request) in
      io_bind (archive_options e arch conf serverName) (\<lambda>options.
      let maxParallel = archive_max_parallel conf; maxResults = maxParallel - 1 in
      io_bind (gather_ready e maxResults [baseWalName] (ws_PGDataPath s)) (\<lambda>ready.
      let walFilesList = [war_SourceFileName request] @ ready in
      io_bind (archive_list e arch (ReadyItemsToSlice L walFilesList) options) (\<lambda>result.
      case first_archive_error result of
        Some err \<Rightarrow> io_fail err
      | None \<Rightarrow> io_return (Some ())))))"

text \<open>The result \<open>None\<close> is the nil result of a WAL file found in the spool.\<close>

definition Archive :: "lib \<Rightarrow> 'w ext \<Rightarrow> wal_service \<Rightarrow> wal_archive_request \<Rightarrow> ('w, unit option) eff" where
  "Archive L e s request =
     (let baseWalName = path_Base (war_SourceFileName request) in
      io_bind (io_lift (NewFromClusterJSON L (war_ClusterDefinition request))) (\<lambda>configuration.
      io_bind (get_object_store e (GetBarmanObjectKey configuration)) (\<lambda>objectStore.
      io_bind (io_map_error (\<lambda>err. if IsForbidden err then ErrMissingPermissions else err)
        (set_credentials e (os_Namespace objectStore) (os_Configuration objectStore) (environ e)
          (BuildCertificateFilePath (os_Name objectStore)))) (\<lambda>envArchive.
      let emptyWalArchiveFile = path_Join [ws_PGDataPath s, CheckEmptyWalArchiveFile] in
      io_bind (new_archiver e envArchive (ws_SpoolDirectory s) (ws_PGDataPath s) emptyWalArchiveFile) (\<lambda>arch.
      io_bind (resolveArchiveEmptyWalArchiveCheck L e (war_CheckEmptyWalArchive request)
        (cfg_Cluster configuration) emptyWalArchiveFile) (\<lambda>checkEmptyWalArchive.
      io_seq (if checkEmptyWalArchive
        then CheckBackupDestination e (os_Configuration objectStore) arch (cfg_ServerName configuration)
        else io_return ())
      (io_bind (io_map_error (SpoolManagementError baseWalName) (delete_from_spool e arch baseWalName))
        (\<lambda>isDeletedFromSpool.
        if isDeletedFromSpool then io_return None
        else archive_wals L e s request arch (os_Configuration objectStore) (cfg_ServerName configuration)))))))))"

section \<open>Restoring\<close>

text \<open>The modes of a restore request; only the rewind mode is told apart.\<close>

datatype restore_mode = MODE_REWIND | Other_Mode

record wal_restore_request =
  wrr_ClusterDefinition :: string
  wrr_SourceWalName :: string
  wrr_DestinationFileName :: string
  wrr_Mode :: restore_mode

definition resolveRestoreObjectStore :: "config \<Rightarrow> string \<Rightarrow> string \<times> namespaced_name" where
  "resolveRestoreObjectStore configuration instanceName =
     (let currentPrimary = cl_CurrentPrimary (cfg_Cluster configuration) in
      if currentPrimary = instanceName \<and> length (cfg_ReplicaSourceBarmanObjectName configuration) > 0
      then (cfg_ReplicaSourceServerName configuration, GetReplicaSourceBarmanObjectKey configuration)
      else if currentPrimary = ''''
      then (cfg_RecoveryServerName configuration, GetRecoveryBarmanObjectKey configuration)
      else (cfg_ServerName configuration, GetBarmanObjectKey configuration))"

definition maxWALFilesPerInvocation :: "barman_configuration \<Rightarrow> bool \<Rightarrow> int" where
  "maxWALFilesPerInvocation conf rewindMode =
     (if rewindMode then 1
      else (case bc_Wal conf of
          Some maxParallel \<Rightarrow> if maxParallel > 1 then maxParallel else 1
        | None \<Rightarrow> 1))"

text \<open>Reading the source of a replica cluster section that is nil panics.\<close>

definition isStreamingAvailable :: "lib \<Rightarrow> cluster option \<Rightarrow> string \<Rightarrow> go_error + bool" where
  "isStreamingAvailable L clusterp podName = (case clusterp of
     None \<Rightarrow> Inr False
   | Some c \<Rightarrow>
       if cl_CurrentPrimary c = '''' then Inr False
       else if cl_CurrentPrimary c \<noteq> podName then Inr True
       else if IsReplica L c then
         (case cl_ReplicaCluster c of
            None \<Rightarrow> Inl (Panic ''nil pointer dereference'')
          | Some source \<Rightarrow> (case ExternalCluster L c source of
              None \<Rightarrow> Inr False
            | Some externalCluster \<Rightarrow> Inr (ec_ConnectionParameters externalCluster \<noteq> None)))
       else Inr False)"

definition shouldUseEndOfWALStreamFlag :: "lib \<Rightarrow> cluster option \<Rightarrow> string \<Rightarrow> bool \<Rightarrow> go_error + bool" where
  "shouldUseEndOfWALStreamFlag L clusterp podName rewindMode =
     (if rewindMode then Inr False else isStreamingAvailable L clusterp podName)"

definition gatherWALFilesToRestore :: "string \<Rightarrow> int \<Rightarrow> go_error + string list" where
  "gatherWALFilesToRestore walName parallel = (case SegmentFromName walName of
     Inl err \<Rightarrow> Inr [walName]
   | Inr segment \<Rightarrow> (case NextSegments segment parallel None None of
       Inl err \<Rightarrow> Inl err
     | Inr segmentList \<Rightarrow> Inr (map Name segmentList)))"

definition checkEndOfWALStreamFlag :: "'w ext \<Rightarrow> restorer \<Rightarrow> ('w, unit) eff" where
  "checkEndOfWALStreamFlag e walRestorer =
     io_bind (is_end_of_wal_stream e walRestorer) (\<lambda>contain.
       if contain
       then io_seq (reset_end_of_wal_stream e walRestorer) (io_fail ErrEndOfWALStreamReached)
       else io_return ())"

definition clearEndOfWALStreamFlag :: "'w ext \<Rightarrow> restorer \<Rightarrow> ('w, unit) eff" where
  "clearEndOfWALStreamFlag e walRestorer =
     io_bind (is_end_of_wal_stream e walRestorer) (\<lambda>contain.
       if contain then reset_end_of_wal_stream e walRestorer else io_return ())"

definition isEndOfWALStream :: "wal_result list \<Rightarrow> bool" where
  "isEndOfWALStream results = list_ex (\<lambda>r. case wr_Err r of
     None \<Rightarrow> False | Some err \<Rightarrow> errors_Is err ErrWALNotFound) results"

text \<open>The list of step 3 of \<open>restoreFromBarmanObjectStore\<close>.\<close>

definition wal_files_to_restore :: "string \<Rightarrow> int \<Rightarrow> go_error + string list" where
  "wal_files_to_restore walName maxParallel =
     (if IsWALFile walName then (case gatherWALFilesToRestore walName maxParallel of
          Inl err \<Rightarrow> Inl (case err of Panic m \<Rightarrow> Panic m
            | _ \<Rightarrow> Errorf ''while generating the list of WAL files to restore: %w'' [] (Some err))
        | Inr l \<Rightarrow> Inr l)
      else Inr [walName])"

text \<open>Steps 3 and 4: download, classify the failure of the first file, raise the flag.\<close>

definition download_wals ::
  "'w ext \<Rightarrow> restorer \<Rightarrow> barman_configuration \<Rightarrow> string list \<Rightarrow> string \<Rightarrow> string \<Rightarrow> bool \<Rightarrow> bool \<Rightarrow> ('w, unit) eff" where
  "download_wals e walRestorer conf options walName destinationPath rewindMode useFlag =
     (let maxParallel = maxWALFilesPerInvocation conf rewindMode in
      io_bind (io_lift (wal_files_to_restore walName maxParallel)) (\<lambda>walFilesList.
      io_bind (restore_list e walRestorer walFilesList destinationPath options) (\<lambda>walStatus.
      case walStatus of
        [] \<Rightarrow> io_fail (Panic ''index out of range [0] with length 0'')
      | first # _ \<Rightarrow> (case wr_Err first of
          Some err \<Rightarrow> io_fail (classifyWALRestoreError (wr_WalName first) err)
        | None \<Rightarrow>
            if useFlag \<and> isEndOfWALStream walStatus then set_end_of_wal_stream e walRestorer
            else io_return ()))))"

text \<open>Steps 1 to 4: the spool, the flag, the download.\<close>

definition restore_steps ::
  "lib \<Rightarrow> 'w ext \<Rightarrow> wal_service \<Rightarrow> cluster \<Rightarrow> restorer \<Rightarrow> barman_configuration \<Rightarrow> string list \<Rightarrow>
   string \<Rightarrow> string \<Rightarrow> bool \<Rightarrow> ('w, unit) eff" where
  "restore_steps L e s c walRestorer conf options walName destinationPath rewindMode =
     io_bind (io_map_error (\<lambda>err. Errorf ''while restoring a file from the spool directory: %w'' [] (Some err))
        (restore_from_spool e walRestorer walName destinationPath)) (\<lambda>wasInSpool.
     if wasInSpool then io_return ()
     else
       io_bind (io_lift (shouldUseEndOfWALStreamFlag L (Some c) (ws_InstanceName s) rewindMode)) (\<lambda>useFlag.
       io_seq (if useFlag then checkEndOfWALStreamFlag e walRestorer else io_return ())
         (download_wals e walRestorer conf options walName destinationPath rewindMode useFlag)))"

text \<open>What is done with the restorer; in rewind mode the flag is cleared first.\<close>

definition restore_wal ::
  "lib \<Rightarrow> 'w ext \<Rightarrow> wal_service \<Rightarrow> cluster \<Rightarrow> restorer \<Rightarrow> barman_configuration \<Rightarrow> string list \<Rightarrow>
   string \<Rightarrow> string \<Rightarrow> bool \<Rightarrow> ('w, unit) eff" where
  "restore_wal L e s c walRestorer conf options walName destinationPath rewindMode =
     io_seq (if rewindMode then clearEndOfWALStreamFlag e walRestorer else io_return ())
       (restore_steps L e s c walRestorer conf options walName destinationPath rewindMode)"

definition restoreFromBarmanObjectStore ::
  "lib \<Rightarrow> 'w ext \<Rightarrow> wal_service \<Rightarrow> cluster \<Rightarrow> object_store \<Rightarrow> string \<Rightarrow> string \<Rightarrow> string \<Rightarrow> bool \<Rightarrow> ('w, unit) eff" where
  "restoreFromBarmanObjectStore L e s c objectStore serverName walName destinationPath rewindMode =
     (let conf = os_Configuration objectStore; env = GetRestoreCABundleEnv conf in
      io_bind (io_map_error (\<lambda>err. Errorf ''while getting recover credentials: %w'' [] (Some err))
        (set_credentials e (os_Namespace objectStore) conf (environ e)
          (BuildCertificateFilePath (os_Name objectStore)))) (\<lambda>credentialsEnv.
      io_bind (io_map_error (\<lambda>err. Errorf ''while getting barman-cloud-wal-restore options: %w'' [] (Some err))
        (restore_options e conf serverName)) (\<lambda>options.
      io_bind (io_map_error (\<lambda>err. Errorf ''while creating the restorer: %w'' [] (Some err))
        (new_restorer e (MergeEnv env credentialsEnv) (ws_SpoolDirectory s))) (\<lambda>walRestorer.
      restore_wal L e s c walRestorer conf options walName destinationPath rewindMode))))"

definition Restore :: "lib \<Rightarrow> 'w ext \<Rightarrow> wal_service \<Rightarrow> wal_restore_request \<Rightarrow> ('w, unit) eff" where
  "Restore L e s request =
     io_bind (io_lift (NewFromClusterJSON L (wrr_ClusterDefinition request))) (\<lambda>configuration.
     let (serverName, objectStoreKey) = resolveRestoreObjectStore configuration (ws_InstanceName s) in
     io_bind (get_object_store e objectStoreKey) (\<lambda>objectStore.
       restoreFromBarmanObjectStore L e s (cfg_Cluster configuration) objectStore serverName
         (wrr_SourceWalName request) (wrr_DestinationFileName request) (wrr_Mode request = MODE_REWIND)))"

definition wal_Status :: "('w, unit) eff" where
  "wal_Status = io_fail (Panic ''implement me'')"

definition SetFirstRequired :: "('w, unit) eff" where
  "SetFirstRequired = io_fail (Panic ''implement me'')"

section \<open>The list of files to fetch\<close>

lemma maxWALFilesPerInvocation_pos [simp]: "1 \<le> maxWALFilesPerInvocation conf rewindMode"
  by (simp add: maxWALFilesPerInvocation_def split: option.split)

lemma maxWALFilesPerInvocation_rewind [simp]: "maxWALFilesPerInvocation conf True = 1"
  by (simp add: maxWALFilesPerInvocation_def)

lemma WalSegmentsPerFile_default: "WalSegmentsPerFile DefaultWALSegmentSize = Inr 255"
  by (simp add: WalSegmentsPerFile_def DefaultWALSegmentSize_def signed_divide_int_def)

lemma length_next_segments_loop [simp]: "length (next_segments_loop w skip n s) = n"
  by (induction n arbitrary: s) auto

lemma NextSegments_default:
  assumes "0 \<le> n"
  shows "NextSegments s n None None = Inr (next_segments_loop 255 False (nat n) s)"
  using assms by (simp add: NextSegments_def WalSegmentsPerFile_default)

lemma wal_files_to_restore_eq:
  assumes "1 \<le> n"
  shows "wal_files_to_restore walName n = Inr (case SegmentFromName walName of
     Inl _ \<Rightarrow> [walName] | Inr s \<Rightarrow> map Name (next_segments_loop 255 False (nat n) s))"
proof (cases "SegmentFromName walName")
  case (Inl err)
  then show ?thesis by (simp add: wal_files_to_restore_def gatherWALFilesToRestore_def)
next
  case (Inr s)
  then have "IsWALFile walName"
    by (auto simp: SegmentFromName_eq IsWALFile_iff Let_def split: if_splits prod.splits)
  with Inr assms show ?thesis
    by (simp add: wal_files_to_restore_def gatherWALFilesToRestore_def NextSegments_default)
qed

lemma position_256_seg_nonneg:
  assumes "seg_nonneg s" "Tli t = Tli s" "position 256 t = position 256 s + int i" "0 \<le> sint (Seg t)" "sint (Seg t) < 256"
  shows "seg_nonneg t"
  using assms by (auto simp: seg_nonneg_def position_def)

lemma next_segments_256:
  assumes "SegmentFromName walName = Inr s" "sint (Seg s) < 256" "sint (Log s) + int n < 2 ^ 31" "i < n"
  shows "\<exists>t. SegmentFromName (Name (next_segments_loop 255 False n s ! i)) = Inr t \<and> Tli t = Tli s \<and>
    position 256 t = position 256 s + int i"
proof -
  let ?t = "next_segments_loop 255 False n s ! i"
  have nn: "seg_nonneg s" by (rule Name_of_SegmentFromName(1) [OF assms(1)])
  have "Tli ?t = Tli s \<and> position 256 ?t = position 256 s + int i \<and> 0 \<le> sint (Seg ?t) \<and> sint (Seg ?t) < 256"
    using next_segments_loop_spec [of 255 256 False s n] assms nn by (auto simp: seg_nonneg_def Let_def)
  moreover from this have "seg_nonneg ?t" using position_256_seg_nonneg [OF nn] by blast
  ultimately show ?thesis using SegmentFromName_of_Name Name_hex(2) by blast
qed

lemma wal_files_to_restore_ok:
  "\<exists>l. wal_files_to_restore walName (maxWALFilesPerInvocation conf rw) = Inr l"
  by (simp add: wal_files_to_restore_eq)

lemma wal_files_nonempty:
  "\<exists>l. wal_files_to_restore walName (maxWALFilesPerInvocation conf rw) = Inr l \<and> l \<noteq> []"
proof -
  obtain m where "nat (maxWALFilesPerInvocation conf rw) = Suc m"
    using maxWALFilesPerInvocation_pos [of conf rw]
    by (metis One_nat_def Suc_le_D nat_mono nat_one_as_int nat_1)
  then show ?thesis by (simp add: wal_files_to_restore_eq split: sum.split)
qed





section \<open>The order of archiving\<close>

abbreviation is_Archive_List where
  "is_Archive_List c \<equiv> \<exists>wals. c = Barman (Archive_List wals)"

definition before_archiving :: "call \<Rightarrow> bool" where
  "before_archiving c \<longleftrightarrow> \<not> is_Archive_List c \<and> (\<forall>wal. c \<noteq> Barman (Delete_From_Spool wal))"

lemma only_calls_resolve_check:
  "only_calls before_archiving (resolveArchiveEmptyWalArchiveCheck L e d c f)"
  unfolding resolveArchiveEmptyWalArchiveCheck_def
  by (intro calls_rules) (simp_all add: before_archiving_def)

lemma only_calls_check_destination:
  "only_calls before_archiving (CheckBackupDestination e conf arch srv)"
  unfolding CheckBackupDestination_def by (intro calls_rules) (simp_all add: before_archiving_def)

lemma first_archive_error_None: "first_archive_error rs = None \<longleftrightarrow> list_all (\<lambda>r. r = None) rs"
  by (induction rs rule: first_archive_error.induct) auto

lemma archive_wals_run:
  assumes "archive_wals L e s request arch conf serverName w = (Inr x, cs, w')"
  shows "x = Some () \<and> (\<exists>ready opts w0. cs = [Barman (Archive_Options serverName),
      Barman (Gather_Ready (archive_max_parallel conf - 1) [path_Base (war_SourceFileName request)]),
      Barman (Archive_List (ReadyItemsToSlice L (war_SourceFileName request # ready)))] \<and>
    list_all (\<lambda>r. r = None)
      (fst (b_archive_list e arch (ReadyItemsToSlice L (war_SourceFileName request # ready)) opts w0)))"
  using assms
  by (auto simp: archive_wals_def Let_def io_simps first_archive_error_None [symmetric]
      split: prod.splits sum.splits option.splits) (metis fst_conv)+


lemma Archive_success:
  assumes "Archive L e s request w = (Inr x, cs, w')"
  shows "\<exists>cfg store arch cs1 cs2 w1. NewFromClusterJSON L (war_ClusterDefinition request) = Inr cfg \<and>
    (\<forall>c \<in> set cs1. before_archiving c) \<and>
    cs = cs1 @ Barman (Delete_From_Spool (path_Base (war_SourceFileName request))) # cs2 \<and>
    (if x = None then cs2 = []
     else archive_wals L e s request arch (os_Configuration store) (cfg_ServerName cfg) w1 = (Inr x, cs2, w'))"
proof -
  let ?base = "path_Base (war_SourceFileName request)"
  from assms obtain cfg where cfg: "NewFromClusterJSON L (war_ClusterDefinition request) = Inr cfg"
    by (auto simp: Archive_def Let_def io_simps split: sum.splits)
  note assms [unfolded Archive_def Let_def cfg]
  then obtain store cs1 w1 env cs2 w2 arch cs3 w3 chk cs4 w4 u cs5 w5 cs6 del w6 cs7 where
    1: "get_object_store e (GetBarmanObjectKey cfg) w = (Inr store, cs1, w1)"
    and 2: "io_map_error (\<lambda>err. if IsForbidden err then ErrMissingPermissions else err)
        (set_credentials e (os_Namespace store) (os_Configuration store) (environ e)
          (BuildCertificateFilePath (os_Name store))) w1 = (Inr env, cs2, w2)"
    and 3: "new_archiver e env (ws_SpoolDirectory s) (ws_PGDataPath s)
        (path_Join [ws_PGDataPath s, CheckEmptyWalArchiveFile]) w2 = (Inr arch, cs3, w3)"
    and 4: "resolveArchiveEmptyWalArchiveCheck L e (war_CheckEmptyWalArchive request) (cfg_Cluster cfg)
        (path_Join [ws_PGDataPath s, CheckEmptyWalArchiveFile]) w3 = (Inr chk, cs4, w4)"
    and 5: "(if chk then CheckBackupDestination e (os_Configuration store) arch (cfg_ServerName cfg)
        else io_return ()) w4 = (Inr (u :: unit), cs5, w5)"
    and 6: "io_map_error (SpoolManagementError ?base) (delete_from_spool e arch ?base) w5 = (Inr del, cs6, w6)"
    and 7: "(if del then io_return None
        else archive_wals L e s request arch (os_Configuration store) (cfg_ServerName cfg)) w6 = (Inr x, cs7, w')"
    and cs: "cs = cs1 @ cs2 @ cs3 @ cs4 @ cs5 @ cs6 @ cs7"
    unfolding io_seq_def io_apply(3) by (auto elim!: io_bind_InrE simp: io_apply(3))
  have a: "\<forall>c \<in> set (cs1 @ cs2 @ cs3). before_archiving c"
    using 1 2 3 by (auto simp: io_simps before_archiving_def split: prod.splits sum.splits)
  have b: "\<forall>c \<in> set cs4. before_archiving c"
    by (rule only_calls_run [OF only_calls_resolve_check 4])
  have c: "\<forall>c \<in> set cs5. before_archiving c"
    using only_calls_run [OF only_calls_check_destination] 5 by (cases chk) (simp_all add: io_simps)
  have d: "cs6 = [Barman (Delete_From_Spool ?base)]"
    using 6 by (auto simp: io_simps split: prod.splits sum.splits)
  have e: "del \<Longrightarrow> x = None \<and> cs7 = []" "\<not> del \<Longrightarrow> x = Some ()"
    "\<not> del \<Longrightarrow> archive_wals L e s request arch (os_Configuration store) (cfg_ServerName cfg) w6 = (Inr x, cs7, w')"
    using 7 archive_wals_run [of L e s request arch "os_Configuration store" "cfg_ServerName cfg" w6 x cs7 w']
    by (auto simp: io_simps)
  have "cs = (cs1 @ cs2 @ cs3 @ cs4 @ cs5) @ Barman (Delete_From_Spool ?base) # cs7"
    "\<forall>c \<in> set (cs1 @ cs2 @ cs3 @ cs4 @ cs5). before_archiving c"
    using a b c d cs by auto
  with e cfg show ?thesis
    by (intro exI [of _ cfg] exI [of _ store] exI [of _ arch] exI [of _ "cs1 @ cs2 @ cs3 @ cs4 @ cs5"]
        exI [of _ cs7] exI [of _ w6]) (cases del; simp)
qed


definition flag_lib :: lib where
  "flag_lib = sample_lib\<lparr>DecodeCluster := (\<lambda>j. Inr sample_cluster)\<rparr>"

definition standby :: wal_service where
  "standby = \<lparr>ws_InstanceName = ''pg-2'', ws_SpoolDirectory = ''/spool'', ws_PGDataPath = ''/data'',
     ws_PGWALPath = ''/data/pg_wal''\<rparr>"

text \<open>A world where everything an archive request needs works; the spool is empty.\<close>

definition archive_ext :: "unit ext" where
  "archive_ext = sample_ext\<lparr>k_get_object_store := (\<lambda>k w. (Inr (sample_store ''store''), w)),
     b_set_credentials := (\<lambda>n c v p w. (Inr [], w)), b_check_wal_options := (\<lambda>a c n w. (Inr [], w)),
     b_check_wal_destination := (\<lambda>a opts w. (Inr (), w)), b_delete_from_spool := (\<lambda>a n w. (Inr False, w)),
     b_archive_options := (\<lambda>a c n w. (Inr [], w)), b_gather_ready := (\<lambda>n skip d w. ([''B''], w)),
     b_archive_list := (\<lambda>a ws opts w. (map (\<lambda>_. None) ws, w))\<rparr>"

definition archive_request :: "bool option \<Rightarrow> wal_archive_request" where
  "archive_request d = \<lparr>war_ClusterDefinition = '''', war_SourceFileName = ''pg_wal/A'', war_CheckEmptyWalArchive = d\<rparr>"





end
