(* ===== verification/Wal_Restore_Protocol.thy ===== *)
theory Wal_Restore_Protocol
  imports Wal_Service
begin

text \<open>
  What a sequence of restore requests does, seen from PostgreSQL: downloads and their failures,
  requests made for \<open>pg_rewind\<close>, and the end-of-stream flag as a state machine that every
  request refines.
\<close>

text \<open>A world that is the flag alone, an archive that has the first file of every request only.\<close>

definition flag_ext :: "bool ext" where
  "flag_ext = sample_ext\<lparr>
     k_get_object_store := (\<lambda>k w. (Inr ((sample_store ''store'')
       \<lparr>os_Spec := \<lparr>oss_Configuration = sample_configuration\<lparr>bc_Wal := Some 2\<rparr>, oss_RetentionPolicy = '''',
         oss_InstanceSidecarConfiguration = os_Sidecar (sample_store ''store'')\<rparr>\<rparr>), w)),
     b_set_credentials := (\<lambda>n c v p w. (Inr [], w)), b_restore_options := (\<lambda>c n w. (Inr [], w)),
     b_is_end_of_wal_stream := (\<lambda>r w. (Inr w, w)), b_reset_end_of_wal_stream := (\<lambda>r w. (Inr (), False)),
     b_set_end_of_wal_stream := (\<lambda>r w. (Inr (), True)), b_restore_from_spool := (\<lambda>r n d w. (Inr False, w)),
     b_restore_list := (\<lambda>r ns d opts w. (case ns of [] \<Rightarrow> [] | n # ms \<Rightarrow> \<lparr>wr_WalName = n, wr_Err = None\<rparr> #
       map (\<lambda>m. \<lparr>wr_WalName = m, wr_Err = Some (Sentinel ErrWALNotFound)\<rparr>) ms, w))\<rparr>"

definition wal_request :: "restore_mode \<Rightarrow> wal_restore_request" where
  "wal_request m = \<lparr>wrr_ClusterDefinition = '''', wrr_SourceWalName = ''000000010000000000000001'',
     wrr_DestinationFileName = ''pg_wal/RECOVERYXLOG'', wrr_Mode = m\<rparr>"

section \<open>Failed downloads\<close>

text \<open>What the restorer documents: one result per file, in the order of the files.\<close>

definition restore_list_law :: "'w ext \<Rightarrow> bool" where
  "restore_list_law e \<longleftrightarrow> (\<forall>r ns d opts w.
     map wr_WalName (fst (b_restore_list e r ns d opts w)) = ns)"

text \<open>
  C28. Downloads. There is always at least one file to fetch, so the first result always exists.
  When it is an error, that error becomes a gRPC status naming the first file, whose code tells
  a missing file, a malformed name, a failure worth retrying and anything else apart (a missing
  file taking precedence whatever the error wraps), never the end-of-stream code, and the flag
  is left alone; otherwise the request succeeds, up to raising the flag.
\<close>

theorem download_outcome:
  assumes "restore_list_law e" "download_wals e r conf opts n d rw use w = (res, cs, w')"
  shows "\<exists>first others st. b_restore_list e r (first # others) d opts w = (fst st, snd st) \<and>
    cs ! 0 = Barman (Restore_List (first # others) d) \<and>
    (case wr_Err (hd (fst st)) of
       Some err \<Rightarrow> cs = [Barman (Restore_List (first # others) d)] \<and>
         (\<exists>code msg cause. res = Inl (Grpc_Status code msg [first] cause) \<and>
           (code = GNotFound \<longleftrightarrow> errors_Is err ErrWALNotFound) \<and>
           (code = GInvalidArgument \<longleftrightarrow> errors_Is err ErrInvalidWALName \<and> \<not> errors_Is err ErrWALNotFound) \<and>
           (code = GUnavailable \<longleftrightarrow> (errors_Is err ErrConnectivity \<or> errors_Is err ErrGeneric) \<and>
              \<not> errors_Is err ErrWALNotFound \<and> \<not> errors_Is err ErrInvalidWALName) \<and>
           code \<in> {GNotFound, GInvalidArgument, GUnavailable, GInternal})
     | None \<Rightarrow> if use \<and> isEndOfWALStream (fst st)
         then cs ! 1 = Barman Set_End_Of_Wal_Stream \<and> res = fst (b_set_end_of_wal_stream e r (snd st))
         else res = Inr ())"
proof -
  obtain l where l: "wal_files_to_restore n (maxWALFilesPerInvocation conf rw) = Inr l" "l \<noteq> []"
    using wal_files_nonempty by blast
  then obtain f fs where f: "l = f # fs" by (cases l) auto
  obtain st w1 where b: "b_restore_list e r l d opts w = (st, w1)" by fastforce
  then have "map wr_WalName st = l" using assms(1) unfolding restore_list_law_def by (metis fst_conv)
  then obtain x xs where st: "st = x # xs" "wr_WalName x = f" using f by (cases st) auto
  show ?thesis
    using assms(2) b st l(1) f unfolding download_wals_def Let_def
    by (intro exI [of _ f] exI [of _ fs] exI [of _ "(st, w1)"])
      (auto simp: io_simps classifyWALRestoreError_def newWALNotFoundError_def newInvalidWALNameError_def
        newUnavailableError_def newInternalWALRestoreError_def split: option.splits prod.splits if_splits)
qed

theorem download_outcome_witness:
  "io_result (download_wals flag_ext (Restorer [] ''/spool'') sample_configuration []
     ''history.bogus'' ''dst'' False True) True = Inr () \<and>
   (\<exists>msg cause. io_result (download_wals (flag_ext\<lparr>b_restore_list := (\<lambda>r ns d opts w.
       (map (\<lambda>m. \<lparr>wr_WalName = m, wr_Err = Some (Sentinel ErrConnectivity)\<rparr>) ns, w))\<rparr>)
     (Restorer [] ''/spool'') sample_configuration [] ''history.bogus'' ''dst'' False True) True =
     Inl (Grpc_Status GUnavailable msg [''history.bogus''] cause))"
  (is "io_result ?m1 True = _ \<and> (\<exists>msg cause. io_result ?m2 True = _ msg cause)")
proof -
  let ?e = "flag_ext\<lparr>b_restore_list := (\<lambda>r ns d opts w.
       (map (\<lambda>m. \<lparr>wr_WalName = m, wr_Err = Some (Sentinel ErrConnectivity)\<rparr>) ns, w))\<rparr>"
  have law: "restore_list_law ?e" by (simp add: restore_list_law_def flag_ext_def comp_def)
  have one: "io_result ?m1 True = Inr ()" by code_simp
  have two: "io_calls ?m2 True = [Barman (Restore_List [''history.bogus''] ''dst'')]" by code_simp
  obtain res cs w' where r: "?m2 True = (res, cs, w')" by (metis surj_pair)
  from download_outcome [OF law r] io_eqD [of ?m2 True, OF r] one two show ?thesis
    by (auto simp: flag_ext_def)
qed

section \<open>Restoring for \<open>pg_rewind\<close>\<close>

lemma wal_files_rewind:
  assumes "wal_files_to_restore walName 1 = Inr l"
  shows "length l = 1"
  using assms by (auto simp: wal_files_to_restore_eq split: sum.splits)

lemma only_calls_check_flag:
  "(\<And>c. c \<in> {Barman Is_End_Of_Wal_Stream, Barman Reset_End_Of_Wal_Stream} \<Longrightarrow> P c) \<Longrightarrow>
   only_calls P (checkEndOfWALStreamFlag e r)"
  "(\<And>c. c \<in> {Barman Is_End_Of_Wal_Stream, Barman Reset_End_Of_Wal_Stream} \<Longrightarrow> P c) \<Longrightarrow>
   only_calls P (clearEndOfWALStreamFlag e r)"
  unfolding checkEndOfWALStreamFlag_def clearEndOfWALStreamFlag_def by (intro calls_rules; simp)+

definition rewind_call :: "call \<Rightarrow> bool" where
  "rewind_call c \<longleftrightarrow> c \<noteq> Barman Set_End_Of_Wal_Stream \<and> (\<forall>ws d. c = Barman (Restore_List ws d) \<longrightarrow> length ws = 1)"

lemma only_calls_download_rewind: "only_calls rewind_call (download_wals e r conf opts n d True False)"
  unfolding download_wals_def Let_def maxWALFilesPerInvocation_rewind
  by (intro only_calls_lift_bind only_calls_bind only_calls_call)
    (auto simp: rewind_call_def wal_files_rewind only_calls_fail only_calls_return split: list.split option.split)

text \<open>
  Restoring on behalf of \<open>pg_rewind\<close>. A request in rewind mode looks at the flag before it
  touches the spool or the archive, fetches a single file, and never raises the flag.
\<close>

theorem Restore_rewind:
  assumes "wrr_Mode request = MODE_REWIND"
  shows "(\<forall>c \<in> set (io_calls (Restore L e s request) w). rewind_call c) \<and>
    guarded (\<lambda>c. c = Barman Is_End_Of_Wal_Stream)
      (\<lambda>c. \<exists>n ns d. c = Barman (Restore_From_Spool n d) \<or> c = Barman (Restore_List ns d))
      (io_calls (Restore L e s request) w)"
proof
  have "only_calls rewind_call (Restore L e s request)"
    unfolding Restore_def restoreFromBarmanObjectStore_def Let_def assms restore_wal_def restore_steps_def
      shouldUseEndOfWALStreamFlag_def if_True prod.case_eq_if
    by (intro calls_rules only_calls_lift_bind only_calls_check_flag)
      (auto simp: rewind_call_def only_calls_download_rewind intro: calls_rules)
  then show "\<forall>c \<in> set (io_calls (Restore L e s request) w). rewind_call c" by (simp add: only_calls_def)
next
  let ?P = "\<lambda>c. c = Barman Is_End_Of_Wal_Stream"
  let ?Q = "\<lambda>c. \<exists>n ns d. c = Barman (Restore_From_Spool n d) \<or> c = Barman (Restore_List ns d)"
  have clear: "guarded_io ?P ?Q (io_seq (clearEndOfWALStreamFlag e r) n)" for r n
    by (intro guarded_io_seq_makes guarded_io_no_Q only_calls_check_flag)
      (auto simp: clearEndOfWALStreamFlag_def intro: makes_bind_left makes_call)
  have "guarded_io ?P ?Q (Restore L e s request)"
    unfolding Restore_def restoreFromBarmanObjectStore_def Let_def assms restore_wal_def if_True prod.case_eq_if
    by (intro guard_rules clear) (simp_all add: clear)
  then show "guarded ?P ?Q (io_calls (Restore L e s request) w)" by (rule guarded_ioD)
qed

theorem Restore_rewind_witness:
  "rewind_call (Barman (Restore_List [''000000010000000000000001''] ''pg_wal/RECOVERYXLOG'')) \<and>
   Barman (Restore_List [''000000010000000000000001''] ''pg_wal/RECOVERYXLOG'') \<in>
     set (io_calls (Restore flag_lib flag_ext standby (wal_request MODE_REWIND)) True)"
proof -
  have "list_ex (\<lambda>c. c = Barman (Restore_List [''000000010000000000000001''] ''pg_wal/RECOVERYXLOG''))
      (io_calls (Restore flag_lib flag_ext standby (wal_request MODE_REWIND)) True)" by code_simp
  then show ?thesis
    using Restore_rewind [of "wal_request MODE_REWIND" flag_lib flag_ext standby True]
    by (simp add: list_ex_iff wal_request_def)
qed

section \<open>The end-of-stream flag\<close>

text \<open>
  What the restorer documents about its flag: \<open>IsEndOfWALStream\<close> reads it, \<open>Reset\<close> clears it,
  \<open>Set\<close> raises it, and nothing else a restore request calls changes it. \<open>flag\<close> is the flag in a
  world.
\<close>

definition flag_law :: "'w ext \<Rightarrow> ('w \<Rightarrow> bool) \<Rightarrow> bool" where
  "flag_law e flag \<longleftrightarrow> (\<forall>r w. b_is_end_of_wal_stream e r w = (Inr (flag w), w)) \<and>
     (\<forall>r w. fst (b_reset_end_of_wal_stream e r w) = Inr () \<and> \<not> flag (snd (b_reset_end_of_wal_stream e r w))) \<and>
     (\<forall>r w. fst (b_set_end_of_wal_stream e r w) = Inr () \<and> flag (snd (b_set_end_of_wal_stream e r w))) \<and>
     (\<forall>k w. flag (snd (k_get_object_store e k w)) = flag w) \<and>
     (\<forall>n c v p w. flag (snd (b_set_credentials e n c v p w)) = flag w) \<and>
     (\<forall>c n w. flag (snd (b_restore_options e c n w)) = flag w) \<and>
     (\<forall>v d w. flag (snd (b_new_restorer e v d w)) = flag w) \<and>
     (\<forall>r n d w. flag (snd (b_restore_from_spool e r n d w)) = flag w) \<and>
     (\<forall>r ns d opts w. flag (snd (b_restore_list e r ns d opts w)) = flag w)"

text \<open>What PostgreSQL sees of a request, and the steps the flag can take.\<close>

datatype restore_outcome = No_Download | Stopped | Downloaded bool

fun is_download :: "call \<Rightarrow> bool" where
  "is_download (Barman (Restore_List _ _)) = True"
| "is_download _ = False"

definition observe :: "go_error + unit \<Rightarrow> call list \<Rightarrow> restore_outcome" where
  "observe r cs =
     (if list_ex is_download cs
      then Downloaded (r = Inr () \<and> Barman Set_End_Of_Wal_Stream \<in> set cs)
      else if r = Inl ErrEndOfWALStreamReached \<and> Barman Reset_End_Of_Wal_Stream \<in> set cs then Stopped
      else No_Download)"

lemma is_download_iff: "is_download c \<longleftrightarrow> (\<exists>ws d. c = Barman (Restore_List ws d))"
  by (cases c rule: is_download.cases) auto

lemma observe_eq:
  "observe r cs =
     (if \<exists>ws d. Barman (Restore_List ws d) \<in> set cs
      then Downloaded (r = Inr () \<and> Barman Set_End_Of_Wal_Stream \<in> set cs)
      else if r = Inl ErrEndOfWALStreamReached \<and> Barman Reset_End_Of_Wal_Stream \<in> set cs then Stopped
      else No_Download)"
  by (auto simp: observe_def list_ex_iff is_download_iff)

inductive flag_step :: "bool \<Rightarrow> bool \<Rightarrow> restore_outcome \<Rightarrow> bool \<Rightarrow> bool" where
  idle: "flag_step use f No_Download f"
| clear: "flag_step False f No_Download False"
| stop: "flag_step True True Stopped False"
| reach_end: "flag_step True False (Downloaded True) True"
| download: "\<not> (use \<and> f) \<Longrightarrow> flag_step use f (Downloaded False) f"
| clear_download: "flag_step False f (Downloaded False) False"

inductive_cases flag_step_StoppedE: "flag_step use f Stopped f'"
inductive_simps flag_step_simps: "flag_step use f No_Download f'" "flag_step use f Stopped f'"
  "flag_step use f (Downloaded b) f'"

lemma flag_lawD:
  assumes "flag_law e flag"
  shows "b_is_end_of_wal_stream e r w = (Inr (flag w), w)"
    "b_reset_end_of_wal_stream e r w = (x, w1) \<Longrightarrow> x = Inr () \<and> \<not> flag w1"
    "b_set_end_of_wal_stream e r w = (x, w1) \<Longrightarrow> x = Inr () \<and> flag w1"
    "flag (snd (k_get_object_store e k w)) = flag w"
    "flag (snd (b_set_credentials e n c v p w)) = flag w"
    "flag (snd (b_restore_options e c d w)) = flag w"
    "flag (snd (b_new_restorer e v d w)) = flag w"
    "flag (snd (b_restore_from_spool e r n d w)) = flag w"
    "b_restore_list e r ns d opts w = (st, w1) \<Longrightarrow> flag w1 = flag w"
  using assms unfolding flag_law_def by (metis fst_conv snd_conv)+

lemma download_wals_flag:
  assumes F: "flag_law e flag"
    and run: "download_wals e r conf opts n d rw use w = (res, cs, w')" and f: "\<not> (use \<and> flag w)"
  shows "\<exists>ws st. cs = Barman (Restore_List ws d) # st \<and> st \<in> {[], [Barman Set_End_Of_Wal_Stream]}"
    "flag_step use (flag w) (observe res cs) (flag w')"
proof -
  obtain l where l: "wal_files_to_restore n (maxWALFilesPerInvocation conf rw) = Inr l"
    using wal_files_to_restore_ok by blast
  obtain st w1 where b: "b_restore_list e r l d opts w = (st, w1)" by fastforce
  then have w1: "flag w1 = flag w" by (rule flag_lawD(9) [OF F])
  obtain x w2 where s: "b_set_end_of_wal_stream e r w1 = (x, w2)" by fastforce
  then have w2: "x = Inr ()" "flag w2" using flag_lawD(3) [OF F] by blast+
  have runs: "(res \<noteq> Inr () \<and> cs = [Barman (Restore_List l d)] \<and> w' = w1) \<or>
      (use \<and> res = Inr () \<and> cs = [Barman (Restore_List l d), Barman Set_End_Of_Wal_Stream] \<and> w' = w2) \<or>
      (res = Inr () \<and> cs = [Barman (Restore_List l d)] \<and> w' = w1)"
    using run s w2(1) unfolding download_wals_def Let_def l
    by (auto simp: io_simps b split: list.splits option.splits if_splits)
  then consider
      "cs = [Barman (Restore_List l d)]" "observe res cs = Downloaded False" "w' = w1"
    | "use" "cs = [Barman (Restore_List l d), Barman Set_End_Of_Wal_Stream]" "observe res cs = Downloaded True" "w' = w2"
    by (auto simp: observe_eq)
  then show "flag_step use (flag w) (observe res cs) (flag w')"
  proof cases
    case 1
    show ?thesis unfolding 1(2,3) w1 using f by (simp add: flag_step_simps)
  next
    case 2
    show ?thesis unfolding 2(3,4) using f 2(1) w2 by (simp add: flag_step_simps)
  qed
  show "\<exists>ws st. cs = Barman (Restore_List ws d) # st \<and> st \<in> {[], [Barman Set_End_Of_Wal_Stream]}"
    using runs by auto
qed

lemma observe_append:
  assumes "\<And>ws d. Barman (Restore_List ws d) \<notin> set cs0" "Barman Set_End_Of_Wal_Stream \<notin> set cs0"
    "Barman Reset_End_Of_Wal_Stream \<notin> set cs0 \<or> (\<exists>ws d. Barman (Restore_List ws d) \<in> set cs)"
  shows "observe res (cs0 @ cs) = observe res cs"
  using assms by (auto simp: observe_eq)

lemma observe_quiet:
  assumes "\<And>ws d. Barman (Restore_List ws d) \<notin> set cs"
    "Barman Reset_End_Of_Wal_Stream \<notin> set cs \<or> res \<noteq> Inl ErrEndOfWALStreamReached"
  shows "observe res cs = No_Download"
  using assms by (auto simp: observe_eq)

lemma clear_flag_run:
  assumes "flag_law e flag"
  obtains cs w1 where "clearEndOfWALStreamFlag e r w = (Inr (), cs, w1)" "\<not> flag w1"
    "set cs \<subseteq> {Barman Is_End_Of_Wal_Stream, Barman Reset_End_Of_Wal_Stream}"
proof -
  obtain x w1 where "b_reset_end_of_wal_stream e r w = (x, w1)" by fastforce
  moreover from this have "x = Inr ()" "\<not> flag w1" using flag_lawD(2) [OF assms] by blast+
  ultimately show ?thesis
    by (intro that [of "fst (snd (clearEndOfWALStreamFlag e r w))" "snd (snd (clearEndOfWALStreamFlag e r w))"])
      (auto simp: clearEndOfWALStreamFlag_def io_simps flag_lawD(1) [OF assms])
qed

lemma check_flag_run:
  assumes "flag_law e flag"
  obtains (stop) w1 where "flag w" "\<not> flag w1" "checkEndOfWALStreamFlag e r w =
      (Inl ErrEndOfWALStreamReached, [Barman Is_End_Of_Wal_Stream, Barman Reset_End_Of_Wal_Stream], w1)"
  | (continue) "\<not> flag w" "checkEndOfWALStreamFlag e r w = (Inr (), [Barman Is_End_Of_Wal_Stream], w)"
proof (cases "flag w")
  case True
  obtain x w1 where "b_reset_end_of_wal_stream e r w = (x, w1)" by fastforce
  moreover from this have "x = Inr ()" "\<not> flag w1" using flag_lawD(2) [OF assms] by blast+
  ultimately show ?thesis using True
    by (intro stop [of w1]) (simp_all add: checkEndOfWALStreamFlag_def io_simps flag_lawD(1) [OF assms])
next
  case False
  then show ?thesis
    by (intro continue) (simp_all add: checkEndOfWALStreamFlag_def io_simps flag_lawD(1) [OF assms])
qed

lemma shouldUse_no_end [simp]: "shouldUseEndOfWALStreamFlag L cp n rw \<noteq> Inl ErrEndOfWALStreamReached"
  by (auto simp: shouldUseEndOfWALStreamFlag_def isStreamingAvailable_def ErrEndOfWALStreamReached_def
      split: option.splits if_splits)

text \<open>Steps 1 to 4 of a request that is not made for \<open>pg_rewind\<close>, or once the flag is cleared.\<close>

lemma restore_steps_flag:
  assumes F: "flag_law e flag"
    and u: "u = shouldUseEndOfWALStreamFlag L (Some c) (ws_InstanceName s) rw"
    and run: "restore_steps L e s c r conf opts n d rw w = (res, cs, w')"
  shows "flag_step (u = Inr True) (flag w) (observe res cs) (flag w')"
    "u = Inr True \<or> Barman Set_End_Of_Wal_Stream \<notin> set cs \<and> Barman Reset_End_Of_Wal_Stream \<notin> set cs \<and>
      (res = Inl ErrEndOfWALStreamReached \<longrightarrow> (\<exists>ws d. Barman (Restore_List ws d) \<in> set cs))"
proof -
  obtain x w1 where rs: "b_restore_from_spool e r n d w = (x, w1)" by fastforce
  have w1: "flag w1 = flag w" using rs flag_lawD(8) [OF F] by (metis snd_conv)
  let ?S = "Barman (Restore_From_Spool n d)"
  note run' = run [unfolded restore_steps_def, folded u]
  have nu: "u \<noteq> Inl ErrEndOfWALStreamReached" using u by simp
  have "flag_step (u = Inr True) (flag w) (observe res cs) (flag w') \<and>
    (u = Inr True \<or> Barman Set_End_Of_Wal_Stream \<notin> set cs \<and> Barman Reset_End_Of_Wal_Stream \<notin> set cs \<and>
      (res = Inl ErrEndOfWALStreamReached \<longrightarrow> (\<exists>ws d. Barman (Restore_List ws d) \<in> set cs)))"
  proof (cases "x = Inr False \<and> (\<exists>b. u = Inr b)")
    case False
    then have "cs = [?S] \<and> w' = w1 \<and> res \<noteq> Inl ErrEndOfWALStreamReached"
      using run' rs nu by (cases x; cases u) (auto simp: io_simps ErrEndOfWALStreamReached_def split: if_splits)
    then show ?thesis using w1 by (simp add: observe_eq flag_step.idle)
  next
    case True
    then obtain b where b: "x = Inr False" "u = Inr b" by blast
    obtain res1 cs1 w2 where tail: "io_seq (if b then checkEndOfWALStreamFlag e r else io_return ())
        (download_wals e r conf opts n d rw b) w1 = (res1, cs1, w2)"
      by (metis surj_pair)
    have r: "res = res1" "cs = [?S] @ cs1" "w' = w2"
      using run' rs b tail by (auto simp: io_simps split: prod.splits)
    have obs: "observe res cs = observe res1 cs1" unfolding r(1,2) by (rule observe_append) auto
    show ?thesis
    proof (cases b)
      case False
      then have dl: "download_wals e r conf opts n d rw False w1 = (res1, cs1, w2)"
        using tail by (simp add: io_seq_def io_bind_return_left)
      note D = download_wals_flag [OF F dl]
      have "Barman Set_End_Of_Wal_Stream \<notin> set cs1" using dl
        by (auto simp: download_wals_def Let_def io_simps split: prod.splits sum.splits list.splits option.splits)
      then show ?thesis using D b False obs w1 r by auto
    next
      case True
      show ?thesis
      proof (rule check_flag_run [OF F, of w1 r])
        fix w3 assume stop: "flag w1" "\<not> flag w3" "checkEndOfWALStreamFlag e r w1 =
          (Inl ErrEndOfWALStreamReached, [Barman Is_End_Of_Wal_Stream, Barman Reset_End_Of_Wal_Stream], w3)"
        then have "res1 = Inl ErrEndOfWALStreamReached" "w2 = w3"
          "cs1 = [Barman Is_End_Of_Wal_Stream, Barman Reset_End_Of_Wal_Stream]"
          using tail True by (auto simp: io_simps)
        then show ?thesis using stop obs b True w1 r by (simp add: observe_eq flag_step_simps)
      next
        assume continue: "\<not> flag w1"
          "checkEndOfWALStreamFlag e r w1 = (Inr (), [Barman Is_End_Of_Wal_Stream], w1)"
        then obtain cs2 where dl: "download_wals e r conf opts n d rw True w1 = (res1, cs2, w2)"
          and cs1: "cs1 = [Barman Is_End_Of_Wal_Stream] @ cs2"
          using tail True by (auto simp: io_simps split: prod.splits)
        have "observe res cs = observe res1 cs2" unfolding obs cs1 by (rule observe_append) auto
        moreover have "flag_step True (flag w1) (observe res1 cs2) (flag w2)"
          by (rule download_wals_flag [OF F dl]) (use continue in simp)
        ultimately show ?thesis using b True w1 r by simp
      qed
    qed
  qed
  then show "flag_step (u = Inr True) (flag w) (observe res cs) (flag w')"
    "u = Inr True \<or> Barman Set_End_Of_Wal_Stream \<notin> set cs \<and> Barman Reset_End_Of_Wal_Stream \<notin> set cs \<and>
      (res = Inl ErrEndOfWALStreamReached \<longrightarrow> (\<exists>ws d. Barman (Restore_List ws d) \<in> set cs))"
    by blast+
qed

lemma restore_wal_flag:
  assumes F: "flag_law e flag"
    and run: "restore_wal L e s c r conf opts n d rw w = (res, cs, w')"
  shows "flag_step (shouldUseEndOfWALStreamFlag L (Some c) (ws_InstanceName s) rw = Inr True) (flag w)
    (observe res cs) (flag w')"
proof (cases rw)
  case False
  then have "restore_steps L e s c r conf opts n d rw w = (res, cs, w')"
    using run by (simp add: restore_wal_def io_seq_def io_bind_return_left)
  from restore_steps_flag(1) [OF F refl this] show ?thesis .
next
  case True
  then have u: "shouldUseEndOfWALStreamFlag L (Some c) (ws_InstanceName s) rw = Inr False"
    by (simp add: shouldUseEndOfWALStreamFlag_def)
  obtain cs0 w1 where c: "clearEndOfWALStreamFlag e r w = (Inr (), cs0, w1)" "\<not> flag w1"
    and cs0: "set cs0 \<subseteq> {Barman Is_End_Of_Wal_Stream, Barman Reset_End_Of_Wal_Stream}"
    by (rule clear_flag_run [OF F])
  obtain res1 cs1 w2 where steps: "restore_steps L e s c r conf opts n d rw w1 = (res1, cs1, w2)"
    by (metis surj_pair)
  have eq: "res = res1" "cs = cs0 @ cs1" "w' = w2"
    using run steps c(1) True by (simp_all add: restore_wal_def io_seq_def io_bind_run(1))
  have S: "flag_step False False (observe res1 cs1) (flag w')"
    "Barman Set_End_Of_Wal_Stream \<notin> set cs1 \<and> Barman Reset_End_Of_Wal_Stream \<notin> set cs1 \<and>
      (res1 = Inl ErrEndOfWALStreamReached \<longrightarrow> (\<exists>ws d. Barman (Restore_List ws d) \<in> set cs1))"
    using restore_steps_flag [OF F refl steps] c(2) eq(3) u by simp_all
  have f: "\<not> flag w'" using S(1) by cases auto
  have o: "observe res cs = (if \<exists>ws d. Barman (Restore_List ws d) \<in> set cs1 then Downloaded False else No_Download)"
    using S(2) cs0 unfolding eq by (auto simp: observe_eq)
  show ?thesis unfolding o u using f by (auto intro: flag_step.clear flag_step.clear_download)
qed

definition quiet :: "call \<Rightarrow> bool" where
  "quiet c \<longleftrightarrow> c \<noteq> Barman Set_End_Of_Wal_Stream \<and> c \<noteq> Barman Reset_End_Of_Wal_Stream \<and>
     (\<forall>ws d. c \<noteq> Barman (Restore_List ws d))"

lemma restoreFrom_run:
  assumes F: "flag_law e flag"
    and run: "restoreFromBarmanObjectStore L e s c os srv n d rw w = (res, cs, w')"
  shows "((\<forall>x \<in> set cs. quiet x) \<and> flag w' = flag w) \<or>
    (\<exists>cs0 cs1 r conf opts w1. cs = cs0 @ cs1 \<and> (\<forall>x \<in> set cs0. quiet x) \<and> flag w1 = flag w \<and>
       restore_wal L e s c r conf opts n d rw w1 = (res, cs1, w'))"
proof -
  let ?conf = "os_Configuration os"
  obtain x1 w1 where 1: "b_set_credentials e (os_Namespace os) ?conf (environ e)
      (BuildCertificateFilePath (os_Name os)) w = (x1, w1)" by fastforce
  obtain x2 w2 where 2: "b_restore_options e ?conf srv w1 = (x2, w2)" by fastforce
  have f: "flag w1 = flag w" "flag w2 = flag w" using 1 2 flag_lawD(5,6) [OF F] by (metis snd_conv)+
  show ?thesis
  proof (cases "\<exists>env opts. x1 = Inr env \<and> x2 = Inr opts")
    case False
    then have "(\<forall>x \<in> set cs. quiet x) \<and> flag w' = flag w"
      using run 1 2 f unfolding restoreFromBarmanObjectStore_def Let_def
      by (cases x1; cases x2) (auto simp: io_simps quiet_def)
    then show ?thesis ..
  next
    case True
    then obtain env opts where x: "x1 = Inr env" "x2 = Inr opts" by blast
    obtain x3 w3 where 3: "b_new_restorer e (MergeEnv (GetRestoreCABundleEnv ?conf) env) (ws_SpoolDirectory s) w2
        = (x3, w3)" by fastforce
    have f3: "flag w3 = flag w" using 3 f flag_lawD(7) [OF F] by (metis snd_conv)
    show ?thesis
    proof (cases x3)
      case (Inl err)
      then have "(\<forall>x \<in> set cs. quiet x) \<and> flag w' = flag w"
        using run 1 2 3 f3 x unfolding restoreFromBarmanObjectStore_def Let_def
        by (auto simp: io_simps quiet_def)
      then show ?thesis ..
    next
      case (Inr r)
      obtain res1 cs1 w4 where W: "restore_wal L e s c r ?conf opts n d rw w3 = (res1, cs1, w4)"
        by (metis surj_pair)
      have "res = res1" "w' = w4" "cs = [Barman (Set_Credentials (os_Namespace os)
          (BuildCertificateFilePath (os_Name os))), Barman (Restore_Options srv), Barman New_Restorer] @ cs1"
        using run 1 2 3 W x Inr unfolding restoreFromBarmanObjectStore_def Let_def
        by (auto simp: io_simps)
      moreover have "\<forall>x \<in> set [Barman (Set_Credentials (os_Namespace os)
          (BuildCertificateFilePath (os_Name os))), Barman (Restore_Options srv), Barman New_Restorer]. quiet x"
        by (simp add: quiet_def)
      ultimately show ?thesis using W f3 by blast
    qed
  qed
qed

definition uses_flag :: "lib \<Rightarrow> wal_service \<Rightarrow> wal_restore_request \<Rightarrow> bool" where
  "uses_flag L s request \<longleftrightarrow> (\<exists>c. DecodeCluster L (wrr_ClusterDefinition request) = Inr c \<and>
     shouldUseEndOfWALStreamFlag L (Some c) (ws_InstanceName s) (wrr_Mode request = MODE_REWIND) = Inr True)"

lemma Restore_run:
  assumes F: "flag_law e flag" and run: "Restore L e s request w = (res, cs, w')"
  shows "((\<forall>x \<in> set cs. quiet x) \<and> flag w' = flag w) \<or>
    (\<exists>c cs0 cs1 r conf opts w1. DecodeCluster L (wrr_ClusterDefinition request) = Inr c \<and>
       cs = cs0 @ cs1 \<and> (\<forall>x \<in> set cs0. quiet x) \<and> flag w1 = flag w \<and>
       restore_wal L e s c r conf opts (wrr_SourceWalName request) (wrr_DestinationFileName request)
         (wrr_Mode request = MODE_REWIND) w1 = (res, cs1, w'))"
proof (cases "DecodeCluster L (wrr_ClusterDefinition request)")
  case (Inl err)
  then show ?thesis using run by (auto simp: Restore_def NewFromClusterJSON_def io_simps)
next
  case (Inr c)
  define cfg where "cfg = NewFromCluster L c"
  obtain srv key where k: "resolveRestoreObjectStore cfg (ws_InstanceName s) = (srv, key)" by fastforce
  obtain x1 w1 where 1: "k_get_object_store e key w = (x1, w1)" by fastforce
  then have f: "flag w1 = flag w" using flag_lawD(4) [OF F] by (metis snd_conv)
  show ?thesis
  proof (cases x1)
    case (Inl err)
    then show ?thesis using run 1 Inr k f
      by (auto simp: Restore_def NewFromClusterJSON_def io_simps quiet_def cfg_def [symmetric])
  next
    case (Inr os)
    obtain res1 cs1 w2 where R: "restoreFromBarmanObjectStore L e s c os srv (wrr_SourceWalName request)
        (wrr_DestinationFileName request) (wrr_Mode request = MODE_REWIND) w1 = (res1, cs1, w2)"
      by (metis surj_pair)
    have eq: "res = res1" "cs = Kube (Get_ObjectStore key) # cs1" "w' = w2"
      using run 1 Inr k R \<open>DecodeCluster L _ = Inr c\<close>
      by (auto simp: Restore_def NewFromClusterJSON_def io_simps cfg_def [symmetric])
        (simp_all add: cfg_def)
    have q: "quiet (Kube (Get_ObjectStore key))" by (simp add: quiet_def)
    from restoreFrom_run [OF F R] show ?thesis
    proof (elim disjE exE conjE)
      assume "\<forall>x \<in> set cs1. quiet x" "flag w2 = flag w1"
      then show ?thesis using eq q f by simp
    next
      fix cs0 cs2 r conf opts w3
      assume "cs1 = cs0 @ cs2" "\<forall>x \<in> set cs0. quiet x" "flag w3 = flag w1"
        "restore_wal L e s c r conf opts (wrr_SourceWalName request) (wrr_DestinationFileName request)
          (wrr_Mode request = MODE_REWIND) w3 = (res1, cs2, w2)"
      moreover from this eq q have "cs = (Kube (Get_ObjectStore key) # cs0) @ cs2"
        "\<forall>x \<in> set (Kube (Get_ObjectStore key) # cs0). quiet x" by simp_all
      ultimately show ?thesis using eq f \<open>DecodeCluster L _ = Inr c\<close> by metis
    qed
  qed
qed

lemma Restore_flag_step:
  assumes F: "flag_law e flag" and run: "Restore L e s request w = (res, cs, w')"
  shows "flag_step (uses_flag L s request) (flag w) (observe res cs) (flag w')"
  using Restore_run [OF F run]
proof (elim disjE exE conjE)
  assume "\<forall>x \<in> set cs. quiet x" "flag w' = flag w"
  moreover from this have "observe res cs = No_Download" by (intro observe_quiet) (auto simp: quiet_def)
  ultimately show ?thesis by (simp add: flag_step.idle)
next
  fix c cs0 cs1 r conf opts w1
  assume c: "DecodeCluster L (wrr_ClusterDefinition request) = Inr c" and cs: "cs = cs0 @ cs1"
    and q: "\<forall>x \<in> set cs0. quiet x" and f: "flag w1 = flag w"
    and W: "restore_wal L e s c r conf opts (wrr_SourceWalName request) (wrr_DestinationFileName request)
      (wrr_Mode request = MODE_REWIND) w1 = (res, cs1, w')"
  have "observe res cs = observe res cs1" unfolding cs using q by (intro observe_append) (auto simp: quiet_def)
  then show ?thesis using restore_wal_flag [OF F W] c f by (simp add: uses_flag_def)
qed

text \<open>Restore requests served one after the other, and what PostgreSQL sees of each.\<close>

fun serve :: "lib \<Rightarrow> 'w ext \<Rightarrow> wal_service \<Rightarrow> wal_restore_request list \<Rightarrow> 'w \<Rightarrow> restore_outcome list \<times> 'w" where
  "serve L e s [] w = ([], w)"
| "serve L e s (r # rs) w = (case Restore L e s r w of (res, cs, w1) \<Rightarrow>
     (case serve L e s rs w1 of (outs, w2) \<Rightarrow> (observe res cs # outs, w2)))"

lemma observe_stopped: "observe res cs = Stopped \<Longrightarrow> res = Inl ErrEndOfWALStreamReached"
  by (auto simp: observe_eq split: if_splits)

lemma observe_downloaded: "Barman (Restore_List ws d) \<in> set cs \<Longrightarrow> \<exists>b. observe res cs = Downloaded b"
  by (auto simp: observe_eq)


lemma flag_ext_law: "flag_law flag_ext (\<lambda>w. w)"
  by (simp add: flag_law_def flag_ext_def sample_ext_def)





end
