(* ===== verification/Specs.thy ===== *)
theory Specs
  imports Config
begin

text \<open>
  The Kubernetes objects the operator builds for a Cluster: \<open>internal/cnpgi/operator/specs\<close>
  (labels, owner references, the Role and the RoleBinding, the secrets of an ObjectStore).
\<close>

section \<open>Labels and owners\<close>

text \<open>\<open>labels.go\<close>\<close>

definition BuildLabels :: "lib \<Rightarrow> cluster \<Rightarrow> string gomap" where
  "BuildLabels L c = Some
     [(ClusterLabelName, cl_Name c),
      (KubernetesAppLabelName L, AppLabelValue),
      (KubernetesAppInstanceLabelName L, cl_Name c),
      (KubernetesAppVersionLabelName L, pm_Version Data),
      (KubernetesAppComponentLabelName L, DatabaseComponentName L),
      (KubernetesAppManagedByLabelName L, ManagedByLabelValue)]"

text \<open>\<open>ownership.go\<close>; a Cluster is always a \<open>runtime.Object\<close>.\<close>

definition SetControllerReference :: "lib \<Rightarrow> cluster \<Rightarrow> object_meta \<Rightarrow> go_error + object_meta" where
  "SetControllerReference L owner controlled =
     (if cl_Kind owner = '''' then
        Inl (Errorf ''%T has no GVK set in its metadata, cannot call SetControllerReference'' [''*v1.Cluster''] None)
      else Inr (controlled\<lparr>om_OwnerReferences :=
        [\<lparr>or_APIVersion = GroupVersionString L (cl_Group owner) (cl_Version owner),
          or_Kind = cl_Kind owner, or_Name = cl_Name owner, or_UID = cl_UID owner,
          or_BlockOwnerDeletion = Some True, or_Controller = Some True\<rparr>]\<rparr>))"

section \<open>Secrets\<close>

text \<open>\<open>secrets.go\<close>\<close>

definition aws_references :: "aws_credentials \<Rightarrow> secret_key_selector option list" where
  "aws_references a = [aws_AccessKeyIDReference a, aws_SecretAccessKeyReference a,
     aws_RegionReference a, aws_SessionToken a]"

definition azure_references :: "azure_credentials \<Rightarrow> secret_key_selector option list" where
  "azure_references z = (if \<not> az_UseDefaultAzureCredentials z \<and> \<not> az_InheritFromAzureAD z
     then [az_ConnectionString z, az_StorageAccount z, az_StorageKey z, az_StorageSasToken z] else [])"

definition CollectSecretNamesFromCredentials :: "barman_credentials \<Rightarrow> string list" where
  "CollectSecretNamesFromCredentials c =
     (let references = (case cred_AWS c of None \<Rightarrow> [] | Some a \<Rightarrow> aws_references a) @
        (case cred_Azure c of None \<Rightarrow> [] | Some z \<Rightarrow> azure_references z) @
        (case cred_Google c of None \<Rightarrow> [] | Some g \<Rightarrow> [gc_ApplicationCredentials g])
      in List.map_filter (map_option sk_Name) references)"

section \<open>The Role and the RoleBinding\<close>

text \<open>\<open>role.go\<close>\<close>

definition GetRBACName :: "string \<Rightarrow> string" where
  "GetRBACName clusterName = clusterName @ ''-barman-cloud''"

definition BuildRoleRules :: "lib \<Rightarrow> object_store list \<Rightarrow> policy_rule list" where
  "BuildRoleRules L barmanObjects =
     (let barmanObjectsSet = map os_Name barmanObjects;
          secretsSet = concat (map (\<lambda>os. CollectSecretNamesFromCredentials (bc_Credentials (os_Configuration os)))
            barmanObjects)
      in [\<lparr>pr_APIGroups = [GroupVersion_Group], pr_Verbs = [''get'', ''watch'', ''list''],
            pr_Resources = [''objectstores''], pr_ResourceNames = ToSortedList L barmanObjectsSet,
            pr_NonResourceURLs = []\<rparr>,
          \<lparr>pr_APIGroups = [GroupVersion_Group], pr_Verbs = [''update''],
            pr_Resources = [''objectstores/status''], pr_ResourceNames = ToSortedList L barmanObjectsSet,
            pr_NonResourceURLs = []\<rparr>,
          \<lparr>pr_APIGroups = [''''], pr_Verbs = [''get'', ''watch'', ''list''],
            pr_Resources = [''secrets''], pr_ResourceNames = ToSortedList L secretsSet,
            pr_NonResourceURLs = []\<rparr>])"

definition BuildRole :: "lib \<Rightarrow> cluster \<Rightarrow> object_store list \<Rightarrow> role" where
  "BuildRole L c barmanObjects = \<lparr>role_Meta = \<lparr>om_Namespace = cl_Namespace c, om_Name = GetRBACName (cl_Name c),
       om_Labels = BuildLabels L c, om_OwnerReferences = [], om_ResourceVersion = 0\<rparr>,
     role_Rules = BuildRoleRules L barmanObjects\<rparr>"

fun names_from_rules :: "policy_rule list \<Rightarrow> string list" where
  "names_from_rules [] = []"
| "names_from_rules (rule # rules) =
     (if length (pr_APIGroups rule) = 1 \<and> pr_APIGroups rule ! 0 = GroupVersion_Group \<and>
         length (pr_Resources rule) = 1 \<and> pr_Resources rule ! 0 = ''objectstores''
      then pr_ResourceNames rule else names_from_rules rules)"

definition ObjectStoreNamesFromRole :: "role \<Rightarrow> string list" where
  "ObjectStoreNamesFromRole r = names_from_rules (role_Rules r)"

definition BuildRoleBinding :: "lib \<Rightarrow> cluster \<Rightarrow> role_binding" where
  "BuildRoleBinding L c = \<lparr>rb_Meta = \<lparr>om_Namespace = cl_Namespace c, om_Name = GetRBACName (cl_Name c),
       om_Labels = BuildLabels L c, om_OwnerReferences = [], om_ResourceVersion = 0\<rparr>,
     rb_Subjects = [\<lparr>sub_Kind = ''ServiceAccount'', sub_APIGroup = '''', sub_Name = cl_Name c,
       sub_Namespace = cl_Namespace c\<rparr>],
     rb_RoleRef = \<lparr>rr_APIGroup = ''rbac.authorization.k8s.io'', rr_Kind = ''Role'',
       rr_Name = GetRBACName (cl_Name c)\<rparr>\<rparr>"

section \<open>Properties\<close>

text \<open>
  What a rule allows, as the Kubernetes authorizer documents it: an empty list of resource names
  stands for every name.
\<close>

definition rule_allows :: "policy_rule \<Rightarrow> string \<Rightarrow> string \<Rightarrow> string \<Rightarrow> string \<Rightarrow> bool" where
  "rule_allows r verb grp res name \<longleftrightarrow> verb \<in> set (pr_Verbs r) \<and> grp \<in> set (pr_APIGroups r) \<and>
     res \<in> set (pr_Resources r) \<and> (pr_ResourceNames r = [] \<or> name \<in> set (pr_ResourceNames r))"

definition rules_allow :: "policy_rule list \<Rightarrow> string \<Rightarrow> string \<Rightarrow> string \<Rightarrow> string \<Rightarrow> bool" where
  "rules_allow rs verb grp res name \<longleftrightarrow> (\<exists>r \<in> set rs. rule_allows r verb grp res name)"

text \<open>The secrets a set of credentials needs.\<close>

definition needs_secret :: "barman_credentials \<Rightarrow> string \<Rightarrow> bool" where
  "needs_secret c n \<longleftrightarrow>
     (\<exists>a k. cred_AWS c = Some a \<and> sk_Name k = n \<and>
        Some k \<in> {aws_AccessKeyIDReference a, aws_SecretAccessKeyReference a, aws_RegionReference a, aws_SessionToken a}) \<or>
     (\<exists>z k. cred_Azure c = Some z \<and> \<not> (az_UseDefaultAzureCredentials z \<or> az_InheritFromAzureAD z) \<and> sk_Name k = n \<and>
        Some k \<in> {az_ConnectionString z, az_StorageAccount z, az_StorageKey z, az_StorageSasToken z}) \<or>
     (\<exists>g k. cred_Google c = Some g \<and> sk_Name k = n \<and> Some k \<in> {gc_ApplicationCredentials g})"

lemma set_map_filter_names: "n \<in> set (List.map_filter (map_option f) xs) \<longleftrightarrow> (\<exists>k. Some k \<in> set xs \<and> f k = n)"
  by (force simp: List.map_filter_def image_iff)

lemma CollectSecretNames_iff: "n \<in> set (CollectSecretNamesFromCredentials c) \<longleftrightarrow> needs_secret c n"
  unfolding CollectSecretNamesFromCredentials_def Let_def set_map_filter_names set_append
    aws_references_def azure_references_def needs_secret_def
  by (cases "cred_AWS c"; cases "cred_Azure c"; cases "cred_Google c"; auto)

text \<open>The secrets the stores of a role need, and the only accesses its rules are for.\<close>

definition needed_secrets :: "object_store list \<Rightarrow> string set" where
  "needed_secrets stores = {n. \<exists>os \<in> set stores. needs_secret (bc_Credentials (os_Configuration os)) n}"

lemma BuildRoleRules_names:
  assumes "sorted_list_law L"
  shows "set (pr_ResourceNames (BuildRoleRules L stores ! 0)) = os_Name ` set stores"
    "set (pr_ResourceNames (BuildRoleRules L stores ! 1)) = os_Name ` set stores"
    "set (pr_ResourceNames (BuildRoleRules L stores ! 2)) = needed_secrets stores"
  using assms by (auto simp: BuildRoleRules_def Let_def CollectSecretNames_iff needed_secrets_def)

text \<open>
  What a sidecar may do. The rules built for a list of ObjectStores allow reading those
  ObjectStores and updating their status, and reading the secrets their credentials refer to,
  for AWS, Azure (unless it inherits its identity) and Google, and nothing else: as long as there
  is at least one store and at least one such secret. When no store needs a secret, the rule for
  secrets has no names, and Kubernetes lets the sidecar read every secret of the namespace.
\<close>

theorem BuildRoleRules_allow:
  assumes "sorted_list_law L" "stores \<noteq> []"
  shows "rules_allow (BuildRoleRules L stores) verb grp res name \<longleftrightarrow>
    verb \<in> {''get'', ''watch'', ''list''} \<and> grp = GroupVersion_Group \<and> res = ''objectstores'' \<and>
      name \<in> os_Name ` set stores \<or>
    verb = ''update'' \<and> grp = GroupVersion_Group \<and> res = ''objectstores/status'' \<and>
      name \<in> os_Name ` set stores \<or>
    verb \<in> {''get'', ''watch'', ''list''} \<and> grp = '''' \<and> res = ''secrets'' \<and>
      (needed_secrets stores = {} \<or> name \<in> needed_secrets stores)"
proof -
  have ne: "ToSortedList L (map os_Name stores) \<noteq> []"
    using sorted_list_lawD(1) [OF assms(1), of "map os_Name stores"] assms(2) by (metis list.map_disc_iff set_empty)
  define secs where "secs = concat (map (\<lambda>os. CollectSecretNamesFromCredentials (bc_Credentials (os_Configuration os))) stores)"
  have s: "set secs = needed_secrets stores" by (auto simp: secs_def needed_secrets_def CollectSecretNames_iff)
  have e: "ToSortedList L secs = [] \<longleftrightarrow> needed_secrets stores = {}"
    using sorted_list_lawD(1) [OF assms(1), of secs] s by (metis set_empty)
  show ?thesis
    unfolding rules_allow_def rule_allows_def BuildRoleRules_def Let_def secs_def [symmetric]
    by (simp only: list.set set_map bex_simps policy_rule.simps ne e s sorted_list_lawD(1) [OF assms(1)]
        simp_thms singleton_iff)
qed

theorem BuildRoleRules_allow_witness:
  "rules_allow (BuildRoleRules sample_lib [sample_store ''store'']) ''get'' GroupVersion_Group ''objectstores'' ''store'' \<and>
   rules_allow (BuildRoleRules sample_lib [sample_store ''store'']) ''get'' '''' ''secrets'' ''any'' \<and>
   \<not> rules_allow (BuildRoleRules sample_lib [sample_store ''store'']) ''get'' GroupVersion_Group ''objectstores'' ''other''"
proof -
  have n: "needed_secrets [sample_store ''store''] = {}"
    by (simp add: needed_secrets_def needs_secret_def sample_configuration_def)
  note R = BuildRoleRules_allow [OF sample_lib_sorted, of "[sample_store ''store'']"]
  show ?thesis using R [of "''get''" GroupVersion_Group "''objectstores''" "''store''"]
      R [of "''get''" "''''" "''secrets''" "''any''"]
      R [of "''get''" GroupVersion_Group "''objectstores''" "''other''"]
    by (simp add: n GroupVersion_Group_def)
qed

lemma ObjectStoreNamesFromRole_Build:
  "ObjectStoreNamesFromRole (BuildRole L c stores) = ToSortedList L (map os_Name stores)"
  by (simp add: ObjectStoreNamesFromRole_def BuildRole_def BuildRoleRules_def Let_def)

text \<open>
  The discovery contract between the Pre hook and the ObjectStore controller. From the Role
  built for a cluster the controller reads back exactly the names of the cluster's ObjectStores,
  sorted and each once, and the Role carries the label the controller selects Roles by, whose
  value is the cluster's name; the RoleBinding refers to that Role and binds the cluster's
  service account.
\<close>

theorem role_discovery:
  assumes "sorted_list_law L"
  shows "set (ObjectStoreNamesFromRole (BuildRole L c stores)) = os_Name ` set stores \<and>
    distinct (ObjectStoreNamesFromRole (BuildRole L c stores)) \<and>
    sorted (ObjectStoreNamesFromRole (BuildRole L c stores)) \<and>
    gm_lookup (om_Labels (role_Meta (BuildRole L c stores))) ClusterLabelName = Some (cl_Name c) \<and>
    object_key (rb_Meta (BuildRoleBinding L c)) = object_key (role_Meta (BuildRole L c stores)) \<and>
    rr_Name (rb_RoleRef (BuildRoleBinding L c)) = om_Name (role_Meta (BuildRole L c stores)) \<and>
    map sub_Name (rb_Subjects (BuildRoleBinding L c)) = [cl_Name c]"
  using assms unfolding ObjectStoreNamesFromRole_Build
  by (simp add: BuildRole_def BuildRoleBinding_def BuildLabels_def gm_lookup_def object_key_def)

theorem role_discovery_witness:
  "ObjectStoreNamesFromRole (BuildRole sample_lib sample_cluster [sample_store ''b'', sample_store ''a'', sample_store ''b'']) =
     [''a'', ''b''] \<and>
   set (ObjectStoreNamesFromRole (BuildRole sample_lib sample_cluster [sample_store ''b'', sample_store ''a'', sample_store ''b''])) =
     {''a'', ''b''}"
  using role_discovery [OF sample_lib_sorted, of sample_cluster "[sample_store ''b'', sample_store ''a'', sample_store ''b'']"]
  by (simp add: ObjectStoreNamesFromRole_Build sample_lib_def)

end
