(* ===== verification/Merging.thy ===== *)
theory Merging
  imports Go_Lib
begin

text \<open>
  The interface of the reconcilers: an object that may need an update towards a desired state, and
  a merge that brings it there. The reconcilers of Roles and RoleBindings interpret it on their
  labels, rules and subjects.
\<close>

text \<open>Bring \<open>x\<close> to \<open>d\<close> if it needs it.\<close>

definition reconcile :: "('a \<Rightarrow> 'd \<Rightarrow> bool) \<Rightarrow> ('a \<Rightarrow> 'd \<Rightarrow> 'a) \<Rightarrow> 'a \<Rightarrow> 'd \<Rightarrow> 'a" where
  "reconcile needs merge x d = (if needs x d then merge x d else x)"

text \<open>
  \<open>covers x d\<close> is what a reconciler promises of \<open>x\<close> for the desired state \<open>d\<close>: an update is needed
  exactly when it fails, and merging establishes it, for the desired states that are \<open>ok\<close>.
\<close>

locale merging =
  fixes ok :: "'d \<Rightarrow> bool"
    and needs :: "'a \<Rightarrow> 'd \<Rightarrow> bool"
    and merge :: "'a \<Rightarrow> 'd \<Rightarrow> 'a"
    and covers :: "'a \<Rightarrow> 'd \<Rightarrow> bool"
  assumes needs_iff: "ok d \<Longrightarrow> needs x d \<longleftrightarrow> \<not> covers x d"
    and merge_covers: "ok d \<Longrightarrow> covers (merge x d) d"
begin

lemma reconcile_covers: "ok d \<Longrightarrow> covers (reconcile needs merge x d) d"
  by (simp add: reconcile_def needs_iff merge_covers)

lemma reconcile_settles: "ok d \<Longrightarrow> \<not> needs (reconcile needs merge x d) d"
  by (simp add: needs_iff reconcile_covers)

lemma reconcile_idem:
  "ok d \<Longrightarrow> reconcile needs merge (reconcile needs merge x d) d = reconcile needs merge x d"
  using reconcile_settles by (simp add: reconcile_def)

lemma merge_settles: "ok d \<Longrightarrow> \<not> needs (merge x d) d"
  by (simp add: needs_iff merge_covers)

end

text \<open>A merge that moreover only goes up in an order: it never takes away what it finds.\<close>

locale growing_merging = merging ok needs merge covers
  for ok :: "'d \<Rightarrow> bool" and needs :: "'a \<Rightarrow> 'd \<Rightarrow> bool" and merge :: "'a \<Rightarrow> 'd \<Rightarrow> 'a"
    and covers :: "'a \<Rightarrow> 'd \<Rightarrow> bool" +
  fixes le :: "'a \<Rightarrow> 'a \<Rightarrow> bool"
  assumes le_refl: "le x x"
    and le_merge: "le x (merge x d)"
begin

lemma le_reconcile: "le x (reconcile needs merge x d)"
  by (simp add: reconcile_def le_refl le_merge)

end

text \<open>Two parts of one object, written together when either needs it.\<close>

definition pair_needs :: "('a \<Rightarrow> 'd \<Rightarrow> bool) \<Rightarrow> ('b \<Rightarrow> 'e \<Rightarrow> bool) \<Rightarrow> 'a \<times> 'b \<Rightarrow> 'd \<times> 'e \<Rightarrow> bool" where
  "pair_needs n1 n2 x d \<longleftrightarrow> n1 (fst x) (fst d) \<or> n2 (snd x) (snd d)"

definition pair_merge :: "('a \<Rightarrow> 'd \<Rightarrow> 'a) \<Rightarrow> ('b \<Rightarrow> 'e \<Rightarrow> 'b) \<Rightarrow> 'a \<times> 'b \<Rightarrow> 'd \<times> 'e \<Rightarrow> 'a \<times> 'b" where
  "pair_merge m1 m2 x d = (m1 (fst x) (fst d), m2 (snd x) (snd d))"

locale merging_pair =
  first: merging ok1 needs1 merge1 covers1 + second: merging ok2 needs2 merge2 covers2
  for ok1 :: "'d \<Rightarrow> bool" and needs1 :: "'a \<Rightarrow> 'd \<Rightarrow> bool" and merge1 covers1
    and ok2 :: "'e \<Rightarrow> bool" and needs2 :: "'b \<Rightarrow> 'e \<Rightarrow> bool" and merge2 covers2

sublocale merging_pair \<subseteq> pair: merging "\<lambda>d. ok1 (fst d) \<and> ok2 (snd d)"
  "pair_needs needs1 needs2" "pair_merge merge1 merge2"
  "\<lambda>x d. covers1 (fst x) (fst d) \<and> covers2 (snd x) (snd d)"
  by unfold_locales
    (auto simp: pair_needs_def pair_merge_def first.needs_iff second.needs_iff
      first.merge_covers second.merge_covers)

end
