(* ===== verification/Rbac.thy ===== *)
theory Rbac
  imports Specs Merging
begin

text \<open>
  The reconciliation of Roles and RoleBindings: \<open>internal/cnpgi/operator/rbac/ensure.go\<close>.
\<close>

section \<open>Labels and subjects\<close>

text \<open>The desired labels are visited in the order of their list; the result does not depend on it.\<close>

definition mergeLabels :: "string gomap \<Rightarrow> string gomap \<Rightarrow> string gomap" where
  "mergeLabels existing desired =
     (if length (gm_entries desired) = 0 then existing
      else foldl (\<lambda>labels (k, v). gm_put k v labels) existing (gm_entries desired))"

definition labelsNeedUpdate :: "string gomap \<Rightarrow> string gomap \<Rightarrow> bool" where
  "labelsNeedUpdate existing desired = list_ex (\<lambda>(k, v). gm_str existing k \<noteq> v) (gm_entries desired)"

definition containsSubject :: "subject list \<Rightarrow> subject \<Rightarrow> bool" where
  "containsSubject subjects s = list_ex (\<lambda>x. x = s) subjects"

definition mergeSubjects :: "subject list \<Rightarrow> subject list \<Rightarrow> subject list" where
  "mergeSubjects existing desired =
     foldl (\<lambda>subjects d. if containsSubject subjects d then subjects else subjects @ [d]) existing desired"

definition roleBindingNeedsUpdate :: "role_binding \<Rightarrow> role_binding \<Rightarrow> bool" where
  "roleBindingNeedsUpdate existing desired =
     (if list_ex (\<lambda>s. \<not> containsSubject (rb_Subjects existing) s) (rb_Subjects desired) then True
      else labelsNeedUpdate (om_Labels (rb_Meta existing)) (om_Labels (rb_Meta desired)))"

section \<open>Roles\<close>

definition patchRole ::
  "'w ext \<Rightarrow> namespaced_name \<Rightarrow> policy_rule list \<Rightarrow> string gomap \<Rightarrow> ('w, unit) eff" where
  "patchRole e roleKey desiredRules desiredLabels = retry_on_conflict e (\<lambda>_.
     io_bind (get_role e roleKey) (\<lambda>r.
       let rulesMatch = (desiredRules = role_Rules r);
           labelsMatch = (desiredLabels = None \<or> \<not> labelsNeedUpdate (om_Labels (role_Meta r)) desiredLabels)
       in if rulesMatch \<and> labelsMatch then io_return ()
          else patch_role e r (r\<lparr>role_Rules := desiredRules,
            role_Meta := (role_Meta r)\<lparr>om_Labels := mergeLabels (om_Labels (role_Meta r)) desiredLabels\<rparr>\<rparr>)))"

definition ensureRoleExists :: "lib \<Rightarrow> 'w ext \<Rightarrow> cluster \<Rightarrow> role \<Rightarrow> ('w, unit) eff" where
  "ensureRoleExists L e c newRole = io_try (get_role e (object_key (role_Meta newRole))) (\<lambda>res. case res of
     Inr existing \<Rightarrow> io_return ()
   | Inl err \<Rightarrow>
       if \<not> IsNotFound err then io_fail err
       else io_bind (io_lift (SetControllerReference L c (role_Meta newRole))) (\<lambda>meta.
         io_try (create_role e (newRole\<lparr>role_Meta := meta\<rparr>)) (\<lambda>created. case created of
           Inr u \<Rightarrow> io_return ()
         | Inl createErr \<Rightarrow> if IsAlreadyExists createErr then io_return () else io_fail createErr)))"

definition EnsureRole :: "lib \<Rightarrow> 'w ext \<Rightarrow> cluster \<Rightarrow> object_store list \<Rightarrow> ('w, unit) eff" where
  "EnsureRole L e c barmanObjects =
     (let newRole = BuildRole L c barmanObjects; roleKey = object_key (role_Meta newRole) in
      io_seq (ensureRoleExists L e c newRole)
        (patchRole e roleKey (role_Rules newRole) (BuildLabels L c)))"

definition EnsureRoleRules :: "lib \<Rightarrow> 'w ext \<Rightarrow> namespaced_name \<Rightarrow> object_store list \<Rightarrow> ('w, unit) eff" where
  "EnsureRoleRules L e roleKey barmanObjects =
     io_try (patchRole e roleKey (BuildRoleRules L barmanObjects) None) (\<lambda>res. case res of
       Inl err \<Rightarrow> if IsNotFound err then io_return () else io_fail err
     | Inr u \<Rightarrow> io_return u)"

section \<open>RoleBindings\<close>

text \<open>The result \<open>None\<close> stands for nil: the object was just created.\<close>

definition getOrCreateRoleBinding :: "'w ext \<Rightarrow> role_binding \<Rightarrow> ('w, role_binding option) eff" where
  "getOrCreateRoleBinding e desired = (let key = object_key (rb_Meta desired) in
     io_try (get_role_binding e key) (\<lambda>res. case res of
       Inr rb \<Rightarrow> io_return (Some rb)
     | Inl err \<Rightarrow>
         if \<not> IsNotFound err then io_fail err
         else io_try (create_role_binding e desired) (\<lambda>created. case created of
           Inr u \<Rightarrow> io_return None
         | Inl createErr \<Rightarrow>
             if IsAlreadyExists createErr
             then io_bind (get_role_binding e key) (\<lambda>fetched. io_return (Some fetched))
             else io_fail createErr)))"

definition divergent_role_ref :: "role_binding \<Rightarrow> go_error" where
  "divergent_role_ref rb = Errorf (''RoleBinding %s/%s has divergent immutable RoleRef '' @
     ''(existing=%+v, desired=%+v); delete the RoleBinding to allow recreation'')
     [om_Namespace (rb_Meta rb), om_Name (rb_Meta rb)] None"

text \<open>The first attempt uses the object the caller has read, the others read it again.\<close>

definition reconcileRoleBinding :: "'w ext \<Rightarrow> role_binding \<Rightarrow> role_binding \<Rightarrow> ('w, unit) eff" where
  "reconcileRoleBinding e existing desired = retry_on_conflict e (\<lambda>attempt.
     io_bind (if attempt = 0 then io_return existing
        else get_role_binding e (object_key (rb_Meta desired))) (\<lambda>roleBinding.
     if rb_RoleRef roleBinding \<noteq> rb_RoleRef desired then io_fail (divergent_role_ref roleBinding)
     else if \<not> roleBindingNeedsUpdate roleBinding desired then io_return ()
     else patch_role_binding e roleBinding (roleBinding\<lparr>
       rb_Meta := (rb_Meta roleBinding)\<lparr>om_Labels :=
         mergeLabels (om_Labels (rb_Meta roleBinding)) (om_Labels (rb_Meta desired))\<rparr>,
       rb_Subjects := mergeSubjects (rb_Subjects roleBinding) (rb_Subjects desired)\<rparr>)))"

definition EnsureRoleBinding :: "lib \<Rightarrow> 'w ext \<Rightarrow> cluster \<Rightarrow> ('w, unit) eff" where
  "EnsureRoleBinding L e c = (let desired = BuildRoleBinding L c in
     io_bind (io_lift (SetControllerReference L c (rb_Meta desired))) (\<lambda>meta.
     let desiredRoleBinding = desired\<lparr>rb_Meta := meta\<rparr> in
     io_bind (getOrCreateRoleBinding e desiredRoleBinding) (\<lambda>found. case found of
       None \<Rightarrow> io_return ()
     | Some roleBinding \<Rightarrow> reconcileRoleBinding e roleBinding desiredRoleBinding)))"

section \<open>The merges\<close>

definition labels_cover :: "string gomap \<Rightarrow> string gomap \<Rightarrow> bool" where
  "labels_cover existing desired \<longleftrightarrow> (\<forall>k v. gm_lookup desired k = Some v \<longrightarrow> gm_str existing k = v)"

lemma labelsNeedUpdate_iff:
  assumes "gm_wf desired"
  shows "labelsNeedUpdate existing desired \<longleftrightarrow> \<not> labels_cover existing desired"
proof -
  have "gm_lookup desired k = Some v \<longleftrightarrow> (k, v) \<in> set (gm_entries desired)" for k v
    using assms by (simp add: gm_wf_def gm_lookup_def)
  then show ?thesis by (auto simp: labelsNeedUpdate_def labels_cover_def list_ex_iff)
qed

lemma foldl_put_lookup:
  "distinct (map fst es) \<Longrightarrow> gm_lookup (foldl (\<lambda>labels (k, v). gm_put k v labels) m es) k =
     (case map_of es k of None \<Rightarrow> gm_lookup m k | Some v \<Rightarrow> Some v)"
proof (induction es arbitrary: m)
  case Nil
  then show ?case by simp
next
  case (Cons p es)
  obtain k' v' where p: "p = (k', v')" by fastforce
  with Cons.prems have "map_of es k' = None" by (auto simp: map_of_eq_None_iff)
  then show ?case using Cons p by (auto simp: go_map_simps split: option.split)
qed

lemma mergeLabels_lookup:
  assumes "gm_wf desired"
  shows "gm_lookup (mergeLabels existing desired) k =
    (case gm_lookup desired k of None \<Rightarrow> gm_lookup existing k | Some v \<Rightarrow> Some v)"
proof -
  have d: "distinct (map fst (gm_entries desired))" using assms by (simp add: gm_wf_def)
  show ?thesis
  proof (cases "gm_entries desired = []")
    case True
    then show ?thesis by (simp add: mergeLabels_def gm_lookup_def)
  next
    case False
    then have "mergeLabels existing desired =
        foldl (\<lambda>labels (k, v). gm_put k v labels) existing (gm_entries desired)"
      by (simp add: mergeLabels_def)
    then show ?thesis using foldl_put_lookup [OF d, of existing k] by (simp add: gm_lookup_def [of desired])
  qed
qed

lemma mergeLabels_covers: "gm_wf desired \<Longrightarrow> labels_cover (mergeLabels existing desired) desired"
  by (auto simp: labels_cover_def gm_str_def mergeLabels_lookup)

lemma mergeLabels_dom: "dom (gm_lookup existing) \<subseteq> dom (gm_lookup (mergeLabels existing desired))"
proof -
  have "dom (gm_lookup m) \<subseteq> dom (gm_lookup (foldl (\<lambda>labels (k, v). gm_put k v labels) m es))"
    for m :: "string gomap" and es
  proof (induction es arbitrary: m)
    case (Cons p es)
    have "dom (gm_lookup m) \<subseteq> dom (gm_lookup (gm_put (fst p) (snd p) m))" by (auto simp: go_map_simps)
    with Cons.IH [of "gm_put (fst p) (snd p) m"] show ?case by (simp add: case_prod_beta)
  qed simp
  then show ?thesis by (simp add: mergeLabels_def)
qed

text \<open>Labels grow: a key may get another value, none is lost.\<close>

interpretation labels: growing_merging gm_wf labelsNeedUpdate mergeLabels labels_cover
  "\<lambda>x y. dom (gm_lookup x) \<subseteq> dom (gm_lookup y)"
  by unfold_locales (simp_all add: labelsNeedUpdate_iff mergeLabels_covers mergeLabels_dom)

lemma containsSubject_iff [simp]: "containsSubject subjects s \<longleftrightarrow> s \<in> set subjects"
  by (auto simp: containsSubject_def list_ex_iff)

lemma mergeSubjects_grows: "\<exists>new. mergeSubjects existing desired = existing @ new \<and> set new \<subseteq> set desired"
proof (induction desired rule: rev_induct)
  case Nil
  show ?case by (simp add: mergeSubjects_def)
next
  case (snoc d ds)
  then obtain new where "mergeSubjects existing ds = existing @ new" "set new \<subseteq> set ds" by blast
  then show ?case by (auto simp: mergeSubjects_def)
qed

lemma set_mergeSubjects [simp]: "set (mergeSubjects existing desired) = set existing \<union> set desired"
  by (induction desired rule: rev_induct) (auto simp: mergeSubjects_def)

lemma mergeSubjects_prefix: "\<exists>new. mergeSubjects existing desired = existing @ new"
  using mergeSubjects_grows by blast

interpretation subjects: growing_merging "\<lambda>_. True"
  "\<lambda>existing desired. list_ex (\<lambda>s. \<not> containsSubject existing s) desired" mergeSubjects
  "\<lambda>existing desired. set desired \<subseteq> set existing" "\<lambda>x y. \<exists>new. y = x @ new"
  by unfold_locales (auto simp: list_ex_iff mergeSubjects_prefix)

text \<open>
  What a Role holds that the operator reconciles: its rules and its labels; and a RoleBinding:
  its subjects and its labels.
\<close>

interpretation role_content: merging_pair "\<lambda>_. True" "\<lambda>rules desired. rules \<noteq> desired"
  "\<lambda>_ desired. desired" "\<lambda>rules desired. rules = desired" gm_wf labelsNeedUpdate mergeLabels labels_cover
  by unfold_locales simp_all

interpretation binding_content: merging_pair "\<lambda>_. True"
  "\<lambda>existing desired. list_ex (\<lambda>s. \<not> containsSubject existing s) desired" mergeSubjects
  "\<lambda>existing desired. set desired \<subseteq> set existing" gm_wf labelsNeedUpdate mergeLabels labels_cover
  by unfold_locales

section \<open>Converging on an API server\<close>

text \<open>
  What the Kubernetes API documents for one kind of object, with optimistic locking; \<open>objs w k\<close> is
  the object stored under a key. The server only changes the resource version of what is written.
  \<open>same_object\<close> ignores it.
\<close>

definition same_role :: "role \<Rightarrow> role \<Rightarrow> bool" where
  "same_role a b \<longleftrightarrow> role_Rules a = role_Rules b \<and>
     (role_Meta a)\<lparr>om_ResourceVersion := 0\<rparr> = (role_Meta b)\<lparr>om_ResourceVersion := 0\<rparr>"

definition role_api_law :: "'w ext \<Rightarrow> ('w \<Rightarrow> namespaced_name \<Rightarrow> role option) \<Rightarrow> bool" where
  "role_api_law e objs \<longleftrightarrow>
     (\<forall>k w. k_get_role e k w = (case objs w k of Some r \<Rightarrow> Inr r | None \<Rightarrow> Inl (Api_Error NotFound), w)) \<and>
     (\<forall>r w. objs w (object_key (role_Meta r)) = None \<longrightarrow>
        (\<exists>r' w'. k_create_role e r w = (Inr (), w') \<and> same_role r' r \<and>
          objs w' = (objs w)(object_key (role_Meta r) \<mapsto> r'))) \<and>
     (\<forall>old new k w. objs w k = Some old \<and> object_key (role_Meta old) = k \<and> object_key (role_Meta new) = k \<longrightarrow>
        (\<exists>r' w'. k_patch_role e old new w = (Inr (), w') \<and> same_role r' new \<and> objs w' = (objs w)(k \<mapsto> r'))) \<and>
     (\<forall>k w r. objs w k = Some r \<longrightarrow> object_key (role_Meta r) = k)"

lemma role_api_lawD:
  assumes "role_api_law e objs"
  shows "k_get_role e k w = (case objs w k of Some r \<Rightarrow> Inr r | None \<Rightarrow> Inl (Api_Error NotFound), w)"
    "objs w (object_key (role_Meta r)) = None \<Longrightarrow> \<exists>r' w'. k_create_role e r w = (Inr (), w') \<and> same_role r' r \<and>
       objs w' = (objs w)(object_key (role_Meta r) \<mapsto> r')"
    "objs w k = Some old \<Longrightarrow> object_key (role_Meta new) = k \<Longrightarrow>
       \<exists>r' w'. k_patch_role e old new w = (Inr (), w') \<and> same_role r' new \<and> objs w' = (objs w)(k \<mapsto> r')"
    "objs w k = Some r \<Longrightarrow> object_key (role_Meta r) = k"
  using assms unfolding role_api_law_def by blast+

text \<open>The labels of the plugin are under different keys.\<close>

definition labels_law :: "lib \<Rightarrow> bool" where
  "labels_law L \<longleftrightarrow> distinct [ClusterLabelName, KubernetesAppLabelName L, KubernetesAppInstanceLabelName L,
     KubernetesAppVersionLabelName L, KubernetesAppComponentLabelName L, KubernetesAppManagedByLabelName L]"

lemma gm_wf_BuildLabels [simp]: "labels_law L \<Longrightarrow> gm_wf (BuildLabels L c)"
  by (simp add: labels_law_def gm_wf_def BuildLabels_def)

text \<open>The content of a Role, and the Role a reconciliation leaves behind.\<close>

definition role_content_of :: "role \<Rightarrow> policy_rule list \<times> string gomap" where
  "role_content_of r = (role_Rules r, om_Labels (role_Meta r))"

abbreviation role_needs where
  "role_needs \<equiv> pair_needs (\<lambda>rules desired. rules \<noteq> desired) labelsNeedUpdate"

abbreviation role_merge where
  "role_merge \<equiv> pair_merge (\<lambda>_ desired. desired) mergeLabels"

lemma patchRole_eq:
  "patchRole e k dr dl = retry_on_conflict e (\<lambda>_. io_bind (get_role e k) (\<lambda>r.
     if role_needs (role_content_of r) (dr, dl)
     then patch_role e r (r\<lparr>role_Rules := dr,
       role_Meta := (role_Meta r)\<lparr>om_Labels := mergeLabels (om_Labels (role_Meta r)) dl\<rparr>\<rparr>)
     else io_return ()))"
proof -
  have "(\<lambda>r. let rulesMatch = (dr = role_Rules r);
           labelsMatch = (dl = None \<or> \<not> labelsNeedUpdate (om_Labels (role_Meta r)) dl)
       in if rulesMatch \<and> labelsMatch then io_return ()
          else patch_role e r (r\<lparr>role_Rules := dr,
            role_Meta := (role_Meta r)\<lparr>om_Labels := mergeLabels (om_Labels (role_Meta r)) dl\<rparr>\<rparr>)) =
    (\<lambda>r. if role_needs (role_content_of r) (dr, dl)
     then patch_role e r (r\<lparr>role_Rules := dr,
       role_Meta := (role_Meta r)\<lparr>om_Labels := mergeLabels (om_Labels (role_Meta r)) dl\<rparr>\<rparr>)
     else io_return ())"
    by (rule ext) (auto simp: pair_needs_def role_content_of_def labelsNeedUpdate_def)
  then show ?thesis by (simp only: patchRole_def)
qed

lemma same_role_simps:
  assumes "same_role a b"
  shows "role_content_of a = role_content_of b" "object_key (role_Meta a) = object_key (role_Meta b)"
    "om_OwnerReferences (role_Meta a) = om_OwnerReferences (role_Meta b)"
  using assms by (cases "role_Meta a"; cases "role_Meta b"; simp add: same_role_def role_content_of_def object_key_def)+

lemma patchRole_run:
  assumes "retry_law e" "role_api_law e objs" "objs w k = Some r"
  shows "\<exists>r' w' cs. patchRole e k dr dl w = (Inr (), cs, w') \<and> objs w' = (objs w)(k \<mapsto> r') \<and>
    role_content_of r' = reconcile role_needs role_merge (role_content_of r) (dr, dl) \<and>
    om_OwnerReferences (role_Meta r') = om_OwnerReferences (role_Meta r) \<and>
    (\<exists>c \<in> set cs. kube_write c) = role_needs (role_content_of r) (dr, dl)"
proof -
  let ?new = "r\<lparr>role_Rules := dr, role_Meta := (role_Meta r)\<lparr>om_Labels := mergeLabels (om_Labels (role_Meta r)) dl\<rparr>\<rparr>"
  let ?f = "\<lambda>_::nat. io_bind (get_role e k) (\<lambda>r. if role_needs (role_content_of r) (dr, dl)
     then patch_role e r (r\<lparr>role_Rules := dr,
       role_Meta := (role_Meta r)\<lparr>om_Labels := mergeLabels (om_Labels (role_Meta r)) dl\<rparr>\<rparr>)
     else io_return ())"
  have get: "k_get_role e k w = (Inr r, w)" using role_api_lawD(1) [OF assms(2)] assms(3) by simp
  have key: "object_key (role_Meta ?new) = k" using role_api_lawD(4) [OF assms(2,3)] by (simp add: object_key_def)
  have content: "role_content_of ?new = role_merge (role_content_of r) (dr, dl)"
    by (simp add: role_content_of_def pair_merge_def)
  obtain r' w' where patch: "k_patch_role e r ?new w = (Inr (), w')" "same_role r' ?new" "objs w' = (objs w)(k \<mapsto> r')"
    using role_api_lawD(3) [OF assms(2,3) key] by blast
  obtain n where n: "retry_on_conflict e ?f w = attempts ?f 0 n w" using assms(1) by (rule retry_lawE)
  show ?thesis
  proof (cases "role_needs (role_content_of r) (dr, dl)")
    case True
    then have "?f 0 w = (Inr (), [Kube (Get_Role k), Kube (Patch_Role r ?new)], w')"
      by (simp add: io_simps get patch)
    from attempts_success [where f = ?f and i = 0 and w = w, OF this, of n] n show ?thesis unfolding patchRole_eq
      using patch True content same_role_simps [OF patch(2)] by (auto simp: reconcile_def)
  next
    case False
    then have "?f 0 w = (Inr (), [Kube (Get_Role k)], w)" by (simp add: io_simps get)
    from attempts_success [where f = ?f and i = 0 and w = w, OF this, of n] n show ?thesis unfolding patchRole_eq
      using False assms(3) by (intro exI [of _ r]) (auto simp: reconcile_def)
  qed
qed

lemma ensureRoleExists_run:
  assumes "role_api_law e objs" "cl_Kind c \<noteq> ''''"
    and new: "SetControllerReference L c (role_Meta newRole) = Inr meta" "k = object_key (role_Meta newRole)"
  shows "\<exists>r w' cs. ensureRoleExists L e c newRole w = (Inr (), cs, w') \<and> objs w' = (objs w)(k \<mapsto> r) \<and>
    (case objs w k of Some r0 \<Rightarrow> r = r0 \<and> w' = w \<and> (\<forall>c \<in> set cs. \<not> kube_write c)
     | None \<Rightarrow> same_role r (newRole\<lparr>role_Meta := meta\<rparr>))"
proof (cases "objs w k")
  case None
  have key: "object_key (role_Meta (newRole\<lparr>role_Meta := meta\<rparr>)) = k"
    using new assms(2) by (auto simp: SetControllerReference_def object_key_def)
  with None obtain r' w' where "k_create_role e (newRole\<lparr>role_Meta := meta\<rparr>) w = (Inr (), w')"
    "same_role r' (newRole\<lparr>role_Meta := meta\<rparr>)" "objs w' = (objs w)(k \<mapsto> r')"
    using role_api_lawD(2) [OF assms(1), of w "newRole\<lparr>role_Meta := meta\<rparr>"] by auto
  then show ?thesis using None new role_api_lawD(1) [OF assms(1), of k w]
    by (intro exI [of _ r']) (simp add: ensureRoleExists_def io_simps api_reason_defs)
next
  case (Some r0)
  then show ?thesis using new role_api_lawD(1) [OF assms(1), of k w]
    by (intro exI [of _ r0]) (auto simp: ensureRoleExists_def io_simps)
qed

text \<open>The Role one cluster's reconciliation leaves behind, given the Role it found.\<close>

definition ensured_content :: "lib \<Rightarrow> cluster \<Rightarrow> object_store list \<Rightarrow> role option \<Rightarrow> policy_rule list \<times> string gomap" where
  "ensured_content L c stores found = (case found of
     None \<Rightarrow> (BuildRoleRules L stores, BuildLabels L c)
   | Some r \<Rightarrow> reconcile role_needs role_merge (role_content_of r) (BuildRoleRules L stores, BuildLabels L c))"

lemma EnsureRole_run:
  assumes "retry_law e" "role_api_law e objs" "labels_law L" "cl_Kind c \<noteq> ''''"
    and k: "k = NamespacedName (cl_Namespace c) (GetRBACName (cl_Name c))"
  shows "\<exists>r w' cs. EnsureRole L e c stores w = (Inr (), cs, w') \<and> objs w' = (objs w)(k \<mapsto> r) \<and>
    role_content_of r = ensured_content L c stores (objs w k) \<and>
    (case objs w k of
       Some r0 \<Rightarrow> om_OwnerReferences (role_Meta r) = om_OwnerReferences (role_Meta r0) \<and>
         ((\<exists>c \<in> set cs. kube_write c) =
            role_needs (role_content_of r0) (BuildRoleRules L stores, BuildLabels L c))
     | None \<Rightarrow> map or_UID (om_OwnerReferences (role_Meta r)) = [cl_UID c])"
proof -
  let ?new = "BuildRole L c stores" and ?d = "(BuildRoleRules L stores, BuildLabels L c)"
  define meta where "meta = (role_Meta ?new)\<lparr>om_OwnerReferences :=
    [\<lparr>or_APIVersion = GroupVersionString L (cl_Group c) (cl_Version c), or_Kind = cl_Kind c, or_Name = cl_Name c,
      or_UID = cl_UID c, or_BlockOwnerDeletion = Some True, or_Controller = Some True\<rparr>]\<rparr>"
  have meta: "SetControllerReference L c (role_Meta ?new) = Inr meta"
    using assms(4) by (simp add: SetControllerReference_def meta_def)
  have key: "k = object_key (role_Meta ?new)" by (simp add: k BuildRole_def object_key_def)
  obtain r1 w1 cs1 where 1: "ensureRoleExists L e c ?new w = (Inr (), cs1, w1)" "objs w1 = (objs w)(k \<mapsto> r1)"
    "case objs w k of Some r0 \<Rightarrow> r1 = r0 \<and> w1 = w \<and> (\<forall>c \<in> set cs1. \<not> kube_write c)
     | None \<Rightarrow> same_role r1 (?new\<lparr>role_Meta := meta\<rparr>)"
    using ensureRoleExists_run [OF assms(2,4) meta key, of w] by blast
  from 1(2) have "objs w1 k = Some r1" by simp
  from patchRole_run [OF assms(1,2) this, of "BuildRoleRules L stores" "BuildLabels L c"]
  obtain r2 w2 cs2 where 2: "patchRole e k (BuildRoleRules L stores) (BuildLabels L c) w1 = (Inr (), cs2, w2)"
    "objs w2 = (objs w1)(k \<mapsto> r2)"
    "role_content_of r2 = reconcile role_needs role_merge (role_content_of r1) ?d"
    "om_OwnerReferences (role_Meta r2) = om_OwnerReferences (role_Meta r1)"
    "(\<exists>c \<in> set cs2. kube_write c) = role_needs (role_content_of r1) ?d" by blast
  have run: "EnsureRole L e c stores w = (Inr (), cs1 @ cs2, w2)"
    using 1(1) 2(1) key by (simp add: EnsureRole_def Let_def io_simps) (simp add: BuildRole_def)
  have objs: "objs w2 = (objs w)(k \<mapsto> r2)" using 1(2) 2(2) by simp
  show ?thesis
  proof (cases "objs w k")
    case None
    then have "same_role r1 (?new\<lparr>role_Meta := meta\<rparr>)" using 1(3) by simp
    note sr = same_role_simps [OF this]
    have c1: "role_content_of r1 = ?d" using sr(1) by (simp add: role_content_of_def meta_def BuildRole_def)
    have "\<not> role_needs ?d ?d"
      using labels.needs_iff [OF gm_wf_BuildLabels [OF assms(3), of c], of "BuildLabels L c"]
      by (simp add: pair_needs_def labels_cover_def gm_str_def)
    then have "role_content_of r2 = ?d" using 2(3) c1 by (simp add: reconcile_def)
    then show ?thesis using run objs None 2(4) sr(3) by (auto simp: ensured_content_def meta_def)
  next
    case (Some r0)
    then show ?thesis using run objs 1(3) 2(3,4,5) by (auto simp: ensured_content_def)
  qed
qed


text \<open>An API server that stores Roles by key.\<close>

definition stored_role :: "(namespaced_name \<Rightarrow> role option) \<Rightarrow> namespaced_name \<Rightarrow> role option" where
  "stored_role w k = (case w k of None \<Rightarrow> None
     | Some r \<Rightarrow> if object_key (role_Meta r) = k then Some r else None)"

definition role_server :: "(namespaced_name \<Rightarrow> role option) ext" where
  "role_server = sample_ext\<lparr>
     k_get_role := (\<lambda>k w. (case stored_role w k of Some r \<Rightarrow> Inr r | None \<Rightarrow> Inl (Api_Error NotFound), w)),
     k_create_role := (\<lambda>r w. (Inr (), w(object_key (role_Meta r) \<mapsto> r))),
     k_patch_role := (\<lambda>old new w. (Inr (), w(object_key (role_Meta new) \<mapsto> new)))\<rparr>"

lemma role_server_law: "role_api_law role_server stored_role"
proof -
  have put: "stored_role (w(object_key (role_Meta r) \<mapsto> r)) = (stored_role w)(object_key (role_Meta r) \<mapsto> r)" for w r
    by (auto simp: stored_role_def fun_eq_iff)
  have same: "same_role r r" for r by (simp add: same_role_def)
  show ?thesis unfolding role_api_law_def
  proof (intro conjI allI impI)
    fix old new :: role and k w
    assume a: "stored_role w k = Some old \<and> object_key (role_Meta old) = k \<and> object_key (role_Meta new) = k"
    show "\<exists>r' w'. k_patch_role role_server old new w = (Inr (), w') \<and> same_role r' new \<and>
        stored_role w' = (stored_role w)(k \<mapsto> r')"
      by (rule exI [of _ new], rule exI [of _ "w(object_key (role_Meta new) \<mapsto> new)"])
        (use a put [of w new] same in \<open>simp add: role_server_def\<close>)
  next
    fix k w r assume "stored_role w k = Some r"
    then show "object_key (role_Meta r) = k" by (auto simp: stored_role_def split: option.splits if_splits)
  qed (auto simp: role_server_def put intro: same)
qed

lemma role_server_retry: "retry_law role_server"
  by (simp add: role_server_def)

lemma sample_labels_law: "labels_law sample_lib"
  by (simp add: labels_law_def sample_lib_def ClusterLabelName_def)


section \<open>What the reconcilers write\<close>

text \<open>
  The controller's path never creates a Role. It only rewrites the rules of Roles that exist
  and whose rules differ, leaves labels and owners alone, and a Role that does not exist yet is not
  an error.
\<close>

theorem EnsureRoleRules_writes:
  assumes "retry_law e"
  shows "(\<forall>x \<in> set (io_calls (EnsureRoleRules L e k stores) w). kube_write x \<longrightarrow>
      (\<exists>old. x = Kube (Patch_Role old (old\<lparr>role_Rules := BuildRoleRules L stores\<rparr>)) \<and>
         role_Rules old \<noteq> BuildRoleRules L stores)) \<and>
    (\<forall>err. io_result (EnsureRoleRules L e k stores) w = Inl err \<longrightarrow> \<not> IsNotFound err)"
proof (intro conjI)
  let ?P = "\<lambda>x. kube_write x \<longrightarrow> (\<exists>old. x = Kube (Patch_Role old (old\<lparr>role_Rules := BuildRoleRules L stores\<rparr>)) \<and>
         role_Rules old \<noteq> BuildRoleRules L stores)"
  have "only_calls ?P (EnsureRoleRules L e k stores)"
    unfolding EnsureRoleRules_def patchRole_eq
    by (intro calls_rules assms)
      (auto simp: pair_needs_def role_content_of_def mergeLabels_def labelsNeedUpdate_def)
  then show "\<forall>x \<in> set (io_calls (EnsureRoleRules L e k stores) w). ?P x" by (simp add: only_calls_def)
  show "\<forall>err. io_result (EnsureRoleRules L e k stores) w = Inl err \<longrightarrow> \<not> IsNotFound err"
    by (auto simp: EnsureRoleRules_def io_result_def io_simps split: prod.splits sum.splits if_splits)
qed

definition empty_role :: role where
  "empty_role = \<lparr>role_Meta = \<lparr>om_Namespace = ''ns'', om_Name = ''pg-barman-cloud'', om_Labels = None,
     om_OwnerReferences = [], om_ResourceVersion = 3\<rparr>, role_Rules = []\<rparr>"

theorem EnsureRoleRules_writes_witness:
  "\<exists>old. Kube (Patch_Role old (old\<lparr>role_Rules := BuildRoleRules sample_lib []\<rparr>)) \<in>
     set (io_calls (EnsureRoleRules sample_lib role_server (NamespacedName ''ns'' ''pg-barman-cloud'') [])
       (\<lambda>k. Some empty_role))"
proof -
  let ?cs = "io_calls (EnsureRoleRules sample_lib role_server (NamespacedName ''ns'' ''pg-barman-cloud'') [])
       (\<lambda>k. Some empty_role)"
  have "list_ex kube_write ?cs" by code_simp
  then obtain x where x: "x \<in> set ?cs" "kube_write x" unfolding list_ex_iff by blast
  note all = EnsureRoleRules_writes [OF role_server_retry, of sample_lib "NamespacedName ''ns'' ''pg-barman-cloud''"
      "[]" "\<lambda>k. Some empty_role", THEN conjunct1]
  from bspec [OF all x(1)] x show ?thesis by blast
qed


text \<open>An API server holding one RoleBinding.\<close>

definition binding_server :: "role_binding ext" where
  "binding_server = sample_ext\<lparr>k_get_role_binding := (\<lambda>k w. (Inr w, w)),
     k_patch_role_binding := (\<lambda>old new w. (Inr (), new))\<rparr>"

definition foreign_binding :: "role_ref \<Rightarrow> role_binding" where
  "foreign_binding ref = \<lparr>rb_Meta = \<lparr>om_Namespace = ''ns'', om_Name = ''pg-barman-cloud'', om_Labels = None,
       om_OwnerReferences = [], om_ResourceVersion = 7\<rparr>,
     rb_Subjects = [\<lparr>sub_Kind = ''User'', sub_APIGroup = '''', sub_Name = ''dba'', sub_Namespace = ''''\<rparr>],
     rb_RoleRef = ref\<rparr>"


text \<open>
  A RoleBinding that refers to another Role is never repaired silently. When the binding found
  under the cluster's name has another role reference, the reconciliation fails with an error that
  names it, at the first attempt, and writes nothing.
\<close>

theorem EnsureRoleBinding_divergent:
  assumes "retry_law e" "cl_Kind c \<noteq> ''''"
    and "k_get_role_binding e (object_key (rb_Meta (BuildRoleBinding L c))) w = (Inr rb, w1)"
    and "rb_RoleRef rb \<noteq> rb_RoleRef (BuildRoleBinding L c)"
  shows "EnsureRoleBinding L e c w = (Inl (divergent_role_ref rb),
    [Kube (Get_RoleBinding (object_key (rb_Meta (BuildRoleBinding L c))))], w1)"
proof -
  obtain meta where meta: "SetControllerReference L c (rb_Meta (BuildRoleBinding L c)) = Inr meta"
    "object_key meta = object_key (rb_Meta (BuildRoleBinding L c))"
    using assms(2) by (simp add: SetControllerReference_def object_key_def)
  let ?d = "(BuildRoleBinding L c)\<lparr>rb_Meta := meta\<rparr>"
  have "getOrCreateRoleBinding e ?d w = (Inr (Some rb),
      [Kube (Get_RoleBinding (object_key (rb_Meta (BuildRoleBinding L c))))], w1)"
    using assms(3) meta(2) by (simp add: getOrCreateRoleBinding_def Let_def io_simps)
  moreover have "reconcileRoleBinding e rb ?d w1 = (Inl (divergent_role_ref rb), [], w1)"
    unfolding reconcileRoleBinding_def
  proof (rule retry_lawE [OF assms(1)])
    fix n
    let ?f = "\<lambda>attempt. io_bind (if attempt = 0 then io_return rb
        else get_role_binding e (object_key (rb_Meta ?d))) (\<lambda>roleBinding.
     if rb_RoleRef roleBinding \<noteq> rb_RoleRef ?d then io_fail (divergent_role_ref roleBinding)
     else if \<not> roleBindingNeedsUpdate roleBinding ?d then io_return ()
     else patch_role_binding e roleBinding (roleBinding\<lparr>
       rb_Meta := (rb_Meta roleBinding)\<lparr>om_Labels :=
         mergeLabels (om_Labels (rb_Meta roleBinding)) (om_Labels (rb_Meta ?d))\<rparr>,
       rb_Subjects := mergeSubjects (rb_Subjects roleBinding) (rb_Subjects ?d)\<rparr>))"
    assume n: "retry_on_conflict e ?f w1 = attempts ?f 0 n w1"
    have "?f 0 w1 = (Inl (divergent_role_ref rb), [], w1)" using assms(4) by (simp add: io_simps)
    then show "retry_on_conflict e ?f w1 = (Inl (divergent_role_ref rb), [], w1)"
      unfolding n by (rule attempts_error) (simp add: divergent_role_ref_def api_reason_defs)
  qed
  ultimately show ?thesis
    using meta by (simp add: EnsureRoleBinding_def Let_def io_simps)
qed

theorem EnsureRoleBinding_divergent_witness:
  "io_result (EnsureRoleBinding sample_lib binding_server sample_cluster)
     (foreign_binding \<lparr>rr_APIGroup = ''rbac.authorization.k8s.io'', rr_Kind = ''ClusterRole'', rr_Name = ''admin''\<rparr>) =
   Inl (divergent_role_ref (foreign_binding
     \<lparr>rr_APIGroup = ''rbac.authorization.k8s.io'', rr_Kind = ''ClusterRole'', rr_Name = ''admin''\<rparr>))"
proof -
  let ?rb = "foreign_binding \<lparr>rr_APIGroup = ''rbac.authorization.k8s.io'', rr_Kind = ''ClusterRole'', rr_Name = ''admin''\<rparr>"
  have "retry_law binding_server" "cl_Kind sample_cluster \<noteq> ''''"
    "k_get_role_binding binding_server (object_key (rb_Meta (BuildRoleBinding sample_lib sample_cluster))) ?rb = (Inr ?rb, ?rb)"
    "rb_RoleRef ?rb \<noteq> rb_RoleRef (BuildRoleBinding sample_lib sample_cluster)"
    by (simp_all add: binding_server_def sample_cluster_def foreign_binding_def BuildRoleBinding_def)
  from EnsureRoleBinding_divergent [OF this] show ?thesis by (simp add: io_result_def)
qed

end
