(* ===== verification/Operator_Hooks.thy ===== *)
theory Operator_Hooks
  imports Rbac
begin

text \<open>
  Who calls the reconcilers: the Pre and Post hooks of the operator
  (\<open>internal/cnpgi/operator/reconciler.go\<close>) and the ObjectStore controller
  (\<open>internal/controller/objectstore_controller.go\<close>).
\<close>

section \<open>The hooks\<close>

datatype reconciler_capability = KIND_CLUSTER | KIND_BACKUP

datatype hook_behavior = BEHAVIOR_CONTINUE | BEHAVIOR_REQUEUE

definition reconciler_GetCapabilities :: "reconciler_capability list" where
  "reconciler_GetCapabilities = [KIND_CLUSTER, KIND_BACKUP]"

text \<open>The loop of \<open>Pre\<close> over the keys; \<open>None\<close> is the early return that requeues.\<close>

fun get_referred_stores :: "'w ext \<Rightarrow> namespaced_name list \<Rightarrow> ('w, object_store list option) eff" where
  "get_referred_stores e [] = io_return (Some [])"
| "get_referred_stores e (key # keys) = io_try (get_object_store e key) (\<lambda>res. case res of
     Inl err \<Rightarrow> if IsNotFound err then io_return None else io_fail err
   | Inr barmanObject \<Rightarrow> io_bind (get_referred_stores e keys) (\<lambda>rest. case rest of
       None \<Rightarrow> io_return None | Some objs \<Rightarrow> io_return (Some (barmanObject # objs))))"

definition Pre :: "lib \<Rightarrow> 'w ext \<Rightarrow> string \<Rightarrow> ('w, hook_behavior) eff" where
  "Pre L e resourceDefinition =
     io_bind (io_lift (GetKind L resourceDefinition)) (\<lambda>reconciledKind.
     if reconciledKind \<noteq> ''Cluster'' then io_return BEHAVIOR_CONTINUE
     else io_bind (io_lift (DecodeCluster L resourceDefinition)) (\<lambda>c.
       let pluginConfiguration = NewFromCluster L c in
       io_bind (get_referred_stores e (GetReferredBarmanObjectsKey L pluginConfiguration)) (\<lambda>found.
       case found of
         None \<Rightarrow> io_return BEHAVIOR_REQUEUE
       | Some barmanObjects \<Rightarrow>
           io_seq (EnsureRole L e c barmanObjects)
             (io_seq (EnsureRoleBinding L e c) (io_return BEHAVIOR_CONTINUE)))))"

definition Post :: "('w, hook_behavior) eff" where
  "Post = io_return BEHAVIOR_CONTINUE"

section \<open>The ObjectStore controller\<close>

text \<open>ObjectStores that do not exist are skipped.\<close>

fun get_existing_stores :: "'w ext \<Rightarrow> string \<Rightarrow> string list \<Rightarrow> ('w, object_store list) eff" where
  "get_existing_stores e namespace [] = io_return []"
| "get_existing_stores e namespace (name # names) =
     io_try (get_object_store e (NamespacedName namespace name)) (\<lambda>res. case res of
       Inl err \<Rightarrow> if IsNotFound err then get_existing_stores e namespace names
         else io_fail (Errorf ''while getting ObjectStore %s: %w'' [name] (Some err))
     | Inr barmanObject \<Rightarrow> io_bind (get_existing_stores e namespace names) (\<lambda>objs.
         io_return (barmanObject # objs)))"

definition reconcileRoleRules :: "lib \<Rightarrow> 'w ext \<Rightarrow> role \<Rightarrow> string list \<Rightarrow> ('w, unit) eff" where
  "reconcileRoleRules L e r objectStoreNames =
     io_bind (get_existing_stores e (om_Namespace (role_Meta r)) objectStoreNames) (\<lambda>barmanObjects.
       EnsureRoleRules L e (object_key (role_Meta r)) barmanObjects)"

text \<open>The loop of \<open>Reconcile\<close>: it goes on after a failure and collects the errors.\<close>

fun reconcile_roles :: "lib \<Rightarrow> 'w ext \<Rightarrow> string \<Rightarrow> role list \<Rightarrow> ('w, go_error list) eff" where
  "reconcile_roles L e storeName [] = io_return []"
| "reconcile_roles L e storeName (r # rs) =
     (let objectStoreNames = ObjectStoreNamesFromRole r in
      if storeName \<notin> set objectStoreNames then reconcile_roles L e storeName rs
      else io_try (reconcileRoleRules L e r objectStoreNames) (\<lambda>res.
        io_bind (reconcile_roles L e storeName rs) (\<lambda>errs. case res of
          Inl err \<Rightarrow> io_return (Errorf ''while reconciling role %s: %w'' [om_Name (role_Meta r)] (Some err) # errs)
        | Inr u \<Rightarrow> io_return errs)))"

definition Reconcile :: "lib \<Rightarrow> 'w ext \<Rightarrow> namespaced_name \<Rightarrow> ('w, unit) eff" where
  "Reconcile L e req =
     io_bind (io_map_error (\<lambda>err. Errorf ''while listing roles: %w'' [] (Some err))
       (list_roles e (nn_Namespace req) ClusterLabelName)) (\<lambda>roleList.
     io_bind (reconcile_roles L e (nn_Name req) roleList) (\<lambda>errs.
       if errs = [] then io_return () else io_fail (Joined errs)))"

section \<open>Properties\<close>

lemma only_calls_get_referred:
  "only_calls (\<lambda>x. \<exists>k \<in> set keys. x = Kube (Get_ObjectStore k)) (get_referred_stores e keys)"
proof (induction keys)
  case Nil
  show ?case by (auto intro!: calls_rules)
next
  case (Cons k ks)
  have "only_calls (\<lambda>x. \<exists>k \<in> set (k # ks). x = Kube (Get_ObjectStore k)) (get_referred_stores e ks)"
    by (rule only_calls_mono [OF Cons.IH]) auto
  then show ?case unfolding get_referred_stores.simps by (intro calls_rules) auto
qed

lemma only_calls_get_existing:
  "only_calls (\<lambda>x. \<not> kube_write x) (get_existing_stores e ns names)"
  by (induction names) (simp_all only: get_existing_stores.simps, auto intro!: calls_rules)

lemma get_referred_stores_run:
  assumes "store_api_law e stores"
  shows "io_result (get_referred_stores e keys) w = Inr (those (map (stores w) keys))"
    "io_world (get_referred_stores e keys) w = w"
proof -
  have "io_result (get_referred_stores e keys) w = Inr (those (map (stores w) keys)) \<and>
    io_world (get_referred_stores e keys) w = w"
  proof (induction keys)
    case Nil
    show ?case by (simp add: io_result_def io_world_def io_simps)
  next
    case (Cons k ks)
    have get: "k_get_object_store e k w =
        (case stores w k of Some os \<Rightarrow> Inr os | None \<Rightarrow> Inl (Api_Error NotFound), w)"
      using assms by (simp add: store_api_law_def)
    obtain cs where run: "get_referred_stores e ks w = (Inr (those (map (stores w) ks)), cs, w)"
      using Cons io_split [of "get_referred_stores e ks" w] by metis
    show ?case
      by (cases "stores w k"; cases "those (map (stores w) ks)")
        (simp_all add: io_result_def io_world_def io_simps get run api_reason_defs)
  qed
  then show "io_result (get_referred_stores e keys) w = Inr (those (map (stores w) keys))"
    "io_world (get_referred_stores e keys) w = w" by blast+
qed

lemma get_existing_stores_run:
  assumes "store_api_law e stores"
  shows "io_result (get_existing_stores e ns names) w =
      Inr (List.map_filter (\<lambda>n. stores w (NamespacedName ns n)) names)"
    "io_world (get_existing_stores e ns names) w = w"
proof -
  have "io_result (get_existing_stores e ns names) w =
      Inr (List.map_filter (\<lambda>n. stores w (NamespacedName ns n)) names) \<and>
    io_world (get_existing_stores e ns names) w = w"
  proof (induction names)
    case Nil
    show ?case by (simp add: io_result_def io_world_def io_simps List.map_filter_def)
  next
    case (Cons n names)
    have get: "k_get_object_store e k w =
        (case stores w k of Some os \<Rightarrow> Inr os | None \<Rightarrow> Inl (Api_Error NotFound), w)" for k
      using assms by (simp add: store_api_law_def)
    obtain cs where run: "get_existing_stores e ns names w =
        (Inr (List.map_filter (\<lambda>n. stores w (NamespacedName ns n)) names), cs, w)"
      using Cons io_split [of "get_existing_stores e ns names" w] by metis
    show ?case
      by (cases "stores w (NamespacedName ns n)")
        (simp_all add: io_result_def io_world_def io_simps get run api_reason_defs map_filter_simps)
  qed
  then show "io_result (get_existing_stores e ns names) w =
      Inr (List.map_filter (\<lambda>n. stores w (NamespacedName ns n)) names)"
    "io_world (get_existing_stores e ns names) w = w" by blast+
qed

text \<open>One role, on an API server that behaves as documented and holds it.\<close>

lemma reconcileRoleRules_run:
  assumes "retry_law e" "role_api_law e roles" "store_api_law e stores"
    and "roles w (object_key (role_Meta r)) = Some r"
  shows "\<exists>r' w' cs. reconcileRoleRules L e r names w = (Inr (), cs, w') \<and>
    roles w' = (roles w)(object_key (role_Meta r) \<mapsto> r') \<and>
    role_Rules r' = BuildRoleRules L (List.map_filter (\<lambda>n. stores w (NamespacedName (om_Namespace (role_Meta r)) n)) names)"
proof -
  let ?objs = "List.map_filter (\<lambda>n. stores w (NamespacedName (om_Namespace (role_Meta r)) n)) names"
  obtain cs0 where get: "get_existing_stores e (om_Namespace (role_Meta r)) names w = (Inr ?objs, cs0, w)"
    using get_existing_stores_run [OF assms(3)] io_split by metis
  obtain r' w' cs where p: "patchRole e (object_key (role_Meta r)) (BuildRoleRules L ?objs) None w = (Inr (), cs, w')"
    "roles w' = (roles w)(object_key (role_Meta r) \<mapsto> r')"
    "role_content_of r' = reconcile role_needs role_merge (role_content_of r) (BuildRoleRules L ?objs, None)"
    using patchRole_run [OF assms(1,2,4)] by blast
  have "role_Rules r' = BuildRoleRules L ?objs"
    using p(3) by (auto simp: role_content_of_def reconcile_def pair_needs_def pair_merge_def split: if_splits)
  then show ?thesis using get p(1,2)
    by (intro exI [of _ r']) (simp add: reconcileRoleRules_def EnsureRoleRules_def io_simps)
qed

text \<open>
  What listing documents: the Roles of the namespace that carry the label, each once, as stored;
  reading changes nothing. And nothing done to Roles changes the ObjectStores.
\<close>

definition list_api_law ::
  "'w ext \<Rightarrow> ('w \<Rightarrow> namespaced_name \<Rightarrow> role option) \<Rightarrow> ('w \<Rightarrow> namespaced_name \<Rightarrow> object_store option) \<Rightarrow> bool" where
  "list_api_law e roles stores \<longleftrightarrow>
     (\<forall>ns label w. \<exists>rs. k_list_roles e ns label w = (Inr rs, w) \<and> distinct (map (\<lambda>r. object_key (role_Meta r)) rs) \<and>
        set rs = {r. \<exists>k. roles w k = Some r \<and> nn_Namespace k = ns \<and> gm_lookup (om_Labels (role_Meta r)) label \<noteq> None}) \<and>
     (\<forall>old new w. stores (snd (k_patch_role e old new w)) = stores w) \<and>
     (\<forall>k w. stores (snd (k_get_role e k w)) = stores w)"

lemma keeps_stores:
  assumes "retry_law e" "store_api_law e stores" "list_api_law e roles stores"
  shows "keeps stores (reconcileRoleRules L e r names)"
proof -
  have g: "keeps stores (get_existing_stores e ns names)" for ns
    by (simp add: keeps_def get_existing_stores_run [OF assms(2)])
  show ?thesis
    unfolding reconcileRoleRules_def EnsureRoleRules_def patchRole_eq
    by (intro keeps_rules assms(1) g) (use assms(3) in \<open>simp_all add: list_api_law_def\<close>)
qed

text \<open>The ObjectStores named by a Role that exist.\<close>

definition stores_of :: "(namespaced_name \<Rightarrow> object_store option) \<Rightarrow> role \<Rightarrow> object_store list" where
  "stores_of stores r =
     List.map_filter (\<lambda>n. stores (NamespacedName (om_Namespace (role_Meta r)) n)) (ObjectStoreNamesFromRole r)"

lemma reconcile_roles_run:
  assumes "retry_law e" "role_api_law e roles" "store_api_law e stores" "list_api_law e roles stores"
  shows "distinct (map (\<lambda>r. object_key (role_Meta r)) rs) \<Longrightarrow> (\<forall>r \<in> set rs. roles w (object_key (role_Meta r)) = Some r) \<Longrightarrow>
    \<exists>w' cs. reconcile_roles L e n rs w = (Inr [], cs, w') \<and> stores w' = stores w \<and>
      (\<forall>r \<in> set rs. n \<in> set (ObjectStoreNamesFromRole r) \<longrightarrow>
         map_option role_Rules (roles w' (object_key (role_Meta r))) = Some (BuildRoleRules L (stores_of (stores w) r))) \<and>
      (\<forall>k. (\<forall>r \<in> set rs. n \<in> set (ObjectStoreNamesFromRole r) \<longrightarrow> object_key (role_Meta r) \<noteq> k) \<longrightarrow> roles w' k = roles w k)"
proof (induction rs arbitrary: w)
  case Nil
  show ?case by (simp add: io_simps)
next
  case (Cons r rs)
  let ?k = "object_key (role_Meta r)"
  show ?case
  proof (cases "n \<in> set (ObjectStoreNamesFromRole r)")
    case False
    with Cons show ?thesis by simp
  next
    case True
    from Cons.prems(2) have "roles w ?k = Some r" by simp
    from reconcileRoleRules_run [OF assms(1-3) this, of L "ObjectStoreNamesFromRole r"]
    obtain r' w1 cs1 where 1: "reconcileRoleRules L e r (ObjectStoreNamesFromRole r) w = (Inr (), cs1, w1)"
      "roles w1 = (roles w)(?k \<mapsto> r')" "role_Rules r' = BuildRoleRules L (stores_of (stores w) r)"
      unfolding stores_of_def by blast
    have st: "stores w1 = stores w" by (rule keeps_run [OF keeps_stores [OF assms(1,3,4)] 1(1)])
    have "\<forall>r2 \<in> set rs. roles w1 (object_key (role_Meta r2)) = Some r2"
      using Cons.prems 1(2) by (auto simp: image_iff)
    from Cons.IH [OF _ this] Cons.prems(1) obtain w2 cs2 where
      2: "reconcile_roles L e n rs w1 = (Inr [], cs2, w2)" "stores w2 = stores w1"
      "\<forall>r2 \<in> set rs. n \<in> set (ObjectStoreNamesFromRole r2) \<longrightarrow>
         map_option role_Rules (roles w2 (object_key (role_Meta r2))) = Some (BuildRoleRules L (stores_of (stores w1) r2))"
      "\<forall>k. (\<forall>r2 \<in> set rs. n \<in> set (ObjectStoreNamesFromRole r2) \<longrightarrow> object_key (role_Meta r2) \<noteq> k) \<longrightarrow> roles w2 k = roles w1 k"
      by auto
    have "\<forall>r2 \<in> set rs. object_key (role_Meta r2) \<noteq> ?k" using Cons.prems(1) by (auto simp: image_iff)
    then have "roles w2 ?k = Some r'" using 2(4) 1(2) by simp
    then show ?thesis using True 1 2 st by (auto simp: io_simps)
  qed
qed

lemma Reconcile_run:
  assumes "retry_law e" "role_api_law e roles" "store_api_law e stores" "list_api_law e roles stores"
  shows "\<exists>w' cs. Reconcile L e (NamespacedName ns n) w = (Inr (), cs, w') \<and>
    (\<forall>k. case roles w k of
       Some r \<Rightarrow>
         if nn_Namespace k = ns \<and> gm_lookup (om_Labels (role_Meta r)) ClusterLabelName \<noteq> None \<and>
            n \<in> set (ObjectStoreNamesFromRole r)
         then map_option role_Rules (roles w' k) = Some (BuildRoleRules L (stores_of (stores w) r))
         else roles w' k = Some r
     | None \<Rightarrow> roles w' k = None)"
proof -
  obtain rs where l: "k_list_roles e ns ClusterLabelName w = (Inr rs, w)"
    and d: "distinct (map (\<lambda>r. object_key (role_Meta r)) rs)"
    and s: "set rs = {r. \<exists>k. roles w k = Some r \<and> nn_Namespace k = ns \<and>
      gm_lookup (om_Labels (role_Meta r)) ClusterLabelName \<noteq> None}"
    using assms(4) unfolding list_api_law_def by blast
  have key: "roles w k = Some r \<Longrightarrow> object_key (role_Meta r) = k" for k r by (rule role_api_lawD(4) [OF assms(2)])
  have stored: "\<forall>r \<in> set rs. roles w (object_key (role_Meta r)) = Some r" using s key by auto
  from reconcile_roles_run [OF assms d this, of L n] obtain w' cs where
    R: "reconcile_roles L e n rs w = (Inr [], cs, w')"
    "\<forall>r \<in> set rs. n \<in> set (ObjectStoreNamesFromRole r) \<longrightarrow>
       map_option role_Rules (roles w' (object_key (role_Meta r))) = Some (BuildRoleRules L (stores_of (stores w) r))"
    "\<forall>k. (\<forall>r \<in> set rs. n \<in> set (ObjectStoreNamesFromRole r) \<longrightarrow> object_key (role_Meta r) \<noteq> k) \<longrightarrow> roles w' k = roles w k"
    by blast
  have run: "Reconcile L e (NamespacedName ns n) w = (Inr (), Kube (List_Roles ns ClusterLabelName) # cs, w')"
    using l R(1) by (simp add: Reconcile_def io_simps)
  have "case roles w k of
       Some r \<Rightarrow>
         if nn_Namespace k = ns \<and> gm_lookup (om_Labels (role_Meta r)) ClusterLabelName \<noteq> None \<and>
            n \<in> set (ObjectStoreNamesFromRole r)
         then map_option role_Rules (roles w' k) = Some (BuildRoleRules L (stores_of (stores w) r))
         else roles w' k = Some r
     | None \<Rightarrow> roles w' k = None" for k
  proof (cases "roles w k")
    case None
    then have "\<forall>r \<in> set rs. object_key (role_Meta r) \<noteq> k" using s key by auto
    with None R(3) show ?thesis by simp
  next
    case (Some r)
    then have k: "object_key (role_Meta r) = k" by (rule key)
    have mem: "r \<in> set rs \<longleftrightarrow> nn_Namespace k = ns \<and> gm_lookup (om_Labels (role_Meta r)) ClusterLabelName \<noteq> None"
    proof
      assume "r \<in> set rs"
      then obtain j where j: "roles w j = Some r" "nn_Namespace j = ns"
        "gm_lookup (om_Labels (role_Meta r)) ClusterLabelName \<noteq> None" using s by auto
      from key [OF j(1)] k have "j = k" by simp
      with j show "nn_Namespace k = ns \<and> gm_lookup (om_Labels (role_Meta r)) ClusterLabelName \<noteq> None" by simp
    qed (use s Some in auto)
    show ?thesis
    proof (cases "r \<in> set rs \<and> n \<in> set (ObjectStoreNamesFromRole r)")
      case True
      with R(2) [rule_format, of r] k Some mem show ?thesis by simp
    next
      case False
      have "\<forall>r2 \<in> set rs. n \<in> set (ObjectStoreNamesFromRole r2) \<longrightarrow> object_key (role_Meta r2) \<noteq> k"
        using False stored Some by force
      then have w': "roles w' k = Some r" using R(3) Some by simp
      have "\<not> (nn_Namespace k = ns \<and> gm_lookup (om_Labels (role_Meta r)) ClusterLabelName \<noteq> None \<and>
          n \<in> set (ObjectStoreNamesFromRole r))" using False mem by blast
      then show ?thesis using Some w' by (simp only: option.case if_False)
    qed
  qed
  with run show ?thesis by blast
qed

text \<open>An API server: the Roles it stores, the newest first, and its ObjectStores.\<close>

type_synonym server = "role list \<times> object_store list"

definition server_roles :: "server \<Rightarrow> namespaced_name \<Rightarrow> role option" where
  "server_roles w k = find (\<lambda>r. object_key (role_Meta r) = k) (fst w)"

definition server_stores :: "server \<Rightarrow> namespaced_name \<Rightarrow> object_store option" where
  "server_stores w k = find (\<lambda>os. object_key (os_Meta os) = k) (snd w)"

definition operator_server :: "server ext" where
  "operator_server = sample_ext\<lparr>
     k_get_role := (\<lambda>k w. (case server_roles w k of Some r \<Rightarrow> Inr r | None \<Rightarrow> Inl (Api_Error NotFound), w)),
     k_create_role := (\<lambda>r w. (Inr (), (r # fst w, snd w))),
     k_patch_role := (\<lambda>old new w. (Inr (), (new # fst w, snd w))),
     k_list_roles := (\<lambda>ns label w. (Inr (filter (\<lambda>r. server_roles w (object_key (role_Meta r)) = Some r \<and>
       om_Namespace (role_Meta r) = ns \<and> gm_lookup (om_Labels (role_Meta r)) label \<noteq> None) (remdups (fst w))), w)),
     k_get_object_store := (\<lambda>k w. (case server_stores w k of Some os \<Rightarrow> Inr os | None \<Rightarrow> Inl (Api_Error NotFound), w)),
     k_get_role_binding := (\<lambda>k w. (Inl (Api_Error NotFound), w)),
     k_create_role_binding := (\<lambda>b w. (Inr (), w))\<rparr>"

lemma server_roles_key: "server_roles w k = Some r \<Longrightarrow> object_key (role_Meta r) = k"
  by (auto simp: server_roles_def find_Some_iff)

lemma server_roles_put: "server_roles (r # rs, oss) = (server_roles (rs, oss))(object_key (role_Meta r) \<mapsto> r)"
  by (auto simp: server_roles_def fun_eq_iff)

lemma operator_server_retry: "retry_law operator_server"
  by (simp add: operator_server_def)

lemma operator_server_stores: "store_api_law operator_server server_stores"
  by (simp add: store_api_law_def operator_server_def)

lemma operator_server_roles: "role_api_law operator_server server_roles"
  unfolding role_api_law_def
proof (intro conjI allI impI)
  fix old new :: role and k w
  assume a: "server_roles w k = Some old \<and> object_key (role_Meta old) = k \<and> object_key (role_Meta new) = k"
  have "server_roles (new # fst w, snd w) = (server_roles w)(k \<mapsto> new)"
    using a server_roles_put [of new "fst w" "snd w"] by simp
  then show "\<exists>r' w'. k_patch_role operator_server old new w = (Inr (), w') \<and> same_role r' new \<and>
      server_roles w' = (server_roles w)(k \<mapsto> r')"
    by (intro exI [of _ new]) (simp add: operator_server_def same_role_def)
next
  fix r :: role and w assume "server_roles w (object_key (role_Meta r)) = None"
  then show "\<exists>r' w'. k_create_role operator_server r w = (Inr (), w') \<and> same_role r' r \<and>
      server_roles w' = (server_roles w)(object_key (role_Meta r) \<mapsto> r')"
    using server_roles_put [of r "fst w" "snd w"]
    by (intro exI [of _ r]) (simp add: operator_server_def same_role_def)
qed (auto simp: operator_server_def server_roles_key)

lemma operator_server_list: "list_api_law operator_server server_roles server_stores"
  unfolding list_api_law_def
proof (intro conjI allI)
  fix ns label and w :: server
  let ?rs = "filter (\<lambda>r. server_roles w (object_key (role_Meta r)) = Some r \<and>
       om_Namespace (role_Meta r) = ns \<and> gm_lookup (om_Labels (role_Meta r)) label \<noteq> None) (remdups (fst w))"
  have "distinct (map (\<lambda>r. object_key (role_Meta r)) ?rs)"
    unfolding distinct_map
  proof
    show "distinct ?rs" by simp
    show "inj_on (\<lambda>r. object_key (role_Meta r)) (set ?rs)"
      by (rule inj_on_inverseI [where g = "\<lambda>k. the (server_roles w k)"]) simp
  qed
  moreover have "set ?rs = {r. \<exists>k. server_roles w k = Some r \<and> nn_Namespace k = ns \<and>
      gm_lookup (om_Labels (role_Meta r)) label \<noteq> None}"
  proof (intro equalityI subsetI)
    fix r assume "r \<in> set ?rs"
    then show "r \<in> {r. \<exists>k. server_roles w k = Some r \<and> nn_Namespace k = ns \<and>
        gm_lookup (om_Labels (role_Meta r)) label \<noteq> None}"
      by (auto simp: object_key_def)
  next
    fix r assume "r \<in> {r. \<exists>k. server_roles w k = Some r \<and> nn_Namespace k = ns \<and>
        gm_lookup (om_Labels (role_Meta r)) label \<noteq> None}"
    then obtain k where k: "server_roles w k = Some r" "nn_Namespace k = ns"
      "gm_lookup (om_Labels (role_Meta r)) label \<noteq> None" by blast
    note key = server_roles_key [OF k(1)]
    have "r \<in> set (fst w)" using k(1) by (auto simp: server_roles_def find_Some_iff)
    moreover have "om_Namespace (role_Meta r) = ns" using key k(2) by (auto simp: object_key_def)
    ultimately show "r \<in> set ?rs" using k key by simp
  qed
  ultimately show "\<exists>rs. k_list_roles operator_server ns label w = (Inr rs, w) \<and>
      distinct (map (\<lambda>r. object_key (role_Meta r)) rs) \<and> set rs = {r. \<exists>k. server_roles w k = Some r \<and>
        nn_Namespace k = ns \<and> gm_lookup (om_Labels (role_Meta r)) label \<noteq> None}"
    by (intro exI [of _ ?rs]) (simp add: operator_server_def)
qed (simp_all add: operator_server_def server_stores_def fun_eq_iff)

lemmas operator_server_laws = operator_server_retry operator_server_roles operator_server_stores operator_server_list

definition stored_sample_role :: role where
  "stored_sample_role = BuildRole sample_lib sample_cluster [sample_store ''store'']"

lemma stored_sample_role_simps:
  "object_key (role_Meta stored_sample_role) = NamespacedName ''ns'' ''pg-barman-cloud''"
  "gm_lookup (om_Labels (role_Meta stored_sample_role)) ClusterLabelName = Some ''pg''"
  "ObjectStoreNamesFromRole stored_sample_role = [''store'']"
  "om_Namespace (role_Meta stored_sample_role) = ''ns''"
  by (simp_all add: stored_sample_role_def ObjectStoreNamesFromRole_Build)
    (simp_all add: BuildRole_def object_key_def sample_cluster_def GetRBACName_def BuildLabels_def gm_lookup_def
      sample_lib_def)

text \<open>
  C14. Convergence of the controller. On an API server that behaves as documented, reconciling an
  ObjectStore succeeds, and afterwards every plugin-managed Role of the namespace that named it
  allows exactly what the rules for the existing ObjectStores among those it named allow; every other
  Role is as before.
\<close>

theorem Reconcile_converges:
  assumes "retry_law e" "role_api_law e roles" "store_api_law e stores" "list_api_law e roles stores"
  shows "\<exists>w' cs. Reconcile L e (NamespacedName ns n) w = (Inr (), cs, w') \<and>
    (\<forall>k. case roles w k of
       Some r \<Rightarrow>
         if nn_Namespace k = ns \<and> gm_lookup (om_Labels (role_Meta r)) ClusterLabelName \<noteq> None \<and>
            n \<in> set (ObjectStoreNamesFromRole r)
         then map_option role_Rules (roles w' k) = Some (BuildRoleRules L (stores_of (stores w) r))
         else roles w' k = Some r
     | None \<Rightarrow> roles w' k = None)"
  using assms by (rule Reconcile_run)

theorem Reconcile_converges_witness:
  "\<exists>w' cs. Reconcile sample_lib operator_server (NamespacedName ''ns'' ''store'')
       ([stored_sample_role], [sample_store ''store'']) = (Inr (), cs, w') \<and>
     map_option role_Rules (server_roles w' (NamespacedName ''ns'' ''pg-barman-cloud'')) =
       Some (BuildRoleRules sample_lib [sample_store ''store''])"
proof -
  let ?w = "([stored_sample_role], [sample_store ''store'']) :: server" and ?k = "NamespacedName ''ns'' ''pg-barman-cloud''"
  have r: "server_roles ?w ?k = Some stored_sample_role"
    by (simp add: server_roles_def stored_sample_role_simps)
  have s: "stores_of (server_stores ?w) stored_sample_role = [sample_store ''store'']"
    by (simp add: stores_of_def stored_sample_role_simps map_filter_simps server_stores_def)
      (simp add: sample_store_def object_key_def)
  obtain w' cs where "Reconcile sample_lib operator_server (NamespacedName ''ns'' ''store'') ?w = (Inr (), cs, w')"
    "case server_roles ?w ?k of
       Some r \<Rightarrow> if nn_Namespace ?k = ''ns'' \<and> gm_lookup (om_Labels (role_Meta r)) ClusterLabelName \<noteq> None \<and>
            ''store'' \<in> set (ObjectStoreNamesFromRole r)
         then map_option role_Rules (server_roles w' ?k) = Some (BuildRoleRules sample_lib (stores_of (server_stores ?w) r))
         else server_roles w' ?k = Some r
     | None \<Rightarrow> server_roles w' ?k = None"
    using Reconcile_converges [OF operator_server_laws, of sample_lib "''ns''" "''store''" ?w] by blast
  then show ?thesis by (simp add: r s stored_sample_role_simps)
qed

text \<open>
  C36. Deleting the last ObjectStore. When none of the ObjectStores a Role names exists any more,
  reconciling leaves a Role whose rules have no resource names, which Kubernetes reads as a permission
  on every ObjectStore and every Secret of the namespace.
\<close>

theorem Reconcile_last_store_deleted:
  assumes "retry_law e" "role_api_law e roles" "store_api_law e stores" "list_api_law e roles stores"
    and "sorted_list_law L"
    and "roles w k = Some r" "gm_lookup (om_Labels (role_Meta r)) ClusterLabelName \<noteq> None"
    and "n \<in> set (ObjectStoreNamesFromRole r)" "stores_of (stores w) r = []"
  shows "\<exists>w' cs r'. Reconcile L e (NamespacedName (nn_Namespace k) n) w = (Inr (), cs, w') \<and> roles w' k = Some r' \<and>
    (\<forall>name. rules_allow (role_Rules r') ''get'' '''' ''secrets'' name \<and>
       rules_allow (role_Rules r') ''get'' GroupVersion_Group ''objectstores'' name)"
proof -
  obtain w' cs where run: "Reconcile L e (NamespacedName (nn_Namespace k) n) w = (Inr (), cs, w')"
    and "map_option role_Rules (roles w' k) = Some (BuildRoleRules L [])"
    using Reconcile_run [OF assms(1-4), of L "nn_Namespace k" n w] assms(6-9)
    by (auto dest: spec [of _ k])
  then obtain r' where r': "roles w' k = Some r'" "role_Rules r' = BuildRoleRules L []" by auto
  have "ToSortedList L [] = []" using sorted_list_lawD(1) [OF assms(5), of "[]"] by simp
  then have "rules_allow (role_Rules r') ''get'' '''' ''secrets'' name \<and>
      rules_allow (role_Rules r') ''get'' GroupVersion_Group ''objectstores'' name" for name
    by (simp add: r'(2) rules_allow_def rule_allows_def BuildRoleRules_def)
  with run r'(1) show ?thesis by blast
qed

theorem Reconcile_last_store_deleted_witness:
  "\<exists>w' cs r'. Reconcile sample_lib operator_server (NamespacedName ''ns'' ''store'') ([stored_sample_role], []) =
       (Inr (), cs, w') \<and> server_roles w' (NamespacedName ''ns'' ''pg-barman-cloud'') = Some r' \<and>
     rules_allow (role_Rules r') ''get'' '''' ''secrets'' ''unrelated''"
proof -
  let ?w = "([stored_sample_role], []) :: server" and ?k = "NamespacedName ''ns'' ''pg-barman-cloud''"
  have "server_roles ?w ?k = Some stored_sample_role"
    "gm_lookup (om_Labels (role_Meta stored_sample_role)) ClusterLabelName \<noteq> None"
    "''store'' \<in> set (ObjectStoreNamesFromRole stored_sample_role)"
    "stores_of (server_stores ?w) stored_sample_role = []"
    by (simp_all add: server_roles_def stored_sample_role_simps stores_of_def map_filter_simps server_stores_def)
  from Reconcile_last_store_deleted [where w = ?w and k = ?k and r = stored_sample_role and n = "''store''"
      and stores = server_stores and roles = server_roles, OF operator_server_laws sample_lib_sorted this]
  show ?thesis by auto
qed

section \<open>The Pre hook\<close>

text \<open>Nothing done to RoleBindings changes the Roles.\<close>

definition binding_keeps_law :: "'w ext \<Rightarrow> ('w \<Rightarrow> namespaced_name \<Rightarrow> role option) \<Rightarrow> bool" where
  "binding_keeps_law e roles \<longleftrightarrow> (\<forall>k w. roles (snd (k_get_role_binding e k w)) = roles w) \<and>
     (\<forall>b w. roles (snd (k_create_role_binding e b w)) = roles w) \<and>
     (\<forall>old new w. roles (snd (k_patch_role_binding e old new w)) = roles w)"

lemma keeps_EnsureRoleBinding:
  assumes "retry_law e" "binding_keeps_law e roles"
  shows "keeps roles (EnsureRoleBinding L e c)"
  unfolding EnsureRoleBinding_def Let_def getOrCreateRoleBinding_def reconcileRoleBinding_def
  by (intro keeps_rules assms(1)) (use assms(2) in \<open>simp_all add: binding_keeps_law_def\<close>)

lemma those_map: "those (map f xs) = (if \<exists>x \<in> set xs. f x = None then None else Some (map (the \<circ> f) xs))"
proof (induction xs)
  case (Cons a xs)
  then show ?case by (cases "f a"; cases "\<exists>x \<in> set xs. f x = None") simp_all
qed simp

text \<open>
  C15. The Pre hook of a Cluster. When an ObjectStore the cluster refers to does not exist, the hook asks
  to be called again and changes nothing. Otherwise it never asks for that, and the Role of the cluster
  ends up with the rules for exactly the ObjectStores the cluster refers to.
\<close>

theorem Pre_outcome:
  assumes "GetKind L json = Inr ''Cluster''" "DecodeCluster L json = Inr c" "cl_Kind c \<noteq> ''''"
    and "retry_law e" "role_api_law e roles" "store_api_law e stores" "labels_law L" "binding_keeps_law e roles"
    and keys: "keys = GetReferredBarmanObjectsKey L (NewFromCluster L c)"
    and run: "Pre L e json w = (res, cs, w')"
  shows "if \<exists>k \<in> set keys. stores w k = None
    then res = Inr BEHAVIOR_REQUEUE \<and> w' = w \<and> (\<forall>x \<in> set cs. \<not> kube_write x)
    else res \<noteq> Inr BEHAVIOR_REQUEUE \<and>
      map_option role_Rules (roles w' (NamespacedName (cl_Namespace c) (GetRBACName (cl_Name c)))) =
        Some (BuildRoleRules L (map (the \<circ> stores w) keys))"
proof -
  obtain cs0 where g: "get_referred_stores e keys w = (Inr (those (map (stores w) keys)), cs0, w)"
    using get_referred_stores_run [OF assms(6)] io_split by metis
  have quiet: "\<forall>x \<in> set cs0. \<not> kube_write x" using only_calls_run [OF only_calls_get_referred g] by auto
  show ?thesis
  proof (cases "\<exists>k \<in> set keys. stores w k = None")
    case True
    then show ?thesis using run g quiet assms(1,2)
      by (simp add: Pre_def io_simps keys [symmetric] those_map)
  next
    case False
    let ?objs = "map (the \<circ> stores w) keys"
    let ?k = "NamespacedName (cl_Namespace c) (GetRBACName (cl_Name c))"
    obtain r w1 cs1 where 1: "EnsureRole L e c ?objs w = (Inr (), cs1, w1)" "roles w1 = (roles w)(?k \<mapsto> r)"
      "role_content_of r = ensured_content L c ?objs (roles w ?k)"
      using EnsureRole_run [OF assms(4,5,7,3) refl, of ?objs w] by blast
    have rules: "role_Rules r = BuildRoleRules L ?objs"
      using 1(3) by (auto simp: ensured_content_def role_content_of_def reconcile_def pair_needs_def pair_merge_def
          split: option.splits if_splits)
    obtain res2 cs2 w2 where 2: "EnsureRoleBinding L e c w1 = (res2, cs2, w2)" by (metis surj_pair)
    have "roles w2 = roles w1" by (rule keeps_run [OF keeps_EnsureRoleBinding [OF assms(4,8)] 2])
    moreover have "w' = w2" "res \<noteq> Inr BEHAVIOR_REQUEUE"
      using run g False assms(1,2) 1(1) 2
      by (auto simp: Pre_def io_simps keys [symmetric] those_map split: sum.splits)
    ultimately show ?thesis using False 1(2) rules by simp
  qed
qed

definition hook_cluster :: cluster where
  "hook_cluster = sample_cluster\<lparr>cl_Plugins := [sample_plugin ''store'']\<rparr>"

definition hook_lib :: lib where
  "hook_lib = sample_lib\<lparr>GetKind := (\<lambda>j. Inr ''Cluster''), DecodeCluster := (\<lambda>j. Inr hook_cluster)\<rparr>"

theorem Pre_outcome_witness:
  "io_result (Pre hook_lib operator_server '''') ([], []) = Inr BEHAVIOR_REQUEUE \<and>
   map_option role_Rules (server_roles (io_world (Pre hook_lib operator_server '''') ([], [sample_store ''store'']))
     (NamespacedName ''ns'' ''pg-barman-cloud'')) = Some (BuildRoleRules hook_lib [sample_store ''store''])"
proof -
  have h: "GetKind hook_lib '''' = Inr ''Cluster''" "DecodeCluster hook_lib '''' = Inr hook_cluster"
    "cl_Kind hook_cluster \<noteq> ''''" "labels_law hook_lib"
    using sample_labels_law by (simp_all add: hook_lib_def hook_cluster_def sample_cluster_def labels_law_def)
  have b: "binding_keeps_law operator_server server_roles"
    by (simp add: binding_keeps_law_def operator_server_def sample_ext_def unavailable_def)
  have k: "[NamespacedName ''ns'' ''store''] = GetReferredBarmanObjectsKey hook_lib (NewFromCluster hook_lib hook_cluster)"
    by code_simp
  have n: "NamespacedName (cl_Namespace hook_cluster) (GetRBACName (cl_Name hook_cluster)) =
      NamespacedName ''ns'' ''pg-barman-cloud''" by code_simp
  note P = Pre_outcome [OF h(1,2,3) operator_server_retry operator_server_roles operator_server_stores h(4) b k
      io_split [of "Pre hook_lib operator_server ''''"]]
  have s: "server_stores ([], [sample_store ''store'']) (NamespacedName ''ns'' ''store'') = Some (sample_store ''store'')"
    "server_stores ([], []) (NamespacedName ''ns'' ''store'') = None"
    by (simp_all add: server_stores_def) (simp add: sample_store_def object_key_def)
  show ?thesis using P [of "([], [])"] P [of "([], [sample_store ''store''])"] by (simp add: s n)
qed

end
