(* ===== verification/Role_Writers.thy ===== *)
theory Role_Writers
  imports Operator_Hooks
begin

text \<open>
  The two writers of Roles at work at the same time: the Pre hook (\<open>internal/cnpgi/operator/reconciler.go\<close>) and the
  ObjectStore controller (\<open>internal/controller/objectstore_controller.go\<close>), through \<open>rbac/ensure.go\<close>. Neither is atomic
  here: between any two of their calls other runs of both, and users, may change Clusters, ObjectStores and Roles,
  and what a call answers may come from a cache that is behind.
\<close>

section \<open>Rely and guarantee\<close>

text \<open>
  \<open>rg R P m Q\<close>: started where \<open>P\<close> holds, \<open>m\<close> moves the world along \<open>R\<close> and ends where \<open>Q\<close> holds of its result. The same
  \<open>R\<close> bounds what others do during a call of \<open>m\<close>: it is part of what a call may do.
\<close>

definition rg :: "('w \<Rightarrow> 'w \<Rightarrow> bool) \<Rightarrow> ('w \<Rightarrow> bool) \<Rightarrow> ('c, 'w, 'a) io \<Rightarrow> (go_error + 'a \<Rightarrow> 'w \<Rightarrow> bool) \<Rightarrow> bool" where
  "rg R P m Q \<longleftrightarrow> (\<forall>w r cs w'. P w \<longrightarrow> m w = (r, cs, w') \<longrightarrow> R w w' \<and> Q r w')"

lemma rgD: "rg R P m Q \<Longrightarrow> P w \<Longrightarrow> m w = (r, cs, w') \<Longrightarrow> R w w' \<and> Q r w'"
  unfolding rg_def by blast

lemma rg_call: "(\<And>w r w'. P w \<Longrightarrow> op w = (r, w') \<Longrightarrow> R w w' \<and> Q r w') \<Longrightarrow> rg R P (io_call c op) Q"
  by (auto simp: rg_def io_call_iff)

lemma rg_if:
  "(b \<Longrightarrow> rg R P m Q) \<Longrightarrow> (\<not> b \<Longrightarrow> rg R P n Q) \<Longrightarrow> rg R P (if b then m else n) Q"
  by simp

lemma rg_sum:
  "(\<And>a. x = Inl a \<Longrightarrow> rg R P (f a) Q) \<Longrightarrow> (\<And>b. x = Inr b \<Longrightarrow> rg R P (g b) Q) \<Longrightarrow>
   rg R P (case x of Inl a \<Rightarrow> f a | Inr b \<Rightarrow> g b) Q"
  by (simp split: sum.split)

lemma rg_option:
  "(x = None \<Longrightarrow> rg R P m Q) \<Longrightarrow> (\<And>a. x = Some a \<Longrightarrow> rg R P (f a) Q) \<Longrightarrow>
   rg R P (case x of None \<Rightarrow> m | Some a \<Rightarrow> f a) Q"
  by (simp split: option.split)

lemma rg_post: "rg R P m Q \<Longrightarrow> (\<And>r w. Q r w \<Longrightarrow> Q' r w) \<Longrightarrow> rg R P m Q'"
  unfolding rg_def by blast

lemma rg_pre: "rg R P m Q \<Longrightarrow> (\<And>w. P' w \<Longrightarrow> P w) \<Longrightarrow> rg R P' m Q"
  unfolding rg_def by blast

text \<open>What interference cannot break stays true next to any postcondition.\<close>

lemma rg_frame:
  assumes "rg R P m Q" "\<forall>w w'. R w w' \<longrightarrow> F w \<longrightarrow> F w'"
  shows "rg R (\<lambda>w. P w \<and> F w) m (\<lambda>r w. Q r w \<and> F w)"
  using assms unfolding rg_def by blast

lemma rg_assume: "(\<And>w. P w \<Longrightarrow> b) \<Longrightarrow> (b \<Longrightarrow> rg R P m Q) \<Longrightarrow> rg R P m Q"
  unfolding rg_def by blast

locale interference =
  fixes R :: "'w \<Rightarrow> 'w \<Rightarrow> bool"
  assumes R_refl: "R w w" and R_trans: "R w1 w2 \<Longrightarrow> R w2 w3 \<Longrightarrow> R w1 w3"
begin

lemma rg_pure:
  "(\<And>w. P w \<Longrightarrow> Q (Inr a) w) \<Longrightarrow> rg R P (io_return a) Q"
  "(\<And>w. P w \<Longrightarrow> Q (Inl err) w) \<Longrightarrow> rg R P (io_fail err) Q"
  "(\<And>w. P w \<Longrightarrow> Q x w) \<Longrightarrow> rg R P (io_lift x) Q"
  by (auto simp: rg_def io_pure_iff R_refl)

lemma rg_try:
  assumes "rg R P m Q1" "\<And>r. rg R (Q1 r) (f r) Q"
  shows "rg R P (io_try m f) Q"
  unfolding rg_def io_try_iff using assms by (blast dest: rgD intro: R_trans)

lemma rg_bind:
  assumes "rg R P m Q1" "\<And>a. rg R (Q1 (Inr a)) (f a) Q" "\<And>err w. Q1 (Inl err) w \<Longrightarrow> Q (Inl err) w"
  shows "rg R P (io_bind m f) Q"
  unfolding io_bind_def using assms by (intro rg_try [where ?Q1.0 = Q1]) (auto split: sum.split intro!: rg_pure)

lemma rg_seq:
  "rg R P m (\<lambda>_. P) \<Longrightarrow> rg R P n (\<lambda>_. P) \<Longrightarrow> rg R P (io_seq m n) (\<lambda>_. P)"
  unfolding io_seq_def by (rule rg_bind)

lemma rg_attempts: "(\<And>i. rg R P (f i) (\<lambda>_. P)) \<Longrightarrow> rg R P (attempts f i n) (\<lambda>_. P)"
proof (induction n arbitrary: i)
  case (Suc n)
  note later = Suc.IH [OF Suc.prems]
  show ?case unfolding attempts.simps
    by (rule rg_try [OF Suc.prems], rule rg_sum) (auto intro: rg_pure rg_if later)
qed simp

lemma rg_retry:
  assumes "retry_law e" "\<And>i. rg R P (f i) (\<lambda>_. P)"
  shows "rg R P (retry_on_conflict e f) (\<lambda>_. P)"
  unfolding rg_def
proof (intro allI impI)
  fix w r cs w' assume run: "P w" "retry_on_conflict e f w = (r, cs, w')"
  obtain n where "retry_on_conflict e f w = attempts f 0 n w" using assms(1) by (rule retry_lawE)
  with run(2) have "attempts f 0 n w = (r, cs, w')" by simp
  then show "R w w' \<and> P w'" by (rule rgD [OF rg_attempts [OF assms(2)] run(1)])
qed

lemma rg_lift_bind:
  assumes "\<And>a. x = Inr a \<Longrightarrow> rg R P (f a) Q" "\<And>err w. P w \<Longrightarrow> Q (Inl err) w"
  shows "rg R P (io_bind (io_lift x) f) Q"
proof (cases x)
  case (Inl err)
  then have "io_bind (io_lift x) f = io_fail err" by (simp add: fun_eq_iff io_simps)
  then show ?thesis using assms(2) by (simp add: rg_pure)
next
  case (Inr a)
  then have "io_bind (io_lift x) f = f a" by (simp add: fun_eq_iff io_simps)
  then show ?thesis using assms(1) [OF Inr] by simp
qed

end

section \<open>The history of the API server\<close>

text \<open>Every version of a Cluster, of an ObjectStore and of a Role that was ever stored. A stale read answers one of them.\<close>

record history =
  hs_clusters :: "cluster set"
  hs_stores :: "object_store set"
  hs_roles :: "role set"

definition cluster_role :: "cluster \<Rightarrow> namespaced_name" where
  "cluster_role c = NamespacedName (cl_Namespace c) (GetRBACName (cl_Name c))"

text \<open>The ObjectStores that the Cluster of a Role has ever referred to, and the Roles the controller looks for.\<close>

definition referred :: "lib \<Rightarrow> history \<Rightarrow> namespaced_name \<Rightarrow> string set" where
  "referred L h k = {n. \<exists>c \<in> hs_clusters h. cluster_role c = k \<and> n \<in> referred_names (NewFromCluster L c)}"

definition managed :: "role \<Rightarrow> bool" where
  "managed r \<longleftrightarrow> gm_lookup (om_Labels (role_Meta r)) ClusterLabelName \<noteq> None"

text \<open>
  A list of ObjectStores the rules of the Role \<open>k\<close> may be made from: versions that were stored, in its namespace,
  that its Cluster has referred to. A Role is justified when its rules are made from such a list.
\<close>

definition backing :: "lib \<Rightarrow> history \<Rightarrow> namespaced_name \<Rightarrow> object_store list \<Rightarrow> bool" where
  "backing L h k stores \<longleftrightarrow> (\<forall>os \<in> set stores. os \<in> hs_stores h \<and> os_Namespace os = nn_Namespace k \<and> os_Name os \<in> referred L h k)"

definition justified :: "lib \<Rightarrow> history \<Rightarrow> role \<Rightarrow> bool" where
  "justified L h r \<longleftrightarrow> (\<exists>stores. role_Rules r = BuildRoleRules L stores \<and> backing L h (object_key (role_Meta r)) stores)"

definition sound :: "lib \<Rightarrow> history \<Rightarrow> bool" where
  "sound L h \<longleftrightarrow> (\<forall>r \<in> hs_roles h. managed r \<longrightarrow> justified L h r)"

text \<open>
  How the history may go on. Users create and change Clusters and ObjectStores as they like, and Roles that do not
  have the plugin's label. A new version of a Role that has it is justified or has the rules of an older one.
\<close>

definition evolves :: "lib \<Rightarrow> history \<Rightarrow> history \<Rightarrow> bool" where
  "evolves L h h' \<longleftrightarrow> hs_clusters h \<subseteq> hs_clusters h' \<and> hs_stores h \<subseteq> hs_stores h' \<and> hs_roles h \<subseteq> hs_roles h' \<and>
     (\<forall>r \<in> hs_roles h'. managed r \<longrightarrow> justified L h' r \<or>
       (\<exists>old \<in> hs_roles h. managed old \<and> object_key (role_Meta old) = object_key (role_Meta r) \<and> role_Rules old = role_Rules r))"

lemma referred_mono: "evolves L h h' \<Longrightarrow> referred L h k \<subseteq> referred L h' k"
  by (auto simp: evolves_def referred_def)

lemma backing_mono: "evolves L h h' \<Longrightarrow> backing L h k stores \<Longrightarrow> backing L h' k stores"
  using referred_mono [of L h h' k] by (auto simp: backing_def evolves_def)

lemma justified_mono: "evolves L h h' \<Longrightarrow> justified L h r \<Longrightarrow> justified L h' r"
  unfolding justified_def using backing_mono by blast

lemma evolves_refl: "evolves L h h"
  by (auto simp: evolves_def)

lemma evolves_trans:
  assumes "evolves L h1 h2" "evolves L h2 h3"
  shows "evolves L h1 h3"
  unfolding evolves_def
proof (intro conjI ballI impI)
  fix r assume r: "r \<in> hs_roles h3" "managed r"
  let ?same = "\<lambda>old. managed old \<and> object_key (role_Meta old) = object_key (role_Meta r) \<and> role_Rules old = role_Rules r"
  consider "justified L h3 r" | old where "old \<in> hs_roles h2" "?same old"
    using assms(2) r unfolding evolves_def by blast
  then show "justified L h3 r \<or> (\<exists>old \<in> hs_roles h1. ?same old)"
  proof cases
    case (2 old)
    then consider "justified L h2 old" | "\<exists>old \<in> hs_roles h1. ?same old"
      using assms(1) unfolding evolves_def by metis
    then show ?thesis using justified_mono [OF assms(2), of old] 2 by cases (auto simp: justified_def)
  qed simp
qed (use assms in \<open>auto simp: evolves_def\<close>)

lemma sound_mono: "evolves L h h' \<Longrightarrow> sound L h \<Longrightarrow> sound L h'"
proof -
  assume e: "evolves L h h'" and s: "sound L h"
  have "justified L h' r" if r: "r \<in> hs_roles h'" "managed r" for r
  proof -
    consider "justified L h' r" | old where "old \<in> hs_roles h" "managed old"
        "object_key (role_Meta old) = object_key (role_Meta r)" "role_Rules old = role_Rules r"
      using e r unfolding evolves_def by blast
    then show ?thesis
    proof cases
      case (2 old)
      then have "justified L h' old" using s justified_mono [OF e] by (simp add: sound_def)
      then show ?thesis using 2 by (simp add: justified_def)
    qed
  qed
  then show ?thesis by (simp add: sound_def)
qed

interpretation evolution: interference "\<lambda>w w'. evolves L (hist w) (hist w')" for L :: lib and hist :: "'w \<Rightarrow> history"
  by unfold_locales (rule evolves_refl, rule evolves_trans)

section \<open>What the calls do\<close>

text \<open>One write of a Role, of which the server changes only the resource version.\<close>

definition written :: "role \<Rightarrow> history \<Rightarrow> history \<Rightarrow> bool" where
  "written r h h' \<longleftrightarrow> (\<exists>r'. same_role r' r \<and> h' = h\<lparr>hs_roles := insert r' (hs_roles h)\<rparr>)"

text \<open>
  A call that writes a Role does so at most once, whatever it reports; the patch is made from a version that was
  stored, and the optimistic lock lets it through only onto that version.
\<close>

definition writes :: "lib \<Rightarrow> role \<Rightarrow> history \<Rightarrow> history \<Rightarrow> bool" where
  "writes L r h h' \<longleftrightarrow> evolves L h h' \<or> (\<exists>h1 h2. evolves L h h1 \<and> written r h1 h2 \<and> evolves L h2 h')"

definition history_law :: "lib \<Rightarrow> 'w ext \<Rightarrow> ('w \<Rightarrow> history) \<Rightarrow> bool" where
  "history_law L e hist \<longleftrightarrow>
     (\<forall>k w r w'. k_get_object_store e k w = (r, w') \<longrightarrow> evolves L (hist w) (hist w') \<and>
        (\<forall>os. r = Inr os \<longrightarrow> os \<in> hs_stores (hist w') \<and> object_key (os_Meta os) = k)) \<and>
     (\<forall>k w r w'. k_get_role e k w = (r, w') \<longrightarrow> evolves L (hist w) (hist w') \<and>
        (\<forall>x. r = Inr x \<longrightarrow> x \<in> hs_roles (hist w') \<and> object_key (role_Meta x) = k)) \<and>
     (\<forall>ns w r w'. k_list_roles e ns ClusterLabelName w = (r, w') \<longrightarrow> evolves L (hist w) (hist w') \<and>
        (\<forall>xs x. r = Inr xs \<longrightarrow> x \<in> set xs \<longrightarrow> x \<in> hs_roles (hist w') \<and> managed x)) \<and>
     (\<forall>new w r w'. k_create_role e new w = (r, w') \<longrightarrow> writes L new (hist w) (hist w')) \<and>
     (\<forall>old new w r w'. k_patch_role e old new w = (r, w') \<longrightarrow> old \<in> hs_roles (hist w) \<longrightarrow>
        object_key (role_Meta new) = object_key (role_Meta old) \<longrightarrow> writes L new (hist w) (hist w')) \<and>
     (\<forall>k w r w'. k_get_role_binding e k w = (r, w') \<longrightarrow> evolves L (hist w) (hist w')) \<and>
     (\<forall>b w r w'. k_create_role_binding e b w = (r, w') \<longrightarrow> evolves L (hist w) (hist w')) \<and>
     (\<forall>old new w r w'. k_patch_role_binding e old new w = (r, w') \<longrightarrow> evolves L (hist w) (hist w'))"

lemma history_lawD:
  assumes "history_law L e hist"
  shows "k_get_object_store e k w = (x1, w') \<Longrightarrow> evolves L (hist w) (hist w') \<and>
      (\<forall>os. x1 = Inr os \<longrightarrow> os \<in> hs_stores (hist w') \<and> object_key (os_Meta os) = k)"
    "k_get_role e k w = (x2, w') \<Longrightarrow> evolves L (hist w) (hist w') \<and>
      (\<forall>x. x2 = Inr x \<longrightarrow> x \<in> hs_roles (hist w') \<and> object_key (role_Meta x) = k)"
    "k_list_roles e ns ClusterLabelName w = (x3, w') \<Longrightarrow> evolves L (hist w) (hist w') \<and>
      (\<forall>xs x. x3 = Inr xs \<longrightarrow> x \<in> set xs \<longrightarrow> x \<in> hs_roles (hist w') \<and> managed x)"
    "k_create_role e new w = (x4, w') \<Longrightarrow> writes L new (hist w) (hist w')"
    "k_patch_role e old new w = (x5, w') \<Longrightarrow> old \<in> hs_roles (hist w) \<Longrightarrow>
      object_key (role_Meta new) = object_key (role_Meta old) \<Longrightarrow> writes L new (hist w) (hist w')"
    "k_get_role_binding e k w = (x6, w') \<Longrightarrow> evolves L (hist w) (hist w')"
    "k_create_role_binding e b w = (x7, w') \<Longrightarrow> evolves L (hist w) (hist w')"
    "k_patch_role_binding e b b' w = (x8, w') \<Longrightarrow> evolves L (hist w) (hist w')"
  using assms unfolding history_law_def by (elim conjE; simp)+

lemma same_role_justified:
  assumes "same_role r' r" "justified L h r"
  shows "justified L h r'"
  using assms same_role_simps(1,2) [OF assms(1)] by (simp add: justified_def role_content_of_def)

lemma written_evolves:
  assumes "written r h h'" "justified L h r"
  shows "evolves L h h'"
proof -
  obtain r' where r': "same_role r' r" "h' = h\<lparr>hs_roles := insert r' (hs_roles h)\<rparr>" using assms(1) by (auto simp: written_def)
  have "justified L h' r'"
    using same_role_justified [OF r'(1) assms(2)] by (simp add: r'(2) justified_def backing_def referred_def)
  then show ?thesis using r'(2) by (auto simp: evolves_def)
qed

lemma writes_evolves:
  assumes "writes L r h h'" "justified L h r"
  shows "evolves L h h'"
  using assms unfolding writes_def by (meson evolves_trans justified_mono written_evolves)

text \<open>The rules for the calls; \<open>S\<close> is what the run knows and no interference can break.\<close>

abbreviation stable where
  "stable L hist S \<equiv> \<forall>w w'. evolves L (hist w) (hist w') \<longrightarrow> S w \<longrightarrow> S w'"

abbreviation moving where
  "moving L hist \<equiv> rg (\<lambda>w w'. evolves L (hist w) (hist w'))"

lemma moving_get_store:
  assumes "history_law L e hist" "stable L hist S"
  shows "moving L hist S (get_object_store e k)
    (\<lambda>r w. S w \<and> (\<forall>os. r = Inr os \<longrightarrow> os \<in> hs_stores (hist w) \<and> object_key (os_Meta os) = k))"
  by (rule rg_call) (use assms(2) history_lawD(1) [OF assms(1)] in blast)

lemma moving_get_role:
  assumes "history_law L e hist" "stable L hist S"
  shows "moving L hist S (get_role e k)
    (\<lambda>r w. S w \<and> (\<forall>x. r = Inr x \<longrightarrow> x \<in> hs_roles (hist w) \<and> object_key (role_Meta x) = k))"
  by (rule rg_call) (use assms(2) history_lawD(2) [OF assms(1)] in blast)

lemma moving_list_roles:
  assumes "history_law L e hist" "stable L hist S"
  shows "moving L hist S (list_roles e ns ClusterLabelName)
    (\<lambda>r w. S w \<and> (\<forall>xs x. r = Inr xs \<longrightarrow> x \<in> set xs \<longrightarrow> x \<in> hs_roles (hist w) \<and> managed x))"
  by (rule rg_call) (use assms(2) history_lawD(3) [OF assms(1)] in blast)

lemma moving_create_role:
  assumes "history_law L e hist" "stable L hist S" "\<And>w. S w \<Longrightarrow> justified L (hist w) r"
  shows "moving L hist S (create_role e r) (\<lambda>_. S)"
proof (rule rg_call)
  fix w a w' assume w: "S w" "k_create_role e r w = (a, w')"
  then have "writes L r (hist w) (hist w')" using history_lawD(4) [OF assms(1)] by blast
  with w show "evolves L (hist w) (hist w') \<and> S w'" using assms(2,3) writes_evolves by blast
qed

lemma moving_patch_role:
  assumes "history_law L e hist" "stable L hist S" "\<And>w. S w \<Longrightarrow> justified L (hist w) new"
    and "object_key (role_Meta new) = object_key (role_Meta old)"
  shows "moving L hist (\<lambda>w. S w \<and> old \<in> hs_roles (hist w)) (patch_role e old new) (\<lambda>_. S)"
proof (rule rg_call)
  fix w a w' assume w: "S w \<and> old \<in> hs_roles (hist w)" "k_patch_role e old new w = (a, w')"
  then have "writes L new (hist w) (hist w')" using history_lawD(5) [OF assms(1)] assms(4) by blast
  with w show "evolves L (hist w) (hist w') \<and> S w'" using assms(2,3) writes_evolves by blast
qed

lemma moving_bindings:
  assumes "history_law L e hist" "stable L hist S"
  shows "moving L hist S (get_role_binding e k) (\<lambda>_. S)"
    "moving L hist S (create_role_binding e b) (\<lambda>_. S)"
    "moving L hist S (patch_role_binding e old new) (\<lambda>_. S)"
  by (rule rg_call, use assms(2) history_lawD(6,7,8) [OF assms(1)] in blast)+


section \<open>The runs of the two writers\<close>

text \<open>Both end in the same patch, and only of a list that backs the Role.\<close>

abbreviation backs where
  "backs L hist k stores \<equiv> \<lambda>w. backing L (hist w) k stores"

lemma stable_backs: "stable L hist (backs L hist k stores)"
  using backing_mono by blast

lemma moving_patchRole:
  assumes "history_law L e hist" "retry_law e"
  shows "moving L hist (backs L hist k stores) (patchRole e k (BuildRoleRules L stores) labels) (\<lambda>_. backs L hist k stores)"
  unfolding patchRole_def Let_def
proof (rule evolution.rg_retry [OF assms(2)])
  let ?S = "backs L hist k stores"
  let ?new = "\<lambda>r. r\<lparr>role_Rules := BuildRoleRules L stores,
     role_Meta := (role_Meta r)\<lparr>om_Labels := mergeLabels (om_Labels (role_Meta r)) labels\<rparr>\<rparr>"
  fix i :: nat
  have key: "object_key (role_Meta (?new r)) = object_key (role_Meta r)" for r by (simp add: object_key_def)
  have patch: "moving L hist (\<lambda>w. ?S w \<and> r \<in> hs_roles (hist w) \<and> object_key (role_Meta r) = k)
      (if b then io_return () else patch_role e r (?new r)) (\<lambda>_. ?S)" for r b
  proof (rule rg_assume [where b = "object_key (role_Meta r) = k"], blast, rule rg_if)
    assume "object_key (role_Meta r) = k"
    then have "justified L (hist w) (?new r)" if "?S w" for w
      using that key [of r] by (auto simp: justified_def intro!: exI [of _ stores])
    from moving_patch_role [OF assms(1) stable_backs this key]
    show "moving L hist (\<lambda>w. ?S w \<and> r \<in> hs_roles (hist w) \<and> object_key (role_Meta r) = k) (patch_role e r (?new r)) (\<lambda>_. ?S)"
      by (rule rg_pre) blast+
  qed (auto intro: evolution.rg_pure)
  show "moving L hist ?S (io_bind (get_role e k) (\<lambda>r. if BuildRoleRules L stores = role_Rules r \<and>
      (labels = None \<or> \<not> labelsNeedUpdate (om_Labels (role_Meta r)) labels) then io_return () else patch_role e r (?new r))) (\<lambda>_. ?S)"
    by (rule evolution.rg_bind [OF moving_get_role [OF assms(1) stable_backs]], rule rg_pre [OF patch]) auto
qed

lemma moving_EnsureRoleRules:
  assumes "history_law L e hist" "retry_law e"
  shows "moving L hist (backs L hist k stores) (EnsureRoleRules L e k stores) (\<lambda>_. backs L hist k stores)"
  unfolding EnsureRoleRules_def
  by (rule evolution.rg_try [OF moving_patchRole [OF assms]], rule rg_sum) (auto intro: evolution.rg_pure rg_if)

lemma moving_ensureRoleExists:
  assumes "history_law L e hist"
  shows "moving L hist (backs L hist (cluster_role c) stores) (ensureRoleExists L e c (BuildRole L c stores))
    (\<lambda>_. backs L hist (cluster_role c) stores)"
  unfolding ensureRoleExists_def
proof (rule evolution.rg_try [OF rg_post [OF moving_get_role [OF assms stable_backs]]], erule conjunct1, rule rg_sum)
  let ?S = "backs L hist (cluster_role c) stores" and ?new = "BuildRole L c stores"
  fix r err
  have create: "moving L hist ?S (create_role e (?new\<lparr>role_Meta := meta\<rparr>)) (\<lambda>_. ?S)"
    if meta: "SetControllerReference L c (role_Meta ?new) = Inr meta" for meta
  proof (rule moving_create_role [OF assms stable_backs])
    fix w assume "?S w"
    moreover have "object_key meta = cluster_role c" "role_Rules ?new = BuildRoleRules L stores"
      using meta by (auto simp: SetControllerReference_def object_key_def cluster_role_def BuildRole_def split: if_splits)
    ultimately show "justified L (hist w) (?new\<lparr>role_Meta := meta\<rparr>)" by (auto simp: justified_def)
  qed
  show "moving L hist ?S (if \<not> IsNotFound err then io_fail err
     else io_bind (io_lift (SetControllerReference L c (role_Meta ?new))) (\<lambda>meta.
       io_try (create_role e (?new\<lparr>role_Meta := meta\<rparr>)) (\<lambda>created. case created of
         Inr u \<Rightarrow> io_return ()
       | Inl createErr \<Rightarrow> if IsAlreadyExists createErr then io_return () else io_fail createErr))) (\<lambda>_. ?S)"
    by (intro rg_if rg_sum evolution.rg_lift_bind evolution.rg_pure evolution.rg_try [OF create])
qed (auto intro: evolution.rg_pure)

lemma moving_EnsureRole:
  assumes "history_law L e hist" "retry_law e"
  shows "moving L hist (backs L hist (cluster_role c) stores) (EnsureRole L e c stores) (\<lambda>_. backs L hist (cluster_role c) stores)"
proof -
  have k: "object_key (role_Meta (BuildRole L c stores)) = cluster_role c" "role_Rules (BuildRole L c stores) = BuildRoleRules L stores"
    by (simp_all add: BuildRole_def object_key_def cluster_role_def)
  show ?thesis unfolding EnsureRole_def Let_def k
    by (intro evolution.rg_seq moving_ensureRoleExists moving_patchRole assms)
qed

lemma moving_EnsureRoleBinding:
  assumes "history_law L e hist" "retry_law e" "stable L hist S"
  shows "moving L hist S (EnsureRoleBinding L e c) (\<lambda>_. S)"
proof -
  note calls = moving_bindings [OF assms(1,3)]
  show ?thesis
    unfolding EnsureRoleBinding_def Let_def getOrCreateRoleBinding_def reconcileRoleBinding_def
    by (intro evolution.rg_lift_bind evolution.rg_bind [where ?Q1.0 = "\<lambda>_. S"] evolution.rg_try [where ?Q1.0 = "\<lambda>_. S"]
        rg_sum rg_option rg_if evolution.rg_retry [OF assms(2)] evolution.rg_pure calls)
qed

text \<open>Reading the ObjectStores, by keys the Cluster of the Role refers to.\<close>

abbreviation refers where
  "refers L hist k names \<equiv> \<lambda>w. names \<subseteq> referred L (hist w) k"

lemma stable_refers: "stable L hist (refers L hist k names)"
  using referred_mono by blast

lemma backing_Cons: "backing L h k (os # stores) \<longleftrightarrow> backing L h k [os] \<and> backing L h k stores"
  by (auto simp: backing_def)

lemma moving_get_one:
  assumes "history_law L e hist" "nn_Namespace key = nn_Namespace k" "nn_Name key \<in> names"
  shows "moving L hist (refers L hist k names) (get_object_store e key)
    (\<lambda>r w. refers L hist k names w \<and> (\<forall>os. r = Inr os \<longrightarrow> backing L (hist w) k [os]))"
  by (rule rg_post [OF moving_get_store [OF assms(1) stable_refers]])
    (use assms(2,3) in \<open>auto simp: backing_def object_key_def os_Name_def os_Namespace_def subset_iff\<close>)

lemma moving_get_referred:
  assumes "history_law L e hist"
  shows "(\<forall>key \<in> set keys. nn_Namespace key = nn_Namespace k \<and> nn_Name key \<in> names) \<Longrightarrow>
    moving L hist (refers L hist k names) (get_referred_stores e keys)
      (\<lambda>r w. \<forall>stores. r = Inr (Some stores) \<longrightarrow> backing L (hist w) k stores)"
proof (induction keys)
  case Nil
  show ?case unfolding get_referred_stores.simps by (rule evolution.rg_pure) (simp add: backing_def)
next
  case (Cons key keys)
  from Cons.prems have key: "nn_Namespace key = nn_Namespace k" "nn_Name key \<in> names"
    and keys: "\<forall>key \<in> set keys. nn_Namespace key = nn_Namespace k \<and> nn_Name key \<in> names" by simp_all
  note rest = rg_frame [OF Cons.IH [OF keys] stable_backs]
  show ?case unfolding get_referred_stores.simps
    by (rule evolution.rg_try [OF moving_get_one [OF assms key]], rule rg_sum)
      (auto intro!: rg_if evolution.rg_pure rg_option rg_pre [OF evolution.rg_bind [OF rest]]
        intro: backing_Cons [THEN iffD2])
qed

lemma moving_get_existing:
  assumes "history_law L e hist"
  shows "set ns \<subseteq> names \<Longrightarrow> moving L hist (refers L hist k names) (get_existing_stores e (nn_Namespace k) ns)
    (\<lambda>r w. \<forall>stores. r = Inr stores \<longrightarrow> backing L (hist w) k stores)"
proof (induction ns)
  case Nil
  show ?case unfolding get_existing_stores.simps by (rule evolution.rg_pure) (simp add: backing_def)
next
  case (Cons n ns)
  then have IH: "moving L hist (refers L hist k names) (get_existing_stores e (nn_Namespace k) ns)
      (\<lambda>r w. \<forall>stores. r = Inr stores \<longrightarrow> backing L (hist w) k stores)"
    and key: "nn_Namespace (NamespacedName (nn_Namespace k) n) = nn_Namespace k" "nn_Name (NamespacedName (nn_Namespace k) n) \<in> names"
    by simp_all
  note rest = rg_frame [OF IH stable_backs]
  show ?case unfolding get_existing_stores.simps
    by (rule evolution.rg_try [OF moving_get_one [OF assms key]], rule rg_sum)
      (auto intro!: rg_if evolution.rg_pure rg_pre [OF IH] rg_pre [OF evolution.rg_bind [OF rest]]
        intro: backing_Cons [THEN iffD2])
qed

text \<open>The whole hook. The Cluster it gets is one that was stored.\<close>

lemma moving_Pre:
  assumes "history_law L e hist" "retry_law e" "sorted_list_law L"
  shows "moving L hist (\<lambda>w. \<forall>c. DecodeCluster L json = Inr c \<longrightarrow> c \<in> hs_clusters (hist w)) (Pre L e json) (\<lambda>_ _. True)"
proof -
  let ?P = "\<lambda>w. \<forall>c. DecodeCluster L json = Inr c \<longrightarrow> c \<in> hs_clusters (hist w)"
  have run: "moving L hist ?P (io_bind (get_referred_stores e (GetReferredBarmanObjectsKey L (NewFromCluster L c))) (\<lambda>found.
       case found of
         None \<Rightarrow> io_return BEHAVIOR_REQUEUE
       | Some barmanObjects \<Rightarrow>
           io_seq (EnsureRole L e c barmanObjects)
             (io_seq (EnsureRoleBinding L e c) (io_return BEHAVIOR_CONTINUE)))) (\<lambda>_ _. True)"
    if c: "DecodeCluster L json = Inr c" for c
  proof (rule evolution.rg_bind)
    let ?k = "cluster_role c" and ?names = "referred_names (NewFromCluster L c)"
    have "moving L hist (refers L hist ?k ?names) (get_referred_stores e (GetReferredBarmanObjectsKey L (NewFromCluster L c)))
      (\<lambda>r w. \<forall>stores. r = Inr (Some stores) \<longrightarrow> backing L (hist w) ?k stores)"
      by (rule moving_get_referred [OF assms(1)])
        (use referred_keys_set [OF assms(3), of "NewFromCluster L c"] in \<open>auto simp: cluster_role_def\<close>)
    then show "moving L hist ?P (get_referred_stores e (GetReferredBarmanObjectsKey L (NewFromCluster L c)))
      (\<lambda>r w. \<forall>stores. r = Inr (Some stores) \<longrightarrow> backing L (hist w) ?k stores)"
      by (rule rg_pre) (use c in \<open>auto simp: referred_def\<close>)
    fix found
    have "moving L hist (backs L hist ?k stores) (io_seq (EnsureRole L e c stores)
        (io_seq (EnsureRoleBinding L e c) (io_return BEHAVIOR_CONTINUE))) (\<lambda>_. backs L hist ?k stores)" for stores
      by (intro evolution.rg_seq moving_EnsureRole moving_EnsureRoleBinding stable_backs evolution.rg_pure assms)
    then show "moving L hist (\<lambda>w. \<forall>stores. Inr found = Inr (Some stores) \<longrightarrow> backing L (hist w) ?k stores)
      (case found of None \<Rightarrow> io_return BEHAVIOR_REQUEUE
         | Some barmanObjects \<Rightarrow> io_seq (EnsureRole L e c barmanObjects)
             (io_seq (EnsureRoleBinding L e c) (io_return BEHAVIOR_CONTINUE))) (\<lambda>_ _. True)"
      by (intro rg_option evolution.rg_pure TrueI) (rule rg_post [OF rg_pre], assumption, auto)
  qed simp
  show ?thesis unfolding Pre_def Let_def
    by (intro evolution.rg_lift_bind rg_if evolution.rg_pure TrueI run)
qed

text \<open>The controller takes the names from the rules of a Role, which are sound.\<close>

lemma sound_names:
  assumes "sorted_list_law L" "sound L h" "r \<in> hs_roles h" "managed r"
  shows "set (ObjectStoreNamesFromRole r) \<subseteq> referred L h (object_key (role_Meta r))"
proof -
  obtain stores where "role_Rules r = BuildRoleRules L stores" "backing L h (object_key (role_Meta r)) stores"
    using assms(2-4) unfolding sound_def justified_def by blast
  then show ?thesis using assms(1)
    by (auto simp: ObjectStoreNamesFromRole_def BuildRoleRules_def Let_def backing_def)
qed

lemma moving_reconcileRoleRules:
  assumes "history_law L e hist" "retry_law e"
  shows "moving L hist (refers L hist (object_key (role_Meta r)) (set names)) (reconcileRoleRules L e r names) (\<lambda>_ _. True)"
proof -
  have ns: "om_Namespace (role_Meta r) = nn_Namespace (object_key (role_Meta r))" by (simp add: object_key_def)
  show ?thesis unfolding reconcileRoleRules_def ns
    by (rule evolution.rg_bind [OF moving_get_existing [OF assms(1) subset_refl]])
      (rule rg_post [OF rg_pre [OF moving_EnsureRoleRules [OF assms]]], auto)
qed

definition sound_list :: "lib \<Rightarrow> history \<Rightarrow> role list \<Rightarrow> bool" where
  "sound_list L h rs \<longleftrightarrow> sound L h \<and> (\<forall>r \<in> set rs. r \<in> hs_roles h \<and> managed r)"

lemma stable_sound_list: "stable L hist (\<lambda>w. sound_list L (hist w) rs)"
  using sound_mono unfolding sound_list_def evolves_def by blast

lemma moving_reconcile_roles:
  assumes "history_law L e hist" "retry_law e" "sorted_list_law L"
  shows "moving L hist (\<lambda>w. sound_list L (hist w) rs) (reconcile_roles L e n rs) (\<lambda>_ _. True)"
proof (induction rs)
  case Nil
  show ?case unfolding reconcile_roles.simps by (rule evolution.rg_pure) simp
next
  case (Cons r rs)
  have later: "moving L hist (\<lambda>w. sound_list L (hist w) (r # rs)) (reconcile_roles L e n rs) (\<lambda>_ _. True)"
    by (rule rg_pre [OF Cons.IH]) (simp add: sound_list_def)
  have one: "moving L hist (\<lambda>w. sound_list L (hist w) (r # rs)) (reconcileRoleRules L e r (ObjectStoreNamesFromRole r))
      (\<lambda>_ w. True \<and> sound_list L (hist w) (r # rs))"
    by (rule rg_pre [OF rg_frame [OF moving_reconcileRoleRules [OF assms(1,2)] stable_sound_list]])
      (use sound_names [OF assms(3)] in \<open>auto simp: sound_list_def\<close>)
  show ?case unfolding reconcile_roles.simps Let_def
    by (intro rg_if later evolution.rg_try [OF one] evolution.rg_bind [OF rg_pre [OF later]] rg_sum evolution.rg_pure) simp_all
qed

lemma moving_Reconcile:
  assumes "history_law L e hist" "retry_law e" "sorted_list_law L"
  shows "moving L hist (\<lambda>w. sound L (hist w)) (Reconcile L e req) (\<lambda>_ _. True)"
proof -
  have stable: "stable L hist (\<lambda>w. sound L (hist w))" using sound_mono by blast
  have list: "moving L hist (\<lambda>w. sound L (hist w)) (io_map_error g (list_roles e (nn_Namespace req) ClusterLabelName))
      (\<lambda>r w. \<forall>rs. r = Inr rs \<longrightarrow> sound_list L (hist w) rs)" for g
    unfolding io_map_error_def
    by (rule evolution.rg_try [OF moving_list_roles [OF assms(1) stable]], rule rg_sum)
      (auto intro!: evolution.rg_pure simp: sound_list_def)
  show ?thesis unfolding Reconcile_def
    by (rule evolution.rg_bind [OF list], rule evolution.rg_bind [OF rg_pre [OF moving_reconcile_roles [OF assms]]])
      (auto intro: rg_if evolution.rg_pure)
qed

section \<open>Every interleaving\<close>

text \<open>
  The worlds the operator can be found in. At first no Role has the plugin's label; then users act, and runs of the
  hook and of the controller happen, in any order. What happens during a run is part of it (\<open>history_law\<close>); other
  runs of the two writers may be among it, since by \<open>moving_Pre\<close> and \<open>moving_Reconcile\<close> they only make the
  history go on as \<open>evolves\<close> says.
\<close>

inductive op_reach :: "lib \<Rightarrow> 'w ext \<Rightarrow> ('w \<Rightarrow> history) \<Rightarrow> 'w \<Rightarrow> bool" for L e hist where
  op_start: "\<forall>r \<in> hs_roles (hist w). \<not> managed r \<Longrightarrow> op_reach L e hist w"
| op_others: "op_reach L e hist w \<Longrightarrow> evolves L (hist w) (hist w') \<Longrightarrow> op_reach L e hist w'"
| op_pre: "op_reach L e hist w \<Longrightarrow> \<forall>c. DecodeCluster L json = Inr c \<longrightarrow> c \<in> hs_clusters (hist w) \<Longrightarrow>
    Pre L e json w = (res, cs, w') \<Longrightarrow> op_reach L e hist w'"
| op_reconcile: "op_reach L e hist w \<Longrightarrow> Reconcile L e req w = (res', cs, w') \<Longrightarrow> op_reach L e hist w'"

lemma op_reach_sound:
  assumes "op_reach L e hist w" "history_law L e hist" "retry_law e" "sorted_list_law L"
  shows "sound L (hist w)"
  using assms(1)
proof (induction rule: op_reach.induct)
  case (op_start w)
  then show ?case by (simp add: sound_def)
next
  case (op_others w w')
  then show ?case by (blast intro: sound_mono)
next
  case (op_pre w json res cs w')
  then have "evolves L (hist w) (hist w')" using rgD [OF moving_Pre [OF assms(2-4)]] by blast
  then show ?case using op_pre.IH by (rule sound_mono)
next
  case (op_reconcile w req res' cs w')
  then have "evolves L (hist w) (hist w')" using rgD [OF moving_Reconcile [OF assms(2-4)]] by blast
  then show ?case using op_reconcile.IH by (rule sound_mono)
qed

text \<open>
  C4. Roles grant no more than was asked for, however the two writers interleave. Whatever runs of the Pre hook and of the
  controller overlap, with users changing Clusters and ObjectStores and with reads from caches that are behind,
  every version of a plugin-managed Role that is ever stored has the rules for a list of ObjectStores of its namespace
  that were stored and that its own Cluster has referred to. So a secret it lets the sidecar read is one that such an
  ObjectStore refers to, unless none of them refers to any, when the rules let it read every secret.
\<close>

theorem roles_contained:
  assumes "retry_law e" "sorted_list_law L" "history_law L e hist"
    and "op_reach L e hist w" "r \<in> hs_roles (hist w)" "managed r"
  shows "\<exists>stores. role_Rules r = BuildRoleRules L stores \<and>
    (\<forall>os \<in> set stores. os \<in> hs_stores (hist w) \<and> os_Namespace os = om_Namespace (role_Meta r) \<and>
       (\<exists>c \<in> hs_clusters (hist w). cl_Namespace c = om_Namespace (role_Meta r) \<and>
          GetRBACName (cl_Name c) = om_Name (role_Meta r) \<and> os_Name os \<in> referred_names (NewFromCluster L c))) \<and>
    (needed_secrets stores \<noteq> {} \<longrightarrow> (\<forall>verb n. rules_allow (role_Rules r) verb '''' ''secrets'' n \<longrightarrow>
       (\<exists>os \<in> set stores. needs_secret (bc_Credentials (os_Configuration os)) n)))"
proof -
  have "justified L (hist w) r" using op_reach_sound [OF assms(4,3,1,2)] assms(5,6) by (simp add: sound_def)
  then obtain stores where stores: "role_Rules r = BuildRoleRules L stores" "backing L (hist w) (object_key (role_Meta r)) stores"
    by (auto simp: justified_def)
  have "\<exists>os \<in> set stores. needs_secret (bc_Credentials (os_Configuration os)) n"
    if "needed_secrets stores \<noteq> {}" "rules_allow (role_Rules r) verb '''' ''secrets'' n" for verb n
  proof -
    have "stores \<noteq> []" using that(1) by (auto simp: needed_secrets_def)
    then have "n \<in> needed_secrets stores"
      using that BuildRoleRules_allow [OF assms(2)] by (simp add: stores(1) GroupVersion_Group_def)
    then show ?thesis by (simp add: needed_secrets_def)
  qed
  with stores show ?thesis
    by (intro exI [of _ stores]) (auto simp: backing_def referred_def cluster_role_def object_key_def)
qed

section \<open>A server with a cache that is behind\<close>

text \<open>
  The versions of Clusters, of ObjectStores and of Roles, the newest first. A read of an ObjectStore answers the oldest
  version, and while it is answered a user points the ObjectStore to another secret.
\<close>

type_synonym versions = "cluster list \<times> object_store list \<times> role list"

definition seen :: "versions \<Rightarrow> history" where
  "seen w = \<lparr>hs_clusters = set (fst w), hs_stores = set (fst (snd w)), hs_roles = set (snd (snd w))\<rparr>"

definition secret_store :: "string \<Rightarrow> object_store" where
  "secret_store secret = (sample_store ''store'')\<lparr>os_Spec := (os_Spec (sample_store ''store''))\<lparr>oss_Configuration :=
     sample_configuration\<lparr>bc_Credentials := \<lparr>cred_AWS = None, cred_Azure = None,
       cred_Google = Some \<lparr>gc_ApplicationCredentials = Some \<lparr>sk_Name = secret, sk_Key = ''key''\<rparr>\<rparr>\<rparr>\<rparr>\<rparr>\<rparr>"

definition behind_server :: "versions ext" where
  "behind_server = sample_ext\<lparr>
     k_get_object_store := (\<lambda>k w. case find (\<lambda>os. object_key (os_Meta os) = k) (rev (fst (snd w))) of
         Some os \<Rightarrow> (Inr os, (fst w, secret_store ''fresh'' # fst (snd w), snd (snd w))) | None \<Rightarrow> (Inl (Api_Error NotFound), w)),
     k_get_role := (\<lambda>k w. (case find (\<lambda>r. object_key (role_Meta r) = k) (snd (snd w)) of
         Some r \<Rightarrow> Inr r | None \<Rightarrow> Inl (Api_Error NotFound), w)),
     k_create_role := (\<lambda>r w. (Inr (), (fst w, fst (snd w), r # snd (snd w)))),
     k_patch_role := (\<lambda>old new w. (Inr (), (fst w, fst (snd w), new # snd (snd w)))),
     k_list_roles := (\<lambda>ns label w. (Inr (filter (\<lambda>r. om_Namespace (role_Meta r) = ns \<and>
         gm_lookup (om_Labels (role_Meta r)) label \<noteq> None) (snd (snd w))), w)),
     k_get_role_binding := (\<lambda>k w. (Inl (Api_Error NotFound), w)),
     k_create_role_binding := (\<lambda>b w. (Inr (), w))\<rparr>"

lemma seen_simps [simp]:
  "hs_clusters (seen w) = set (fst w)" "hs_stores (seen w) = set (fst (snd w))" "hs_roles (seen w) = set (snd (snd w))"
  by (simp_all add: seen_def)

lemma seen_evolves: "evolves L (seen w) (seen (fst w, os # fst (snd w), snd (snd w)))"
  by (auto simp: evolves_def)

lemma seen_writes: "writes L r (seen w) (seen (fst w, fst (snd w), r # snd (snd w)))"
proof -
  have "written r (seen w) (seen (fst w, fst (snd w), r # snd (snd w)))"
    by (simp add: written_def seen_def) (auto simp: same_role_def)
  then show ?thesis unfolding writes_def using evolves_refl by blast
qed

lemma behind_server_history: "history_law L behind_server seen"
  unfolding history_law_def
  by (intro conjI allI impI)
    (auto simp: behind_server_def seen_evolves seen_writes evolves_refl find_Some_iff sample_ext_def unavailable_def
      managed_def rev_nth split: option.splits)

lemma behind_server_retry: "retry_law behind_server"
  by (simp add: behind_server_def)

text \<open>
  The hook runs while the ObjectStore changes: the Role it creates allows the secret of the version it was given, which
  is not the newest any more, and no other.
\<close>

definition before_hook :: versions where
  "before_hook = ([hook_cluster], [secret_store ''stale''], [])"

lemma after_hook_reach: "op_reach hook_lib behind_server seen (io_world (Pre hook_lib behind_server '''') before_hook)"
  by (rule op_pre [OF op_start _ io_split [of "Pre hook_lib behind_server ''''"]])
    (simp_all add: before_hook_def hook_lib_def)

theorem roles_contained_witness:
  "\<exists>w r stores. op_reach hook_lib behind_server seen w \<and> r \<in> hs_roles (seen w) \<and> managed r \<and>
     role_Rules r = BuildRoleRules hook_lib stores \<and> set stores \<subseteq> set (fst (snd w)) \<and>
     secret_store ''fresh'' \<in> set (fst (snd w)) \<and>
     rules_allow (role_Rules r) ''get'' '''' ''secrets'' ''stale'' \<and>
     \<not> rules_allow (role_Rules r) ''get'' '''' ''secrets'' ''fresh''"
proof -
  let ?w = "io_world (Pre hook_lib behind_server '''') before_hook"
  have "list_ex (\<lambda>r. managed r \<and> rules_allow (role_Rules r) ''get'' '''' ''secrets'' ''stale'' \<and>
      \<not> rules_allow (role_Rules r) ''get'' '''' ''secrets'' ''fresh'') (snd (snd ?w))" by code_simp
  then obtain r where r: "r \<in> set (snd (snd ?w))" "managed r" "rules_allow (role_Rules r) ''get'' '''' ''secrets'' ''stale''"
    "\<not> rules_allow (role_Rules r) ''get'' '''' ''secrets'' ''fresh''" by (auto simp: list_ex_iff)
  have fresh: "secret_store ''fresh'' \<in> set (fst (snd ?w))" by code_simp
  have "ToSortedList hook_lib = ToSortedList sample_lib" by (simp add: hook_lib_def)
  then have "sorted_list_law hook_lib" using sample_lib_sorted unfolding sorted_list_law_def by metis
  from roles_contained [OF behind_server_retry this behind_server_history after_hook_reach _ r(2)] r(1)
  obtain stores where "role_Rules r = BuildRoleRules hook_lib stores" "set stores \<subseteq> set (fst (snd ?w))" by auto
  with r fresh after_hook_reach show ?thesis by (metis seen_simps(3))
qed

end
