(* ===== verification/Pod_Spec.thy ===== *)
theory Pod_Spec
  imports Api_Types
begin

text \<open>
  Pods as the lifecycle hook edits them, and the list edits of
  \<open>internal/cnpgi/operator/lifecycle.go\<close>: volumes, volume mounts, the plugin volume and the sidecar
  container. The edits of a list of named things share the interface \<open>named_update\<close>.
\<close>

section \<open>Pods\<close>

text \<open>The types have the fields the plugin reads or writes; \<open>_Rest\<close> stands for the others.\<close>

record volume_mount =
  vm_Name :: string
  vm_MountPath :: string
  vm_Rest :: string

record secret_projection =
  sp_SecretName :: string
  sp_Key :: string
  sp_Path :: string

datatype volume_source = EmptyDir | Projected "secret_projection list" | Other_Source string

record volume =
  vol_Name :: string
  vol_Source :: volume_source

record probe =
  pb_PeriodSeconds :: int
  pb_FailureThreshold :: int
  pb_TimeoutSeconds :: int
  pb_ExecCommand :: "string list"

record security_context =
  sx_AllowPrivilegeEscalation :: "bool option"
  sx_RunAsNonRoot :: "bool option"
  sx_Privileged :: "bool option"
  sx_ReadOnlyRootFilesystem :: "bool option"
  sx_SeccompProfile :: "string option"
  sx_DropCapabilities :: "string list"

record container =
  ct_Name :: string
  ct_Image :: string
  ct_ImagePullPolicy :: string
  ct_Args :: "string list"
  ct_Env :: "env_var list"
  ct_Resources :: resource_requirements
  ct_VolumeMounts :: "volume_mount list"
  ct_StartupProbe :: "probe option"
  ct_SecurityContext :: "security_context option"
  ct_RestartPolicy :: "string option"
  ct_Rest :: string

record pod_spec =
  ps_Volumes :: "volume list"
  ps_InitContainers :: "container list"
  ps_Containers :: "container list"
  ps_Rest :: string

section \<open>Editing lists of named things\<close>

definition ensureVolume :: "volume list \<Rightarrow> volume \<Rightarrow> volume list" where
  "ensureVolume volumes v =
     (let volumeFound = list_ex (\<lambda>x. vol_Name x = vol_Name v) volumes;
          updated = map (\<lambda>x. if vol_Name x = vol_Name v then v else x) volumes
      in if volumeFound then updated else updated @ [v])"

text \<open>The inner loop of \<open>ensureVolumeMount\<close> stops at the first mount with the name.\<close>

fun ensure_mount :: "volume_mount list \<Rightarrow> volume_mount \<Rightarrow> volume_mount list" where
  "ensure_mount [] mount = [mount]"
| "ensure_mount (m # ms) mount =
     (if vm_Name m = vm_Name mount then mount # ms else m # ensure_mount ms mount)"

definition ensureVolumeMount :: "volume_mount list \<Rightarrow> volume_mount list \<Rightarrow> volume_mount list" where
  "ensureVolumeMount mounts volumeMounts = foldl ensure_mount mounts volumeMounts"

definition removeVolume :: "volume list \<Rightarrow> string \<Rightarrow> volume list" where
  "removeVolume volumes name = filter (\<lambda>v. vol_Name v \<noteq> name) volumes"

definition removeVolumeMount :: "volume_mount list \<Rightarrow> string \<Rightarrow> volume_mount list" where
  "removeVolumeMount mounts name = filter (\<lambda>m. vm_Name m \<noteq> name) mounts"

definition pluginVolumeName :: string where
  "pluginVolumeName = ''plugins''"

definition pluginMountPath :: string where
  "pluginMountPath = ''/plugins''"

definition InjectPluginVolumePodSpec :: "pod_spec \<Rightarrow> string \<Rightarrow> pod_spec" where
  "InjectPluginVolumePodSpec spec mainContainerName =
     (let foundPluginVolume = list_ex (\<lambda>v. vol_Name v = pluginVolumeName) (ps_Volumes spec) in
      if foundPluginVolume then spec
      else spec\<lparr>ps_Volumes := ensureVolume (ps_Volumes spec) \<lparr>vol_Name = pluginVolumeName, vol_Source = EmptyDir\<rparr>,
        ps_Containers := map (\<lambda>c. if ct_Name c = mainContainerName
          then c\<lparr>ct_VolumeMounts := ensureVolumeMount (ct_VolumeMounts c)
            [\<lparr>vm_Name = pluginVolumeName, vm_MountPath = pluginMountPath, vm_Rest = ''''\<rparr>]\<rparr>
          else c) (ps_Containers spec)\<rparr>)"

text \<open>The sidecar gets the mounts of every container with the name of the main one.\<close>

definition injectPluginSidecarPodSpec :: "pod_spec \<Rightarrow> container \<Rightarrow> string \<Rightarrow> go_error + pod_spec" where
  "injectPluginSidecarPodSpec spec sidecar mainContainerName =
     (let spec = InjectPluginVolumePodSpec spec mainContainerName;
          mains = filter (\<lambda>c. ct_Name c = mainContainerName) (ps_Containers spec);
          mounts = foldl (\<lambda>ms c. ensureVolumeMount ms (ct_VolumeMounts c)) (ct_VolumeMounts sidecar) mains;
          sidecar = sidecar\<lparr>ct_VolumeMounts := mounts\<rparr>;
          mainContainerFound = (mains \<noteq> []);
          sidecarContainerFound = list_ex (\<lambda>c. ct_Name c = ct_Name sidecar) (ps_InitContainers spec);
          inits = map (\<lambda>c. if ct_Name c = ct_Name sidecar then sidecar else c) (ps_InitContainers spec)
      in if \<not> mainContainerFound then Inl (Errorf ''main container not found'' [] None)
         else Inr (spec\<lparr>ps_InitContainers := if sidecarContainerFound then inits else ps_InitContainers spec @ [sidecar]\<rparr>))"

section \<open>The interface of the edits\<close>

text \<open>
  \<open>put xs x\<close> stores \<open>x\<close> under its name: it is there afterwards, things with other names are as before,
  and the names are those there were, plus the new one at the end if it was not among them.
\<close>

locale named_update =
  fixes name :: "'x \<Rightarrow> string"
    and put :: "'x list \<Rightarrow> 'x \<Rightarrow> 'x list"
  assumes put_mem: "x \<in> set (put xs x)"
    and put_other: "name y \<noteq> name x \<Longrightarrow> y \<in> set (put xs x) \<longleftrightarrow> y \<in> set xs"
    and put_names: "map name (put xs x) = (if name x \<in> name ` set xs then map name xs else map name xs @ [name x])"
    and put_idem: "put (put xs x) x = put xs x"
begin

lemma set_put_names: "name ` set (put xs x) = insert (name x) (name ` set xs)"
  using arg_cong [OF put_names [of xs x], of set] by (auto split: if_splits)

lemma put_distinct: "distinct (map name xs) \<Longrightarrow> distinct (map name (put xs x))"
  by (auto simp: put_names)

lemma find_mem:
  "distinct (map name xs) \<Longrightarrow> find (\<lambda>y. name y = n) xs = Some x \<longleftrightarrow> x \<in> set xs \<and> name x = n"
  by (induction xs) auto

lemma find_put:
  assumes "distinct (map name xs)"
  shows "find (\<lambda>y. name y = n) (put xs x) = (if name x = n then Some x else find (\<lambda>y. name y = n) xs)"
proof (cases "name x = n")
  case True
  then show ?thesis using find_mem [OF put_distinct [OF assms], of n x x] put_mem by simp
next
  case False
  have "find (\<lambda>y. name y = n) (put xs x) = Some z \<longleftrightarrow> find (\<lambda>y. name y = n) xs = Some z" for z
    using find_mem [OF put_distinct [OF assms], of n x z] find_mem [OF assms, of n z] put_other [of z x xs] False by auto
  then have "find (\<lambda>y. name y = n) (put xs x) = find (\<lambda>y. name y = n) xs"
    by (metis option.exhaust_sel)
  with False show ?thesis by simp
qed

lemma fold_distinct: "distinct (map name xs) \<Longrightarrow> distinct (map name (foldl put xs ys))"
  by (induction ys arbitrary: xs) (simp_all add: put_distinct)

text \<open>Of several things put under one name, the last one is found.\<close>

lemma find_fold:
  "distinct (map name xs) \<Longrightarrow> find (\<lambda>y. name y = n) (foldl put xs ys) =
     (case find (\<lambda>y. name y = n) (rev ys) of Some y \<Rightarrow> Some y | None \<Rightarrow> find (\<lambda>y. name y = n) xs)"
proof (induction ys arbitrary: xs)
  case Nil
  then show ?case by simp
next
  case (Cons y ys)
  have fa: "find P (us @ vs) = (case find P us of None \<Rightarrow> find P vs | Some u \<Rightarrow> Some u)" for P and us vs :: "'x list"
    by (induction us) auto
  show ?case using Cons by (simp add: put_distinct find_put fa split: option.split)
qed

lemma set_fold_names: "name ` set (foldl put xs ys) = name ` set xs \<union> name ` set ys"
  by (induction ys arbitrary: xs) (auto simp: set_put_names)

end

text \<open>Dropping a name, with the interface of storing.\<close>

locale named_edit = named_update name put for name :: "'x \<Rightarrow> string" and put +
  fixes remove :: "'x list \<Rightarrow> string \<Rightarrow> 'x list"
  assumes remove_set: "set (remove xs n) = {x \<in> set xs. name x \<noteq> n}"
    and remove_distinct: "distinct (map name xs) \<Longrightarrow> distinct (map name (remove xs n))"
    and remove_idem: "remove (remove xs n) n = remove xs n"
begin

lemma remove_put_gone: "name x \<notin> name ` set (remove xs (name x))"
  by (auto simp: remove_set)

lemma find_remove:
  assumes "distinct (map name xs)"
  shows "find (\<lambda>y. name y = m) (remove xs n) = (if m = n then None else find (\<lambda>y. name y = m) xs)"
proof (cases "m = n")
  case True
  then show ?thesis by (auto simp: find_None_iff remove_set)
next
  case False
  have "find (\<lambda>y. name y = m) (remove xs n) = Some z \<longleftrightarrow> find (\<lambda>y. name y = m) xs = Some z" for z
    using find_mem [OF remove_distinct [OF assms], of m n z] find_mem [OF assms, of m z] False
    by (auto simp: remove_set)
  then have "find (\<lambda>y. name y = m) (remove xs n) = find (\<lambda>y. name y = m) xs" by (metis option.exhaust_sel)
  with False show ?thesis by simp
qed

end

lemma ensure_mount_names:
  "map vm_Name (ensure_mount ms m) =
     (if vm_Name m \<in> vm_Name ` set ms then map vm_Name ms else map vm_Name ms @ [vm_Name m])"
  by (induction ms) auto

lemma ensureVolume_cases:
  "ensureVolume xs v = (if vol_Name v \<in> vol_Name ` set xs
     then map (\<lambda>x. if vol_Name x = vol_Name v then v else x) xs else xs @ [v])"
proof -
  have "list_ex (\<lambda>x. vol_Name x = vol_Name v) xs \<longleftrightarrow> vol_Name v \<in> vol_Name ` set xs"
    by (auto simp: list_ex_iff intro: rev_image_eqI)
  moreover have "map (\<lambda>x. if vol_Name x = vol_Name v then v else x) xs = xs" if "vol_Name v \<notin> vol_Name ` set xs"
    using that by (induction xs) auto
  ultimately show ?thesis by (simp add: ensureVolume_def Let_def)
qed

lemma map_replace_names:
  "map vol_Name (map (\<lambda>x. if vol_Name x = vol_Name v then v else x) xs) = map vol_Name xs"
  by (induction xs) auto

interpretation volumes: named_edit vol_Name ensureVolume removeVolume
proof unfold_locales
  fix x y :: volume and xs n
  show "x \<in> set (ensureVolume xs x)" by (auto simp: ensureVolume_cases)
  show "vol_Name y \<noteq> vol_Name x \<Longrightarrow> (y \<in> set (ensureVolume xs x)) = (y \<in> set xs)"
    by (auto simp: ensureVolume_cases)
  show names: "map vol_Name (ensureVolume xs x) =
      (if vol_Name x \<in> vol_Name ` set xs then map vol_Name xs else map vol_Name xs @ [vol_Name x])"
    by (simp only: ensureVolume_cases map_replace_names split: if_split) simp
  show "ensureVolume (ensureVolume xs x) x = ensureVolume xs x"
  proof (cases "vol_Name x \<in> vol_Name ` set xs")
    case True
    let ?f = "\<lambda>z. if vol_Name z = vol_Name x then x else z"
    have E: "ensureVolume xs x = map ?f xs" using True by (simp add: ensureVolume_cases)
    have "vol_Name x \<in> vol_Name ` set (ensureVolume xs x)"
      using arg_cong [OF names, of set] True by simp
    then have "ensureVolume (ensureVolume xs x) x = map ?f (ensureVolume xs x)"
      by (subst ensureVolume_cases) simp
    also have "map ?f (ensureVolume xs x) = ensureVolume xs x" unfolding E by simp
    finally show ?thesis .
  next
    case False
    then have "map (\<lambda>z. if vol_Name z = vol_Name x then x else z) xs = xs" by (induction xs) auto
    with False show ?thesis by (simp add: ensureVolume_cases)
  qed
  show "set (removeVolume xs n) = {x \<in> set xs. vol_Name x \<noteq> n}" by (auto simp: removeVolume_def)
  show "distinct (map vol_Name xs) \<Longrightarrow> distinct (map vol_Name (removeVolume xs n))"
    by (simp add: removeVolume_def distinct_map_filter)
  show "removeVolume (removeVolume xs n) n = removeVolume xs n" by (simp add: removeVolume_def)
qed

interpretation mounts: named_edit vm_Name ensure_mount removeVolumeMount
proof unfold_locales
  fix x y :: volume_mount and xs n
  show "x \<in> set (ensure_mount xs x)" by (induction xs) auto
  show "vm_Name y \<noteq> vm_Name x \<Longrightarrow> (y \<in> set (ensure_mount xs x)) = (y \<in> set xs)" by (induction xs) auto
  show "map vm_Name (ensure_mount xs x) =
      (if vm_Name x \<in> vm_Name ` set xs then map vm_Name xs else map vm_Name xs @ [vm_Name x])"
    by (rule ensure_mount_names)
  show "ensure_mount (ensure_mount xs x) x = ensure_mount xs x" by (induction xs) auto
  show "set (removeVolumeMount xs n) = {x \<in> set xs. vm_Name x \<noteq> n}" by (auto simp: removeVolumeMount_def)
  show "distinct (map vm_Name xs) \<Longrightarrow> distinct (map vm_Name (removeVolumeMount xs n))"
    by (simp add: removeVolumeMount_def distinct_map_filter)
  show "removeVolumeMount (removeVolumeMount xs n) n = removeVolumeMount xs n" by (simp add: removeVolumeMount_def)
qed

end
