(* ===== verification/Lifecycle.thy ===== *)
theory Lifecycle
  imports Pod_Spec Config Common_Env
begin

text \<open>
  The lifecycle hook of the operator: \<open>internal/cnpgi/operator/lifecycle.go\<close>,
  \<open>lifecycle_envs.go\<close>, \<open>lifecycle_resources.go\<close> and \<open>lifecycle_certificates.go\<close>. It injects the
  sidecar container into instance Pods and recovery Jobs.
\<close>

section \<open>Requests\<close>

record pod =
  pod_Name :: string
  pod_Spec :: pod_spec
  pod_Rest :: string

record job =
  job_Name :: string
  job_TemplateLabels :: "string gomap"
  job_TemplateSpec :: pod_spec
  job_Rest :: string

text \<open>
  The decoders and the JSON patches of \<open>cnpg-i-machinery\<close>, and the \<open>sidecar-image\<close> setting. A request
  holds the operation type as its \<open>Enum\<close> method returns it.
\<close>

record pod_lib =
  DecodePodJSON :: "string \<Rightarrow> go_error + pod"
  DecodeJob :: "string \<Rightarrow> go_error + job"
  CreatePodPatch :: "pod \<Rightarrow> pod \<Rightarrow> go_error + string"
  CreateJobPatch :: "job \<Rightarrow> job \<Rightarrow> go_error + string"
  sidecar_image :: string

record lifecycle_request =
  lr_OperationType :: "string option"
  lr_ObjectDefinition :: string
  lr_ClusterDefinition :: string

datatype operation_type = TYPE_CREATE | TYPE_EVALUATE

definition lifecycle_GetCapabilities :: "(string \<times> string \<times> operation_type list) list" where
  "lifecycle_GetCapabilities =
     [('''', ''Pod'', [TYPE_CREATE, TYPE_EVALUATE]), (''batch'', ''Job'', [TYPE_CREATE])]"

definition fullRecoveryJobName :: string where
  "fullRecoveryJobName = ''full-recovery''"

record sidecar_configuration =
  sdc_env :: "env_var list"
  sdc_certificates :: "secret_projection list"
  sdc_resources :: resource_requirements
  sdc_additionalArgs :: "string list"

section \<open>What the sidecar is configured with\<close>

text \<open>\<open>lifecycle_envs.go\<close>\<close>

definition collectObjectStoreEnvs :: "'w ext \<Rightarrow> namespaced_name \<Rightarrow> ('w, env_var list) eff" where
  "collectObjectStoreEnvs e barmanObjectKey =
     io_bind (get_object_store e barmanObjectKey) (\<lambda>objectStore. io_return (sc_Env (os_Sidecar objectStore)))"

definition envs_if_set :: "'w ext \<Rightarrow> string \<Rightarrow> string \<Rightarrow> ('w, env_var list) eff" where
  "envs_if_set e namespace name =
     (if length name > 0 then collectObjectStoreEnvs e (NamespacedName namespace name) else io_return [])"

definition collectAdditionalEnvs :: "'w ext \<Rightarrow> string \<Rightarrow> config \<Rightarrow> ('w, env_var list) eff" where
  "collectAdditionalEnvs e namespace c =
     io_bind (envs_if_set e namespace (cfg_BarmanObjectName c)) (\<lambda>envs1.
     io_bind (envs_if_set e namespace (cfg_RecoveryBarmanObjectName c)) (\<lambda>envs2.
     io_bind (envs_if_set e namespace (cfg_ReplicaSourceBarmanObjectName c)) (\<lambda>envs3.
       io_return (envs1 @ envs2 @ envs3))))"

text \<open>\<open>lifecycle_certificates.go\<close>\<close>

definition barmanCertificatesVolumeName :: string where
  "barmanCertificatesVolumeName = ''barman-certificates''"

definition collectObjectStoreCertificates :: "'w ext \<Rightarrow> namespaced_name \<Rightarrow> ('w, secret_projection list) eff" where
  "collectObjectStoreCertificates e barmanObjectKey =
     io_bind (get_object_store e barmanObjectKey) (\<lambda>objectStore.
       case bc_EndpointCA (os_Configuration objectStore) of
         None \<Rightarrow> io_return []
       | Some endpointCA \<Rightarrow> io_return [\<lparr>sp_SecretName = sk_Name endpointCA, sp_Key = sk_Key endpointCA,
           sp_Path = path_Join [nn_Name barmanObjectKey, BarmanCertificatesFileName]\<rparr>])"

fun collect_certificates :: "'w ext \<Rightarrow> namespaced_name list \<Rightarrow> ('w, secret_projection list) eff" where
  "collect_certificates e [] = io_return []"
| "collect_certificates e (key # keys) =
     io_bind (collectObjectStoreCertificates e key) (\<lambda>certs.
     io_bind (collect_certificates e keys) (\<lambda>rest. io_return (certs @ rest)))"

definition collectAdditionalCertificates :: "lib \<Rightarrow> 'w ext \<Rightarrow> config \<Rightarrow> ('w, secret_projection list) eff" where
  "collectAdditionalCertificates L e c = collect_certificates e (GetReferredBarmanObjectsKey L c)"

text \<open>\<open>lifecycle_resources.go\<close>; the zero value of the resources is \<open>[]\<close>.\<close>

definition resources_of :: "'w ext \<Rightarrow> namespaced_name \<Rightarrow> ('w, resource_requirements) eff" where
  "resources_of e key =
     io_bind (get_object_store e key) (\<lambda>objectStore. io_return (sc_Resources (os_Sidecar objectStore)))"

definition collectSidecarResourcesForRecoveryJob :: "'w ext \<Rightarrow> config \<Rightarrow> ('w, resource_requirements) eff" where
  "collectSidecarResourcesForRecoveryJob e c =
     (if length (cfg_RecoveryBarmanObjectName c) > 0 then resources_of e (GetRecoveryBarmanObjectKey c)
      else io_return [])"

definition collectSidecarResourcesForPod :: "'w ext \<Rightarrow> config \<Rightarrow> ('w, resource_requirements) eff" where
  "collectSidecarResourcesForPod e c =
     (if length (cfg_BarmanObjectName c) > 0 then resources_of e (GetBarmanObjectKey c)
      else if length (cfg_RecoveryBarmanObjectName c) > 0 then resources_of e (GetRecoveryBarmanObjectKey c)
      else if length (cfg_ReplicaSourceBarmanObjectName c) > 0 then resources_of e (GetReplicaSourceBarmanObjectKey c)
      else io_return [])"

text \<open>The arguments: the additional ones of the store, then the log level.\<close>

definition collectTypedAdditionalArgs :: "object_store option \<Rightarrow> string list" where
  "collectTypedAdditionalArgs storep = (case storep of
     None \<Rightarrow> []
   | Some store \<Rightarrow> if length (sc_LogLevel (os_Sidecar store)) > 0
       then [''--log-level='' @ sc_LogLevel (os_Sidecar store)] else [])"

definition key_String :: "namespaced_name \<Rightarrow> string" where
  "key_String k = nn_Namespace k @ ''/'' @ nn_Name k"

definition instance_args_of :: "'w ext \<Rightarrow> string \<Rightarrow> namespaced_name \<Rightarrow> ('w, string list) eff" where
  "instance_args_of e format key =
     io_bind (io_map_error (\<lambda>err. Errorf format [key_String key] (Some err)) (get_object_store e key)) (\<lambda>store.
       io_return (sc_AdditionalContainerArgs (os_Sidecar store) @ collectTypedAdditionalArgs (Some store)))"

definition collectAdditionalInstanceArgs :: "'w ext \<Rightarrow> config \<Rightarrow> ('w, string list) eff" where
  "collectAdditionalInstanceArgs e c =
     (if length (cfg_BarmanObjectName c) > 0
      then instance_args_of e ''while getting barman object store %s: %w'' (GetBarmanObjectKey c)
      else if length (cfg_RecoveryBarmanObjectName c) > 0
      then instance_args_of e ''while getting recovery barman object store %s: %w'' (GetRecoveryBarmanObjectKey c)
      else if length (cfg_ReplicaSourceBarmanObjectName c) > 0
      then instance_args_of e ''while getting replica source barman object store %s: %w'' (GetReplicaSourceBarmanObjectKey c)
      else io_return [])"

section \<open>The sidecar\<close>

definition default_envs :: "cluster \<Rightarrow> env_var list" where
  "default_envs c =
     [\<lparr>ev_Name = ''NAMESPACE'', ev_Value = cl_Namespace c, ev_Source = ''''\<rparr>,
      \<lparr>ev_Name = ''CLUSTER_NAME'', ev_Value = cl_Name c, ev_Source = ''''\<rparr>,
      \<lparr>ev_Name = ''SPOOL_DIRECTORY'', ev_Value = ''/controller/wal-restore-spool'', ev_Source = ''''\<rparr>,
      \<lparr>ev_Name = ''CUSTOM_CNPG_GROUP'', ev_Value = cl_Group c, ev_Source = ''''\<rparr>,
      \<lparr>ev_Name = ''CUSTOM_CNPG_VERSION'', ev_Value = cl_Version c, ev_Source = ''''\<rparr>]"

definition sidecar_security_context :: security_context where
  "sidecar_security_context = \<lparr>sx_AllowPrivilegeEscalation = Some False, sx_RunAsNonRoot = Some True,
     sx_Privileged = Some False, sx_ReadOnlyRootFilesystem = Some True,
     sx_SeccompProfile = Some ''RuntimeDefault'', sx_DropCapabilities = [''ALL'']\<rparr>"

definition sidecar_probe :: probe where
  "sidecar_probe = \<lparr>pb_PeriodSeconds = 1, pb_FailureThreshold = 30, pb_TimeoutSeconds = 5,
     pb_ExecCommand = [''/manager'', ''healthcheck'', ''unix'']\<rparr>"

text \<open>Both loops that merge environments: a variable is added unless its name is already set.\<close>

definition merge_envs :: "env_var list \<Rightarrow> env_var list \<Rightarrow> env_var list" where
  "merge_envs existing envs = foldl (\<lambda>result v.
     if list_ex (\<lambda>x. ev_Name x = ev_Name v) result then result else result @ [v]) existing envs"

text \<open>The loop over the containers stops at the first one with the name.\<close>

definition main_container_env :: "container list \<Rightarrow> string \<Rightarrow> env_var list" where
  "main_container_env containers name = (case find (\<lambda>c. ct_Name c = name) containers of
     None \<Rightarrow> [] | Some c \<Rightarrow> ct_Env c)"

definition sidecar_container ::
  "pod_lib \<Rightarrow> cluster \<Rightarrow> pod_spec \<Rightarrow> string \<Rightarrow> container \<Rightarrow> sidecar_configuration \<Rightarrow> container" where
  "sidecar_container P c spec mainContainerName sidecarTemplate conf = sidecarTemplate\<lparr>
     ct_Name := ''plugin-barman-cloud'', ct_Image := sidecar_image P,
     ct_ImagePullPolicy := cl_ImagePullPolicy c, ct_StartupProbe := Some sidecar_probe,
     ct_SecurityContext := Some sidecar_security_context, ct_RestartPolicy := Some ''Always'',
     ct_Resources := sdc_resources conf,
     ct_Args := ct_Args sidecarTemplate @ sdc_additionalArgs conf,
     ct_Env := merge_envs (merge_envs (ct_Env sidecarTemplate) (main_container_env (ps_Containers spec) mainContainerName))
       (default_envs c @ sdc_env conf)\<rparr>"

definition reconcilePodSpec ::
  "pod_lib \<Rightarrow> cluster \<Rightarrow> pod_spec \<Rightarrow> string \<Rightarrow> container \<Rightarrow> sidecar_configuration \<Rightarrow> go_error + pod_spec" where
  "reconcilePodSpec P c spec mainContainerName sidecarTemplate conf =
     (let sidecar = sidecar_container P c spec mainContainerName sidecarTemplate conf;
          (sidecar, spec) =
            (if length (sdc_certificates conf) > 0
             then (sidecar\<lparr>ct_VolumeMounts := ensureVolumeMount (ct_VolumeMounts sidecar)
                     [\<lparr>vm_Name = barmanCertificatesVolumeName, vm_MountPath = BarmanCertificatesPath, vm_Rest = ''''\<rparr>]\<rparr>,
                   spec\<lparr>ps_Volumes := ensureVolume (ps_Volumes spec)
                     \<lparr>vol_Name = barmanCertificatesVolumeName, vol_Source = Projected (sdc_certificates conf)\<rparr>\<rparr>)
             else (sidecar\<lparr>ct_VolumeMounts := removeVolumeMount (ct_VolumeMounts sidecar) barmanCertificatesVolumeName\<rparr>,
                   spec\<lparr>ps_Volumes := removeVolume (ps_Volumes spec) barmanCertificatesVolumeName\<rparr>))
      in injectPluginSidecarPodSpec spec sidecar mainContainerName)"

text \<open>A container with every field at its zero value but the arguments.\<close>

definition container_template :: "string list \<Rightarrow> container" where
  "container_template args = \<lparr>ct_Name = '''', ct_Image = '''', ct_ImagePullPolicy = '''', ct_Args = args, ct_Env = [],
     ct_Resources = [], ct_VolumeMounts = [], ct_StartupProbe = None, ct_SecurityContext = None,
     ct_RestartPolicy = None, ct_Rest = ''''\<rparr>"

section \<open>The hook\<close>

text \<open>The loop of \<open>getCNPGJobRole\<close> returns at the first key it visits with the suffix.\<close>

definition getCNPGJobRole :: "job \<Rightarrow> string" where
  "getCNPGJobRole j = (case find (\<lambda>(k, v). HasSuffix k ''/jobRole'') (gm_entries (job_TemplateLabels j)) of
     None \<Rightarrow> '''' | Some (k, v) \<Rightarrow> v)"

text \<open>Responses: \<open>None\<close> for the nil response, else the JSON patch.\<close>

definition reconcile_job ::
  "lib \<Rightarrow> pod_lib \<Rightarrow> cluster \<Rightarrow> lifecycle_request \<Rightarrow> sidecar_configuration \<Rightarrow> go_error + string option" where
  "reconcile_job L P c request conf =
     (if (case GetRecoverySourcePlugin L c of None \<Rightarrow> True | Some p \<Rightarrow> pc_Name p \<noteq> PluginName) then Inr None
      else (case DecodeJob P (lr_ObjectDefinition request) of
        Inl err \<Rightarrow> Inl err
      | Inr j \<Rightarrow>
          let jobRole = getCNPGJobRole j in
          if jobRole \<noteq> fullRecoveryJobName \<and> jobRole \<noteq> ''snapshot-recovery'' then Inr None
          else (case reconcilePodSpec P c (job_TemplateSpec j) jobRole (container_template [''restore'']) conf of
            Inl err \<Rightarrow> Inl (Errorf ''while reconciling pod spec for job: %w'' [] (Some err))
          | Inr spec \<Rightarrow> map_sum id Some (CreateJobPatch P (j\<lparr>job_TemplateSpec := spec\<rparr>) j))))"

definition reconcileInstancePod ::
  "pod_lib \<Rightarrow> cluster \<Rightarrow> lifecycle_request \<Rightarrow> config \<Rightarrow> sidecar_configuration \<Rightarrow> go_error + string option" where
  "reconcileInstancePod P c request pluginConfiguration conf =
     (case DecodePodJSON P (lr_ObjectDefinition request) of
       Inl err \<Rightarrow> Inl err
     | Inr p \<Rightarrow>
         if length (cfg_BarmanObjectName pluginConfiguration) \<noteq> 0 \<or>
            length (cfg_ReplicaSourceBarmanObjectName pluginConfiguration) \<noteq> 0
         then (case reconcilePodSpec P c (pod_Spec p) ''postgres'' (container_template [''instance'']) conf of
            Inl err \<Rightarrow> Inl (Errorf ''while reconciling pod spec for pod: %w'' [] (Some err))
          | Inr spec \<Rightarrow> map_sum id Some (CreatePodPatch P (p\<lparr>pod_Spec := spec\<rparr>) p))
         else map_sum id Some (CreatePodPatch P p p))"

definition reconcileJob ::
  "lib \<Rightarrow> pod_lib \<Rightarrow> 'w ext \<Rightarrow> cluster \<Rightarrow> lifecycle_request \<Rightarrow> config \<Rightarrow> ('w, string option) eff" where
  "reconcileJob L P e c request pluginConfiguration =
     io_bind (collectAdditionalEnvs e (cl_Namespace c) pluginConfiguration) (\<lambda>env.
     io_bind (collectAdditionalCertificates L e pluginConfiguration) (\<lambda>certificates.
     io_bind (collectSidecarResourcesForRecoveryJob e pluginConfiguration) (\<lambda>resources.
       io_lift (reconcile_job L P c request \<lparr>sdc_env = env, sdc_certificates = certificates,
         sdc_resources = resources, sdc_additionalArgs = []\<rparr>))))"

definition reconcilePod ::
  "lib \<Rightarrow> pod_lib \<Rightarrow> 'w ext \<Rightarrow> cluster \<Rightarrow> lifecycle_request \<Rightarrow> config \<Rightarrow> ('w, string option) eff" where
  "reconcilePod L P e c request pluginConfiguration =
     io_bind (collectAdditionalEnvs e (cl_Namespace c) pluginConfiguration) (\<lambda>env.
     io_bind (collectAdditionalCertificates L e pluginConfiguration) (\<lambda>certificates.
     io_bind (collectSidecarResourcesForPod e pluginConfiguration) (\<lambda>resources.
     io_bind (collectAdditionalInstanceArgs e pluginConfiguration) (\<lambda>additionalArgs.
       io_lift (reconcileInstancePod P c request pluginConfiguration \<lparr>sdc_env = env,
         sdc_certificates = certificates, sdc_resources = resources, sdc_additionalArgs = additionalArgs\<rparr>)))))"

definition LifecycleHook :: "lib \<Rightarrow> pod_lib \<Rightarrow> 'w ext \<Rightarrow> lifecycle_request \<Rightarrow> ('w, string option) eff" where
  "LifecycleHook L P e request = (case lr_OperationType request of
     None \<Rightarrow> io_fail (Errorf ''no operation set'' [] None)
   | Some operation \<Rightarrow>
       io_bind (io_lift (GetKind L (lr_ObjectDefinition request))) (\<lambda>kind.
       io_bind (io_lift (DecodeCluster L (lr_ClusterDefinition request))) (\<lambda>c.
         let pluginConfiguration = NewFromCluster L c in
         case Validate pluginConfiguration of
           Some err \<Rightarrow> io_return None
         | None \<Rightarrow>
             if kind = ''Pod'' then reconcilePod L P e c request pluginConfiguration
             else if kind = ''Job'' then reconcileJob L P e c request pluginConfiguration
             else io_fail (Errorf ''unsupported kind: %s'' [kind] None))))"

end
