(* ===== verification/Lifecycle_Props.thy ===== *)
theory Lifecycle_Props
  imports Lifecycle
begin

text \<open>
  What the lifecycle hook does to a Pod: the volumes, mounts, environment and arguments of the sidecar
  it injects, that injecting it again changes nothing, and what the hook reads to configure it.
\<close>

section \<open>The edited pod\<close>

lemma ensureVolume_id:
  assumes "vol_Name v \<in> vol_Name ` set xs" "\<forall>x \<in> set xs. vol_Name x = vol_Name v \<longrightarrow> x = v"
  shows "ensureVolume xs v = xs"
proof -
  have "map (\<lambda>x. if vol_Name x = vol_Name v then v else x) xs = xs"
    using assms(2) by (intro map_idI) auto
  with assms(1) show ?thesis by (simp add: ensureVolume_cases)
qed

lemma ensureVolume_named: "x \<in> set (ensureVolume xs v) \<Longrightarrow> vol_Name x = vol_Name v \<Longrightarrow> x = v"
  by (auto simp: ensureVolume_cases image_iff split: if_splits)

lemma InjectPluginVolume_simps:
  "ps_InitContainers (InjectPluginVolumePodSpec spec m) = ps_InitContainers spec"
  "ps_Rest (InjectPluginVolumePodSpec spec m) = ps_Rest spec"
  "pluginVolumeName \<in> vol_Name ` set (ps_Volumes (InjectPluginVolumePodSpec spec m))"
  "ps_Volumes (InjectPluginVolumePodSpec spec m) = (if pluginVolumeName \<in> vol_Name ` set (ps_Volumes spec)
     then ps_Volumes spec else ps_Volumes spec @ [\<lparr>vol_Name = pluginVolumeName, vol_Source = EmptyDir\<rparr>])"
proof -
  have found: "list_ex (\<lambda>v. vol_Name v = pluginVolumeName) vs \<longleftrightarrow> pluginVolumeName \<in> vol_Name ` set vs" for vs
    by (simp only: list_ex_iff image_iff) metis
  show "ps_InitContainers (InjectPluginVolumePodSpec spec m) = ps_InitContainers spec"
    "ps_Rest (InjectPluginVolumePodSpec spec m) = ps_Rest spec"
    by (simp_all add: InjectPluginVolumePodSpec_def Let_def)
  show v: "ps_Volumes (InjectPluginVolumePodSpec spec m) = (if pluginVolumeName \<in> vol_Name ` set (ps_Volumes spec)
     then ps_Volumes spec else ps_Volumes spec @ [\<lparr>vol_Name = pluginVolumeName, vol_Source = EmptyDir\<rparr>])"
    by (simp add: InjectPluginVolumePodSpec_def Let_def found ensureVolume_cases)
  show "pluginVolumeName \<in> vol_Name ` set (ps_Volumes (InjectPluginVolumePodSpec spec m))" by (simp add: v)
qed

lemma InjectPluginVolume_id:
  "pluginVolumeName \<in> vol_Name ` set (ps_Volumes spec) \<Longrightarrow> InjectPluginVolumePodSpec spec m = spec"
  by (auto simp: InjectPluginVolumePodSpec_def Let_def list_ex_iff)

text \<open>Of the containers only the mounts of the main one can change.\<close>

abbreviation without_mounts where
  "without_mounts c \<equiv> c\<lparr>ct_VolumeMounts := []\<rparr>"

lemma InjectPluginVolume_containers:
  "map without_mounts (ps_Containers (InjectPluginVolumePodSpec spec m)) = map without_mounts (ps_Containers spec)"
  "c \<in> set (ps_Containers (InjectPluginVolumePodSpec spec m)) \<Longrightarrow> ct_Name c \<noteq> m \<Longrightarrow> c \<in> set (ps_Containers spec)"
  by (auto simp: InjectPluginVolumePodSpec_def Let_def comp_def split: if_splits)

lemma main_container_env_eq:
  "map without_mounts cs = map without_mounts ds \<Longrightarrow> main_container_env cs m = main_container_env ds m"
proof (induction cs arbitrary: ds)
  case Nil
  then show ?case by simp
next
  case (Cons c cs)
  then obtain d ds' where ds: "ds = d # ds'" "without_mounts c = without_mounts d"
    "map without_mounts cs = map without_mounts ds'" by (cases ds) auto
  have "ct_Name c = ct_Name d" "ct_Env c = ct_Env d" using ds(2) by (cases c; cases d; simp)+
  with Cons.IH [OF ds(3)] show ?case by (simp add: ds(1) main_container_env_def)
qed

text \<open>The volumes of the certificates, and the sidecar that is injected.\<close>

definition certificate_volumes :: "secret_projection list \<Rightarrow> volume list \<Rightarrow> volume list" where
  "certificate_volumes certs vs = (if certs \<noteq> []
     then ensureVolume vs \<lparr>vol_Name = barmanCertificatesVolumeName, vol_Source = Projected certs\<rparr>
     else removeVolume vs barmanCertificatesVolumeName)"

definition certificate_mounts :: "secret_projection list \<Rightarrow> volume_mount list \<Rightarrow> volume_mount list" where
  "certificate_mounts certs ms = (if certs \<noteq> []
     then ensureVolumeMount ms [\<lparr>vm_Name = barmanCertificatesVolumeName, vm_MountPath = BarmanCertificatesPath, vm_Rest = ''''\<rparr>]
     else removeVolumeMount ms barmanCertificatesVolumeName)"

definition mounts_of_main :: "volume_mount list \<Rightarrow> container list \<Rightarrow> string \<Rightarrow> volume_mount list" where
  "mounts_of_main ms containers m =
     foldl (\<lambda>ms c. ensureVolumeMount ms (ct_VolumeMounts c)) ms (filter (\<lambda>c. ct_Name c = m) containers)"

definition replace_container :: "container \<Rightarrow> container list \<Rightarrow> container list" where
  "replace_container s cs = (if list_ex (\<lambda>c. ct_Name c = ct_Name s) cs
     then map (\<lambda>c. if ct_Name c = ct_Name s then s else c) cs else cs @ [s])"

lemma reconcilePodSpec_eq:
  "reconcilePodSpec P c spec m tmpl conf =
     (let spec1 = spec\<lparr>ps_Volumes := certificate_volumes (sdc_certificates conf) (ps_Volumes spec)\<rparr>;
          spec2 = InjectPluginVolumePodSpec spec1 m;
          s = sidecar_container P c spec m tmpl conf;
          s' = s\<lparr>ct_VolumeMounts := mounts_of_main (certificate_mounts (sdc_certificates conf) (ct_VolumeMounts s))
            (ps_Containers spec2) m\<rparr>
      in if m \<in> ct_Name ` set (ps_Containers spec2)
         then Inr (spec2\<lparr>ps_InitContainers := replace_container s' (ps_InitContainers spec)\<rparr>)
         else Inl (Errorf ''main container not found'' [] None))"
proof -
  have f: "filter (\<lambda>c. ct_Name c = m) cs = [] \<longleftrightarrow> m \<notin> ct_Name ` set cs" for cs
    by (auto simp: filter_empty_conv)
  show ?thesis
    unfolding reconcilePodSpec_def injectPluginSidecarPodSpec_def Let_def certificate_volumes_def certificate_mounts_def
      mounts_of_main_def replace_container_def
    by (cases "sdc_certificates conf = []") (simp_all add: f InjectPluginVolume_simps(1) cong: if_cong)
qed

lemma certificate_volumes_plugin:
  "certificate_volumes certs (vs @ [\<lparr>vol_Name = pluginVolumeName, vol_Source = EmptyDir\<rparr>]) =
   certificate_volumes certs vs @ [\<lparr>vol_Name = pluginVolumeName, vol_Source = EmptyDir\<rparr>]" 
  if "certs = [] \<or> barmanCertificatesVolumeName \<in> vol_Name ` set vs"
  using that by (auto simp: certificate_volumes_def ensureVolume_cases removeVolume_def
      barmanCertificatesVolumeName_def pluginVolumeName_def)

lemma certificate_volumes_idem: "certificate_volumes certs (certificate_volumes certs vs) = certificate_volumes certs vs"
  by (simp add: certificate_volumes_def volumes.put_idem volumes.remove_idem)

lemma certificate_volumes_settled:
  assumes "vs = certificate_volumes certs us"
    "ws = (if pluginVolumeName \<in> vol_Name ` set vs then vs
       else vs @ [\<lparr>vol_Name = pluginVolumeName, vol_Source = EmptyDir\<rparr>])"
  shows "certificate_volumes certs ws = ws"
proof -
  have c: "certs = [] \<or> barmanCertificatesVolumeName \<in> vol_Name ` set vs"
    using volumes.put_mem [of "\<lparr>vol_Name = barmanCertificatesVolumeName, vol_Source = Projected certs\<rparr>" us]
    by (force simp: assms(1) certificate_volumes_def)
  show ?thesis
    using certificate_volumes_plugin [OF c] certificate_volumes_idem [of certs us] by (simp add: assms)
qed

lemma replace_container_idem: "replace_container s (replace_container s cs) = replace_container s cs"
proof (cases "list_ex (\<lambda>c. ct_Name c = ct_Name s) cs")
  case True
  let ?f = "\<lambda>c. if ct_Name c = ct_Name s then s else c"
  have "list_ex (\<lambda>c. ct_Name c = ct_Name s) (map ?f cs)" using True by (induction cs) auto
  moreover have "map ?f (map ?f cs) = map ?f cs" by simp
  ultimately show ?thesis using True by (simp only: replace_container_def if_True)
next
  case False
  then have "map (\<lambda>c. if ct_Name c = ct_Name s then s else c) cs = cs"
    by (intro map_idI) (auto simp: list_ex_iff)
  with False show ?thesis by (simp add: replace_container_def)
qed

lemma replace_container_own:
  assumes "length (filter (\<lambda>x. ct_Name x = ct_Name s) cs) \<le> 1"
  shows "filter (\<lambda>x. ct_Name x = ct_Name s) (replace_container s cs) = [s]"
proof -
  have l: "filter (\<lambda>x. ct_Name x = ct_Name s) (map (\<lambda>c. if ct_Name c = ct_Name s then s else c) cs) =
      map (\<lambda>_. s) (filter (\<lambda>x. ct_Name x = ct_Name s) cs)" by (induction cs) auto
  show ?thesis
  proof (cases "filter (\<lambda>x. ct_Name x = ct_Name s) cs")
    case Nil
    then have "\<not> list_ex (\<lambda>c. ct_Name c = ct_Name s) cs" by (auto simp: filter_empty_conv list_ex_iff)
    then show ?thesis using Nil by (simp add: replace_container_def)
  next
    case (Cons a as)
    then have "as = []" "list_ex (\<lambda>c. ct_Name c = ct_Name s) cs"
      using assms by (auto simp: list_ex_iff filter_eq_Cons_iff)
    then show ?thesis using Cons l by (simp add: replace_container_def)
  qed
qed

lemma replace_container_others:
  "filter (\<lambda>x. ct_Name x \<noteq> ct_Name s) (replace_container s cs) = filter (\<lambda>x. ct_Name x \<noteq> ct_Name s) cs"
proof -
  have "filter (\<lambda>x. ct_Name x \<noteq> ct_Name s) (map (\<lambda>c. if ct_Name c = ct_Name s then s else c) cs) =
      filter (\<lambda>x. ct_Name x \<noteq> ct_Name s) cs" by (induction cs) auto
  then show ?thesis by (simp add: replace_container_def)
qed

lemma sidecar_container_simps [simp]:
  "ct_Name (sidecar_container P c spec m tmpl conf) = ''plugin-barman-cloud''"
  "ct_VolumeMounts (sidecar_container P c spec m tmpl conf) = ct_VolumeMounts tmpl"
  by (simp_all add: sidecar_container_def)


text \<open>
  C33. The injected sidecar. When the hook succeeds, the init containers are those there were, in place,
  with exactly one of their own: it runs the configured image under the fixed restricted security
  context, is restarted always, has the resources of the store and the template's arguments followed by
  the additional ones. Other containers only change in the mounts of the main one; the certificates
  volume is there exactly when some store has a certificate, and all volumes under other names are kept.
\<close>

theorem reconcilePodSpec_sidecar:
  assumes "reconcilePodSpec P c spec m tmpl conf = Inr spec'"
    and "length (filter (\<lambda>x. ct_Name x = ''plugin-barman-cloud'') (ps_InitContainers spec)) \<le> 1"
  shows "\<exists>s. filter (\<lambda>x. ct_Name x = ''plugin-barman-cloud'') (ps_InitContainers spec') = [s] \<and>
    ct_Image s = sidecar_image P \<and> ct_SecurityContext s = Some sidecar_security_context \<and>
    ct_RestartPolicy s = Some ''Always'' \<and> ct_StartupProbe s = Some sidecar_probe \<and>
    ct_Resources s = sdc_resources conf \<and> ct_Args s = ct_Args tmpl @ sdc_additionalArgs conf \<and>
    filter (\<lambda>x. ct_Name x \<noteq> ''plugin-barman-cloud'') (ps_InitContainers spec') =
      filter (\<lambda>x. ct_Name x \<noteq> ''plugin-barman-cloud'') (ps_InitContainers spec) \<and>
    map without_mounts (ps_Containers spec') = map without_mounts (ps_Containers spec) \<and>
    (\<forall>x \<in> set (ps_Containers spec'). ct_Name x \<noteq> m \<longrightarrow> x \<in> set (ps_Containers spec)) \<and>
    (barmanCertificatesVolumeName \<in> vol_Name ` set (ps_Volumes spec') \<longleftrightarrow> sdc_certificates conf \<noteq> []) \<and>
    (\<forall>v. vol_Name v \<notin> {barmanCertificatesVolumeName, pluginVolumeName} \<longrightarrow>
       (v \<in> set (ps_Volumes spec') \<longleftrightarrow> v \<in> set (ps_Volumes spec))) \<and> ps_Rest spec' = ps_Rest spec"
proof -
  let ?certs = "sdc_certificates conf" and ?n = "''plugin-barman-cloud''"
  define spec1 where "spec1 = spec\<lparr>ps_Volumes := certificate_volumes ?certs (ps_Volumes spec)\<rparr>"
  define spec2 where "spec2 = InjectPluginVolumePodSpec spec1 m"
  define s where "s = (sidecar_container P c spec m tmpl conf)\<lparr>ct_VolumeMounts :=
    mounts_of_main (certificate_mounts ?certs (ct_VolumeMounts tmpl)) (ps_Containers spec2) m\<rparr>"
  have spec': "spec' = spec2\<lparr>ps_InitContainers := replace_container s (ps_InitContainers spec)\<rparr>"
    using assms(1) by (simp_all add: reconcilePodSpec_eq Let_def spec1_def spec2_def s_def split: if_splits)
  have n: "ct_Name s = ?n" by (simp add: s_def)
  have one: "filter (\<lambda>x. ct_Name x = ?n) (replace_container s cs) = [s]"
    if "length (filter (\<lambda>x. ct_Name x = ?n) cs) \<le> 1" for cs
    using that n replace_container_own [of s cs] by simp
  have others: "filter (\<lambda>x. ct_Name x \<noteq> ?n) (replace_container s cs) = filter (\<lambda>x. ct_Name x \<noteq> ?n) cs" for cs
    using n replace_container_others [of s cs] by simp
  have v2: "ps_Volumes spec2 = (if pluginVolumeName \<in> vol_Name ` set (ps_Volumes spec1) then ps_Volumes spec1
      else ps_Volumes spec1 @ [\<lparr>vol_Name = pluginVolumeName, vol_Source = EmptyDir\<rparr>])"
    unfolding spec2_def by (rule InjectPluginVolume_simps(4))
  have certs: "barmanCertificatesVolumeName \<in> vol_Name ` set (ps_Volumes spec1) \<longleftrightarrow> ?certs \<noteq> []"
    by (auto simp: spec1_def certificate_volumes_def volumes.set_put_names volumes.remove_set)
  have kept: "vol_Name v \<noteq> barmanCertificatesVolumeName \<Longrightarrow>
      v \<in> set (ps_Volumes spec1) \<longleftrightarrow> v \<in> set (ps_Volumes spec)" for v
    by (auto simp: spec1_def certificate_volumes_def volumes.put_other volumes.remove_set)
  have conts: "map without_mounts (ps_Containers spec2) = map without_mounts (ps_Containers spec)"
    "\<forall>x \<in> set (ps_Containers spec2). ct_Name x \<noteq> m \<longrightarrow> x \<in> set (ps_Containers spec)"
    using InjectPluginVolume_containers [where spec = spec1 and m = m] by (simp_all add: spec2_def spec1_def)
  have rest: "ps_Rest spec2 = ps_Rest spec" by (simp add: spec2_def spec1_def InjectPluginVolume_simps(2))
  have "barmanCertificatesVolumeName \<in> vol_Name ` set (ps_Volumes spec2) \<longleftrightarrow> ?certs \<noteq> []"
    using certs by (auto simp: v2 barmanCertificatesVolumeName_def pluginVolumeName_def)
  moreover have "\<forall>v. vol_Name v \<notin> {barmanCertificatesVolumeName, pluginVolumeName} \<longrightarrow>
       (v \<in> set (ps_Volumes spec2) \<longleftrightarrow> v \<in> set (ps_Volumes spec))" using kept by (auto simp: v2)
  ultimately show ?thesis using one [OF assms(2)] others conts rest
    by (intro exI [of _ s]) (simp add: spec', simp add: s_def sidecar_container_def)
qed

lemma mounts_of_main_eq:
  "mounts_of_main ms cs m = foldl ensure_mount ms (concat (map ct_VolumeMounts (filter (\<lambda>c. ct_Name c = m) cs)))"
proof -
  have "foldl (\<lambda>ms c. ensureVolumeMount ms (ct_VolumeMounts c)) ms ds =
      foldl ensure_mount ms (concat (map ct_VolumeMounts ds))" for ms ds
    by (induction ds arbitrary: ms) (simp_all add: ensureVolumeMount_def)
  then show ?thesis by (simp add: mounts_of_main_def)
qed

lemma reconcilePodSpec_injected:
  assumes "reconcilePodSpec P c spec m tmpl conf = Inr spec'"
    and "s \<in> set (ps_InitContainers spec')" "ct_Name s = ''plugin-barman-cloud''"
  shows "s = (sidecar_container P c spec m tmpl conf)\<lparr>ct_VolumeMounts :=
    mounts_of_main (certificate_mounts (sdc_certificates conf) (ct_VolumeMounts tmpl)) (ps_Containers spec') m\<rparr>"
proof -
  have r: "x \<in> set (replace_container z cs) \<Longrightarrow> ct_Name x = ct_Name z \<Longrightarrow> x = z" for x z cs
    by (auto simp: replace_container_def list_ex_iff split: if_splits)
  show ?thesis using assms r
    by (auto simp: reconcilePodSpec_eq Let_def split: if_splits)
qed

definition certificates_mount :: volume_mount where
  "certificates_mount = \<lparr>vm_Name = barmanCertificatesVolumeName, vm_MountPath = BarmanCertificatesPath, vm_Rest = ''''\<rparr>"

text \<open>
  The mounts of the sidecar. They have different names; under each name stands the last mount of
  the main container with that name (so of several mounts of one volume only the last is passed on), and
  otherwise the certificates' mount when there are certificates.
\<close>

theorem sidecar_mounts:
  assumes "reconcilePodSpec P c spec m (container_template args) conf = Inr spec'"
    and "s \<in> set (ps_InitContainers spec')" "ct_Name s = ''plugin-barman-cloud''"
  shows "distinct (map vm_Name (ct_VolumeMounts s)) \<and>
    find (\<lambda>x. vm_Name x = n) (ct_VolumeMounts s) =
      (case find (\<lambda>x. vm_Name x = n)
         (rev (concat (map ct_VolumeMounts (filter (\<lambda>c. ct_Name c = m) (ps_Containers spec'))))) of
         Some x \<Rightarrow> Some x
       | None \<Rightarrow> if n = barmanCertificatesVolumeName \<and> sdc_certificates conf \<noteq> [] then Some certificates_mount else None)"
proof -
  let ?ms = "certificate_mounts (sdc_certificates conf) []"
  have ms: "?ms = (if sdc_certificates conf \<noteq> [] then [certificates_mount] else [])"
    by (simp add: certificate_mounts_def ensureVolumeMount_def removeVolumeMount_def certificates_mount_def)
  have d: "distinct (map vm_Name ?ms)" by (simp add: ms)
  have s: "ct_VolumeMounts s = foldl ensure_mount ?ms
      (concat (map ct_VolumeMounts (filter (\<lambda>c. ct_Name c = m) (ps_Containers spec'))))"
    using reconcilePodSpec_injected [OF assms] by (simp add: mounts_of_main_eq container_template_def)
  show ?thesis unfolding s mounts.find_fold [OF d] using mounts.fold_distinct [OF d]
    by (auto simp: ms certificates_mount_def split: option.split)
qed

lemma find_append_split:
  "find P (xs @ ys) = (case find P xs of None \<Rightarrow> find P ys | Some x \<Rightarrow> Some x)"
  by (induction xs) auto

lemma find_merge_envs:
  "find (\<lambda>x. ev_Name x = n) (merge_envs es vs) =
     (case find (\<lambda>x. ev_Name x = n) es of Some x \<Rightarrow> Some x | None \<Rightarrow> find (\<lambda>x. ev_Name x = n) vs)"
proof (induction vs arbitrary: es)
  case Nil
  then show ?case by (simp add: merge_envs_def split: option.split)
next
  case (Cons v vs)
  have step: "merge_envs es (v # vs) = merge_envs (if list_ex (\<lambda>x. ev_Name x = ev_Name v) es then es else es @ [v]) vs"
    by (simp add: merge_envs_def)
  show ?case
  proof (cases "list_ex (\<lambda>x. ev_Name x = ev_Name v) es")
    case True
    then have "find (\<lambda>x. ev_Name x = ev_Name v) es \<noteq> None" by (auto simp: find_None_iff list_ex_iff)
    then show ?thesis unfolding step using Cons.IH [of es] True by (auto split: option.split)
  next
    case False
    then show ?thesis unfolding step using Cons.IH [of "es @ [v]"]
      by (auto simp: find_append_split split: option.split)
  qed
qed

lemma merge_envs_distinct: "distinct (map ev_Name es) \<Longrightarrow> distinct (map ev_Name (merge_envs es vs))"
proof (induction vs arbitrary: es)
  case Nil
  then show ?case by (simp add: merge_envs_def)
next
  case (Cons v vs)
  have "distinct (map ev_Name (if list_ex (\<lambda>x. ev_Name x = ev_Name v) es then es else es @ [v]))"
    using Cons.prems by (auto simp: list_ex_iff)
  then show ?case using Cons.IH by (simp add: merge_envs_def)
qed

lemma sidecar_env:
  assumes "reconcilePodSpec P c spec m (container_template args) conf = Inr spec'"
    and "s \<in> set (ps_InitContainers spec')" "ct_Name s = ''plugin-barman-cloud''"
  shows "ct_Env s = merge_envs (merge_envs [] (main_container_env (ps_Containers spec) m)) (default_envs c @ sdc_env conf)"
  using reconcilePodSpec_injected [OF assms] by (simp add: sidecar_container_def container_template_def)

lemmas env_of_sidecar = find_merge_envs merge_envs_distinct find_append_split

text \<open>
  The environment of the sidecar. Every variable is set once; its value is the main container's if
  it has the variable, else the plugin's own default, and only then the one the ObjectStores configure.
\<close>

theorem sidecar_environment:
  assumes "reconcilePodSpec P c spec m (container_template args) conf = Inr spec'"
    and "s \<in> set (ps_InitContainers spec')" "ct_Name s = ''plugin-barman-cloud''"
  shows "distinct (map ev_Name (ct_Env s)) \<and>
    find (\<lambda>x. ev_Name x = n) (ct_Env s) =
      find (\<lambda>x. ev_Name x = n) (main_container_env (ps_Containers spec) m @ default_envs c @ sdc_env conf)"
  unfolding sidecar_env [OF assms] by (simp add: env_of_sidecar split: option.split)

section \<open>The hook\<close>

text \<open>
  The role of a job. When at most one label of the job's template has the suffix of CloudNativePG's
  job role label, the role does not depend on the order in which the labels are visited, and it is the
  value of that label, or empty when there is none.
\<close>

theorem getCNPGJobRole_order:
  assumes "\<And>j k. j \<in> dom (gm_lookup (job_TemplateLabels jb)) \<Longrightarrow> k \<in> dom (gm_lookup (job_TemplateLabels jb)) \<Longrightarrow>
      HasSuffix j ''/jobRole'' \<Longrightarrow> HasSuffix k ''/jobRole'' \<Longrightarrow> j = k"
    and "gm_wf (job_TemplateLabels jb)"
  shows "getCNPGJobRole jb = v \<longleftrightarrow>
    (\<exists>k. HasSuffix k ''/jobRole'' \<and> gm_lookup (job_TemplateLabels jb) k = Some v) \<or>
    (v = '''' \<and> (\<forall>k \<in> dom (gm_lookup (job_TemplateLabels jb)). \<not> HasSuffix k ''/jobRole''))"
proof -
  let ?m = "job_TemplateLabels jb"
  have mem: "gm_lookup ?m k = Some x \<longleftrightarrow> (k, x) \<in> set (gm_entries ?m)" for k x
    using assms(2) by (simp add: gm_wf_def gm_lookup_def)
  show ?thesis
  proof (cases "find (\<lambda>(k, v). HasSuffix k ''/jobRole'') (gm_entries ?m)")
    case None
    then have no: "\<not> HasSuffix k ''/jobRole''" if "(k, x) \<in> set (gm_entries ?m)" for k x
      using that by (auto simp: find_None_iff)
    have "getCNPGJobRole jb = ''''" using None by (simp add: getCNPGJobRole_def)
    then show ?thesis using no by (auto simp: mem)
  next
    case (Some p)
    obtain k x where p: "p = (k, x)" by fastforce
    have h: "HasSuffix k ''/jobRole''" "(k, x) \<in> set (gm_entries ?m)"
      using Some p by (auto simp: find_Some_iff in_set_conv_nth)
    have role: "getCNPGJobRole jb = x" using Some p by (simp add: getCNPGJobRole_def)
    have lk: "gm_lookup ?m k = Some x" using h(2) by (simp only: mem)
    then have kd: "k \<in> dom (gm_lookup ?m)" by (rule domI)
    have unique: "y = x" if "gm_lookup ?m j = Some y" "HasSuffix j ''/jobRole''" for j y
      using assms(1) [of j k] domI [of "gm_lookup ?m" j y] that kd h(1) lk by simp
    show ?thesis unfolding role using lk kd h(1) unique by blast
  qed
qed

text \<open>The ObjectStore that configures the resources and the arguments of the sidecar of a Pod.\<close>

definition primary_store :: "config \<Rightarrow> string" where
  "primary_store c = (if cfg_BarmanObjectName c \<noteq> '''' then cfg_BarmanObjectName c
     else if cfg_RecoveryBarmanObjectName c \<noteq> '''' then cfg_RecoveryBarmanObjectName c
     else cfg_ReplicaSourceBarmanObjectName c)"

text \<open>
  One ObjectStore configures the sidecar of a Pod: its resources and its arguments (the additional
  ones, then the log level) come from the same store, the one used for archiving if the cluster has one,
  else the recovery one, else the replica source; a cluster without any gets none.
\<close>

theorem sidecar_settings_same_store:
  assumes "store_api_law e stores"
  shows "if primary_store c = ''''
    then collectSidecarResourcesForPod e c w = (Inr [], [], w) \<and> collectAdditionalInstanceArgs e c w = (Inr [], [], w)
    else (case stores w (NamespacedName (cl_Namespace (cfg_Cluster c)) (primary_store c)) of
       Some os \<Rightarrow> io_result (collectSidecarResourcesForPod e c) w = Inr (sc_Resources (os_Sidecar os)) \<and>
         io_result (collectAdditionalInstanceArgs e c) w = Inr (sc_AdditionalContainerArgs (os_Sidecar os) @
           (if sc_LogLevel (os_Sidecar os) = '''' then [] else [''--log-level='' @ sc_LogLevel (os_Sidecar os)]))
     | None \<Rightarrow> (\<exists>err. io_result (collectSidecarResourcesForPod e c) w = Inl err \<and> IsNotFound err) \<and>
         (\<exists>err. io_result (collectAdditionalInstanceArgs e c) w = Inl err \<and> IsNotFound err))"
proof -
  have get: "k_get_object_store e k w = (case stores w k of Some os \<Rightarrow> Inr os | None \<Rightarrow> Inl (Api_Error NotFound), w)" for k
    using assms by (simp add: store_api_law_def)
  show ?thesis
    by (auto simp: primary_store_def collectSidecarResourcesForPod_def collectAdditionalInstanceArgs_def
        resources_of_def instance_args_of_def collectTypedAdditionalArgs_def GetBarmanObjectKey_def
        GetRecoveryBarmanObjectKey_def GetReplicaSourceBarmanObjectKey_def get io_result_def io_simps
        api_reason_defs split: option.splits)
qed

lemma only_calls_collect_certificates:
  "only_calls (\<lambda>x. \<exists>k \<in> set keys. x = Kube (Get_ObjectStore k)) (collect_certificates e keys)"
proof (induction keys)
  case Nil
  show ?case by (auto intro!: calls_rules)
next
  case (Cons k ks)
  have "only_calls (\<lambda>x. \<exists>k \<in> set (k # ks). x = Kube (Get_ObjectStore k)) (collect_certificates e ks)"
    by (rule only_calls_mono [OF Cons.IH]) auto
  then show ?case unfolding collect_certificates.simps collectObjectStoreCertificates_def by (intro calls_rules) auto
qed

text \<open>
  C38. The hook only reads. Whatever the request, the only calls it makes get ObjectStores the cluster
  refers to; and when the cluster refers to none it makes no call at all and leaves the object alone.
\<close>

theorem LifecycleHook_reads:
  assumes "sorted_list_law L" "DecodeCluster L (lr_ClusterDefinition request) = Inr c"
    and "keys = GetReferredBarmanObjectsKey L (NewFromCluster L c)"
  shows "(\<forall>x \<in> set (io_calls (LifecycleHook L P e request) w). \<exists>k \<in> set keys. x = Kube (Get_ObjectStore k)) \<and>
    (keys = [] \<and> lr_OperationType request \<noteq> None \<and> (\<exists>kind. GetKind L (lr_ObjectDefinition request) = Inr kind) \<longrightarrow>
      LifecycleHook L P e request w = (Inr None, [], w))"
proof
  let ?cfg = "NewFromCluster L c"
  let ?P = "\<lambda>x. \<exists>k \<in> set keys. x = Kube (Get_ObjectStore k)"
  have keys: "NamespacedName (cl_Namespace c) n \<in> set keys" if "n \<in> referred_names ?cfg" for n
    using that referred_keys_set [OF assms(1), of ?cfg] by (simp add: assms(3))
  have names: "cfg_BarmanObjectName ?cfg \<noteq> '''' \<Longrightarrow> cfg_BarmanObjectName ?cfg \<in> referred_names ?cfg"
    "cfg_RecoveryBarmanObjectName ?cfg \<noteq> '''' \<Longrightarrow> cfg_RecoveryBarmanObjectName ?cfg \<in> referred_names ?cfg"
    "cfg_ReplicaSourceBarmanObjectName ?cfg \<noteq> '''' \<Longrightarrow> cfg_ReplicaSourceBarmanObjectName ?cfg \<in> referred_names ?cfg"
    by (simp_all add: referred_names_def)
  note own = keys [OF names(1)] keys [OF names(2)] keys [OF names(3)]
  have lifted: "io_lift (Inr c) = io_return c" by (simp add: io_lift_def io_return_def)
  have certs: "only_calls ?P (collectAdditionalCertificates L e ?cfg)"
    unfolding collectAdditionalCertificates_def assms(3) by (rule only_calls_collect_certificates)
  have "only_calls ?P (LifecycleHook L P e request)"
    unfolding LifecycleHook_def Let_def assms(2) lifted io_bind_return_left reconcilePod_def reconcileJob_def collectAdditionalEnvs_def
      envs_if_set_def collectObjectStoreEnvs_def collectSidecarResourcesForPod_def
      collectSidecarResourcesForRecoveryJob_def resources_of_def collectAdditionalInstanceArgs_def instance_args_of_def
    by (intro calls_rules only_calls_lift_bind certs)
      (auto simp: GetBarmanObjectKey_def GetRecoveryBarmanObjectKey_def GetReplicaSourceBarmanObjectKey_def own assms(2))
  then show "\<forall>x \<in> set (io_calls (LifecycleHook L P e request) w). ?P x" by (simp add: only_calls_def)
  show "keys = [] \<and> lr_OperationType request \<noteq> None \<and> (\<exists>kind. GetKind L (lr_ObjectDefinition request) = Inr kind) \<longrightarrow>
      LifecycleHook L P e request w = (Inr None, [], w)"
    using assms(2) referred_keys_set(2) [OF assms(1), of ?cfg]
    by (auto simp: LifecycleHook_def io_simps assms(3) split: option.split)
qed

section \<open>Examples\<close>

text \<open>A Pod with two mounts of one volume, and what the hook makes of it.\<close>

definition sample_pod_lib :: pod_lib where
  "sample_pod_lib = \<lparr>
     DecodePodJSON = (\<lambda>j. Inl (Opaque ''decode'')), DecodeJob = (\<lambda>j. Inl (Opaque ''decode'')),
     CreatePodPatch = (\<lambda>p q. Inr (pod_Name p)), CreateJobPatch = (\<lambda>p q. Inr (job_Name p)),
     sidecar_image = ''sidecar:1''\<rparr>"

definition sample_mount :: "string \<Rightarrow> string \<Rightarrow> volume_mount" where
  "sample_mount n p = \<lparr>vm_Name = n, vm_MountPath = p, vm_Rest = ''''\<rparr>"

definition sample_pod_spec :: pod_spec where
  "sample_pod_spec = \<lparr>
     ps_Volumes = [\<lparr>vol_Name = ''pgdata'', vol_Source = Other_Source ''pvc''\<rparr>],
     ps_InitContainers = [(container_template [''bootstrap''])\<lparr>ct_Name := ''bootstrap-controller''\<rparr>],
     ps_Containers = [(container_template [''run''])\<lparr>ct_Name := ''postgres'',
       ct_Env := [\<lparr>ev_Name = ''PGDATA'', ev_Value = ''/pgdata'', ev_Source = ''''\<rparr>,
         \<lparr>ev_Name = ''NAMESPACE'', ev_Value = ''pods'', ev_Source = ''''\<rparr>],
       ct_VolumeMounts := [sample_mount ''pgdata'' ''/pgdata'', sample_mount ''pgdata'' ''/wal'']\<rparr>],
     ps_Rest = ''''\<rparr>"

definition sample_sidecar :: sidecar_configuration where
  "sample_sidecar = \<lparr>sdc_env = [\<lparr>ev_Name = ''PGDATA'', ev_Value = ''/other'', ev_Source = ''''\<rparr>],
     sdc_certificates = [\<lparr>sp_SecretName = ''ca'', sp_Key = ''ca.crt'', sp_Path = ''store/barman-ca.crt''\<rparr>],
     sdc_resources = [], sdc_additionalArgs = [''--log-level=info'']\<rparr>"

definition injected_spec :: pod_spec where
  "injected_spec = (case reconcilePodSpec sample_pod_lib sample_cluster sample_pod_spec ''postgres''
     (container_template [''instance'']) sample_sidecar of Inr spec \<Rightarrow> spec | Inl _ \<Rightarrow> sample_pod_spec)"

definition injected_sidecar :: container where
  "injected_sidecar = ps_InitContainers injected_spec ! 1"

lemma injected_spec_run:
  "reconcilePodSpec sample_pod_lib sample_cluster sample_pod_spec ''postgres'' (container_template [''instance''])
     sample_sidecar = Inr injected_spec"
  by code_simp

lemma injected_sidecar_run:
  "injected_sidecar \<in> set (ps_InitContainers injected_spec)" "ct_Name injected_sidecar = ''plugin-barman-cloud''"
  by code_simp+


theorem reconcilePodSpec_sidecar_witness:
  "\<exists>s. filter (\<lambda>x. ct_Name x = ''plugin-barman-cloud'') (ps_InitContainers injected_spec) = [s] \<and>
     ct_Image s = ''sidecar:1'' \<and> ct_Args s = [''instance'', ''--log-level=info'']"
proof -
  have one: "length (filter (\<lambda>x. ct_Name x = ''plugin-barman-cloud'') (ps_InitContainers sample_pod_spec)) \<le> 1"
    by code_simp
  have im: "sidecar_image sample_pod_lib = ''sidecar:1''" "sdc_additionalArgs sample_sidecar = [''--log-level=info'']"
    by code_simp+
  show ?thesis using reconcilePodSpec_sidecar [OF injected_spec_run one]
    by (elim exE conjE) (simp add: im container_template_def)
qed

theorem sidecar_mounts_witness:
  "find (\<lambda>x. vm_Name x = ''pgdata'') (ct_VolumeMounts injected_sidecar) = Some (sample_mount ''pgdata'' ''/wal'')"
proof -
  have "find (\<lambda>x. vm_Name x = ''pgdata'') (rev (concat (map ct_VolumeMounts
      (filter (\<lambda>c. ct_Name c = ''postgres'') (ps_Containers injected_spec))))) = Some (sample_mount ''pgdata'' ''/wal'')"
    by code_simp
  with sidecar_mounts [OF injected_spec_run injected_sidecar_run, of "''pgdata''"] show ?thesis by simp
qed

theorem sidecar_environment_witness:
  "map_option ev_Value (find (\<lambda>x. ev_Name x = ''NAMESPACE'') (ct_Env injected_sidecar)) = Some ''pods'' \<and>
   distinct (map ev_Name (ct_Env injected_sidecar))"
proof -
  have "map_option ev_Value (find (\<lambda>x. ev_Name x = ''NAMESPACE'')
      (main_container_env (ps_Containers sample_pod_spec) ''postgres'' @ default_envs sample_cluster @ sdc_env sample_sidecar)) =
    Some ''pods''" by code_simp
  with sidecar_environment [OF injected_spec_run injected_sidecar_run, of "''NAMESPACE''"] show ?thesis by simp
qed

definition recovery_job :: job where
  "recovery_job = \<lparr>job_Name = ''pg-1-full-recovery'', job_TemplateLabels = Some [(''cnpg.io/cluster'', ''pg''),
     (''cnpg.io/jobRole'', ''full-recovery'')], job_TemplateSpec = sample_pod_spec, job_Rest = ''''\<rparr>"

theorem getCNPGJobRole_order_witness: "getCNPGJobRole recovery_job = ''full-recovery''"
proof -
  have dom: "dom (gm_lookup (job_TemplateLabels recovery_job)) = {''cnpg.io/cluster'', ''cnpg.io/jobRole''}"
    by (auto simp: recovery_job_def gm_lookup_def dom_def)
  have suff: "\<not> HasSuffix ''cnpg.io/cluster'' ''/jobRole''" "HasSuffix ''cnpg.io/jobRole'' ''/jobRole''"
    "gm_lookup (job_TemplateLabels recovery_job) ''cnpg.io/jobRole'' = Some ''full-recovery''"
    "gm_wf (job_TemplateLabels recovery_job)" by code_simp+
  have "j = k" if "j \<in> dom (gm_lookup (job_TemplateLabels recovery_job))"
    "k \<in> dom (gm_lookup (job_TemplateLabels recovery_job))" "HasSuffix j ''/jobRole''" "HasSuffix k ''/jobRole''" for j k
    using that suff(1) by (auto simp: dom)
  from getCNPGJobRole_order [OF this suff(4)] suff(2,3) show ?thesis by blast
qed

type_synonym store_server = "object_store list"

definition reading_server :: "store_server ext" where
  "reading_server = sample_ext\<lparr>k_get_object_store := (\<lambda>k w. (case find (\<lambda>os. object_key (os_Meta os) = k) w of
     Some os \<Rightarrow> Inr os | None \<Rightarrow> Inl (Api_Error NotFound), w))\<rparr>"

lemma reading_server_law: "store_api_law reading_server (\<lambda>w k. find (\<lambda>os. object_key (os_Meta os) = k) w)"
  by (simp add: store_api_law_def reading_server_def)

definition archiving_cluster :: cluster where
  "archiving_cluster = sample_cluster\<lparr>cl_Plugins := [\<lparr>pc_Name = PluginName, pc_Enabled = None,
     pc_Parameters = Some [(''barmanObjectName'', ''store'')]\<rparr>]\<rparr>"

definition archiving_config :: config where
  "archiving_config = NewFromCluster sample_lib archiving_cluster"

theorem sidecar_settings_same_store_witness:
  "io_result (collectAdditionalInstanceArgs reading_server archiving_config) [sample_store ''store''] =
   Inr [''--log-level=info'']"
proof -
  have p: "primary_store archiving_config = ''store''"
    "find (\<lambda>os. object_key (os_Meta os) = NamespacedName (cl_Namespace (cfg_Cluster archiving_config)) ''store'')
       [sample_store ''store''] = Some (sample_store ''store'')"
    "sc_AdditionalContainerArgs (os_Sidecar (sample_store ''store'')) = []"
    "sc_LogLevel (os_Sidecar (sample_store ''store'')) = ''info''"
    by code_simp+
  show ?thesis using sidecar_settings_same_store [OF reading_server_law, of archiving_config "[sample_store ''store'']"]
    unfolding p by (simp add: p)
qed

definition lifecycle_lib :: "cluster \<Rightarrow> lib" where
  "lifecycle_lib c = sample_lib\<lparr>GetKind := (\<lambda>j. Inr ''Pod''), DecodeCluster := (\<lambda>j. Inr c)\<rparr>"

lemma lifecycle_lib_facts:
  "sorted_list_law (lifecycle_lib c)" "DecodeCluster (lifecycle_lib c) j = Inr c" "GetKind (lifecycle_lib c) j = Inr ''Pod''"
proof -
  have "sorted_list_law L' = sorted_list_law L" if "ToSortedList L' = ToSortedList L" for L L' :: lib
    using that by (simp only: sorted_list_law_def)
  from this [of "lifecycle_lib c" sample_lib] show "sorted_list_law (lifecycle_lib c)"
    by (simp only: sample_lib_sorted) (simp add: lifecycle_lib_def)
qed (simp_all add: lifecycle_lib_def)

definition pod_request :: lifecycle_request where
  "pod_request = \<lparr>lr_OperationType = Some ''TYPE_CREATE'', lr_ObjectDefinition = '''', lr_ClusterDefinition = ''''\<rparr>"

theorem LifecycleHook_reads_witness:
  "set (io_calls (LifecycleHook (lifecycle_lib archiving_cluster) sample_pod_lib reading_server pod_request)
      [sample_store ''store'']) \<subseteq> {Kube (Get_ObjectStore (NamespacedName ''ns'' ''store''))} \<and>
   LifecycleHook (lifecycle_lib sample_cluster) sample_pod_lib reading_server pod_request [] = (Inr None, [], [])"
proof -
  have k: "[NamespacedName ''ns'' ''store''] =
      GetReferredBarmanObjectsKey (lifecycle_lib archiving_cluster) (NewFromCluster (lifecycle_lib archiving_cluster) archiving_cluster)"
    "[] = GetReferredBarmanObjectsKey (lifecycle_lib sample_cluster) (NewFromCluster (lifecycle_lib sample_cluster) sample_cluster)"
    by code_simp+
  have o: "lr_OperationType pod_request \<noteq> None" by (simp add: pod_request_def)
  show ?thesis
    using LifecycleHook_reads [OF lifecycle_lib_facts(1,2) k(1), of sample_pod_lib reading_server pod_request "[sample_store ''store'']"]
      LifecycleHook_reads [OF lifecycle_lib_facts(1,2) k(2), of sample_pod_lib reading_server pod_request "[]"] o
      lifecycle_lib_facts(3) [of sample_cluster] by auto
qed

end
