(* ===== verification/Extended_Client.thy ===== *)
theory Extended_Client
  imports Externals
begin

text \<open>
  The caching client of the sidecar, \<open>internal/cnpgi/instance/internal/client/client.go\<close>: Secrets and
  ObjectStores are kept for ten seconds after they are read, without informers.

  The effects of this theory run on the world of the API server together with the entries of the
  cache. Their events carry what the API server and the clock answered. A mutex makes
  \<open>getCachedObject\<close> and \<open>removeObject\<close> atomic; a write first drops the object from the cache and then,
  without the mutex, calls the API server.
\<close>

section \<open>Objects\<close>

text \<open>\<open>reflect.TypeOf\<close> of a pointer to an object, and the objects the client handles.\<close>

datatype obj_type = T_Secret | T_ObjectStore | T_Other string

datatype api_object =
    Obj_Secret object_meta string
  | Obj_ObjectStore object_store
  | Obj_Other string object_meta string

fun TypeOf :: "api_object \<Rightarrow> obj_type" where
  "TypeOf (Obj_Secret _ _) = T_Secret"
| "TypeOf (Obj_ObjectStore _) = T_ObjectStore"
| "TypeOf (Obj_Other t _ _) = T_Other t"

fun obj_meta :: "api_object \<Rightarrow> object_meta" where
  "obj_meta (Obj_Secret m _) = m"
| "obj_meta (Obj_ObjectStore os) = os_Meta os"
| "obj_meta (Obj_Other _ m _) = m"

definition obj_key :: "api_object \<Rightarrow> namespaced_name" where
  "obj_key obj = object_key (obj_meta obj)"

section \<open>The state and the client it extends\<close>

definition DefaultTTLSeconds :: int where
  "DefaultTTLSeconds = 10"

record cachedEntry =
  ce_entry :: api_object
  ce_fetchUnixTime :: int
  ce_ttlSeconds :: int

definition isExpired :: "gtime \<Rightarrow> cachedEntry \<Rightarrow> bool" where
  "isExpired now ce \<longleftrightarrow> Unix now - ce_fetchUnixTime ce > ce_ttlSeconds ce"

text \<open>The embedded client and the clock.\<close>

record 'w base_client =
  base_Get :: "obj_type \<Rightarrow> namespaced_name \<Rightarrow> ('w, api_object) op"
  base_Update :: "api_object \<Rightarrow> ('w, unit) op"
  base_Delete :: "api_object \<Rightarrow> ('w, unit) op"
  base_Patch :: "api_object \<Rightarrow> ('w, unit) op"
  base_Now :: "'w \<Rightarrow> gtime \<times> 'w"

datatype client_event =
    Ev_Get obj_type namespaced_name "go_error + api_object"
  | Ev_Update api_object
  | Ev_Delete api_object
  | Ev_Patch api_object
  | Ev_Now gtime

type_synonym ('w, 'a) cached = "(client_event, 'w \<times> cachedEntry list, 'a) io"

definition client_get :: "'w base_client \<Rightarrow> obj_type \<Rightarrow> namespaced_name \<Rightarrow> ('w, api_object) cached" where
  "client_get b ty key = (\<lambda>(w, cache). case base_Get b ty key w of (r, w') \<Rightarrow> (r, [Ev_Get ty key r], (w', cache)))"

definition client_now :: "'w base_client \<Rightarrow> ('w, gtime) cached" where
  "client_now b = (\<lambda>(w, cache). case base_Now b w of (t, w') \<Rightarrow> (Inr t, [Ev_Now t], (w', cache)))"

definition client_write :: "client_event \<Rightarrow> ('w, unit) op \<Rightarrow> ('w, unit) cached" where
  "client_write ev op = (\<lambda>(w, cache). case op w of (r, w') \<Rightarrow> (r, [ev], (w', cache)))"

definition change_cache :: "(cachedEntry list \<Rightarrow> cachedEntry list) \<Rightarrow> ('w, unit) cached" where
  "change_cache f = (\<lambda>(w, cache). (Inr (), [], (w, f cache)))"

definition read_cache :: "('w, cachedEntry list) cached" where
  "read_cache = (\<lambda>(w, cache). (Inr cache, [], (w, cache)))"

lemma client_apply [io_simps]:
  "client_get b ty key (w, cache) = (case base_Get b ty key w of (r, w') \<Rightarrow> (r, [Ev_Get ty key r], (w', cache)))"
  "client_now b (w, cache) = (case base_Now b w of (t, w') \<Rightarrow> (Inr t, [Ev_Now t], (w', cache)))"
  "client_write ev op (w, cache) = (case op w of (r, w') \<Rightarrow> (r, [ev], (w', cache)))"
  "change_cache f (w, cache) = (Inr (), [], (w, f cache))"
  "read_cache (w, cache) = (Inr cache, [], (w, cache))"
  by (simp_all add: client_get_def client_now_def client_write_def change_cache_def read_cache_def)

section \<open>Operations\<close>

definition isObjectCached :: "obj_type \<Rightarrow> bool" where
  "isObjectCached ty \<longleftrightarrow> ty = T_Secret \<or> ty = T_ObjectStore"

definition entry_id :: "cachedEntry \<Rightarrow> obj_type \<times> namespaced_name" where
  "entry_id ce = (TypeOf (ce_entry ce), obj_key (ce_entry ce))"

text \<open>The loop over the entries is left at the first one of the type with the key.\<close>

fun entry_index :: "obj_type \<times> namespaced_name \<Rightarrow> cachedEntry list \<Rightarrow> nat option" where
  "entry_index k [] = None"
| "entry_index k (ce # cache) = (if entry_id ce = k then Some 0 else map_option Suc (entry_index k cache))"

text \<open>Where the fetched object goes: over the expired entry, or to the end.\<close>

definition store_entry :: "nat option \<Rightarrow> cachedEntry \<Rightarrow> cachedEntry list \<Rightarrow> cachedEntry list" where
  "store_entry expiredObjectIndex cs cache = (case expiredObjectIndex of
     Some i \<Rightarrow> cache[i := cs] | None \<Rightarrow> cache @ [cs])"

definition fetch_object ::
  "'w base_client \<Rightarrow> obj_type \<Rightarrow> namespaced_name \<Rightarrow> nat option \<Rightarrow> ('w, api_object) cached" where
  "fetch_object b ty key expiredObjectIndex =
     io_bind (client_get b ty key) (\<lambda>obj.
     io_bind (client_now b) (\<lambda>t.
     let cs = \<lparr>ce_entry = obj, ce_fetchUnixTime = Unix t, ce_ttlSeconds = DefaultTTLSeconds\<rparr> in
     io_seq (change_cache (store_entry expiredObjectIndex cs)) (io_return obj)))"

definition getCachedObject :: "'w base_client \<Rightarrow> obj_type \<Rightarrow> namespaced_name \<Rightarrow> ('w, api_object) cached" where
  "getCachedObject b ty key =
     io_bind read_cache (\<lambda>cache. case entry_index (ty, key) cache of
       None \<Rightarrow> fetch_object b ty key None
     | Some idx \<Rightarrow> io_bind (client_now b) (\<lambda>t.
         let cacheEntry = cache ! idx in
         if isExpired t cacheEntry then fetch_object b ty key (Some idx)
         else if TypeOf (ce_entry cacheEntry) \<noteq> ty
         then io_fail (Errorf ''cache had type %s, but %s was asked for'' [] None)
         else io_return (ce_entry cacheEntry)))"

definition client_Get :: "'w base_client \<Rightarrow> obj_type \<Rightarrow> namespaced_name \<Rightarrow> ('w, api_object) cached" where
  "client_Get b ty key = (if isObjectCached ty then getCachedObject b ty key else client_get b ty key)"

fun drop_entry :: "obj_type \<times> namespaced_name \<Rightarrow> cachedEntry list \<Rightarrow> cachedEntry list" where
  "drop_entry k [] = []"
| "drop_entry k (ce # cache) = (if entry_id ce = k then cache else ce # drop_entry k cache)"

definition removeObject :: "api_object \<Rightarrow> ('w, unit) cached" where
  "removeObject obj = change_cache (drop_entry (TypeOf obj, obj_key obj))"

definition client_Update :: "'w base_client \<Rightarrow> api_object \<Rightarrow> ('w, unit) cached" where
  "client_Update b obj = io_seq (if isObjectCached (TypeOf obj) then removeObject obj else io_return ())
     (client_write (Ev_Update obj) (base_Update b obj))"

definition client_Delete :: "'w base_client \<Rightarrow> api_object \<Rightarrow> ('w, unit) cached" where
  "client_Delete b obj = io_seq (if isObjectCached (TypeOf obj) then removeObject obj else io_return ())
     (client_write (Ev_Delete obj) (base_Delete b obj))"

definition client_Patch :: "'w base_client \<Rightarrow> api_object \<Rightarrow> ('w, unit) cached" where
  "client_Patch b obj = io_seq (if isObjectCached (TypeOf obj) then removeObject obj else io_return ())
     (client_write (Ev_Patch obj) (base_Patch b obj))"

section \<open>The cache as a map\<close>

text \<open>
  The interface of the cache, and what its users rely on. \<open>invar\<close> says that no two entries are for the
  same object.
\<close>

locale entry_map =
  fixes invar :: "'c \<Rightarrow> bool"
    and look :: "'c \<Rightarrow> 'k \<Rightarrow> 'e option"
    and put :: "'e \<Rightarrow> 'c \<Rightarrow> 'c"
    and del :: "'k \<Rightarrow> 'c \<Rightarrow> 'c"
    and ident :: "'e \<Rightarrow> 'k"
  assumes look_put: "invar c \<Longrightarrow> look (put x c) = (look c)(ident x \<mapsto> x)"
    and look_del: "invar c \<Longrightarrow> look (del k c) = (look c)(k := None)"
    and invar_put: "invar c \<Longrightarrow> invar (put x c)"
    and invar_del: "invar c \<Longrightarrow> invar (del k c)"
begin

text \<open>A property of the entries is kept by dropping entries and by storing good ones.\<close>

definition entries_ok :: "('e \<Rightarrow> bool) \<Rightarrow> 'c \<Rightarrow> bool" where
  "entries_ok P c \<longleftrightarrow> invar c \<and> (\<forall>k x. look c k = Some x \<longrightarrow> P x)"

lemma entries_ok_put:
  "entries_ok P c \<Longrightarrow> Q x \<Longrightarrow> (\<And>y. P y \<Longrightarrow> ident y \<noteq> ident x \<Longrightarrow> Q y) \<Longrightarrow>
   (\<And>k y. look c k = Some y \<Longrightarrow> ident y = k) \<Longrightarrow> entries_ok Q (put x c)"
  by (fastforce simp: entries_ok_def look_put invar_put)

lemma entries_ok_del: "entries_ok P c \<Longrightarrow> entries_ok P (del k c)"
  by (auto simp: entries_ok_def look_del invar_del)

lemma look_del_same: "invar c \<Longrightarrow> look (del k c) k = None"
  by (simp add: look_del)

end

definition cache_invar :: "cachedEntry list \<Rightarrow> bool" where
  "cache_invar cache \<longleftrightarrow> distinct (map entry_id cache)"

definition cache_look :: "cachedEntry list \<Rightarrow> obj_type \<times> namespaced_name \<Rightarrow> cachedEntry option" where
  "cache_look cache k = map_option (nth cache) (entry_index k cache)"

definition cache_put :: "cachedEntry \<Rightarrow> cachedEntry list \<Rightarrow> cachedEntry list" where
  "cache_put ce cache = store_entry (entry_index (entry_id ce) cache) ce cache"

lemma cache_look_simps [simp]:
  "cache_look [] k = None"
  "cache_look (ce # cache) k = (if entry_id ce = k then Some ce else cache_look cache k)"
  by (simp_all add: cache_look_def option.map_comp comp_def)

lemma cache_put_simps:
  "cache_put x [] = [x]"
  "cache_put x (ce # cache) = (if entry_id ce = entry_id x then x # cache else ce # cache_put x cache)"
  by (simp_all add: cache_put_def store_entry_def split: option.split)

lemma cache_look_ident: "cache_look cache k = Some ce \<Longrightarrow> entry_id ce = k"
  by (induction cache) (auto split: if_splits)

lemma cache_look_None: "cache_look cache k = None \<longleftrightarrow> k \<notin> entry_id ` set cache"
  by (induction cache) auto

lemma cache_put_ids: "entry_id ` set (cache_put x cache) = insert (entry_id x) (entry_id ` set cache)"
  by (induction cache) (auto simp: cache_put_simps)

lemma drop_entry_ids: "entry_id ` set (drop_entry k cache) \<subseteq> entry_id ` set cache"
  by (induction cache) auto

lemma cache_look_drop:
  "distinct (map entry_id c) \<Longrightarrow> cache_look (drop_entry k c) j = (if j = k then None else cache_look c j)"
proof (induction c)
  case (Cons ce c)
  then have "cache_look c (entry_id ce) = None" by (simp add: cache_look_None)
  with Cons show ?case by (cases "entry_id ce = k"; cases "j = k") auto
qed simp

interpretation cache: entry_map cache_invar cache_look cache_put drop_entry entry_id
proof
  fix c :: "cachedEntry list" and x k
  assume inv: "cache_invar c"
  show "cache_look (cache_put x c) = (cache_look c)(entry_id x \<mapsto> x)"
    by (rule ext, induction c) (auto simp: cache_put_simps)
  show "cache_look (drop_entry k c) = (cache_look c)(k := None)"
    using inv by (simp add: cache_invar_def cache_look_drop fun_eq_iff)
  show "cache_invar (cache_put x c)"
    using inv unfolding cache_invar_def
  proof (induction c)
    case (Cons ce c)
    have "set (map entry_id (cache_put x c)) = insert (entry_id x) (set (map entry_id c))"
      by (simp only: set_map cache_put_ids)
    with Cons show ?case by (auto simp: cache_put_simps simp del: set_map)
  qed (simp add: cache_put_simps)
  show "cache_invar (drop_entry k c)"
    using inv unfolding cache_invar_def
  proof (induction c)
    case (Cons ce c)
    then have "entry_id ce \<notin> set (map entry_id (drop_entry k c))"
      using drop_entry_ids [of k c] by (simp only: distinct.simps list.map set_map) blast
    with Cons show ?case by (simp del: set_map)
  qed simp
qed

text \<open>\<open>getCachedObject\<close> in terms of the map.\<close>

lemma entry_index_nth: "entry_index k cache = Some i \<Longrightarrow> i < length cache \<and> entry_id (cache ! i) = k"
  by (induction cache arbitrary: i) (auto split: if_splits)

definition new_entry :: "api_object \<Rightarrow> gtime \<Rightarrow> cachedEntry" where
  "new_entry obj t = \<lparr>ce_entry = obj, ce_fetchUnixTime = Unix t, ce_ttlSeconds = DefaultTTLSeconds\<rparr>"

definition base_get_law :: "'w base_client \<Rightarrow> bool" where
  "base_get_law b \<longleftrightarrow> (\<forall>ty key w. case base_Get b ty key w of
     (Inr obj, _) \<Rightarrow> TypeOf obj = ty \<and> obj_key obj = key | _ \<Rightarrow> True)"

lemma base_get_lawD:
  assumes "base_get_law b" "base_Get b ty key w = (Inr obj, w')"
  shows "TypeOf obj = ty" "obj_key obj = key"
proof -
  have "case base_Get b ty key w of (Inr obj, _) \<Rightarrow> TypeOf obj = ty \<and> obj_key obj = key | _ \<Rightarrow> True"
    by (rule assms(1) [unfolded base_get_law_def, THEN spec, THEN spec, THEN spec])
  then show "TypeOf obj = ty" "obj_key obj = key" by (simp_all add: assms(2))
qed

text \<open>What a read does, on a cache without duplicates.\<close>

definition fetched ::
  "'w base_client \<Rightarrow> obj_type \<Rightarrow> namespaced_name \<Rightarrow> 'w \<Rightarrow> cachedEntry list \<Rightarrow>
   (go_error + api_object) \<times> client_event list \<times> 'w \<times> cachedEntry list" where
  "fetched b ty key w cache = (case base_Get b ty key w of
     (Inl err, w1) \<Rightarrow> (Inl err, [Ev_Get ty key (Inl err)], (w1, cache))
   | (Inr obj, w1) \<Rightarrow> (case base_Now b w1 of (t, w2) \<Rightarrow>
       (Inr obj, [Ev_Get ty key (Inr obj), Ev_Now t], (w2, cache_put (new_entry obj t) cache))))"

lemma new_entry_simps [simp]:
  "ce_entry (new_entry obj t) = obj" "ce_fetchUnixTime (new_entry obj t) = Unix t"
  "ce_ttlSeconds (new_entry obj t) = DefaultTTLSeconds" "entry_id (new_entry obj t) = (TypeOf obj, obj_key obj)"
  by (simp_all add: new_entry_def entry_id_def)

lemma fetch_object_run:
  assumes "base_get_law b" "i = entry_index (ty, key) cache"
  shows "fetch_object b ty key i (w, cache) = fetched b ty key w cache"
  using base_get_lawD [OF assms(1), of ty key w]
  by (auto simp: fetch_object_def fetched_def io_simps Let_def cache_put_def assms(2) new_entry_def entry_id_def
      split: prod.splits sum.splits)

lemma getCachedObject_run:
  assumes "base_get_law b"
  shows "getCachedObject b ty key (w, cache) = (case cache_look cache (ty, key) of
     None \<Rightarrow> fetched b ty key w cache
   | Some ce \<Rightarrow> (case base_Now b w of (t, w1) \<Rightarrow>
       if isExpired t ce then (case fetched b ty key w1 cache of (r, cs, s) \<Rightarrow> (r, Ev_Now t # cs, s))
       else (Inr (ce_entry ce), [Ev_Now t], (w1, cache))))"
proof (cases "entry_index (ty, key) cache")
  case None
  then show ?thesis
    using fetch_object_run [OF assms, of None ty key cache]
    by (simp add: getCachedObject_def io_simps cache_look_def split: prod.splits)
next
  case (Some i)
  then have "entry_id (cache ! i) = (ty, key)" using entry_index_nth by blast
  then have "TypeOf (ce_entry (cache ! i)) = ty" by (simp add: entry_id_def)
  then show ?thesis
    using fetch_object_run [OF assms, of "Some i" ty key cache] Some
    by (auto simp: getCachedObject_def io_simps cache_look_def Let_def split: prod.splits)
qed

section \<open>What a read can return\<close>

text \<open>
  The runs of the client. Next to the state runs the last answer of the API server for every object,
  with the second at which it was stored. Between the operations anything can happen outside; the calls
  that write to the API server are such a step, since they are made without the mutex.
\<close>

type_synonym answers = "obj_type \<times> namespaced_name \<Rightarrow> (api_object \<times> int) option"

fun observe :: "client_event list \<Rightarrow> answers \<Rightarrow> answers" where
  "observe (Ev_Get ty key (Inr obj) # Ev_Now t # cs) l = observe cs (l((ty, key) \<mapsto> (obj, Unix t)))"
| "observe (_ # cs) l = observe cs l"
| "observe [] l = l"

inductive ec_reach :: "'w base_client \<Rightarrow> 'w \<times> cachedEntry list \<Rightarrow> answers \<Rightarrow> bool" for b where
  ec_start: "ec_reach b (w, []) (\<lambda>_. None)"
| ec_outside: "ec_reach b (w, cache) l \<Longrightarrow> ec_reach b (w', cache) l"
| ec_get: "ec_reach b s l \<Longrightarrow> getCachedObject b ty key s = (r, cs, s') \<Longrightarrow> ec_reach b s' (observe cs l)"
| ec_remove: "ec_reach b s l \<Longrightarrow> removeObject obj s = (r, cs, s') \<Longrightarrow> ec_reach b s' l"

text \<open>Every entry holds the last answer for its object.\<close>

definition entry_true :: "answers \<Rightarrow> cachedEntry \<Rightarrow> bool" where
  "entry_true l ce \<longleftrightarrow> ce_ttlSeconds ce = DefaultTTLSeconds \<and>
     l (entry_id ce) = Some (ce_entry ce, ce_fetchUnixTime ce)"

lemma fetched_keeps:
  assumes "base_get_law b" "cache.entries_ok (entry_true l) cache" "fetched b ty key w cache = (r, cs, s')"
  shows "cache.entries_ok (entry_true (observe cs l)) (snd s')"
proof (cases "base_Get b ty key w")
  case (Pair res w1)
  show ?thesis
  proof (cases res)
    case (Inl err)
    then show ?thesis using assms Pair by (auto simp: fetched_def)
  next
    case (Inr obj)
    obtain t w2 where t: "base_Now b w1 = (t, w2)" by fastforce
    have id: "TypeOf obj = ty" "obj_key obj = key"
      using base_get_lawD [OF assms(1), of ty key w obj w1] Pair Inr by simp_all
    have s: "cs = [Ev_Get ty key (Inr obj), Ev_Now t]" "snd s' = cache_put (new_entry obj t) cache"
      using assms(3) Pair Inr t by (auto simp: fetched_def)
    show ?thesis unfolding s
      by (rule cache.entries_ok_put [OF assms(2)]) (auto simp: entry_true_def id cache_look_ident)
  qed
qed

lemma ec_reach_entries:
  assumes "base_get_law b" "ec_reach b s l"
  shows "cache.entries_ok (entry_true l) (snd s)"
  using assms(2)
proof induction
  case (ec_get s l ty key r cs s')
  obtain w c where s: "s = (w, c)" by fastforce
  have ok: "cache.entries_ok (entry_true l) c" using ec_get.IH s by simp
  have run: "getCachedObject b ty key (w, c) = (r, cs, s')" using ec_get.hyps(2) s by simp
  show ?case
  proof (cases "cache_look c (ty, key)")
    case None
    then have "fetched b ty key w c = (r, cs, s')" using run by (simp add: getCachedObject_run [OF assms(1)])
    then show ?thesis by (rule fetched_keeps [OF assms(1) ok])
  next
    case (Some ce)
    obtain t w1 where t: "base_Now b w = (t, w1)" by fastforce
    obtain r1 cs1 s1 where f: "fetched b ty key w1 c = (r1, cs1, s1)" by (metis surj_pair)
    show ?thesis
      using run fetched_keeps [OF assms(1) ok f] ok
      by (auto simp: getCachedObject_run [OF assms(1)] Some t f split: if_splits)
  qed
next
  case (ec_remove s l obj r cs s')
  then show ?case by (cases s) (auto simp: removeObject_def change_cache_def cache.entries_ok_del)
qed (simp_all add: cache.entries_ok_def, simp add: cache_invar_def)


text \<open>An API server with one ObjectStore and a clock, and an entry the sidecar has just read.\<close>

definition clock_server :: "(object_store \<times> gtime) base_client" where
  "clock_server = \<lparr>
     base_Get = (\<lambda>ty key w. (if ty = T_ObjectStore \<and> object_key (os_Meta (fst w)) = key
       then Inr (Obj_ObjectStore (fst w)) else Inl (Api_Error NotFound), w)),
     base_Update = (\<lambda>obj w. case obj of Obj_ObjectStore os \<Rightarrow> (Inr (), (os, snd w)) | _ \<Rightarrow> (Inl (Opaque ''type''), w)),
     base_Delete = (\<lambda>obj w. (Inl (Opaque ''unsupported''), w)),
     base_Patch = (\<lambda>obj w. (Inl (Opaque ''unsupported''), w)),
     base_Now = (\<lambda>w. (snd w, w))\<rparr>"

lemma clock_server_law: "base_get_law clock_server"
  by (simp add: base_get_law_def clock_server_def obj_key_def)

definition store_key :: namespaced_name where
  "store_key = NamespacedName ''ns'' ''store''"

text \<open>Read at second 100, with the store changed outside, and read again at second 110.\<close>

definition renamed_store :: "string \<Rightarrow> object_store" where
  "renamed_store policy = (sample_store ''store'')\<lparr>os_Spec := (os_Spec (sample_store ''store''))\<lparr>oss_RetentionPolicy := policy\<rparr>\<rparr>"

definition at_second :: "int \<Rightarrow> gtime" where
  "at_second s = s * 1000000000"


section \<open>Writes\<close>

text \<open>
  A write through the client is seen by the next read. After an update, a deletion or a patch of a
  Secret or an ObjectStore, whether it succeeded or not, the next read of that object asks the API server;
  all other objects stay in the cache.
\<close>

theorem write_then_read:
  assumes "base_get_law b" "cache_invar cache" "isObjectCached (TypeOf obj)"
    and "wr \<in> {client_Update b obj, client_Delete b obj, client_Patch b obj}"
    and "wr (w, cache) = (r, cs, (w1, cache1))"
  shows "client_Get b (TypeOf obj) (obj_key obj) (w1, cache1) = fetched b (TypeOf obj) (obj_key obj) w1 cache1 \<and>
    (\<forall>k. k \<noteq> (TypeOf obj, obj_key obj) \<longrightarrow> cache_look cache1 k = cache_look cache k)"
proof -
  have "cache1 = drop_entry (TypeOf obj, obj_key obj) cache"
    using assms(3,4,5) by (auto simp: client_Update_def client_Delete_def client_Patch_def removeObject_def
        io_simps split: prod.splits)
  then show ?thesis using cache.look_del_same [OF assms(2)] cache.look_del [OF assms(2)]
    by (simp add: client_Get_def assms(3) getCachedObject_run [OF assms(1)])
qed

definition stored_cache :: "cachedEntry list" where
  "stored_cache = [new_entry (Obj_ObjectStore (sample_store ''store'')) (at_second 100)]"

theorem write_then_read_witness:
  "fst (client_Get clock_server T_ObjectStore store_key
     (io_world (client_Update clock_server (Obj_ObjectStore (renamed_store ''30d'')))
       ((sample_store ''store'', at_second 101), stored_cache))) = Inr (Obj_ObjectStore (renamed_store ''30d''))"
proof -
  let ?obj = "Obj_ObjectStore (renamed_store ''30d'')" and ?s = "((sample_store ''store'', at_second 101), stored_cache)"
  have k: "TypeOf ?obj = T_ObjectStore" "obj_key ?obj = store_key" by code_simp+
  have c: "cache_invar stored_cache" "isObjectCached (TypeOf ?obj)"
    by (simp_all add: stored_cache_def cache_invar_def isObjectCached_def)
  obtain r cs w1 c1 where run: "client_Update clock_server ?obj ?s = (r, cs, (w1, c1))" by (metis surj_pair)
  have "fst (snd (snd (client_Update clock_server ?obj ?s))) = (renamed_store ''30d'', at_second 101)" by code_simp
  then have w1: "w1 = (renamed_store ''30d'', at_second 101)" by (simp add: run)
  have "fst (fetched clock_server T_ObjectStore store_key w1 c1) = Inr ?obj"
    using k(2) by (simp add: fetched_def w1 clock_server_def obj_key_def split: prod.splits)
  with write_then_read [where wr = "client_Update clock_server ?obj", OF clock_server_law c _ run] show ?thesis by (simp add: k io_world_def run)
qed



end
