(* ===== verification/Recovery_Window.thy ===== *)
theory Recovery_Window
  imports Config
begin

text \<open>
  The recovery window in the status of an ObjectStore, \<open>internal/cnpgi/instance/recovery_window.go\<close>, and
  the metrics that report it, \<open>internal/cnpgi/instance/metrics.go\<close>.
\<close>

section \<open>Writing the window\<close>

text \<open>\<open>ServerRecoveryWindow[serverName]\<close>: the zero value when there is no entry.\<close>

definition server_window :: "object_store \<Rightarrow> string \<Rightarrow> recovery_window" where
  "server_window os serverName = (case gm_lookup (ost_ServerRecoveryWindow (os_Status os)) serverName of
     None \<Rightarrow> zero_recovery_window | Some rw \<Rightarrow> rw)"

definition put_window :: "string \<Rightarrow> recovery_window \<Rightarrow> object_store \<Rightarrow> object_store" where
  "put_window serverName rw os = os\<lparr>os_Status := (os_Status os)\<lparr>ost_ServerRecoveryWindow :=
     gm_put serverName rw (ost_ServerRecoveryWindow (os_Status os))\<rparr>\<rparr>"

text \<open>A time read from the catalog keeps its value when it becomes a \<open>metav1.Time\<close>.\<close>

definition with_catalog :: "lib \<Rightarrow> string \<Rightarrow> catalog \<Rightarrow> object_store \<Rightarrow> object_store" where
  "with_catalog L serverName backupList objectStore =
     put_window serverName ((server_window objectStore serverName)\<lparr>
       rw_FirstRecoverabilityPoint := GetFirstRecoverabilityPoint L backupList,
       rw_LastSuccessfulBackupTime := GetLastSuccessfulBackupTime L backupList\<rparr>) objectStore"

definition updateRecoveryWindow ::
  "lib \<Rightarrow> 'w ext \<Rightarrow> catalog \<Rightarrow> object_store \<Rightarrow> string \<Rightarrow> ('w, unit) eff" where
  "updateRecoveryWindow L e backupList objectStore serverName =
     update_object_store_status e (with_catalog L serverName backupList objectStore)"

definition with_failure :: "string \<Rightarrow> gtime \<Rightarrow> object_store \<Rightarrow> object_store" where
  "with_failure serverName lastFailedBackupTime objectStore =
     put_window serverName ((server_window objectStore serverName)\<lparr>rw_LastFailedBackupTime := Some lastFailedBackupTime\<rparr>)
       objectStore"

definition setLastFailedBackupTime ::
  "'w ext \<Rightarrow> namespaced_name \<Rightarrow> string \<Rightarrow> gtime \<Rightarrow> ('w, unit) eff" where
  "setLastFailedBackupTime e objectStoreKey serverName lastFailedBackupTime = retry_on_conflict e (\<lambda>_.
     io_bind (get_object_store e objectStoreKey) (\<lambda>objectStore.
       update_object_store_status e (with_failure serverName lastFailedBackupTime objectStore)))"

section \<open>Metrics\<close>

definition metricsDomain :: string where
  "metricsDomain = Replace_dot_dash PluginName"

definition buildFqName :: "string \<Rightarrow> string" where
  "buildFqName name = metricsDomain @ ''_'' @ Replace_dot_dash name"

definition firstRecoverabilityPointMetricName :: string where
  "firstRecoverabilityPointMetricName = buildFqName ''first_recoverability_point''"

definition lastAvailableBackupTimestampMetricName :: string where
  "lastAvailableBackupTimestampMetricName = buildFqName ''last_available_backup_timestamp''"

definition lastFailedBackupTimestampMetricName :: string where
  "lastFailedBackupTimestampMetricName = buildFqName ''last_failed_backup_timestamp''"

datatype metrics_capability = TYPE_METRICS

definition metrics_GetCapabilities :: "metrics_capability list" where
  "metrics_GetCapabilities = [TYPE_METRICS]"

datatype metric_type = TYPE_GAUGE

record metric =
  mt_FqName :: string
  mt_Help :: string
  mt_ValueType :: metric_type

definition Define :: "metric list" where
  "Define = [
     \<lparr>mt_FqName = firstRecoverabilityPointMetricName,
       mt_Help = ''The first point of recoverability for the cluster as a unix timestamp'', mt_ValueType = TYPE_GAUGE\<rparr>,
     \<lparr>mt_FqName = lastAvailableBackupTimestampMetricName,
       mt_Help = ''The last available backup as a unix timestamp'', mt_ValueType = TYPE_GAUGE\<rparr>,
     \<lparr>mt_FqName = lastFailedBackupTimestampMetricName,
       mt_Help = ''The last failed backup as a unix timestamp'', mt_ValueType = TYPE_GAUGE\<rparr>]"

text \<open>
  A value is \<open>float64\<close> of a number of seconds; the conversion is exact below \<open>2\<^sup>5\<^sup>3\<close>, and the value is kept
  as the integer.
\<close>

definition Collect_metrics :: "lib \<Rightarrow> 'w ext \<Rightarrow> string \<Rightarrow> ('w, (string \<times> int) list) eff" where
  "Collect_metrics L e clusterDefinition =
     io_bind (io_map_error (\<lambda>err. Errorf ''while creating configuration from cluster definition: %w'' [] (Some err))
       (io_lift (NewFromClusterJSON L clusterDefinition))) (\<lambda>configuration.
     io_bind (get_object_store e (GetBarmanObjectKey configuration)) (\<lambda>objectStore.
     case gm_lookup (ost_ServerRecoveryWindow (os_Status objectStore)) (cfg_ServerName configuration) of
       None \<Rightarrow> io_return [(firstRecoverabilityPointMetricName, 0), (lastAvailableBackupTimestampMetricName, 0),
         (lastFailedBackupTimestampMetricName, 0)]
     | Some x \<Rightarrow>
         let firstRecoverabilityPoint = (case rw_FirstRecoverabilityPoint x of None \<Rightarrow> 0 | Some t \<Rightarrow> Unix t);
             lastAvailableBackup = (case rw_LastSuccessfulBackupTime x of None \<Rightarrow> 0 | Some t \<Rightarrow> Unix t);
             lastFailedBackup = (case rw_LastFailedBackupTime x of None \<Rightarrow> 0 | Some t \<Rightarrow> Unix t)
         in io_return [(firstRecoverabilityPointMetricName, firstRecoverabilityPoint),
           (lastAvailableBackupTimestampMetricName, lastAvailableBackup),
           (lastFailedBackupTimestampMetricName, lastFailedBackup)]))"

section \<open>The status of the stored object\<close>

lemma server_window_put:
  "server_window (put_window s rw os) t = (if t = s then rw else server_window os t)"
  by (simp add: server_window_def put_window_def go_map_simps)

lemma put_window_meta [simp]:
  "os_Meta (put_window s rw os) = os_Meta os" "os_Spec (put_window s rw os) = os_Spec os"
  "os_Meta (with_failure s t os) = os_Meta os" "os_Spec (with_failure s t os) = os_Spec os"
  by (simp_all add: put_window_def with_failure_def)

text \<open>
  The API server's optimistic locking on the status subresource: an update made from the version that is
  stored replaces the status and gives the object a new version; made from another version it is a
  conflict and changes nothing.
\<close>

definition status_api_law :: "'w ext \<Rightarrow> ('w \<Rightarrow> namespaced_name \<Rightarrow> object_store option) \<Rightarrow> bool" where
  "status_api_law e stores \<longleftrightarrow>
     (\<forall>w k os. stores w k = Some os \<longrightarrow> object_key (os_Meta os) = k) \<and>
     (\<forall>os w. case stores w (object_key (os_Meta os)) of
       None \<Rightarrow> k_update_object_store_status e os w = (Inl (Api_Error NotFound), w)
     | Some cur \<Rightarrow>
         if om_ResourceVersion (os_Meta os) \<noteq> om_ResourceVersion (os_Meta cur)
         then k_update_object_store_status e os w = (Inl (Api_Error Conflict), w)
         else (\<exists>w' v. v \<noteq> om_ResourceVersion (os_Meta cur) \<and> k_update_object_store_status e os w = (Inr (), w') \<and> stores w' = (stores w)
           (object_key (os_Meta os) \<mapsto> cur\<lparr>os_Meta := (os_Meta cur)\<lparr>om_ResourceVersion := v\<rparr>, os_Status := os_Status os\<rparr>)))"

lemma status_api_update:
  assumes "status_api_law e stores" "stores w k = Some cur" "os_Meta os = os_Meta cur"
  obtains w' v where "v \<noteq> om_ResourceVersion (os_Meta cur)" "k_update_object_store_status e os w = (Inr (), w')"
    "stores w' = (stores w)(k \<mapsto> cur\<lparr>os_Meta := (os_Meta cur)\<lparr>om_ResourceVersion := v\<rparr>, os_Status := os_Status os\<rparr>)"
proof -
  have k: "object_key (os_Meta cur) = k" using assms(1,2) unfolding status_api_law_def by blast
  from assms(1) have "case stores w (object_key (os_Meta os)) of
       None \<Rightarrow> k_update_object_store_status e os w = (Inl (Api_Error NotFound), w)
     | Some cur \<Rightarrow>
         if om_ResourceVersion (os_Meta os) \<noteq> om_ResourceVersion (os_Meta cur)
         then k_update_object_store_status e os w = (Inl (Api_Error Conflict), w)
         else (\<exists>w' v. v \<noteq> om_ResourceVersion (os_Meta cur) \<and> k_update_object_store_status e os w = (Inr (), w') \<and> stores w' = (stores w)
           (object_key (os_Meta os) \<mapsto> cur\<lparr>os_Meta := (os_Meta cur)\<lparr>om_ResourceVersion := v\<rparr>, os_Status := os_Status os\<rparr>))"
    unfolding status_api_law_def by (elim conjE) (erule allE, erule allE)
  then have "\<exists>w' v. v \<noteq> om_ResourceVersion (os_Meta cur) \<and> k_update_object_store_status e os w = (Inr (), w') \<and> stores w' = (stores w)
           (k \<mapsto> cur\<lparr>os_Meta := (os_Meta cur)\<lparr>om_ResourceVersion := v\<rparr>, os_Status := os_Status os\<rparr>)"
    by (simp add: assms(2,3) k)
  then show ?thesis using that by blast
qed

text \<open>The windows of all servers of the store under a key.\<close>

definition windows_of :: "('w \<Rightarrow> namespaced_name \<Rightarrow> object_store option) \<Rightarrow> 'w \<Rightarrow> namespaced_name \<Rightarrow> string \<Rightarrow> recovery_window" where
  "windows_of stores w k s = (case stores w k of None \<Rightarrow> zero_recovery_window | Some os \<Rightarrow> server_window os s)"

lemma setLastFailed_run:
  assumes "retry_law e" "store_api_law e stores" "status_api_law e stores" "stores w k = Some os"
  obtains w' v where "setLastFailedBackupTime e k server t w =
      (Inr (), [Kube (Get_ObjectStore k), Kube (Update_ObjectStore_Status (with_failure server t os))], w')"
    "v \<noteq> om_ResourceVersion (os_Meta os)"
    "stores w' = (stores w)(k \<mapsto> os\<lparr>os_Meta := (os_Meta os)\<lparr>om_ResourceVersion := v\<rparr>,
       os_Status := os_Status (with_failure server t os)\<rparr>)"
proof -
  let ?f = "\<lambda>_. io_bind (get_object_store e k) (\<lambda>objectStore.
       update_object_store_status e (with_failure server t objectStore))"
  have get: "k_get_object_store e k w = (Inr os, w)" using assms(2,4) by (simp add: store_api_law_def)
  obtain w' v where up: "v \<noteq> om_ResourceVersion (os_Meta os)"
    "k_update_object_store_status e (with_failure server t os) w = (Inr (), w')"
    "stores w' = (stores w)(k \<mapsto> os\<lparr>os_Meta := (os_Meta os)\<lparr>om_ResourceVersion := v\<rparr>,
       os_Status := os_Status (with_failure server t os)\<rparr>)"
    by (rule status_api_update [OF assms(3,4), of "with_failure server t os"]) simp
  obtain n where n: "retry_on_conflict e ?f w = attempts ?f 0 n w" by (rule retry_lawE [OF assms(1)])
  have "?f 0 w = (Inr (), [Kube (Get_ObjectStore k), Kube (Update_ObjectStore_Status (with_failure server t os))], w')"
    by (simp add: io_simps get up(2))
  from attempts_success [where f = ?f and i = 0 and n = n, OF this] n
  have "setLastFailedBackupTime e k server t w =
      (Inr (), [Kube (Get_ObjectStore k), Kube (Update_ObjectStore_Status (with_failure server t os))], w')"
    by (simp add: setLastFailedBackupTime_def)
  with up(1,3) that show ?thesis by blast
qed

lemma update_stale:
  assumes "status_api_law e stores" "stores w k = Some cur" "object_key (os_Meta os) = k"
    and "om_ResourceVersion (os_Meta os) \<noteq> om_ResourceVersion (os_Meta cur)"
  shows "k_update_object_store_status e os w = (Inl (Api_Error Conflict), w)"
proof -
  have "case stores w (object_key (os_Meta os)) of
       None \<Rightarrow> k_update_object_store_status e os w = (Inl (Api_Error NotFound), w)
     | Some cur \<Rightarrow>
         if om_ResourceVersion (os_Meta os) \<noteq> om_ResourceVersion (os_Meta cur)
         then k_update_object_store_status e os w = (Inl (Api_Error Conflict), w)
         else (\<exists>w' v. v \<noteq> om_ResourceVersion (os_Meta cur) \<and> k_update_object_store_status e os w = (Inr (), w') \<and>
           stores w' = (stores w)
           (object_key (os_Meta os) \<mapsto> cur\<lparr>os_Meta := (os_Meta cur)\<lparr>om_ResourceVersion := v\<rparr>, os_Status := os_Status os\<rparr>))"
    using assms(1) unfolding status_api_law_def by (elim conjE) (erule allE, erule allE)
  then show ?thesis using assms(2-4) by simp
qed

text \<open>
  Recording a failed backup. When the ObjectStore exists and nobody interferes, the failure is
  recorded at the first attempt: the window of the server gets the new failure time and keeps its other
  two times, the windows of other servers, the spec and all other ObjectStores are untouched. And it is
  not lost: a refresh of a recovery window made from the object as it was read before conflicts and
  changes nothing.
\<close>

theorem failure_recorded:
  assumes "retry_law e" "store_api_law e stores" "status_api_law e stores" "stores w k = Some os"
  shows "\<exists>cs w'. setLastFailedBackupTime e k server t w = (Inr (), cs, w') \<and>
    windows_of stores w' k = (windows_of stores w k)(server :=
      (windows_of stores w k server)\<lparr>rw_LastFailedBackupTime := Some t\<rparr>) \<and>
    map_option os_Spec (stores w' k) = Some (os_Spec os) \<and> (\<forall>j. j \<noteq> k \<longrightarrow> stores w' j = stores w j) \<and>
    (\<forall>list s. io_result (updateRecoveryWindow L e list os s) w' = Inl (Api_Error Conflict) \<and>
      io_world (updateRecoveryWindow L e list os s) w' = w')"
proof -
  obtain w' v where r: "setLastFailedBackupTime e k server t w =
      (Inr (), [Kube (Get_ObjectStore k), Kube (Update_ObjectStore_Status (with_failure server t os))], w')"
    "v \<noteq> om_ResourceVersion (os_Meta os)"
    "stores w' = (stores w)(k \<mapsto> os\<lparr>os_Meta := (os_Meta os)\<lparr>om_ResourceVersion := v\<rparr>,
       os_Status := os_Status (with_failure server t os)\<rparr>)"
    by (rule setLastFailed_run [OF assms])
  have "server_window (os\<lparr>os_Meta := m, os_Status := os_Status (with_failure server t os)\<rparr>) =
      (server_window os)(server := (server_window os server)\<lparr>rw_LastFailedBackupTime := Some t\<rparr>)" for m
    by (rule ext) (simp add: server_window_def with_failure_def put_window_def go_map_simps)
  then have windows: "windows_of stores w' k = (windows_of stores w k)(server :=
      (windows_of stores w k server)\<lparr>rw_LastFailedBackupTime := Some t\<rparr>)"
    by (simp add: windows_of_def fun_eq_iff r(3) assms(4))
  have key: "object_key (os_Meta os) = k" using assms(3,4) unfolding status_api_law_def by blast
  have "k_update_object_store_status e (put_window s rw os) w' = (Inl (Api_Error Conflict), w')" for s rw
    by (rule update_stale [OF assms(3), of w' k "os\<lparr>os_Meta := (os_Meta os)\<lparr>om_ResourceVersion := v\<rparr>,
      os_Status := os_Status (with_failure server t os)\<rparr>"]) (use r(2,3) key in auto)
  then have "io_result (updateRecoveryWindow L e list os s) w' = Inl (Api_Error Conflict) \<and>
      io_world (updateRecoveryWindow L e list os s) w' = w'" for list s
    by (simp add: updateRecoveryWindow_def with_catalog_def io_simps io_result_def io_world_def)
  with r windows show ?thesis by auto
qed

text \<open>An API server that stores ObjectStores by key and numbers their versions.\<close>

type_synonym status_world = "namespaced_name \<Rightarrow> object_store option"

definition stored_store :: "status_world \<Rightarrow> namespaced_name \<Rightarrow> object_store option" where
  "stored_store w k = (case w k of None \<Rightarrow> None
     | Some os \<Rightarrow> if object_key (os_Meta os) = k then Some os else None)"

definition status_server :: "status_world ext" where
  "status_server = sample_ext\<lparr>
     k_get_object_store := (\<lambda>k w. (case stored_store w k of Some os \<Rightarrow> Inr os | None \<Rightarrow> Inl (Api_Error NotFound), w)),
     k_update_object_store_status := (\<lambda>os w. case stored_store w (object_key (os_Meta os)) of
       None \<Rightarrow> (Inl (Api_Error NotFound), w)
     | Some cur \<Rightarrow> if om_ResourceVersion (os_Meta os) \<noteq> om_ResourceVersion (os_Meta cur) then (Inl (Api_Error Conflict), w)
         else (Inr (), w(object_key (os_Meta os) \<mapsto> cur\<lparr>os_Meta := (os_Meta cur)\<lparr>om_ResourceVersion :=
           Suc (om_ResourceVersion (os_Meta cur))\<rparr>, os_Status := os_Status os\<rparr>)))\<rparr>"

lemma status_server_get: "store_api_law status_server stored_store"
  by (simp add: store_api_law_def status_server_def)

lemma status_server_retry: "retry_law status_server"
  by (simp add: status_server_def)

lemma status_server_update: "status_api_law status_server stored_store"
  unfolding status_api_law_def
proof (intro conjI allI impI)
  fix w k os assume "stored_store w k = Some os"
  then show "object_key (os_Meta os) = k" by (auto simp: stored_store_def split: option.splits if_splits)
next
  fix os w
  have key: "object_key (os_Meta cur) = k" if "stored_store w k = Some cur" for k cur
    using that by (auto simp: stored_store_def split: option.splits if_splits)
  have put: "stored_store (w(k \<mapsto> cur\<lparr>os_Meta := (os_Meta cur)\<lparr>om_ResourceVersion := v\<rparr>, os_Status := st\<rparr>)) =
      (stored_store w)(k \<mapsto> cur\<lparr>os_Meta := (os_Meta cur)\<lparr>om_ResourceVersion := v\<rparr>, os_Status := st\<rparr>)"
    if "stored_store w k = Some cur" for k cur v st
    using key [OF that] by (auto simp: stored_store_def fun_eq_iff object_key_def)
  show "case stored_store w (object_key (os_Meta os)) of
       None \<Rightarrow> k_update_object_store_status status_server os w = (Inl (Api_Error NotFound), w)
     | Some cur \<Rightarrow>
         if om_ResourceVersion (os_Meta os) \<noteq> om_ResourceVersion (os_Meta cur)
         then k_update_object_store_status status_server os w = (Inl (Api_Error Conflict), w)
         else (\<exists>w' v. v \<noteq> om_ResourceVersion (os_Meta cur) \<and> k_update_object_store_status status_server os w = (Inr (), w') \<and>
           stored_store w' = (stored_store w)(object_key (os_Meta os) \<mapsto>
             cur\<lparr>os_Meta := (os_Meta cur)\<lparr>om_ResourceVersion := v\<rparr>, os_Status := os_Status os\<rparr>))"
  proof (cases "stored_store w (object_key (os_Meta os))")
    case None
    then show ?thesis by (simp add: status_server_def)
  next
    case (Some cur)
    let ?v = "Suc (om_ResourceVersion (os_Meta cur))"
    show ?thesis
    proof (cases "om_ResourceVersion (os_Meta os) = om_ResourceVersion (os_Meta cur)")
      case True
      then show ?thesis
        by (simp add: status_server_def Some del: fun_upd_apply) (intro exI [of _ ?v] conjI, simp, rule put [OF Some])
    next
      case False
      with Some show ?thesis by (simp add: status_server_def)
    qed
  qed
qed

lemmas status_server_laws = status_server_retry status_server_get status_server_update

definition one_store :: status_world where
  "one_store = [NamespacedName ''ns'' ''store'' \<mapsto> sample_store ''store'']"

lemma one_store_stored: "stored_store one_store (NamespacedName ''ns'' ''store'') = Some (sample_store ''store'')"
  by (simp add: stored_store_def one_store_def sample_store_def object_key_def)

theorem failure_recorded_witness:
  "\<exists>cs w'. setLastFailedBackupTime status_server (NamespacedName ''ns'' ''store'') ''pg'' 7 one_store = (Inr (), cs, w') \<and>
     rw_LastFailedBackupTime (windows_of stored_store w' (NamespacedName ''ns'' ''store'') ''pg'') = Some 7 \<and>
     windows_of stored_store w' (NamespacedName ''ns'' ''store'') ''other'' =
       windows_of stored_store one_store (NamespacedName ''ns'' ''store'') ''other''"
proof -
  from failure_recorded [where L = sample_lib and stores = stored_store and server = "''pg''" and t = 7, OF status_server_laws one_store_stored]
  show ?thesis by (elim exE conjE) (intro exI conjI, assumption, simp_all)
qed

text \<open>
  The metrics of a cluster. A collection makes one call, a read of the ObjectStore the cluster
  archives to. It reports the three metrics that are defined, in that order, with the times of the window
  of the cluster's server in seconds, and zero for a time that is not set or a server without a window.
\<close>

theorem metrics_report_window:
  assumes "store_api_law e stores" "NewFromClusterJSON L j = Inr c"
  shows "case stores w (GetBarmanObjectKey c) of
      None \<Rightarrow> Collect_metrics L e j w = (Inl (Api_Error NotFound), [Kube (Get_ObjectStore (GetBarmanObjectKey c))], w)
    | Some os \<Rightarrow> Collect_metrics L e j w = (Inr (zip (map mt_FqName Define)
        (map (\<lambda>t. case t of None \<Rightarrow> 0 | Some t \<Rightarrow> Unix t)
          [rw_FirstRecoverabilityPoint (server_window os (cfg_ServerName c)),
           rw_LastSuccessfulBackupTime (server_window os (cfg_ServerName c)),
           rw_LastFailedBackupTime (server_window os (cfg_ServerName c))])),
        [Kube (Get_ObjectStore (GetBarmanObjectKey c))], w)"
  using assms(1)
  by (auto simp: Collect_metrics_def io_simps assms(2) store_api_law_def Define_def server_window_def
      zero_recovery_window_def Let_def split: option.splits)

definition metrics_cluster :: cluster where
  "metrics_cluster = sample_cluster\<lparr>cl_Plugins := [\<lparr>pc_Name = PluginName, pc_Enabled = None,
     pc_Parameters = Some [(''barmanObjectName'', ''store'')]\<rparr>]\<rparr>"

definition cluster_lib :: "cluster \<Rightarrow> lib" where
  "cluster_lib c = sample_lib\<lparr>DecodeCluster := (\<lambda>j. Inr c)\<rparr>"

theorem metrics_report_window_witness:
  "io_result (Collect_metrics (cluster_lib metrics_cluster) status_server '''')
     (io_world (setLastFailedBackupTime status_server (NamespacedName ''ns'' ''store'') ''pg'' 7000000000) one_store) =
   Inr [(''barman_cloud_cloudnative_pg_io_first_recoverability_point'', 0),
     (''barman_cloud_cloudnative_pg_io_last_available_backup_timestamp'', 0),
     (''barman_cloud_cloudnative_pg_io_last_failed_backup_timestamp'', 7)]"
proof -
  let ?w = "io_world (setLastFailedBackupTime status_server (NamespacedName ''ns'' ''store'') ''pg'' 7000000000) one_store"
  obtain c where c: "NewFromClusterJSON (cluster_lib metrics_cluster) '''' = Inr c"
    by (simp add: NewFromClusterJSON_def cluster_lib_def)
  have k: "GetBarmanObjectKey (case NewFromClusterJSON (cluster_lib metrics_cluster) '''' of Inr c \<Rightarrow> c) = NamespacedName ''ns'' ''store''"
    "cfg_ServerName (case NewFromClusterJSON (cluster_lib metrics_cluster) '''' of Inr c \<Rightarrow> c) = ''pg''" by code_simp+
  have names: "map mt_FqName Define = [''barman_cloud_cloudnative_pg_io_first_recoverability_point'',
     ''barman_cloud_cloudnative_pg_io_last_available_backup_timestamp'',
     ''barman_cloud_cloudnative_pg_io_last_failed_backup_timestamp'']" by code_simp
  have "map_option (\<lambda>os. server_window os ''pg'') (stored_store ?w (NamespacedName ''ns'' ''store'')) =
      Some (zero_recovery_window\<lparr>rw_LastFailedBackupTime := Some 7000000000\<rparr>)" by code_simp
  then obtain os where os: "stored_store ?w (NamespacedName ''ns'' ''store'') = Some os"
    "server_window os ''pg'' = zero_recovery_window\<lparr>rw_LastFailedBackupTime := Some 7000000000\<rparr>" by blast
  show ?thesis using metrics_report_window [OF status_server_get c, of ?w] k
    by (simp add: c os names io_result_def zero_recovery_window_def Unix_def)
qed

end
