(* ===== verification/Backup.thy ===== *)
theory Backup
  imports Recovery_Window Common_Env
begin

text \<open>
  The backup service of the sidecar: \<open>internal/cnpgi/instance/backup.go\<close>, and the metadata it attaches to
  a backup, \<open>internal/cnpgi/instance/types.go\<close>.
\<close>

section \<open>The metadata of a backup\<close>

record backupResultMetadata =
  brm_timeline :: string
  brm_version :: string
  brm_name :: string
  brm_displayName :: string
  brm_clusterUID :: string
  brm_pluginName :: string

definition toMap :: "backupResultMetadata \<Rightarrow> string gomap" where
  "toMap b = Some
     [(''timeline'', brm_timeline b), (''version'', brm_version b), (''name'', brm_name b),
      (''displayName'', brm_displayName b), (''clusterUID'', brm_clusterUID b), (''pluginName'', brm_pluginName b)]"

definition newBackupResultMetadata :: "string \<Rightarrow> int \<Rightarrow> backupResultMetadata" where
  "newBackupResultMetadata clusterUID timeline =
     \<lparr>brm_timeline = Itoa timeline, brm_version = pm_Version Data, brm_name = pm_Name Data,
      brm_displayName = pm_DisplayName Data, brm_clusterUID = clusterUID, brm_pluginName = PluginName\<rparr>"

definition newBackupResultMetadataFromMap :: "string gomap \<Rightarrow> backupResultMetadata" where
  "newBackupResultMetadataFromMap m =
     (if m = None
      then \<lparr>brm_timeline = '''', brm_version = '''', brm_name = '''', brm_displayName = '''', brm_clusterUID = '''',
        brm_pluginName = ''''\<rparr>
      else \<lparr>brm_timeline = gm_str m ''timeline'', brm_version = gm_str m ''version'', brm_name = gm_str m ''name'',
        brm_displayName = gm_str m ''displayName'', brm_clusterUID = gm_str m ''clusterUID'',
        brm_pluginName = gm_str m ''pluginName''\<rparr>)"

section \<open>Taking a backup\<close>

datatype backup_capability = TYPE_BACKUP

definition backup_GetCapabilities :: "backup_capability list" where
  "backup_GetCapabilities = [TYPE_BACKUP]"

record backup_result =
  br_BackupId :: string
  br_BackupName :: string
  br_StartedAt :: int
  br_StoppedAt :: int
  br_BeginWal :: string
  br_EndWal :: string
  br_BeginLsn :: string
  br_EndLsn :: string
  br_InstanceId :: string
  br_Online :: bool
  br_Metadata :: "string gomap"

text \<open>The clock is read again at every attempt of the outer retry.\<close>

definition handleBackupError :: "'w ext \<Rightarrow> config \<Rightarrow> ('w, unit) eff" where
  "handleBackupError e cfg = retry_on_conflict e (\<lambda>_.
     io_bind (time_now e) (\<lambda>now.
       setLastFailedBackupTime e (GetBarmanObjectKey cfg) (cfg_ServerName cfg) now))"

definition backup_result_of :: "string \<Rightarrow> config \<Rightarrow> barman_backup \<Rightarrow> backup_result" where
  "backup_result_of instanceName configuration executedBackupInfo =
     \<lparr>br_BackupId = bb_ID executedBackupInfo, br_BackupName = bb_BackupName executedBackupInfo,
      br_StartedAt = Unix (bb_BeginTime executedBackupInfo), br_StoppedAt = Unix (bb_EndTime executedBackupInfo),
      br_BeginWal = bb_BeginWal executedBackupInfo, br_EndWal = bb_EndWal executedBackupInfo,
      br_BeginLsn = bb_BeginLSN executedBackupInfo, br_EndLsn = bb_EndLSN executedBackupInfo,
      br_InstanceId = instanceName, br_Online = True,
      br_Metadata = toMap (newBackupResultMetadata (cl_UID (cfg_Cluster configuration)) (bb_TimeLine executedBackupInfo))\<rparr>"

text \<open>
  The part of \<open>Backup\<close> after the backup was taken, and the whole of it. A failure to refresh the recovery
  window is only logged; so is a failure to record that the backup failed.
\<close>

definition backup_taken ::
  "lib \<Rightarrow> 'w ext \<Rightarrow> string \<Rightarrow> config \<Rightarrow> object_store \<Rightarrow> string list \<Rightarrow> string \<Rightarrow> ('w, backup_result) eff" where
  "backup_taken L e instanceName configuration objectStore env backupName =
     io_bind (executed_backup_info e (os_Configuration objectStore) backupName (cfg_ServerName configuration) env)
       (\<lambda>executedBackupInfo.
     io_bind (backup_list e (os_Configuration objectStore) (cfg_ServerName configuration) env) (\<lambda>backupList.
     io_try (updateRecoveryWindow L e backupList objectStore (cfg_ServerName configuration)) (\<lambda>_.
       io_return (backup_result_of instanceName configuration executedBackupInfo))))"

definition Backup :: "lib \<Rightarrow> 'w ext \<Rightarrow> string \<Rightarrow> string \<Rightarrow> ('w, backup_result) eff" where
  "Backup L e instanceName clusterDefinition =
     io_bind (io_lift (NewFromClusterJSON L clusterDefinition)) (\<lambda>configuration.
     io_bind (get_object_store e (GetBarmanObjectKey configuration)) (\<lambda>objectStore.
     io_bind (ensure_directory e (BackupTemporaryDirectory L)) (\<lambda>_.
     io_bind (set_credentials e (os_Namespace objectStore) (os_Configuration objectStore)
       (MergeEnv (environ e) (GetRestoreCABundleEnv (os_Configuration objectStore)))
       (BuildCertificateFilePath (os_Name objectStore))) (\<lambda>env.
     io_bind (time_now e) (\<lambda>now.
     let backupName = ''backup-'' @ ToCompactISO8601 L now in
     io_try (take_backup e (os_Configuration objectStore) backupName (cfg_ServerName configuration) env
       (BackupTemporaryDirectory L)) (\<lambda>taken. case taken of
         Inl err \<Rightarrow> io_try (handleBackupError e configuration) (\<lambda>_. io_fail err)
       | Inr _ \<Rightarrow> backup_taken L e instanceName configuration objectStore env backupName))))))"

section \<open>Properties\<close>

lemma newBackupResultMetadataFromMap_toMap: "newBackupResultMetadataFromMap (toMap b) = b"
  by (simp add: newBackupResultMetadataFromMap_def toMap_def gm_str_def gm_lookup_def)

lemma updateRecoveryWindow_iff [run_iffs]:
  "updateRecoveryWindow L e list os s w = (r, cs, w') \<longleftrightarrow>
     k_update_object_store_status e (with_catalog L s list os) w = (r, w') \<and>
     cs = [Kube (Update_ObjectStore_Status (with_catalog L s list os))]"
  by (simp add: updateRecoveryWindow_def run_iffs)

lemma backup_taken_success:
  assumes "backup_taken L e inst c os env name w = (Inr r, cs, w')"
  shows "\<exists>info list. r = backup_result_of inst c info \<and>
    cs = [Barman (Executed_Backup_Info name (cfg_ServerName c)), Barman (Backup_List (cfg_ServerName c)),
      Kube (Update_ObjectStore_Status (with_catalog L (cfg_ServerName c) list os))]"
  using assms unfolding backup_taken_def by (auto simp: run_iffs)


text \<open>An API server with one ObjectStore, and a barman that works when it is told to.\<close>

definition sample_info :: barman_backup where
  "sample_info = \<lparr>bb_ID = ''20240101T000000'', bb_BackupName = ''backup-7'', bb_BeginTime = 1704067200000000000,
     bb_EndTime = 1704067300000000000, bb_BeginWal = ''000000010000000000000002'', bb_EndWal = ''000000010000000000000003'',
     bb_BeginLSN = ''0/2000028'', bb_EndLSN = ''0/3000060'', bb_TimeLine = 1, bb_Error = ''''\<rparr>"

definition backup_server :: "go_error + unit \<Rightarrow> status_world ext" where
  "backup_server taken = status_server\<lparr>
     o_ensure_directory := (\<lambda>_ w. (Inr (), w)), b_set_credentials := (\<lambda>_ _ env _ w. (Inr env, w)),
     o_now := (\<lambda>w. (7, w)), b_take_backup := (\<lambda>_ _ _ _ _ w. (taken, w)),
     b_executed_backup_info := (\<lambda>_ _ _ _ w. (Inr sample_info, w)), b_backup_list := (\<lambda>_ _ _ w. (Inr [sample_info], w))\<rparr>"

lemma backup_server_retry: "retry_law (backup_server taken)"
proof -
  have "retry_on_conflict (backup_server taken) = retry_on_conflict status_server" by (simp add: backup_server_def)
  from retry_law_update [OF this] status_server_retry show ?thesis by (rule iffD2)
qed

definition backup_calls :: "call list \<Rightarrow> string list" where
  "backup_calls cs = List.map_filter (\<lambda>x. case x of Barman (Take_Backup n s) \<Rightarrow> Some s
     | Barman (Executed_Backup_Info n s) \<Rightarrow> Some s | Barman (Backup_List s) \<Rightarrow> Some s | _ \<Rightarrow> None) cs"


text \<open>The calls of the runs that end in an error.\<close>

definition on_error :: "(go_error \<Rightarrow> 'c \<Rightarrow> bool) \<Rightarrow> ('c, 'w, 'a) io \<Rightarrow> bool" where
  "on_error P m \<longleftrightarrow> (\<forall>w err cs w'. m w = (Inl err, cs, w') \<longrightarrow> (\<forall>x \<in> set cs. P err x))"

lemma on_error_bind:
  assumes "only_calls (\<lambda>x. \<forall>err. P err x) m" "\<And>a. on_error P (f a)"
  shows "on_error P (io_bind m f)"
  unfolding on_error_def
proof (intro allI impI ballI)
  fix w err cs w' x assume run: "io_bind m f w = (Inl err, cs, w')" and x: "x \<in> set cs"
  obtain r cs1 w1 where m: "m w = (r, cs1, w1)" by (metis surj_pair)
  have 1: "\<forall>x \<in> set cs1. P err x" using only_calls_run [OF assms(1) m] by blast
  show "P err x"
  proof (cases r)
    case (Inl err1)
    then show ?thesis using run m x 1 by (simp add: io_bind_apply)
  next
    case (Inr a)
    then obtain cs2 where "f a w1 = (Inl err, cs2, w')" "cs = cs1 @ cs2"
      using run m by (auto simp: io_bind_apply split: prod.splits)
    then show ?thesis using 1 assms(2) [of a] x by (fastforce simp: on_error_def)
  qed
qed

lemma on_error_lift_bind: "(\<And>a. r = Inr a \<Longrightarrow> on_error P (f a)) \<Longrightarrow> on_error P (io_bind (io_lift r) f)"
  by (cases r) (auto simp: on_error_def io_bind_apply io_apply split: prod.splits)

lemma on_error_taken: "on_error (\<lambda>err x. \<not> kube_write x) (backup_taken L e inst c os env n)"
  unfolding on_error_def backup_taken_def
  by (auto simp: io_bind_apply io_call_apply io_try_apply io_apply split: prod.splits sum.splits)

lemma only_calls_handleBackupError:
  assumes "retry_law e"
  shows "only_calls (\<lambda>x. kube_write x \<longrightarrow> (\<exists>os t. x = Kube (Update_ObjectStore_Status (with_failure (cfg_ServerName c) t os))))
    (handleBackupError e c)"
  unfolding handleBackupError_def setLastFailedBackupTime_def by (intro calls_rules assms) auto



end
