(* ===== verification/Cached_Status.thy ===== *)
theory Cached_Status
  imports Extended_Client Backup
begin

text \<open>
  The services of the sidecar on top of its caching client (\<open>internal/cnpgi/instance/manager.go\<close> gives the
  client of \<open>internal/cnpgi/instance/internal/client\<close> to the backup service): what becomes of the record of
  a failed backup when the ObjectStore in the cache is not the one that is stored.
\<close>

section \<open>The environment of the sidecar\<close>

definition to_store :: "go_error + api_object \<Rightarrow> go_error + object_store" where
  "to_store r = (case r of Inl err \<Rightarrow> Inl err | Inr obj \<Rightarrow> (case obj of
     Obj_ObjectStore os \<Rightarrow> Inr os | _ \<Rightarrow> Inl (Panic ''not an ObjectStore'')))"

text \<open>
  Reads of ObjectStores go through the cache. \<open>Status()\<close> is the status writer of the embedded client, so
  \<open>Status().Update\<close> does not drop the object from the cache. But a read that the cache answers copies only
  the struct, so the map of recovery windows it returns is the one of the cached object, and entering a
  window into it changes the cached object before the API server is asked. \<open>share os cache\<close> is the cache
  after the windows of \<open>os\<close> were changed in memory; \<open>share_law\<close> says that at most the status of an
  ObjectStore changes by it. The other operations are those of \<open>ec\<close>.
\<close>

definition with_cache :: "(object_store \<Rightarrow> cachedEntry list \<Rightarrow> cachedEntry list) \<Rightarrow>
    'w base_client \<Rightarrow> 'w ext \<Rightarrow> ('w \<times> cachedEntry list) ext \<Rightarrow> ('w \<times> cachedEntry list) ext" where
  "with_cache share b e ec = ec\<lparr>
     k_get_object_store := (\<lambda>key s. case client_Get b T_ObjectStore key s of (r, cs, s') \<Rightarrow> (to_store r, s')),
     k_update_object_store_status := (\<lambda>os (w, cache). case k_update_object_store_status e os w of
       (r, w') \<Rightarrow> (r, (w', share os cache))),
     o_now := (\<lambda>(w, cache). case base_Now b w of (t, w') \<Rightarrow> (t, (w', cache)))\<rparr>"

definition share_law :: "(object_store \<Rightarrow> cachedEntry list \<Rightarrow> cachedEntry list) \<Rightarrow> bool" where
  "share_law share \<longleftrightarrow> (\<forall>os cache k o1. \<forall>ce. cache_look cache k = Some ce \<longrightarrow> ce_entry ce = Obj_ObjectStore o1 \<longrightarrow>
     (\<exists>st. cache_look (share os cache) k = Some (ce\<lparr>ce_entry := Obj_ObjectStore (o1\<lparr>os_Status := st\<rparr>)\<rparr>)))"

text \<open>What a cached object that was just read shares with the copy: its map of windows, unless that is nil.\<close>

definition share_windows :: "object_store \<Rightarrow> cachedEntry list \<Rightarrow> cachedEntry list" where
  "share_windows os = map (\<lambda>ce. case ce_entry ce of
     Obj_ObjectStore o1 \<Rightarrow>
       if object_key (os_Meta o1) = object_key (os_Meta os) \<and> ost_ServerRecoveryWindow (os_Status o1) \<noteq> None
       then ce\<lparr>ce_entry := Obj_ObjectStore (o1\<lparr>os_Status := os_Status os\<rparr>)\<rparr> else ce
   | _ \<Rightarrow> ce)"

lemma share_windows_id: "entry_id (case ce_entry ce of
     Obj_ObjectStore o1 \<Rightarrow> if c o1 then ce\<lparr>ce_entry := Obj_ObjectStore (o1\<lparr>os_Status := st\<rparr>)\<rparr> else ce | _ \<Rightarrow> ce) = entry_id ce"
  by (auto simp: entry_id_def obj_key_def split: api_object.split)

lemma share_windows_law: "share_law share_windows"
proof -
  have "\<exists>st. cache_look (share_windows os cache) k = Some (ce\<lparr>ce_entry := Obj_ObjectStore (o1\<lparr>os_Status := st\<rparr>)\<rparr>)"
    if "cache_look cache k = Some ce" "ce_entry ce = Obj_ObjectStore o1" for os cache k o1 ce
    using that
  proof (induction cache)
    case (Cons x cache)
    have "ce\<lparr>ce_entry := Obj_ObjectStore (o1\<lparr>os_Status := os_Status o1\<rparr>)\<rparr> = ce" using Cons.prems(2) by simp
    then have "\<exists>st. ce = ce\<lparr>ce_entry := Obj_ObjectStore (o1\<lparr>os_Status := st\<rparr>)\<rparr>" by metis
    with Cons show ?case
      by (auto simp: share_windows_def share_windows_id [of _ "\<lambda>o1. object_key (os_Meta o1) = object_key (os_Meta os) \<and>
        ost_ServerRecoveryWindow (os_Status o1) \<noteq> None"] split: if_splits)
  qed simp
  then show ?thesis unfolding share_law_def by blast
qed

lemma with_cache_retry: "retry_law ec \<Longrightarrow> retry_law (with_cache share b e ec)"
  by (simp add: retry_law_def with_cache_def)

section \<open>Retrying what conflicts again\<close>

lemma attempts_conflict:
  assumes "\<And>i s. Q s \<Longrightarrow> \<exists>cs s'. f i s = (Inl err, cs, s') \<and> Q s'" "IsConflict err" "Q s"
  shows "\<exists>cs s'. attempts f i n s = (Inl err, cs, s') \<and> Q s'"
  using assms(3)
proof (induction n arbitrary: i s)
  case 0
  then show ?case using assms(1) by simp
next
  case (Suc n)
  obtain cs s1 where 1: "f i s = (Inl err, cs, s1)" "Q s1" using assms(1) [OF Suc.prems] by blast
  obtain cs2 s2 where "attempts f (Suc i) n s1 = (Inl err, cs2, s2)" "Q s2" using Suc.IH [OF 1(2)] by blast
  then show ?case using 1(1) assms(2) by (auto simp: io_simps)
qed

lemma retry_conflict:
  assumes "retry_law e" "\<And>i s. Q s \<Longrightarrow> \<exists>cs s'. f i s = (Inl err, cs, s') \<and> Q s'" "IsConflict err" "Q s"
  shows "\<exists>cs s'. retry_on_conflict e f s = (Inl err, cs, s') \<and> Q s'"
proof -
  obtain n where "retry_on_conflict e f s = attempts f 0 n s" by (rule retry_lawE [OF assms(1)])
  with attempts_conflict [where Q = Q and f = f and i = 0 and n = n, OF assms(2-4)] show ?thesis by simp
qed

text \<open>
  The situation: the entry in the cache stays fresh, and the stored object has another version than the
  cached one. \<open>P\<close> says which worlds the process passes through, and \<open>stale_while\<close> that it stays among them.
\<close>

definition stale_while ::
  "('w \<Rightarrow> bool) \<Rightarrow> 'w base_client \<Rightarrow> ('w \<Rightarrow> namespaced_name \<Rightarrow> object_store option) \<Rightarrow> object_meta \<Rightarrow> int \<Rightarrow> bool" where
  "stale_while P b stores m since \<longleftrightarrow> (\<forall>w. P w \<longrightarrow>
     (\<exists>cur. stores w (object_key m) = Some cur \<and> om_ResourceVersion (os_Meta cur) \<noteq> om_ResourceVersion m) \<and>
     (\<exists>t w'. base_Now b w = (t, w') \<and> Unix t - since \<le> DefaultTTLSeconds \<and> P w'))"

definition cached_version :: "cachedEntry list \<Rightarrow> object_meta \<Rightarrow> int \<Rightarrow> bool" where
  "cached_version cache m since \<longleftrightarrow> (\<exists>ce os. cache_look cache (T_ObjectStore, object_key m) = Some ce \<and>
     ce_entry ce = Obj_ObjectStore os \<and> os_Meta os = m \<and> ce_fetchUnixTime ce = since \<and> ce_ttlSeconds ce = DefaultTTLSeconds)"

lemma cached_version_share:
  assumes "share_law share" "cached_version cache m since"
  shows "cached_version (share os cache) m since"
proof -
  obtain ce o1 where ce: "cache_look cache (T_ObjectStore, object_key m) = Some ce" "ce_entry ce = Obj_ObjectStore o1"
    "os_Meta o1 = m" "ce_fetchUnixTime ce = since" "ce_ttlSeconds ce = DefaultTTLSeconds"
    using assms(2) unfolding cached_version_def by blast
  obtain st where "cache_look (share os cache) (T_ObjectStore, object_key m) =
      Some (ce\<lparr>ce_entry := Obj_ObjectStore (o1\<lparr>os_Status := st\<rparr>)\<rparr>)"
    using assms(1) ce(1,2) unfolding share_law_def by blast
  then show ?thesis using ce(3-5) unfolding cached_version_def by auto
qed

lemma stale_attempt:
  assumes "share_law share" "base_get_law b" "status_api_law e stores" "stale_while P b stores m since"
    and "cached_version cache m since" "P w"
  shows "\<exists>cs w' cache'. io_bind (get_object_store (with_cache share b e ec) (object_key m)) (\<lambda>os.
      update_object_store_status (with_cache share b e ec) (with_failure server t os)) (w, cache) =
    (Inl (Api_Error Conflict), cs, (w', cache')) \<and> P w' \<and> cached_version cache' m since"
proof -
  obtain now w1 where now: "base_Now b w = (now, w1)" "Unix now - since \<le> DefaultTTLSeconds" "P w1"
    using assms(4,6) unfolding stale_while_def by blast
  obtain cur where cur: "stores w1 (object_key m) = Some cur" "om_ResourceVersion (os_Meta cur) \<noteq> om_ResourceVersion m"
    using assms(4) now(3) unfolding stale_while_def by blast
  obtain ce old where ce: "cache_look cache (T_ObjectStore, object_key m) = Some ce" "ce_entry ce = Obj_ObjectStore old"
    "os_Meta old = m" "ce_fetchUnixTime ce = since" "ce_ttlSeconds ce = DefaultTTLSeconds"
    using assms(5) unfolding cached_version_def by blast
  have "k_get_object_store (with_cache share b e ec) (object_key m) (w, cache) = (Inr old, (w1, cache))"
    using getCachedObject_run [OF assms(2), of T_ObjectStore "object_key m" w cache] now(1,2)
    by (simp add: with_cache_def client_Get_def isObjectCached_def ce to_store_def isExpired_def)
  moreover have "k_update_object_store_status e (with_failure server t old) w1 = (Inl (Api_Error Conflict), w1)"
    by (rule update_stale [OF assms(3) cur(1)]) (use cur(2) ce(3) in auto)
  then have "k_update_object_store_status (with_cache share b e ec) (with_failure server t old) (w1, cache) =
      (Inl (Api_Error Conflict), (w1, share (with_failure server t old) cache))" by (simp add: with_cache_def)
  ultimately show ?thesis using now(3) cached_version_share [OF assms(1,5)] by (auto simp: io_simps)
qed

text \<open>
  C19. A stale cache keeps a failure from being recorded. While the ObjectStore in the cache of the sidecar is
  fresh but not the version that is stored, every attempt to record a failed backup reads that same cached
  object and conflicts; so however many attempts the inner and the outer retry make, and whatever the
  attempts change in the cached object, the failure is not recorded and the cache keeps that version.
\<close>

theorem stale_cache_blocks_failure:
  assumes "retry_law ec" "share_law share" "base_get_law b" "status_api_law e stores" "stale_while P b stores m since"
    and "object_key m = GetBarmanObjectKey c" "cached_version cache m since" "P w"
  shows "\<exists>cs w' cache'. handleBackupError (with_cache share b e ec) c (w, cache) =
    (Inl (Api_Error Conflict), cs, (w', cache')) \<and> P w' \<and> cached_version cache' m since"
proof -
  let ?e = "with_cache share b e ec" and ?k = "GetBarmanObjectKey c"
  let ?Q = "\<lambda>s. P (fst s) \<and> cached_version (snd s) m since"
  have retry: "retry_law ?e" by (rule with_cache_retry [OF assms(1)])
  have conflict: "IsConflict (Api_Error Conflict)" by (simp add: IsConflict_def)
  have inner: "\<exists>cs s'. setLastFailedBackupTime ?e ?k server t s = (Inl (Api_Error Conflict), cs, s') \<and> ?Q s'"
    if "?Q s" for server t s
    unfolding setLastFailedBackupTime_def
  proof (rule retry_conflict [where Q = ?Q, OF retry _ conflict that])
    fix i :: nat and s assume "?Q s"
    then show "\<exists>cs s'. io_bind (get_object_store ?e ?k) (\<lambda>os. update_object_store_status ?e (with_failure server t os)) s =
        (Inl (Api_Error Conflict), cs, s') \<and> ?Q s'"
      using stale_attempt [OF assms(2-5), of "snd s" "fst s" ec server t] by (cases s) (fastforce simp: assms(6))
  qed
  have "\<exists>cs s'. handleBackupError ?e c (w, cache) = (Inl (Api_Error Conflict), cs, s') \<and> ?Q s'"
    unfolding handleBackupError_def
  proof (rule retry_conflict [where Q = ?Q, OF retry _ conflict])
    fix i :: nat and s assume Q: "?Q s"
    then obtain t w1 where now: "base_Now b (fst s) = (t, w1)" "P w1" using assms(5) unfolding stale_while_def by blast
    with Q have "?Q (w1, snd s)" by simp
    from inner [OF this, of "cfg_ServerName c" t] now Q
    show "\<exists>cs s'. io_bind (time_now ?e) (\<lambda>now. setLastFailedBackupTime ?e ?k (cfg_ServerName c) now) s =
        (Inl (Api_Error Conflict), cs, s') \<and> ?Q s'"
      by (cases s) (auto simp: io_simps with_cache_def)
  qed (simp add: assms(7,8))
  then show ?thesis by auto
qed

text \<open>
  A sidecar whose maintenance has just moved the store on, with a store in the cache that was read five
  seconds ago. The failure reaches the cached object, and no other.
\<close>

definition old_store :: object_store where
  "old_store = put_window ''other'' zero_recovery_window (sample_store ''store'')"

definition moved_on :: status_world where
  "moved_on = io_world (updateRecoveryWindow sample_lib status_server [] old_store ''pg'') one_store"

definition status_client :: "status_world base_client" where
  "status_client = \<lparr>
     base_Get = (\<lambda>ty key w. (case stored_store w key of
       Some os \<Rightarrow> if ty = T_ObjectStore then Inr (Obj_ObjectStore os) else Inl (Api_Error NotFound)
     | None \<Rightarrow> Inl (Api_Error NotFound), w)),
     base_Update = (\<lambda>obj w. (Inl (Opaque ''unsupported''), w)), base_Delete = (\<lambda>obj w. (Inl (Opaque ''unsupported''), w)),
     base_Patch = (\<lambda>obj w. (Inl (Opaque ''unsupported''), w)), base_Now = (\<lambda>w. (at_second 105, w))\<rparr>"

lemma status_client_law: "base_get_law status_client"
  by (auto simp: base_get_law_def status_client_def obj_key_def stored_store_def split: option.splits if_splits prod.splits)

definition old_cache :: "cachedEntry list" where
  "old_cache = [new_entry (Obj_ObjectStore old_store) (at_second 100)]"

definition failed_in :: "object_store option \<Rightarrow> gtime option" where
  "failed_in os = Option.bind os (\<lambda>os. rw_LastFailedBackupTime (server_window os ''pg''))"

theorem stale_cache_blocks_failure_witness:
  "\<exists>cs cache'. handleBackupError (with_cache share_windows status_client status_server sample_ext)
       (NewFromCluster sample_lib metrics_cluster) (moved_on, old_cache) = (Inl (Api_Error Conflict), cs, (moved_on, cache')) \<and>
     failed_in (stored_store moved_on (NamespacedName ''ns'' ''store'')) = None \<and>
     map (\<lambda>ce. case ce_entry ce of Obj_ObjectStore os \<Rightarrow> failed_in (Some os) | _ \<Rightarrow> None) cache' = [Some (at_second 105)]"
proof -
  let ?h = "handleBackupError (with_cache share_windows status_client status_server sample_ext)
       (NewFromCluster sample_lib metrics_cluster) (moved_on, old_cache)" and ?m = "os_Meta old_store"
  have k: "object_key ?m = GetBarmanObjectKey (NewFromCluster sample_lib metrics_cluster)"
    "object_key ?m = NamespacedName ''ns'' ''store''" by code_simp+
  have "map_option (\<lambda>os. om_ResourceVersion (os_Meta os)) (stored_store moved_on (NamespacedName ''ns'' ''store'')) = Some 2"
    "om_ResourceVersion ?m = 1" by code_simp+
  then have stale: "stale_while (\<lambda>w. w = moved_on) status_client stored_store ?m 100"
    by (auto simp: stale_while_def k(2) status_client_def Unix_def at_second_def DefaultTTLSeconds_def)
  have cached: "cached_version old_cache ?m 100"
    by (auto simp: cached_version_def old_cache_def obj_key_def Unix_def at_second_def)
  obtain cs w' cache' where h: "?h = (Inl (Api_Error Conflict), cs, (w', cache'))" "w' = moved_on"
    using stale_cache_blocks_failure [where P = "\<lambda>w. w = moved_on" and stores = stored_store,
        OF sample_ext_retry share_windows_law status_client_law status_server_update stale k(1) cached refl] by blast
  have "failed_in (stored_store moved_on (NamespacedName ''ns'' ''store'')) = None"
    "map (\<lambda>ce. case ce_entry ce of Obj_ObjectStore os \<Rightarrow> failed_in (Some os) | _ \<Rightarrow> None) (snd (snd (snd ?h))) = [Some (at_second 105)]"
    by code_simp+
  with h show ?thesis by simp
qed

end
