(* ===== verification/Retention.thy ===== *)
theory Retention
  imports Backup
begin

text \<open>
  The maintenance of the backup catalog, \<open>internal/cnpgi/instance/retention.go\<close>: a loop that enforces the
  retention policy, deletes the Backup objects that are no longer in the catalog and refreshes the recovery
  window.
\<close>

section \<open>Backups that are not in the catalog\<close>

definition useSameBackupLocation :: "lib \<Rightarrow> backup_status \<Rightarrow> cluster \<Rightarrow> bool" where
  "useSameBackupLocation L b c =
     (if bs_Method b \<noteq> BackupMethodPlugin L then False
      else let meta = newBackupResultMetadataFromMap (bs_PluginMetadata b) in
        brm_clusterUID meta = cl_UID c \<and> brm_pluginName meta = PluginName)"

text \<open>The loop goes on after a deletion that fails and collects the errors.\<close>

fun delete_loop :: "lib \<Rightarrow> 'w ext \<Rightarrow> cluster \<Rightarrow> string list \<Rightarrow> backup list \<Rightarrow> ('w, go_error list) eff" where
  "delete_loop L e c backupIDs [] = io_return []"
| "delete_loop L e c backupIDs (b # bs) =
     (if bk_ClusterName b \<noteq> cl_Name c \<or> bs_Phase (bk_Status b) \<noteq> BackupPhaseCompleted L \<or>
         \<not> useSameBackupLocation L (bk_Status b) c
      then delete_loop L e c backupIDs bs
      else if bs_BackupID (bk_Status b) \<notin> set backupIDs
      then io_try (delete_backup e b) (\<lambda>res. io_bind (delete_loop L e c backupIDs bs) (\<lambda>errs. case res of
        Inl err \<Rightarrow> io_return (Errorf ''while deleting backup %s/%s: %w'' [bk_Namespace b, bk_Name b] (Some err) # errs)
      | Inr _ \<Rightarrow> io_return errs))
      else delete_loop L e c backupIDs bs)"

text \<open>The errors are printed into the message of the result, they are not wrapped.\<close>

definition deleteBackupsNotInCatalog :: "lib \<Rightarrow> 'w ext \<Rightarrow> cluster \<Rightarrow> string list \<Rightarrow> ('w, unit) eff" where
  "deleteBackupsNotInCatalog L e c backupIDs =
     io_bind (io_map_error (\<lambda>err. Errorf ''while getting backups: %w'' [] (Some err)) (list_backups e (cl_Namespace c)))
       (\<lambda>backups.
     io_bind (delete_loop L e c backupIDs backups) (\<lambda>errors.
       if length errors > 0 then io_fail (Errorf ''got errors while deleting Backups not in the cluster: %v'' [] None)
       else io_return ()))"

section \<open>One cycle\<close>

definition enforce_policy ::
  "'w ext \<Rightarrow> object_store \<Rightarrow> config \<Rightarrow> string list \<Rightarrow> ('w, unit) eff" where
  "enforce_policy e objectStore configuration env = (let retentionPolicy = oss_RetentionPolicy (os_Spec objectStore) in
     if length retentionPolicy = 0 then io_return ()
     else io_try (delete_by_policy e (os_Configuration objectStore) (cfg_ServerName configuration) env retentionPolicy)
       (\<lambda>res. case res of
         Inl err \<Rightarrow> io_try (record_event e ''RetentionPolicyFailed'' ''Retention policy failed'') (\<lambda>_. io_fail err)
       | Inr u \<Rightarrow> io_return u))"

definition maintenance ::
  "lib \<Rightarrow> 'w ext \<Rightarrow> string \<Rightarrow> cluster \<Rightarrow> object_store \<Rightarrow> ('w, unit) eff" where
  "maintenance L e currentPodName c objectStore =
     (let configuration = NewFromCluster L c in
      if cl_CurrentPrimary c \<noteq> currentPodName then io_return ()
      else io_bind (set_credentials e (os_Namespace objectStore) (os_Configuration objectStore) (environ e)
          (BuildCertificateFilePath (os_Name objectStore))) (\<lambda>env.
        io_seq (enforce_policy e objectStore configuration env)
        (io_bind (backup_list e (os_Configuration objectStore) (cfg_ServerName configuration) env) (\<lambda>backupList.
        io_seq (deleteBackupsNotInCatalog L e c (GetBackupIDs L backupList))
          (updateRecoveryWindow L e backupList objectStore (cfg_ServerName configuration))))))"

text \<open>Durations are 64-bit numbers of nanoseconds.\<close>

type_synonym duration = "64 word"

definition Second :: duration where
  "Second = 1000000000"

definition defaultRetentionPolicyInterval :: duration where
  "defaultRetentionPolicyInterval = 60 * Second * 5"

definition cycle :: "lib \<Rightarrow> 'w ext \<Rightarrow> namespaced_name \<Rightarrow> string \<Rightarrow> ('w, duration) eff" where
  "cycle L e clusterKey currentPodName =
     io_bind (get_cluster e clusterKey) (\<lambda>c.
     if PluginName \<notin> set (EnabledPluginNames L (cl_Plugins c)) then io_return 0
     else let configuration = NewFromCluster L c in
       if length (cfg_BarmanObjectName configuration) = 0
       then io_fail (Errorf ''invalid configuration, missing barman object store reference'' [] None)
       else io_bind (get_object_store e (GetBarmanObjectKey configuration)) (\<lambda>barmanObjectStore.
         io_seq (maintenance L e currentPodName c barmanObjectStore)
           (io_return (Second * sc_RetentionPolicyIntervalSeconds (os_Sidecar barmanObjectStore)))))"

section \<open>The loop\<close>

text \<open>
  What \<open>Start\<close> waits for after a cycle. \<open>wait period\<close> is the \<open>select\<close>: it answers true when the context is
  done, and false when the timer fires.
\<close>

definition wait_period :: "go_error + duration \<Rightarrow> duration" where
  "wait_period result = (let period = (case result of Inl err \<Rightarrow> 0 | Inr p \<Rightarrow> p) in
     if period = 0 then defaultRetentionPolicyInterval else period)"

definition one_turn ::
  "lib \<Rightarrow> 'w ext \<Rightarrow> namespaced_name \<Rightarrow> string \<Rightarrow> (duration \<Rightarrow> 'w \<Rightarrow> bool \<times> 'w) \<Rightarrow> 'w \<Rightarrow> bool \<times> call list \<times> 'w" where
  "one_turn L e clusterKey currentPodName wait w = (case cycle L e clusterKey currentPodName w of (result, cs, w1) \<Rightarrow>
     (case wait (wait_period result) w1 of (finished, w2) \<Rightarrow> (finished, cs, w2)))"

partial_function (option) Start_loop ::
  "lib \<Rightarrow> 'w ext \<Rightarrow> namespaced_name \<Rightarrow> string \<Rightarrow> (duration \<Rightarrow> 'w \<Rightarrow> bool \<times> 'w) \<Rightarrow> 'w \<Rightarrow> (call list \<times> 'w) option" where
  "Start_loop L e clusterKey currentPodName wait w =
     (case one_turn L e clusterKey currentPodName wait w of (finished, cs, w2) \<Rightarrow>
       if finished then Some (cs, w2)
       else Option.bind (Start_loop L e clusterKey currentPodName wait w2) (\<lambda>r. Some (cs @ fst r, snd r)))"

section \<open>What is deleted\<close>

text \<open>The Backups of this cluster, completed by this plugin, that are not in the catalog.\<close>

definition stale_backup :: "lib \<Rightarrow> cluster \<Rightarrow> string list \<Rightarrow> backup \<Rightarrow> bool" where
  "stale_backup L c ids b \<longleftrightarrow> bk_ClusterName b = cl_Name c \<and> bs_Phase (bk_Status b) = BackupPhaseCompleted L \<and>
     bs_Method (bk_Status b) = BackupMethodPlugin L \<and>
     gm_str (bs_PluginMetadata (bk_Status b)) ''clusterUID'' = cl_UID c \<and>
     gm_str (bs_PluginMetadata (bk_Status b)) ''pluginName'' = PluginName \<and>
     bs_BackupID (bk_Status b) \<notin> set ids"

lemma stale_backup_iff:
  "stale_backup L c ids b \<longleftrightarrow> \<not> (bk_ClusterName b \<noteq> cl_Name c \<or> bs_Phase (bk_Status b) \<noteq> BackupPhaseCompleted L \<or>
     \<not> useSameBackupLocation L (bk_Status b) c) \<and> bs_BackupID (bk_Status b) \<notin> set ids"
proof -
  have "PluginName \<noteq> ''''" by (simp add: PluginName_def)
  then show ?thesis
    by (auto simp: stale_backup_def useSameBackupLocation_def newBackupResultMetadataFromMap_def Let_def
        gm_str_def gm_lookup_def)
qed

lemma delete_loop_run:
  "\<exists>errs w'. delete_loop L e c ids bs w =
     (Inr errs, map (\<lambda>b. Kube (Delete_Backup b)) (filter (stale_backup L c ids) bs), w')"
proof (induction bs arbitrary: w)
  case (Cons b bs)
  show ?case
  proof (cases "stale_backup L c ids b")
    case True
    obtain r w1 where 1: "k_delete_backup e b w = (r, w1)" by fastforce
    obtain errs w' where "delete_loop L e c ids bs w1 =
        (Inr errs, map (\<lambda>b. Kube (Delete_Backup b)) (filter (stale_backup L c ids) bs), w')" using Cons.IH by blast
    then show ?thesis using True 1 by (auto simp: stale_backup_iff [of L c ids b] io_simps split: sum.split)
  next
    case False
    then have "delete_loop L e c ids (b # bs) = delete_loop L e c ids bs" by (auto simp: stale_backup_iff)
    then show ?thesis using Cons.IH [of w] False by simp
  qed
qed (simp add: io_simps)

lemma enforce_policy_run:
  "enforce_policy e os c env w = (Inr u, cs, w') \<Longrightarrow> cs = (if oss_RetentionPolicy (os_Spec os) = '''' then []
     else [Barman (Delete_By_Policy (cfg_ServerName c) (oss_RetentionPolicy (os_Spec os)))]) \<and>
   (oss_RetentionPolicy (os_Spec os) = '''' \<or>
     b_delete_by_policy e (os_Configuration os) (cfg_ServerName c) env (oss_RetentionPolicy (os_Spec os)) w = (Inr (), w'))"
  by (auto simp: enforce_policy_def Let_def io_simps split: if_splits sum.splits prod.splits)

lemma deleteBackups_run:
  "deleteBackupsNotInCatalog L e c ids w = (Inr u, cs, w') \<Longrightarrow>
   \<exists>bs. cs = Kube (List_Backups (cl_Namespace c)) # map (\<lambda>b. Kube (Delete_Backup b)) (filter (stale_backup L c ids) bs)"
proof -
  assume "deleteBackupsNotInCatalog L e c ids w = (Inr u, cs, w')"
  then obtain bs errs w1 cs1 w2 where "cs = Kube (List_Backups (cl_Namespace c)) # cs1"
    "delete_loop L e c ids bs w1 = (Inr errs, cs1, w2)"
    by (auto simp: deleteBackupsNotInCatalog_def run_iffs split: if_splits)
  with delete_loop_run [of L e c ids bs w1] show ?thesis by auto
qed

lemma maintenance_cases:
  "cl_CurrentPrimary c \<noteq> pod \<Longrightarrow> maintenance L e pod c os = io_return ()"
  "cl_CurrentPrimary c = pod \<Longrightarrow> maintenance L e pod c os =
     io_bind (set_credentials e (os_Namespace os) (os_Configuration os) (environ e)
          (BuildCertificateFilePath (os_Name os))) (\<lambda>env. io_seq (enforce_policy e os (NewFromCluster L c) env)
        (io_bind (backup_list e (os_Configuration os) (cfg_ServerName (NewFromCluster L c)) env) (\<lambda>backupList.
        io_seq (deleteBackupsNotInCatalog L e c (GetBackupIDs L backupList))
          (updateRecoveryWindow L e backupList os (cfg_ServerName (NewFromCluster L c))))))"
  by (simp_all add: maintenance_def Let_def)

text \<open>A cluster with one backup in the catalog and two Backup objects, one of them not in it.\<close>

definition sample_backup :: "string \<Rightarrow> backup" where
  "sample_backup bid = \<lparr>bk_Name = ''b-'' @ bid, bk_Namespace = ''ns'', bk_ClusterName = ''pg'',
     bk_Status = \<lparr>bs_Method = ''plugin'', bs_Phase = ''completed'', bs_BackupID = bid,
       bs_PluginMetadata = toMap (newBackupResultMetadata ''uid-1'' 1),
       bs_Credentials = \<lparr>cred_AWS = None, cred_Azure = None, cred_Google = None\<rparr>, bs_EndpointCA = None,
       bs_EndpointURL = '''', bs_DestinationPath = '''', bs_ServerName = '''', bs_StartedAt = None, bs_StoppedAt = None,
       bs_BeginWal = '''', bs_EndWal = '''', bs_BeginLSN = '''', bs_EndLSN = '''', bs_Error = ''''\<rparr>\<rparr>"

definition catalog_server :: "status_world ext" where
  "catalog_server = (backup_server (Inr ()))\<lparr>
     k_list_backups := (\<lambda>_ w. (Inr [sample_backup ''20240101T000000'', sample_backup ''20230101T000000''], w)),
     k_delete_backup := (\<lambda>_ w. (Inr (), w))\<rparr>"


definition deleted :: "call list \<Rightarrow> string list" where
  "deleted cs = List.map_filter (\<lambda>x. case x of Kube (Delete_Backup b) \<Rightarrow> Some (bk_Name b) | _ \<Rightarrow> None) cs"

lemma deleted_iff: "n \<in> set (deleted cs) \<longleftrightarrow> (\<exists>b. Kube (Delete_Backup b) \<in> set cs \<and> bk_Name b = n)"
  by (induction cs) (auto simp: deleted_def List.map_filter_def split: call.splits kube_call.splits)


text \<open>The calls of a sequence, with what is known of the result of its first part.\<close>

lemma only_calls_bind_run:
  assumes "only_calls P m" "\<And>w a cs w1. m w = (Inr a, cs, w1) \<Longrightarrow> only_calls P (f a)"
  shows "only_calls P (io_bind m f)"
  unfolding only_calls_def
proof (intro allI ballI)
  fix w x assume x: "x \<in> set (io_calls (io_bind m f) w)"
  obtain r cs w1 where m: "m w = (r, cs, w1)" by (metis surj_pair)
  have 1: "\<forall>c \<in> set cs. P c" by (rule only_calls_run [OF assms(1) m])
  show "P x"
  proof (cases r)
    case (Inl err)
    then show ?thesis using x 1 m by (simp add: io_calls_def io_bind_apply)
  next
    case (Inr a)
    then have "x \<in> set cs \<or> x \<in> set (io_calls (f a) w1)"
      using x m by (auto simp: io_calls_def io_bind_apply split: prod.splits)
    then show ?thesis using 1 assms(2) [of w a cs w1] m Inr by (auto simp: only_calls_def)
  qed
qed

lemma only_calls_seq_run:
  "only_calls P m \<Longrightarrow> (\<And>w a cs w1. m w = (Inr a, cs, w1) \<Longrightarrow> only_calls P n) \<Longrightarrow> only_calls P (io_seq m n)"
  unfolding io_seq_def by (rule only_calls_bind_run)

lemma only_calls_deleteBackups:
  "only_calls (\<lambda>x. \<forall>b. x = Kube (Delete_Backup b) \<longrightarrow> stale_backup L c ids b) (deleteBackupsNotInCatalog L e c ids)"
proof -
  have "only_calls (\<lambda>x. \<forall>b. x = Kube (Delete_Backup b) \<longrightarrow> stale_backup L c ids b) (delete_loop L e c ids bs)" for bs
    unfolding only_calls_def io_calls_def
  proof
    fix w
    obtain errs w' where "delete_loop L e c ids bs w =
        (Inr errs, map (\<lambda>b. Kube (Delete_Backup b)) (filter (stale_backup L c ids) bs), w')"
      using delete_loop_run [of L e c ids bs w] by blast
    then show "\<forall>x \<in> set (fst (snd (delete_loop L e c ids bs w))). \<forall>b. x = Kube (Delete_Backup b) \<longrightarrow> stale_backup L c ids b"
      by auto
  qed
  then show ?thesis unfolding deleteBackupsNotInCatalog_def by (intro calls_rules) auto
qed

text \<open>
  C5. When a Backup object is deleted. Whatever fails during the maintenance: when it deletes a Backup, the Pod
  is the current primary, the retention policy, if there is one, has been enforced without an error, and a
  catalog that was read for the server of the cluster does not have the backup, which this plugin had completed
  for this cluster.
\<close>

theorem maintenance_deletes:
  assumes "Kube (Delete_Backup b) \<in> set (io_calls (maintenance L e pod c os) w)"
  shows "cl_CurrentPrimary c = pod \<and> (\<exists>env. let server = cfg_ServerName (NewFromCluster L c) in
    (oss_RetentionPolicy (os_Spec os) = '''' \<or>
      (\<exists>w1 w2. b_delete_by_policy e (os_Configuration os) server env (oss_RetentionPolicy (os_Spec os)) w1 = (Inr (), w2))) \<and>
    (\<exists>w1 list w2. b_backup_list e (os_Configuration os) server env w1 = (Inr list, w2) \<and>
      stale_backup L c (GetBackupIDs L list) b))"
proof -
  let ?c = "NewFromCluster L c"
  let ?Q = "\<lambda>b. cl_CurrentPrimary c = pod \<and> (\<exists>env. let server = cfg_ServerName (NewFromCluster L c) in
    (oss_RetentionPolicy (os_Spec os) = '''' \<or>
      (\<exists>w1 w2. b_delete_by_policy e (os_Configuration os) server env (oss_RetentionPolicy (os_Spec os)) w1 = (Inr (), w2))) \<and>
    (\<exists>w1 list w2. b_backup_list e (os_Configuration os) server env w1 = (Inr list, w2) \<and>
      stale_backup L c (GetBackupIDs L list) b))"
  let ?P = "\<lambda>x. \<forall>b. x = Kube (Delete_Backup b) \<longrightarrow> ?Q b"
  have del: "only_calls ?P (deleteBackupsNotInCatalog L e c (GetBackupIDs L list))"
    if "cl_CurrentPrimary c = pod" "oss_RetentionPolicy (os_Spec os) = '''' \<or> (\<exists>w1 w2. b_delete_by_policy e
          (os_Configuration os) (cfg_ServerName ?c) env (oss_RetentionPolicy (os_Spec os)) w1 = (Inr (), w2))"
      "b_backup_list e (os_Configuration os) (cfg_ServerName ?c) env w1 = (Inr list, w2)" for env w1 list w2
    using that by (intro only_calls_mono [OF only_calls_deleteBackups]) (unfold Let_def, blast)
  have policy: "only_calls ?P (enforce_policy e os ?c env)" for env
    unfolding enforce_policy_def Let_def by (intro calls_rules) auto
  have "only_calls ?P (maintenance L e pod c os)"
  proof (cases "cl_CurrentPrimary c = pod")
    case True
    have rest: "only_calls ?P (io_seq (enforce_policy e os ?c env)
        (io_bind (backup_list e (os_Configuration os) (cfg_ServerName ?c) env) (\<lambda>backupList.
        io_seq (deleteBackupsNotInCatalog L e c (GetBackupIDs L backupList))
          (updateRecoveryWindow L e backupList os (cfg_ServerName ?c)))))" for env
    proof (rule only_calls_seq_run [OF policy], rule only_calls_bind_run)
      fix w a cs w1 w2 list cs2 w3
      assume 1: "enforce_policy e os ?c env w = (Inr a, cs, w1)"
        and 2: "backup_list e (os_Configuration os) (cfg_ServerName ?c) env w2 = (Inr list, cs2, w3)"
      have "b_backup_list e (os_Configuration os) (cfg_ServerName ?c) env w2 = (Inr list, w3)"
        using 2 by (simp add: io_call_iff)
      from del [OF True _ this] enforce_policy_run [OF 1]
      show "only_calls ?P (io_seq (deleteBackupsNotInCatalog L e c (GetBackupIDs L list))
          (updateRecoveryWindow L e list os (cfg_ServerName ?c)))"
        unfolding updateRecoveryWindow_def by (intro calls_rules) blast+
    qed (auto intro!: calls_rules)
    show ?thesis unfolding maintenance_cases(2) [OF True]
      by (rule only_calls_bind [OF only_calls_call]) (simp, rule rest)
  next
    case False
    show ?thesis unfolding maintenance_cases(1) [OF False] by (rule only_calls_return)
  qed
  with assms show ?thesis by (simp add: only_calls_def)
qed

theorem maintenance_deletes_witness:
  "\<exists>b. Kube (Delete_Backup b) \<in> set (io_calls (maintenance sample_lib catalog_server ''pg-1'' metrics_cluster
      (sample_store ''store'')) one_store) \<and> bk_Name b = ''b-20230101T000000'' \<and>
    (\<exists>list. stale_backup sample_lib metrics_cluster (GetBackupIDs sample_lib list) b)"
proof -
  have "''b-20230101T000000'' \<in> set (deleted (fst (snd (maintenance sample_lib catalog_server ''pg-1'' metrics_cluster
      (sample_store ''store'') one_store))))" by code_simp
  then obtain b where b: "Kube (Delete_Backup b) \<in> set (io_calls (maintenance sample_lib catalog_server ''pg-1''
      metrics_cluster (sample_store ''store'')) one_store)" "bk_Name b = ''b-20230101T000000''"
    by (auto simp: deleted_iff io_calls_def)
  show ?thesis using maintenance_deletes [OF b(1)] b by (auto simp: Let_def)
qed

text \<open>
  C22. A backup knows the cluster it is of. The metadata that the backup service attaches to its result
  comes back from the map it is stored as; so the status of a Backup that carries it is recognised as one of
  the given cluster exactly when the cluster it was taken of has the same UID, and such a Backup is stale for
  a cluster exactly when, in addition, it is a completed one of that name whose ID is not in the catalog.
\<close>

theorem backup_recognised:
  "let r = backup_result_of inst cfg info;
       s = st\<lparr>bs_Method := BackupMethodPlugin L, bs_BackupID := br_BackupId r, bs_PluginMetadata := br_Metadata r\<rparr> in
   newBackupResultMetadataFromMap (br_Metadata r) = newBackupResultMetadata (cl_UID (cfg_Cluster cfg)) (bb_TimeLine info) \<and>
   (useSameBackupLocation L s c \<longleftrightarrow> cl_UID (cfg_Cluster cfg) = cl_UID c) \<and>
   (stale_backup L c ids \<lparr>bk_Name = n, bk_Namespace = ns, bk_ClusterName = cn, bk_Status = s\<rparr> \<longleftrightarrow>
      cl_UID (cfg_Cluster cfg) = cl_UID c \<and> cn = cl_Name c \<and> bs_Phase st = BackupPhaseCompleted L \<and> bb_ID info \<notin> set ids)"
proof -
  have "newBackupResultMetadataFromMap (br_Metadata (backup_result_of inst cfg info)) =
      newBackupResultMetadata (cl_UID (cfg_Cluster cfg)) (bb_TimeLine info)"
    by (simp add: backup_result_of_def newBackupResultMetadataFromMap_toMap)
  then show ?thesis
    unfolding Let_def stale_backup_iff useSameBackupLocation_def
    by (auto simp: newBackupResultMetadata_def) (simp_all add: backup_result_of_def)
qed



section \<open>The loop ends with its context\<close>

text \<open>The world after a number of turns whose timers fired.\<close>

fun after_turns ::
  "lib \<Rightarrow> 'w ext \<Rightarrow> namespaced_name \<Rightarrow> string \<Rightarrow> (duration \<Rightarrow> 'w \<Rightarrow> bool \<times> 'w) \<Rightarrow> nat \<Rightarrow> 'w \<Rightarrow> 'w" where
  "after_turns L e k pod wait 0 w = w"
| "after_turns L e k pod wait (Suc n) w = after_turns L e k pod wait n (snd (snd (one_turn L e k pod wait w)))"

lemma Start_loop_ends:
  "Start_loop L e k pod wait w = Some r \<Longrightarrow> \<exists>n. fst (one_turn L e k pod wait (after_turns L e k pod wait n w))"
proof (induction rule: Start_loop.raw_induct [rotated 1, consumes 1, case_names turn,
      where P = "\<lambda>L e k pod wait w r. \<exists>n. fst (one_turn L e k pod wait (after_turns L e k pod wait n w))"])
  case (turn loop L e k pod wait w r)
  obtain finished cs w2 where t: "one_turn L e k pod wait w = (finished, cs, w2)" by (metis surj_pair)
  show ?case
  proof (cases finished)
    case True
    then show ?thesis using t by (intro exI [of _ 0]) simp
  next
    case False
    then obtain r2 where "loop L e k pod wait w2 = Some r2" using turn(2) t by (auto simp: bind_eq_Some_conv)
    then obtain n where "fst (one_turn L e k pod wait (after_turns L e k pod wait n w2))" using turn(1) by blast
    then show ?thesis using t by (intro exI [of _ "Suc n"]) simp
  qed
qed


end
