(* ===== verification/Restore_Job.thy ===== *)
theory Restore_Job
  imports Config Common_Env Wal_Service
begin

text \<open>
  The hook of the restore job, \<open>internal/cnpgi/restore/restore.go\<close>: it chooses a backup in the catalog of
  the recovery object store, checks that the destination of the new cluster's archive is usable and that the
  first WAL of the backup is there, and only then restores the data directory.
\<close>

section \<open>Configuration\<close>

definition RecoveryTemporaryDirectory :: string where
  "RecoveryTemporaryDirectory = ScratchDataDirectory @ ''/recovery''"

definition testWALPath :: string where
  "testWALPath = RecoveryTemporaryDirectory @ ''/test.wal''"

record job_hook =
  jh_SpoolDirectory :: string
  jh_PgDataPath :: string
  jh_PgWalFolderToSymlink :: string

datatype restore_job_capability = KIND_RESTORE

definition restore_GetCapabilities :: "restore_job_capability list" where
  "restore_GetCapabilities = [KIND_RESTORE]"

record restore_request =
  rjr_ClusterDefinition :: string
  rjr_CheckEmptyWalArchive :: "bool option"

record restore_response =
  rjs_RestoreConfig :: string
  rjs_Envs :: "string list"

definition newline :: string where
  "newline = [CHR 0x0A]"

definition quote :: string where
  "quote = [CHR 0x27]"

definition getRestoreWalConfig :: "lib \<Rightarrow> string" where
  "getRestoreWalConfig L =
     (let restoreCmd = ''/controller/manager wal-restore --log-destination '' @ LogPath L @ ''/'' @ LogFileName L @ ''.json %f %p''
      in ''recovery_target_action = promote'' @ newline @ ''restore_command = '' @ quote @ restoreCmd @ quote @ newline)"

section \<open>Checking the destination of the new cluster\<close>

definition resolveRestoreEmptyWalArchiveCheck :: "lib \<Rightarrow> bool option \<Rightarrow> cluster \<Rightarrow> bool" where
  "resolveRestoreEmptyWalArchiveCheck L operatorDecision c =
     (case operatorDecision of Some d \<Rightarrow> d | None \<Rightarrow> IsEmptyWalArchiveCheckEnabled L c)"

definition checkBackupDestination ::
  "lib \<Rightarrow> 'w ext \<Rightarrow> job_hook \<Rightarrow> cluster \<Rightarrow> barman_configuration \<Rightarrow> string \<Rightarrow> bool option \<Rightarrow> ('w, unit) eff" where
  "checkBackupDestination L e impl c barmanConfiguration objectStoreName operatorCheckEmptyWalArchive =
     io_bind (io_map_error (\<lambda>err. Errorf ''can't get credentials for cluster %v: %w'' [cl_Name c] (Some err))
       (set_credentials e (cl_Namespace c) barmanConfiguration (environ e) (BuildCertificateFilePath objectStoreName))) (\<lambda>env.
     if length env = 0 then io_return ()
     else io_bind (io_map_error (\<lambda>err. Errorf ''while creating the archiver: %w'' [] (Some err))
       (new_archiver e env (jh_SpoolDirectory impl) (jh_PgDataPath impl)
         (path_Join [jh_PgDataPath impl, CheckEmptyWalArchiveFile]))) (\<lambda>walArchiver.
     let serverName = server_name_loop L (cl_Plugins c) (cl_Name c) in
       if resolveRestoreEmptyWalArchiveCheck L operatorCheckEmptyWalArchive c
       then CheckBackupDestination e barmanConfiguration walArchiver serverName
       else io_return ()))"

section \<open>Choosing the backup\<close>

record short_catalog_entry =
  se_BackupID :: string
  se_StartTime :: gtime
  se_EndTime :: gtime

definition shortenedCatalog :: "catalog option \<Rightarrow> short_catalog_entry list" where
  "shortenedCatalog c = (case c of None \<Rightarrow> []
     | Some l \<Rightarrow> map (\<lambda>v. \<lparr>se_BackupID = bb_BackupName v, se_StartTime = bb_BeginTime v, se_EndTime = bb_EndTime v\<rparr>) l)"

text \<open>A Cluster without a bootstrap section makes the hook dereference a nil pointer.\<close>

definition target_backup :: "lib \<Rightarrow> cluster \<Rightarrow> catalog \<Rightarrow> go_error + barman_backup option" where
  "target_backup L c backupCatalog = (case cl_Bootstrap c of
     None \<Rightarrow> Inl (Panic ''nil pointer dereference'')
   | Some None \<Rightarrow> Inr (LatestBackupInfo L backupCatalog)
   | Some (Some recovery) \<Rightarrow> (case br_RecoveryTarget recovery of
       None \<Rightarrow> Inr (LatestBackupInfo L backupCatalog)
     | Some recoveryTarget \<Rightarrow> FindBackupInfo L backupCatalog recoveryTarget))"

definition backup_to_recover :: "lib \<Rightarrow> barman_configuration \<Rightarrow> string \<Rightarrow> barman_backup \<Rightarrow> backup" where
  "backup_to_recover L recoveryObjectStore serverName targetBackup =
     \<lparr>bk_Name = '''', bk_Namespace = '''', bk_ClusterName = serverName,
      bk_Status = \<lparr>bs_Method = '''', bs_Phase = BackupPhaseCompleted L, bs_BackupID = bb_ID targetBackup,
        bs_PluginMetadata = None, bs_Credentials = bc_Credentials recoveryObjectStore,
        bs_EndpointCA = bc_EndpointCA recoveryObjectStore, bs_EndpointURL = bc_EndpointURL recoveryObjectStore,
        bs_DestinationPath = bc_DestinationPath recoveryObjectStore, bs_ServerName = serverName,
        bs_StartedAt = Some (bb_BeginTime targetBackup), bs_StoppedAt = Some (bb_EndTime targetBackup),
        bs_BeginWal = bb_BeginWal targetBackup, bs_EndWal = bb_EndWal targetBackup,
        bs_BeginLSN = bb_BeginLSN targetBackup, bs_EndLSN = bb_EndLSN targetBackup, bs_Error = bb_Error targetBackup\<rparr>\<rparr>"

definition loadBackupObjectFromExternalCluster ::
  "lib \<Rightarrow> 'w ext \<Rightarrow> cluster \<Rightarrow> barman_configuration \<Rightarrow> string \<Rightarrow> string \<Rightarrow> ('w, backup \<times> string list) eff" where
  "loadBackupObjectFromExternalCluster L e c recoveryObjectStore recoveryObjectStoreName serverName =
     io_bind (set_credentials e (cl_Namespace c) recoveryObjectStore (environ e)
       (BuildCertificateFilePath recoveryObjectStoreName)) (\<lambda>env.
     io_bind (backup_list e recoveryObjectStore serverName env) (\<lambda>backupCatalog.
     io_bind (io_lift (target_backup L c backupCatalog)) (\<lambda>targetBackup.
       case targetBackup of None \<Rightarrow> io_fail (Errorf ''no target backup found'' [] None)
       | Some target \<Rightarrow> io_return (backup_to_recover L recoveryObjectStore serverName target, env))))"

section \<open>Restoring\<close>

text \<open>The temporary file is removed however the check ends; a failure to remove it is only logged.\<close>

definition ensureArchiveContainsLastCheckpointRedoWAL ::
  "'w ext \<Rightarrow> job_hook \<Rightarrow> string list \<Rightarrow> backup \<Rightarrow> barman_configuration \<Rightarrow> ('w, unit) eff" where
  "ensureArchiveContainsLastCheckpointRedoWAL e impl env b barmanConfiguration = io_try
     (io_seq (ensure_parent e testWALPath)
      (io_bind (new_restorer e env (jh_SpoolDirectory impl)) (\<lambda>rest.
       io_bind (restore_options e barmanConfiguration (bs_ServerName (bk_Status b))) (\<lambda>opts.
         io_map_error (\<lambda>err. Errorf ''encountered an error while checking the presence of first needed WAL in the archive: %w''
             [] (Some err))
           (restore_one e rest (bs_BeginWal (bk_Status b)) testWALPath opts)))))
     (\<lambda>result. io_try (remove_file e testWALPath) (\<lambda>_. io_lift result))"

definition restore_arguments ::
  "lib \<Rightarrow> job_hook \<Rightarrow> backup \<Rightarrow> barman_configuration \<Rightarrow> string list \<Rightarrow> string list" where
  "restore_arguments L impl b barmanConfiguration options =
     (let options = (if bs_EndpointURL (bk_Status b) \<noteq> ''''
            then options @ [''--endpoint-url'', bs_EndpointURL (bk_Status b)] else options);
          options = AppendRestoreAdditionalCommandArgs L barmanConfiguration options
      in options @ [bs_DestinationPath (bk_Status b)] @ [bs_ServerName (bk_Status b)] @ [bs_BackupID (bk_Status b)] @
         [jh_PgDataPath impl])"

definition restoreDataDir ::
  "lib \<Rightarrow> 'w ext \<Rightarrow> job_hook \<Rightarrow> backup \<Rightarrow> string list \<Rightarrow> barman_configuration \<Rightarrow> ('w, unit) eff" where
  "restoreDataDir L e impl b env barmanConfiguration =
     io_bind (provider_options e [] barmanConfiguration) (\<lambda>options.
     io_bind (run_restore e (restore_arguments L impl b barmanConfiguration options) env) (\<lambda>err.
       case err of
         Some (Exit_Error exitCode) \<Rightarrow> io_fail (UnmarshalBarmanCloudRestoreExitCode L exitCode)
       | Some (Exec_Error x) \<Rightarrow> io_fail x
       | None \<Rightarrow> io_return ()))"

definition pg_wal_of :: "job_hook \<Rightarrow> string" where
  "pg_wal_of impl = path_Join [jh_PgDataPath impl, ''pg_wal'']"

definition restoreCustomWalDir :: "'w ext \<Rightarrow> job_hook \<Rightarrow> ('w, bool) eff" where
  "restoreCustomWalDir e impl = (let pgDataWal = pg_wal_of impl in
     io_bind (read_link e pgDataWal) (\<lambda>linkInfo.
     if linkInfo = jh_PgWalFolderToSymlink impl then io_return False
     else io_seq (ensure_directory e (jh_PgWalFolderToSymlink impl))
       (io_seq (ensure_directory e pgDataWal)
       (io_seq (move_content e pgDataWal (jh_PgWalFolderToSymlink impl))
       (io_seq (remove_file e pgDataWal)
       (io_seq (make_symlink e (jh_PgWalFolderToSymlink impl) pgDataWal) (io_return True)))))))"

definition check_destination ::
  "lib \<Rightarrow> 'w ext \<Rightarrow> job_hook \<Rightarrow> restore_request \<Rightarrow> config \<Rightarrow> ('w, unit) eff" where
  "check_destination L e impl req configuration = (if cfg_BarmanObjectName configuration \<noteq> ''''
     then io_bind (get_object_store e (GetBarmanObjectKey configuration)) (\<lambda>targetObjectStore.
       checkBackupDestination L e impl (cfg_Cluster configuration) (os_Configuration targetObjectStore)
         (os_Name targetObjectStore) (rjr_CheckEmptyWalArchive req))
     else io_return ())"

definition Restore_Job_Restore ::
  "lib \<Rightarrow> 'w ext \<Rightarrow> job_hook \<Rightarrow> restore_request \<Rightarrow> ('w, restore_response) eff" where
  "Restore_Job_Restore L e impl req =
     io_bind (io_lift (NewFromClusterJSON L (rjr_ClusterDefinition req))) (\<lambda>configuration.
     io_bind (get_object_store e (GetRecoveryBarmanObjectKey configuration)) (\<lambda>recoveryObjectStore.
     io_seq (check_destination L e impl req configuration)
     (io_bind (loadBackupObjectFromExternalCluster L e (cfg_Cluster configuration) (os_Configuration recoveryObjectStore)
         (os_Name recoveryObjectStore) (cfg_RecoveryServerName configuration)) (\<lambda>(b, env).
     io_seq (ensureArchiveContainsLastCheckpointRedoWAL e impl env b (os_Configuration recoveryObjectStore))
     (io_seq (restoreDataDir L e impl b env (os_Configuration recoveryObjectStore))
     (io_seq (if cl_WalStorage (cfg_Cluster configuration) then io_bind (restoreCustomWalDir e impl) (\<lambda>_. io_return ())
        else io_return ())
     (io_return \<lparr>rjs_RestoreConfig = getRestoreWalConfig L, rjs_Envs = []\<rparr>)))))))"

section \<open>The calls of a restore\<close>

text \<open>What is known of a run that makes a call which its first part cannot make.\<close>

lemma call_after:
  assumes "only_calls (\<lambda>y. y \<noteq> x) m" "x \<in> set (io_calls (io_bind m f) w)"
  obtains a cs w1 where "m w = (Inr a, cs, w1)" "io_calls (io_bind m f) w = cs @ io_calls (f a) w1"
    "x \<in> set (io_calls (f a) w1)"
proof -
  obtain r cs w1 where m: "m w = (r, cs, w1)" by (metis surj_pair)
  then have "x \<notin> set cs" using only_calls_run [OF assms(1) m] by blast
  then show thesis using assms(2) m that
    by (cases r) (auto simp: io_calls_def io_bind_apply split: prod.splits)
qed

definition destination_calls :: "lib \<Rightarrow> restore_request \<Rightarrow> config \<Rightarrow> object_store \<Rightarrow> string list \<Rightarrow> call list" where
  "destination_calls L req c target env = (if cfg_BarmanObjectName c = '''' then []
     else [Kube (Get_ObjectStore (GetBarmanObjectKey c)),
         Barman (Set_Credentials (cl_Namespace (cfg_Cluster c)) (BuildCertificateFilePath (os_Name target)))] @
       (if env = [] then []
        else Barman New_Archiver # (if resolveRestoreEmptyWalArchiveCheck L (rjr_CheckEmptyWalArchive req) (cfg_Cluster c)
          then [Barman (Check_Wal_Options (server_name_loop L (cl_Plugins (cfg_Cluster c)) (cl_Name (cfg_Cluster c)))),
            Barman Check_Wal_Destination]
          else [])))"

lemma check_destination_run:
  "check_destination L e impl req c w = (Inr u, cs, w') \<Longrightarrow> (\<exists>target env. cs = destination_calls L req c target env) \<and>
     (Barman Check_Wal_Destination \<in> set cs \<longrightarrow> (\<exists>arch opts w1 w2. b_check_wal_destination e arch opts w1 = (Inr (), w2)))"
  by (auto simp: check_destination_def checkBackupDestination_def CheckBackupDestination_def destination_calls_def
      run_iffs Let_def split: if_splits)

lemma load_run:
  "loadBackupObjectFromExternalCluster L e c conf name server w = (Inr x, cs, w') \<Longrightarrow>
   \<exists>list target. target_backup L c list = Inr (Some target) \<and> fst x = backup_to_recover L conf server target \<and>
     cs = [Barman (Set_Credentials (cl_Namespace c) (BuildCertificateFilePath name)), Barman (Backup_List server)]"
  by (auto simp: loadBackupObjectFromExternalCluster_def run_iffs io_apply split: option.splits)
    (intro exI conjI, assumption, rule refl)

lemma ensure_run:
  assumes "ensureArchiveContainsLastCheckpointRedoWAL e impl env b conf w = (r, cs, w')"
  shows "\<exists>cs1. cs = cs1 @ [Os (Remove_File testWALPath)] \<and> (\<forall>x \<in> set cs1. x \<noteq> Os (Remove_File testWALPath)) \<and>
    (\<forall>u. r = Inr u \<longrightarrow> cs1 = [Os (Ensure_Parent testWALPath), Barman New_Restorer,
      Barman (Restore_Options (bs_ServerName (bk_Status b))), Barman (Restore_One (bs_BeginWal (bk_Status b)) testWALPath)] \<and>
      (\<exists>rest wopts w1 w2. b_restore_one e rest (bs_BeginWal (bk_Status b)) testWALPath wopts w1 = (Inr (), w2)))"
  using assms unfolding ensureArchiveContainsLastCheckpointRedoWAL_def
  by (auto simp: io_try_apply io_bind_apply io_seq_apply io_call_apply io_map_error_apply io_apply
      split: prod.splits sum.splits)

lemma restoreDataDir_run:
  "restoreDataDir L e impl b env conf w = (r, cs, w') \<Longrightarrow> x = Barman (Run_Restore opts) \<Longrightarrow> x \<in> set cs \<Longrightarrow>
   \<exists>options. opts = restore_arguments L impl b conf options \<and> cs = [Barman Provider_Options, x]"
  by (auto simp: restoreDataDir_def io_bind_apply io_call_apply io_apply split: prod.splits sum.splits option.splits exec_failure.splits)

lemma custom_wal_run:
  "only_calls (\<lambda>x. \<exists>y. x = Os y) (restoreCustomWalDir e impl)"
  unfolding restoreCustomWalDir_def Let_def by (intro calls_rules) auto

text \<open>The part of the hook before the data directory is restored, and the rest of it.\<close>

definition before_restore ::
  "lib \<Rightarrow> 'w ext \<Rightarrow> job_hook \<Rightarrow> restore_request \<Rightarrow> ('w, config \<times> object_store \<times> backup \<times> string list) eff" where
  "before_restore L e impl req =
     io_bind (io_lift (NewFromClusterJSON L (rjr_ClusterDefinition req))) (\<lambda>c.
     io_bind (get_object_store e (GetRecoveryBarmanObjectKey c)) (\<lambda>os.
     io_seq (check_destination L e impl req c)
     (io_bind (loadBackupObjectFromExternalCluster L e (cfg_Cluster c) (os_Configuration os) (os_Name os)
         (cfg_RecoveryServerName c)) (\<lambda>(b, env).
     io_seq (ensureArchiveContainsLastCheckpointRedoWAL e impl env b (os_Configuration os)) (io_return (c, os, b, env))))))"

definition after_restore :: "lib \<Rightarrow> 'w ext \<Rightarrow> job_hook \<Rightarrow> config \<Rightarrow> ('w, restore_response) eff" where
  "after_restore L e impl c =
     io_seq (if cl_WalStorage (cfg_Cluster c) then io_bind (restoreCustomWalDir e impl) (\<lambda>_. io_return ()) else io_return ())
     (io_return \<lparr>rjs_RestoreConfig = getRestoreWalConfig L, rjs_Envs = []\<rparr>)"

lemma restore_split:
  "Restore_Job_Restore L e impl req = io_bind (before_restore L e impl req) (\<lambda>(c, os, b, env).
     io_bind (restoreDataDir L e impl b env (os_Configuration os)) (\<lambda>_. after_restore L e impl c))"
  unfolding Restore_Job_Restore_def before_restore_def after_restore_def
  by (simp add: io_seq_def io_bind_assoc io_bind_return_left case_prod_unfold)

lemma only_calls_after: "only_calls (\<lambda>x. \<exists>y. x = Os y) (after_restore L e impl c)"
  unfolding after_restore_def by (intro calls_rules custom_wal_run)

lemma only_calls_before: "only_calls (\<lambda>y. y \<noteq> Barman (Run_Restore opts)) (before_restore L e impl req)"
  unfolding before_restore_def check_destination_def checkBackupDestination_def CheckBackupDestination_def Let_def
    loadBackupObjectFromExternalCluster_def ensureArchiveContainsLastCheckpointRedoWAL_def case_prod_unfold
  by (intro calls_rules) simp_all

lemma before_restore_run:
  assumes "before_restore L e impl req w = (Inr (c, os, b, env), cs, w')"
  shows "NewFromClusterJSON L (rjr_ClusterDefinition req) = Inr c \<and>
    (\<exists>list backup. target_backup L (cfg_Cluster c) list = Inr (Some backup) \<and>
      b = backup_to_recover L (os_Configuration os) (cfg_RecoveryServerName c) backup \<and>
      (\<exists>target env. cs = Kube (Get_ObjectStore (GetRecoveryBarmanObjectKey c)) # destination_calls L req c target env @
      [Barman (Set_Credentials (cl_Namespace (cfg_Cluster c)) (BuildCertificateFilePath (os_Name os))),
       Barman (Backup_List (cfg_RecoveryServerName c)), Os (Ensure_Parent testWALPath), Barman New_Restorer,
       Barman (Restore_Options (cfg_RecoveryServerName c)), Barman (Restore_One (bb_BeginWal backup) testWALPath),
       Os (Remove_File testWALPath)]) \<and>
      (\<exists>rest wopts w1 w2. b_restore_one e rest (bb_BeginWal backup) testWALPath wopts w1 = (Inr (), w2))) \<and>
    (Barman Check_Wal_Destination \<in> set cs \<longrightarrow> (\<exists>arch opts w1 w2. b_check_wal_destination e arch opts w1 = (Inr (), w2)))"
proof -
  obtain u cs1 w1 cs2 w2 x w3 cs3 v where c: "NewFromClusterJSON L (rjr_ClusterDefinition req) = Inr c"
    and 1: "check_destination L e impl req c w1 = (Inr u, cs1, w2)"
    and 2: "loadBackupObjectFromExternalCluster L e (cfg_Cluster c) (os_Configuration os) (os_Name os)
      (cfg_RecoveryServerName c) w2 = (Inr (b, env), cs2, w3)"
    and 3: "ensureArchiveContainsLastCheckpointRedoWAL e impl env b (os_Configuration os) w3 = (Inr v, cs3, w')"
    and cs: "cs = Kube (Get_ObjectStore (GetRecoveryBarmanObjectKey c)) # cs1 @ cs2 @ cs3"
    using assms unfolding before_restore_def by (auto simp: run_iffs io_apply split: prod.splits)
  obtain target env' where dest: "cs1 = destination_calls L req c target env'" using check_destination_run [OF 1] by blast
  have checked: "Barman Check_Wal_Destination \<in> set cs1 \<longrightarrow> (\<exists>arch opts w1 w2. b_check_wal_destination e arch opts w1 = (Inr (), w2))"
    using check_destination_run [OF 1] by blast
  obtain list backup where load: "target_backup L (cfg_Cluster c) list = Inr (Some backup)"
    "b = backup_to_recover L (os_Configuration os) (cfg_RecoveryServerName c) backup"
    "cs2 = [Barman (Set_Credentials (cl_Namespace (cfg_Cluster c)) (BuildCertificateFilePath (os_Name os))),
       Barman (Backup_List (cfg_RecoveryServerName c))]" using load_run [OF 2] by auto
  from ensure_run [OF 3] have ens: "cs3 = [Os (Ensure_Parent testWALPath), Barman New_Restorer,
       Barman (Restore_Options (cfg_RecoveryServerName c)), Barman (Restore_One (bb_BeginWal backup) testWALPath),
       Os (Remove_File testWALPath)]"
    "\<exists>rest wopts w1 w2. b_restore_one e rest (bb_BeginWal backup) testWALPath wopts w1 = (Inr (), w2)"
    by (auto simp: load(2) backup_to_recover_def)
  have cs': "cs = Kube (Get_ObjectStore (GetRecoveryBarmanObjectKey c)) # destination_calls L req c target env' @
      [Barman (Set_Credentials (cl_Namespace (cfg_Cluster c)) (BuildCertificateFilePath (os_Name os))),
       Barman (Backup_List (cfg_RecoveryServerName c)), Os (Ensure_Parent testWALPath), Barman New_Restorer,
       Barman (Restore_Options (cfg_RecoveryServerName c)), Barman (Restore_One (bb_BeginWal backup) testWALPath),
       Os (Remove_File testWALPath)]" by (simp add: cs dest load(3) ens(1))
  have "Barman Check_Wal_Destination \<in> set cs \<longleftrightarrow> Barman Check_Wal_Destination \<in> set cs1"
    by (simp add: cs load(3) ens(1))
  with checked c load(1,2) cs' ens(2) show ?thesis by blast
qed


text \<open>A new cluster that recovers from a store with one backup, on a machine whose only state is its links.\<close>

type_synonym link_world = "string \<Rightarrow> string"

definition restore_lib :: lib where
  "restore_lib = recovering_lib\<lparr>DecodeCluster := (\<lambda>j. Inr (recovering_cluster\<lparr>cl_WalStorage := True\<rparr>))\<rparr>"

definition restore_ext :: "link_world ext" where
  "restore_ext = sample_ext\<lparr>k_get_object_store := (\<lambda>k w. (Inr (sample_store (case k of NamespacedName ns n \<Rightarrow> n)), w)),
     b_set_credentials := (\<lambda>_ _ _ _ w. (Inr [''AWS_REGION=x''], w)), b_check_wal_options := (\<lambda>_ _ _ w. (Inr [], w)),
     b_check_wal_destination := (\<lambda>_ _ w. (Inr (), w)),
     b_backup_list := (\<lambda>_ _ _ w. (Inr [\<lparr>bb_ID = ''B1'', bb_BackupName = ''b'', bb_BeginTime = 1, bb_EndTime = 2,
       bb_BeginWal = ''000000010000000000000002'', bb_EndWal = '''', bb_BeginLSN = '''', bb_EndLSN = '''', bb_TimeLine = 1,
       bb_Error = ''''\<rparr>], w)),
     o_ensure_parent := (\<lambda>_ w. (Inr (), w)), o_ensure_directory := (\<lambda>_ w. (Inr (), w)),
     b_restore_options := (\<lambda>_ _ w. (Inr [], w)), b_restore_one := (\<lambda>_ _ _ _ w. (Inr (), w)),
     o_remove_file := (\<lambda>f w. (Inr (), w(f := ''''))), b_provider_options := (\<lambda>o1 _ w. (Inr o1, w)),
     b_run_restore := (\<lambda>_ _ w. (None, w)), o_read_link := (\<lambda>f w. (w f, w)), o_move_content := (\<lambda>_ _ w. (Inr (), w)),
     o_symlink := (\<lambda>t f w. (Inr (), w(f := t)))\<rparr>"

definition sample_hook :: job_hook where
  "sample_hook = \<lparr>jh_SpoolDirectory = ''/spool'', jh_PgDataPath = ''/data'', jh_PgWalFolderToSymlink = ''/wal/pg_wal''\<rparr>"

definition sample_restore :: "link_world \<Rightarrow> (go_error + restore_response) \<times> call list \<times> link_world" where
  "sample_restore = Restore_Job_Restore restore_lib restore_ext sample_hook
     \<lparr>rjr_ClusterDefinition = '''', rjr_CheckEmptyWalArchive = Some True\<rparr>"

definition restore_runs :: "call list \<Rightarrow> string list list" where
  "restore_runs cs = List.map_filter (\<lambda>x. case x of Barman (Run_Restore opts) \<Rightarrow> Some opts | _ \<Rightarrow> None) cs"

lemma restore_runs_iff: "opts \<in> set (restore_runs cs) \<longleftrightarrow> Barman (Run_Restore opts) \<in> set cs"
  by (induction cs) (auto simp: restore_runs_def List.map_filter_def split: call.splits barman_call.splits)


text \<open>The contract of symbolic links: a link that was made reads as its target, and reading changes nothing.\<close>

definition link_law :: "'w ext \<Rightarrow> bool" where
  "link_law e \<longleftrightarrow> (\<forall>f w. snd (o_read_link e f w) = w) \<and>
     (\<forall>target f w w'. o_symlink e target f w = (Inr (), w') \<longrightarrow> o_read_link e f w' = (target, w'))"

definition wal_move_calls :: "job_hook \<Rightarrow> call list" where
  "wal_move_calls impl = [Os (Ensure_Directory (jh_PgWalFolderToSymlink impl)), Os (Ensure_Directory (pg_wal_of impl)),
     Os (Move_Content (pg_wal_of impl) (jh_PgWalFolderToSymlink impl)), Os (Remove_File (pg_wal_of impl)),
     Os (Make_Symlink (jh_PgWalFolderToSymlink impl) (pg_wal_of impl))]"

lemma restoreCustomWalDir_run:
  assumes "link_law e" "restoreCustomWalDir e impl w = (Inr b, cs, w')"
  shows "o_read_link e (pg_wal_of impl) w' = (jh_PgWalFolderToSymlink impl, w') \<and>
    cs = Os (Read_Link (pg_wal_of impl)) # (if b then wal_move_calls impl else [])"
  using assms unfolding restoreCustomWalDir_def Let_def link_law_def wal_move_calls_def
  by (auto simp: run_iffs pure_op_apply split: if_splits prod.splits) (metis eq_snd_iff)+


lemma restore_ext_links: "link_law restore_ext"
  by (simp add: link_law_def restore_ext_def)


end
