(* ===== verification/Commands.thy ===== *)
theory Commands
  imports Lifecycle_Props Retention Restore_Job Operator_Hooks
begin

text \<open>
  The processes of the plugin: the commands \<open>internal/cmd/instance\<close>, \<open>internal/cmd/restore\<close>,
  \<open>internal/cmd/operator\<close> and \<open>internal/cmd/healthcheck\<close>, the managers they start
  (\<open>internal/cnpgi/*/manager.go\<close>), the services these offer (\<open>start.go\<close>, \<open>identity.go\<close>,
  \<open>internal/cnpgi/common/health.go\<close>) and the types they can read (\<open>internal/cnpgi/common/scheme.go\<close>).

  The settings are read with \<open>viper\<close>, which is a parameter: a function from the name of a setting to its
  value. The managers of controller-runtime are the parameter \<open>'w mgr\<close>.
\<close>

section \<open>Identity and health\<close>

datatype plugin_service = TYPE_WAL_SERVICE | TYPE_BACKUP_SERVICE | TYPE_METRICS | TYPE_RESTORE_JOB
  | TYPE_RECONCILER_HOOKS | TYPE_LIFECYCLE_SERVICE | TYPE_INSTANCE_SIDECAR_INJECTION

definition instance_GetPluginCapabilities :: "plugin_service list" where
  "instance_GetPluginCapabilities = [TYPE_WAL_SERVICE, TYPE_BACKUP_SERVICE, TYPE_METRICS]"

definition instance_Probe :: bool where
  "instance_Probe = True"

definition restore_GetPluginCapabilities :: "plugin_service list" where
  "restore_GetPluginCapabilities = [TYPE_RESTORE_JOB, TYPE_WAL_SERVICE]"

definition restore_Probe :: bool where
  "restore_Probe = True"

definition operator_GetPluginCapabilities :: "plugin_service list" where
  "operator_GetPluginCapabilities = [TYPE_RECONCILER_HOOKS, TYPE_LIFECYCLE_SERVICE, TYPE_INSTANCE_SIDECAR_INJECTION]"

definition operator_Probe :: bool where
  "operator_Probe = True"

datatype serving_status = UNKNOWN | SERVING | NOT_SERVING | SERVICE_UNKNOWN | Other_Status int

definition health_Check :: serving_status where
  "health_Check = SERVING"

text \<open>How \<open>healthcheck unix\<close> ends: an exit, or an error that cobra returns.\<close>

definition health_dial_path :: string where
  "health_dial_path = ''unix://'' @ path_Join [''/plugins'', PluginName]"

definition unixHealthCheck ::
  "(string \<Rightarrow> go_error + 'cli) \<Rightarrow> ('cli \<Rightarrow> go_error + serving_status) \<Rightarrow> go_error + nat" where
  "unixHealthCheck NewClient Check = (case NewClient health_dial_path of
     Inl cliErr \<Rightarrow> Inl cliErr
   | Inr cli \<Rightarrow> (case Check cli of
       Inl healthErr \<Rightarrow> Inl healthErr
     | Inr status \<Rightarrow> if status = SERVING then Inr 0
       else (case status of UNKNOWN \<Rightarrow> Inr 2 | NOT_SERVING \<Rightarrow> Inr 3 | _ \<Rightarrow> Inr 125)))"

section \<open>The types a process can read\<close>

type_synonym group_version = "string \<times> string"

definition cnpg_kinds :: "string list" where
  "cnpg_kinds = [''Cluster'', ''ClusterList'', ''Backup'', ''BackupList'', ''ScheduledBackup'', ''ScheduledBackupList'']"

definition barman_known_types :: "(group_version \<times> string) list" where
  "barman_known_types = map (Pair (GroupVersion_Group, GroupVersion_Version)) [''ObjectStore'', ''ObjectStoreList'']"

definition cnpg_group_version :: "group_version \<Rightarrow> (string \<Rightarrow> string) \<Rightarrow> group_version" where
  "cnpg_group_version SchemeGroupVersion GetString =
     (let cnpgGroup = GetString ''custom-cnpg-group''; cnpgVersion = GetString ''custom-cnpg-version'';
          cnpgGroup = (if length cnpgGroup = 0 then fst SchemeGroupVersion else cnpgGroup);
          cnpgVersion = (if length cnpgVersion = 0 then snd SchemeGroupVersion else cnpgVersion)
      in (cnpgGroup, cnpgVersion))"

text \<open>The scheme, as the list of the registrations this repository makes; the built-in types are left out.\<close>

definition GenerateScheme :: "group_version \<Rightarrow> (string \<Rightarrow> string) \<Rightarrow> (group_version \<times> string) list" where
  "GenerateScheme SchemeGroupVersion GetString =
     barman_known_types @ map (Pair (cnpg_group_version SchemeGroupVersion GetString)) cnpg_kinds"

definition AddCNPGToScheme ::
  "group_version \<Rightarrow> (string \<Rightarrow> string) \<Rightarrow> (group_version \<times> string) list \<Rightarrow> (group_version \<times> string) list" where
  "AddCNPGToScheme SchemeGroupVersion GetString s =
     s @ map (Pair (cnpg_group_version SchemeGroupVersion GetString)) cnpg_kinds"

section \<open>Services\<close>

record instance_plugin =
  ip_PGDataPath :: string
  ip_PGWALPath :: string
  ip_SpoolDirectory :: string
  ip_PluginPath :: string
  ip_InstanceName :: string

record restore_plugin =
  rp_PluginPath :: string
  rp_SpoolDirectory :: string
  rp_PGDataPath :: string
  rp_InstanceName :: string

record operator_plugin =
  op_PluginPath :: string
  op_ServerCertPath :: string
  op_ServerKeyPath :: string
  op_ClientCertPath :: string
  op_ServerAddress :: string

text \<open>What is registered with the gRPC server of a process, with the state of each implementation.\<close>

datatype registration = WALServer wal_service | BackupServer string | MetricsServer | HealthServer
  | RestoreJobHooksServer job_hook | ReconcilerHooksServer | OperatorLifecycleServer

definition instance_enrich :: "instance_plugin \<Rightarrow> registration list" where
  "instance_enrich c =
     [WALServer \<lparr>ws_InstanceName = ip_InstanceName c, ws_SpoolDirectory = ip_SpoolDirectory c,
        ws_PGDataPath = ip_PGDataPath c, ws_PGWALPath = ip_PGWALPath c\<rparr>,
      BackupServer (ip_InstanceName c), MetricsServer, HealthServer]"

definition PgWalVolumePgWalPath :: string where
  "PgWalVolumePgWalPath = ''/var/lib/postgresql/wal/pg_wal''"

definition restore_enrich :: "restore_plugin \<Rightarrow> registration list" where
  "restore_enrich c =
     [WALServer \<lparr>ws_InstanceName = rp_InstanceName c, ws_SpoolDirectory = rp_SpoolDirectory c,
        ws_PGDataPath = rp_PGDataPath c, ws_PGWALPath = path_Join [rp_PGDataPath c, ''pg_wal'']\<rparr>,
      RestoreJobHooksServer \<lparr>jh_SpoolDirectory = rp_SpoolDirectory c, jh_PgDataPath = rp_PGDataPath c,
        jh_PgWalFolderToSymlink = PgWalVolumePgWalPath\<rparr>, HealthServer]"

definition operator_enrich :: "operator_plugin \<Rightarrow> registration list" where
  "operator_enrich c = [ReconcilerHooksServer, OperatorLifecycleServer]"

section \<open>Managers\<close>

record catalog_maintenance =
  cm_ClusterKey :: namespaced_name
  cm_CurrentPodName :: string

datatype runnable = Instance_Plugin instance_plugin | Catalog_Maintenance catalog_maintenance
  | Restore_Plugin restore_plugin | Operator_Plugin operator_plugin

record manager_options =
  mo_Scheme :: "(group_version \<times> string) list"
  mo_DisableFor :: "string list"
  mo_PprofBindAddress :: string
  mo_MetricsBindAddress :: string
  mo_MetricsSecureServing :: bool
  mo_MetricsAuthentication :: bool
  mo_NextProtos :: "string list option"
  mo_HealthProbeBindAddress :: string
  mo_LeaderElection :: bool
  mo_LeaderElectionID :: string
  mo_LeaderElectionReleaseOnCancel :: bool

definition no_options :: "(group_version \<times> string) list \<Rightarrow> manager_options" where
  "no_options s = \<lparr>mo_Scheme = s, mo_DisableFor = [], mo_PprofBindAddress = '''', mo_MetricsBindAddress = '''',
     mo_MetricsSecureServing = False, mo_MetricsAuthentication = False, mo_NextProtos = None,
     mo_HealthProbeBindAddress = '''', mo_LeaderElection = False, mo_LeaderElectionID = '''',
     mo_LeaderElectionReleaseOnCancel = False\<rparr>"

datatype manager_call = NewManager manager_options | SetupWithManager | AddHealthzCheck string
  | AddReadyzCheck string | Add_Runnable runnable | Start_Manager

record 'w mgr =
  m_NewManager :: "manager_options \<Rightarrow> ('w, unit) op"
  m_Complete :: "('w, unit) op"
  m_AddHealthzCheck :: "string \<Rightarrow> ('w, unit) op"
  m_AddReadyzCheck :: "string \<Rightarrow> ('w, unit) op"
  m_Add :: "runnable \<Rightarrow> ('w, unit) op"
  m_Start :: "('w, unit) op"

type_synonym 'w process = "(manager_call, 'w, unit) io"

abbreviation new_manager :: "'w mgr \<Rightarrow> manager_options \<Rightarrow> 'w process" where
  "new_manager M opts \<equiv> io_call (NewManager opts) (m_NewManager M opts)"

abbreviation add_runnable :: "'w mgr \<Rightarrow> runnable \<Rightarrow> 'w process" where
  "add_runnable M r \<equiv> io_call (Add_Runnable r) (m_Add M r)"

abbreviation start_manager :: "'w mgr \<Rightarrow> 'w process" where
  "start_manager M \<equiv> io_call Start_Manager (m_Start M)"

definition instance_plugin_of :: "(string \<Rightarrow> string) \<Rightarrow> instance_plugin" where
  "instance_plugin_of GetString = \<lparr>ip_PGDataPath = GetString ''pgdata'',
     ip_PGWALPath = path_Join [GetString ''pgdata'', ''pg_wal''], ip_SpoolDirectory = GetString ''spool-directory'',
     ip_PluginPath = GetString ''plugin-path'', ip_InstanceName = GetString ''pod-name''\<rparr>"

definition catalog_maintenance_of :: "(string \<Rightarrow> string) \<Rightarrow> catalog_maintenance" where
  "catalog_maintenance_of GetString = \<lparr>cm_ClusterKey = NamespacedName (GetString ''namespace'') (GetString ''cluster-name''),
     cm_CurrentPodName = GetString ''pod-name''\<rparr>"

definition instance_Start :: "group_version \<Rightarrow> 'w mgr \<Rightarrow> (string \<Rightarrow> string) \<Rightarrow> 'w process" where
  "instance_Start SchemeGroupVersion M GetString =
     io_seq (new_manager M ((no_options (GenerateScheme SchemeGroupVersion GetString))\<lparr>
       mo_PprofBindAddress := GetString ''pprof-server'',
       mo_DisableFor := [''Secret'', ''ObjectStore'', ''Cluster'', ''Backup'']\<rparr>))
     (io_seq (add_runnable M (Instance_Plugin (instance_plugin_of GetString)))
     (io_seq (add_runnable M (Catalog_Maintenance (catalog_maintenance_of GetString)))
     (start_manager M)))"

definition restore_plugin_of :: "(string \<Rightarrow> string) \<Rightarrow> restore_plugin" where
  "restore_plugin_of GetString = \<lparr>rp_PluginPath = GetString ''plugin-path'',
     rp_SpoolDirectory = GetString ''spool-directory'', rp_PGDataPath = GetString ''pgdata'',
     rp_InstanceName = GetString ''pod-name''\<rparr>"

definition restore_Start :: "group_version \<Rightarrow> 'w mgr \<Rightarrow> (string \<Rightarrow> string) \<Rightarrow> 'w process" where
  "restore_Start SchemeGroupVersion M GetString =
     io_seq (new_manager M ((no_options (GenerateScheme SchemeGroupVersion GetString))\<lparr>
       mo_DisableFor := [''Secret'', ''ObjectStore'']\<rparr>))
     (io_seq (add_runnable M (Restore_Plugin (restore_plugin_of GetString)))
     (start_manager M))"

definition operator_plugin_of :: "(string \<Rightarrow> string) \<Rightarrow> operator_plugin" where
  "operator_plugin_of GetString = \<lparr>op_PluginPath = GetString ''plugin-path'',
     op_ServerCertPath = GetString ''server-cert'', op_ServerKeyPath = GetString ''server-key'',
     op_ClientCertPath = GetString ''client-cert'', op_ServerAddress = GetString ''server-address''\<rparr>"

definition operator_options :: "(string \<Rightarrow> string) \<Rightarrow> (string \<Rightarrow> bool) \<Rightarrow> manager_options" where
  "operator_options GetString GetBool = (no_options barman_known_types)\<lparr>
     mo_NextProtos := (if \<not> GetBool ''enable-http2'' then Some [''http/1.1''] else None),
     mo_MetricsBindAddress := GetString ''metrics-bind-address'', mo_MetricsSecureServing := GetBool ''metrics-secure'',
     mo_MetricsAuthentication := GetBool ''metrics-secure'',
     mo_HealthProbeBindAddress := GetString ''health-probe-bind-address'', mo_LeaderElection := GetBool ''leader-elect'',
     mo_LeaderElectionID := ''822e3f5c.cnpg.io'', mo_LeaderElectionReleaseOnCancel := True\<rparr>"

definition setup_with_manager :: "'w mgr \<Rightarrow> 'w process" where
  "setup_with_manager M = io_map_error (\<lambda>err. Errorf ''unable to create controller: %w'' [] (Some err))
     (io_call SetupWithManager (m_Complete M))"

definition operator_Start :: "'w mgr \<Rightarrow> (string \<Rightarrow> string) \<Rightarrow> (string \<Rightarrow> bool) \<Rightarrow> 'w process" where
  "operator_Start M GetString GetBool =
     io_seq (new_manager M (operator_options GetString GetBool))
     (io_seq (setup_with_manager M)
     (io_seq (io_call (AddHealthzCheck ''healthz'') (m_AddHealthzCheck M ''healthz''))
     (io_seq (io_call (AddReadyzCheck ''readyz'') (m_AddReadyzCheck M ''readyz''))
     (io_seq (add_runnable M (Operator_Plugin (operator_plugin_of GetString)))
     (start_manager M)))))"

section \<open>Commands\<close>

text \<open>The settings bound to environment variables, and those a command insists on.\<close>

definition instance_bindings :: "(string \<times> string) list" where
  "instance_bindings = [(''namespace'', ''NAMESPACE''), (''cluster-name'', ''CLUSTER_NAME''), (''pod-name'', ''POD_NAME''),
     (''pgdata'', ''PGDATA''), (''spool-directory'', ''SPOOL_DIRECTORY''), (''custom-cnpg-group'', ''CUSTOM_CNPG_GROUP''),
     (''custom-cnpg-version'', ''CUSTOM_CNPG_VERSION'')]"

definition restore_bindings :: "(string \<times> string) list" where
  "restore_bindings = [(''namespace'', ''NAMESPACE''), (''pod-name'', ''POD_NAME''), (''pgdata'', ''PGDATA''),
     (''spool-directory'', ''SPOOL_DIRECTORY''), (''custom-cnpg-group'', ''CUSTOM_CNPG_GROUP''),
     (''custom-cnpg-version'', ''CUSTOM_CNPG_VERSION'')]"

definition operator_bindings :: "(string \<times> string) list" where
  "operator_bindings = [(''sidecar-image'', ''SIDECAR_IMAGE'')]"

fun required_loop :: "(string \<Rightarrow> string) \<Rightarrow> string list \<Rightarrow> go_error option" where
  "required_loop GetString [] = None"
| "required_loop GetString (k # ks) = (if length (GetString k) = 0
     then Some (Errorf ''missing required %s setting'' [k] None) else required_loop GetString ks)"

definition instance_RunE :: "group_version \<Rightarrow> 'w mgr \<Rightarrow> (string \<Rightarrow> string) \<Rightarrow> 'w process" where
  "instance_RunE SchemeGroupVersion M GetString =
     (case required_loop GetString [''namespace'', ''cluster-name'', ''pod-name'', ''spool-directory''] of
        Some err \<Rightarrow> io_fail err | None \<Rightarrow> instance_Start SchemeGroupVersion M GetString)"

definition restore_RunE :: "group_version \<Rightarrow> 'w mgr \<Rightarrow> (string \<Rightarrow> string) \<Rightarrow> 'w process" where
  "restore_RunE SchemeGroupVersion M GetString =
     (case required_loop GetString [''namespace'', ''pod-name'', ''spool-directory''] of
        Some err \<Rightarrow> io_fail err | None \<Rightarrow> restore_Start SchemeGroupVersion M GetString)"

definition operator_RunE :: "'w mgr \<Rightarrow> (string \<Rightarrow> string) \<Rightarrow> (string \<Rightarrow> bool) \<Rightarrow> 'w process" where
  "operator_RunE M GetString GetBool = (if length (GetString ''sidecar-image'') = 0
     then io_fail (Errorf ''missing required SIDECAR_IMAGE environment variable'' [] None)
     else operator_Start M GetString GetBool)"

end
