(* ===== verification/Permissions.thy ===== *)
theory Permissions
  imports Commands
begin

text \<open>
  The sidecar and its Role. The operator gives the service account of a cluster the rules of \<open>BuildRoleRules\<close> for the
  ObjectStores the cluster refers to (\<open>Pre_outcome\<close>); here every service of the sidecar and the restore job is
  shown to stay within them.
\<close>

section \<open>Accesses to ObjectStores\<close>

text \<open>
  Whether a call is one the rules allow, if it concerns an ObjectStore. Roles are namespaced. A request without
  a name never reaches the API server.
\<close>

definition access :: "policy_rule list \<Rightarrow> string \<Rightarrow> string \<Rightarrow> string \<Rightarrow> namespaced_name \<Rightarrow> bool" where
  "access rules ns verb resource key \<longleftrightarrow> nn_Name key = '''' \<or>
     nn_Namespace key = ns \<and> rules_allow rules verb GroupVersion_Group resource (nn_Name key)"

definition permitted :: "policy_rule list \<Rightarrow> string \<Rightarrow> call \<Rightarrow> bool" where
  "permitted rules ns x = (case x of
     Kube (Get_ObjectStore key) \<Rightarrow> access rules ns ''get'' ''objectstores'' key
   | Kube (Update_ObjectStore_Status os) \<Rightarrow> access rules ns ''update'' ''objectstores/status'' (object_key (os_Meta os))
   | _ \<Rightarrow> True)"

lemma permitted_simps [simp]:
  "permitted rules ns (Barman b)" "permitted rules ns (Os o1)"
  "permitted rules ns (Kube (Get_Cluster k))" "permitted rules ns (Kube (List_Backups n))"
  "permitted rules ns (Kube (Delete_Backup bk))" "permitted rules ns (Kube (Record_Event r1 r2))"
  by (simp_all add: permitted_def)

text \<open>A get that succeeds answers with the object that was asked for.\<close>

definition get_store_law :: "'w ext \<Rightarrow> bool" where
  "get_store_law e \<longleftrightarrow> (\<forall>k w os w'. k_get_object_store e k w = (Inr os, w') \<longrightarrow> object_key (os_Meta os) = k)"

lemma BuildRoleRules_store:
  assumes "sorted_list_law L" "os \<in> set stores"
  shows "rules_allow (BuildRoleRules L stores) ''get'' GroupVersion_Group ''objectstores'' (os_Name os)"
    "rules_allow (BuildRoleRules L stores) ''update'' GroupVersion_Group ''objectstores/status'' (os_Name os)"
  using assms(2) BuildRoleRules_names(1,2) [OF assms(1), of stores]
  unfolding rules_allow_def rule_allows_def by (auto simp: BuildRoleRules_def Let_def)

text \<open>The stores of the Role are those the cluster refers to.\<close>

definition role_stores :: "lib \<Rightarrow> cluster \<Rightarrow> object_store list \<Rightarrow> bool" where
  "role_stores L c stores \<longleftrightarrow> (\<lambda>os. object_key (os_Meta os)) ` set stores =
     set (GetReferredBarmanObjectsKey L (NewFromCluster L c))"

definition config_keys :: "config \<Rightarrow> namespaced_name set" where
  "config_keys c = {GetBarmanObjectKey c, GetRecoveryBarmanObjectKey c, GetReplicaSourceBarmanObjectKey c}"

lemma config_keys_access:
  assumes "sorted_list_law L" "role_stores L c stores" "key \<in> config_keys (NewFromCluster L c)"
  shows "access (BuildRoleRules L stores) (cl_Namespace c) ''get'' ''objectstores'' key"
    "access (BuildRoleRules L stores) (cl_Namespace c) ''update'' ''objectstores/status'' key"
proof -
  have "nn_Name key = '''' \<or> (\<exists>os \<in> set stores. object_key (os_Meta os) = key) \<and> nn_Namespace key = cl_Namespace c"
  proof (cases "nn_Name key = ''''")
    case False
    let ?names = "{cfg_BarmanObjectName (NewFromCluster L c), cfg_RecoveryBarmanObjectName (NewFromCluster L c),
      cfg_ReplicaSourceBarmanObjectName (NewFromCluster L c)}"
    obtain n where "key = NamespacedName (cl_Namespace c) n" "n \<in> ?names"
      using assms(3) unfolding config_keys_def GetBarmanObjectKey_def GetRecoveryBarmanObjectKey_def
        GetReplicaSourceBarmanObjectKey_def NewFromCluster_Cluster by (elim insertE emptyE) blast+
    with False have "key \<in> NamespacedName (cl_Namespace c) ` referred_names (NewFromCluster L c)"
      unfolding referred_names_def by simp
    then have "key \<in> (\<lambda>os. object_key (os_Meta os)) ` set stores" "nn_Namespace key = cl_Namespace c"
      using referred_keys_set(1) [OF assms(1), of "NewFromCluster L c"] assms(2) by (auto simp: role_stores_def)
    then show ?thesis by auto
  qed simp
  with BuildRoleRules_store [OF assms(1)] show
    "access (BuildRoleRules L stores) (cl_Namespace c) ''get'' ''objectstores'' key"
    "access (BuildRoleRules L stores) (cl_Namespace c) ''update'' ''objectstores/status'' key"
    by (auto simp: access_def object_key_def os_Name_def)
qed

section \<open>The services\<close>

text \<open>Every cluster definition the processes are handed, by CloudNativePG or the API server, is the cluster's.\<close>

definition one_cluster :: "lib \<Rightarrow> 'w ext \<Rightarrow> cluster \<Rightarrow> bool" where
  "one_cluster L e c \<longleftrightarrow> (\<forall>j c'. DecodeCluster L j = Inr c' \<longrightarrow> c' = c) \<and>
     (\<forall>k w c' w'. k_get_cluster e k w = (Inr c', w') \<longrightarrow> c' = c)"

lemma one_cluster_config: "one_cluster L e c \<Longrightarrow> NewFromClusterJSON L j = Inr cfg \<Longrightarrow> cfg = NewFromCluster L c"
  by (auto simp: NewFromClusterJSON_def one_cluster_def split: sum.splits)

lemma permitted_store [simp]:
  "permitted rules ns (Kube (Get_ObjectStore key)) \<longleftrightarrow> access rules ns ''get'' ''objectstores'' key"
  "permitted rules ns (Kube (Update_ObjectStore_Status os)) \<longleftrightarrow>
     access rules ns ''update'' ''objectstores/status'' (object_key (os_Meta os))"
  by (simp_all add: permitted_def)

lemma only_calls_get_store:
  assumes "get_store_law e" "permitted rules ns (Kube (Get_ObjectStore key))"
    and "\<And>os. object_key (os_Meta os) = key \<Longrightarrow> only_calls (permitted rules ns) (f os)"
  shows "only_calls (permitted rules ns) (io_bind (get_object_store e key) f)"
  using assms(1) unfolding get_store_law_def
  by (intro only_calls_bind_run only_calls_call assms(2,3)) (auto simp: io_call_iff)

lemma only_calls_updates:
  assumes "access rules ns ''update'' ''objectstores/status'' (object_key (os_Meta os))"
  shows "only_calls (permitted rules ns) (updateRecoveryWindow L e list os server)"
  unfolding updateRecoveryWindow_def by (rule only_calls_call) (simp add: with_catalog_def assms)

lemma only_calls_setLastFailed:
  assumes "retry_law e" "get_store_law e" "access rules ns ''get'' ''objectstores'' key"
    "access rules ns ''update'' ''objectstores/status'' key"
  shows "only_calls (permitted rules ns) (setLastFailedBackupTime e key server t)"
  unfolding setLastFailedBackupTime_def
  by (intro only_calls_retry only_calls_get_store only_calls_call assms) (simp_all add: assms)

text \<open>What the services need of the world and of the Role.\<close>

definition role_fits :: "lib \<Rightarrow> 'w ext \<Rightarrow> cluster \<Rightarrow> object_store list \<Rightarrow> bool" where
  "role_fits L e c stores \<longleftrightarrow> sorted_list_law L \<and> retry_law e \<and> get_store_law e \<and> one_cluster L e c \<and> role_stores L c stores"

lemma role_fits_laws: "role_fits L e c stores \<Longrightarrow> get_store_law e" "role_fits L e c stores \<Longrightarrow> retry_law e"
  unfolding role_fits_def by blast+

lemma role_fits_access:
  assumes "role_fits L e c stores" "key \<in> config_keys (NewFromCluster L c)"
  shows "access (BuildRoleRules L stores) (cl_Namespace c) ''get'' ''objectstores'' key"
    "access (BuildRoleRules L stores) (cl_Namespace c) ''update'' ''objectstores/status'' key"
    "permitted (BuildRoleRules L stores) (cl_Namespace c) (Kube (Get_ObjectStore key))"
proof -
  have "sorted_list_law L" "role_stores L c stores" using assms(1) unfolding role_fits_def by blast+
  note keys = config_keys_access [OF this assms(2)]
  show "access (BuildRoleRules L stores) (cl_Namespace c) ''get'' ''objectstores'' key"
    "access (BuildRoleRules L stores) (cl_Namespace c) ''update'' ''objectstores/status'' key"
    "permitted (BuildRoleRules L stores) (cl_Namespace c) (Kube (Get_ObjectStore key))"
    using keys by (simp_all only: permitted_store)
qed

lemma config_keys [simp]:
  "GetBarmanObjectKey cfg \<in> config_keys cfg" "GetRecoveryBarmanObjectKey cfg \<in> config_keys cfg"
  "snd (resolveRestoreObjectStore cfg inst) \<in> config_keys cfg"
  by (simp_all add: config_keys_def resolveRestoreObjectStore_def Let_def)

lemma role_fits_config:
  "role_fits L e c stores \<Longrightarrow> NewFromClusterJSON L j = Inr cfg \<Longrightarrow> cfg = NewFromCluster L c"
  unfolding role_fits_def using one_cluster_config by blast

lemma only_calls_config:
  assumes "role_fits L e c stores" "only_calls P (f (NewFromCluster L c))"
  shows "only_calls P (io_bind (io_lift (NewFromClusterJSON L j)) f)"
  by (rule only_calls_lift_bind) (use role_fits_config [OF assms(1)] assms(2) in blast)

lemma Archive_permitted:
  assumes "role_fits L e c stores"
  shows "only_calls (permitted (BuildRoleRules L stores) (cl_Namespace c)) (Archive L e s request)"
  unfolding Archive_def Let_def archive_wals_def CheckBackupDestination_def resolveArchiveEmptyWalArchiveCheck_def
  by (intro only_calls_config [OF assms] only_calls_get_store role_fits_laws [OF assms] role_fits_access [OF assms] config_keys calls_rules) simp_all

lemma Restore_permitted:
  assumes "role_fits L e c stores"
  shows "only_calls (permitted (BuildRoleRules L stores) (cl_Namespace c)) (Restore L e s request)"
proof -
  have wal: "only_calls (permitted (BuildRoleRules L stores) (cl_Namespace c))
      (restoreFromBarmanObjectStore L e s c' os server wal dest rewind)" for c' os server wal dest rewind
    unfolding restoreFromBarmanObjectStore_def restore_wal_def restore_steps_def download_wals_def
      clearEndOfWALStreamFlag_def checkEndOfWALStreamFlag_def Let_def
    by (intro calls_rules) (auto intro!: calls_rules split: list.split)
  show ?thesis
    unfolding Restore_def Let_def case_prod_unfold
    by (intro only_calls_config [OF assms] only_calls_get_store role_fits_laws [OF assms] role_fits_access [OF assms] config_keys wal)
qed

lemma Backup_permitted:
  assumes "role_fits L e c stores"
  shows "only_calls (permitted (BuildRoleRules L stores) (cl_Namespace c)) (Backup L e inst j)"
proof -
  let ?P = "permitted (BuildRoleRules L stores) (cl_Namespace c)" and ?cfg = "NewFromCluster L c"
  have failure: "only_calls ?P (handleBackupError e ?cfg)"
    unfolding handleBackupError_def
    by (intro calls_rules only_calls_setLastFailed role_fits_laws [OF assms] role_fits_access [OF assms] config_keys) simp
  have taken: "only_calls ?P (backup_taken L e inst ?cfg os env name)" if "object_key (os_Meta os) = GetBarmanObjectKey ?cfg" for os env name
    unfolding backup_taken_def
    by (intro calls_rules only_calls_updates) (simp_all add: that role_fits_access [OF assms])
  show ?thesis unfolding Backup_def Let_def
    by (intro only_calls_config [OF assms] only_calls_get_store role_fits_laws [OF assms] role_fits_access [OF assms] config_keys calls_rules failure taken) simp_all
qed

lemma Collect_permitted:
  assumes "role_fits L e c stores"
  shows "only_calls (permitted (BuildRoleRules L stores) (cl_Namespace c)) (Collect_metrics L e j)"
proof -
  have conf: "only_calls P (io_bind (io_map_error g (io_lift (NewFromClusterJSON L j))) f)"
    if "only_calls P (f (NewFromCluster L c))" for P g and f :: "config \<Rightarrow> ('a, 'b) eff"
    using that role_fits_config [OF assms, of j]
    by (cases "NewFromClusterJSON L j") (auto simp: only_calls_def io_calls_def io_simps split: prod.splits)
  show ?thesis unfolding Collect_metrics_def
    by (intro conf only_calls_get_store role_fits_laws [OF assms] role_fits_access [OF assms] config_keys) (auto intro!: calls_rules simp: Let_def split: option.split)
qed

lemma cycle_permitted:
  assumes "role_fits L e c stores"
  shows "only_calls (permitted (BuildRoleRules L stores) (cl_Namespace c)) (cycle L e key pod)"
proof -
  let ?P = "permitted (BuildRoleRules L stores) (cl_Namespace c)" and ?cfg = "NewFromCluster L c"
  have loop: "only_calls ?P (delete_loop L e c ids bs)" for ids bs
    by (induction bs) (auto intro!: calls_rules)
  have main: "only_calls ?P (maintenance L e pod c os)" if "object_key (os_Meta os) = GetBarmanObjectKey ?cfg" for os
    unfolding maintenance_def Let_def enforce_policy_def deleteBackupsNotInCatalog_def
    by (intro calls_rules loop only_calls_updates) (simp_all add: that role_fits_access [OF assms])
  have rest: "only_calls ?P (if PluginName \<notin> set (EnabledPluginNames L (cl_Plugins c)) then io_return 0
     else let configuration = ?cfg in
       if length (cfg_BarmanObjectName configuration) = 0
       then io_fail (Errorf ''invalid configuration, missing barman object store reference'' [] None)
       else io_bind (get_object_store e (GetBarmanObjectKey configuration)) (\<lambda>barmanObjectStore.
         io_seq (maintenance L e pod c barmanObjectStore)
           (io_return (Second * sc_RetentionPolicyIntervalSeconds (os_Sidecar barmanObjectStore)))))"
    unfolding Let_def
    by (intro only_calls_if only_calls_get_store role_fits_laws [OF assms] role_fits_access [OF assms] config_keys calls_rules main)
  show ?thesis unfolding cycle_def
  proof (rule only_calls_bind_run [OF only_calls_call])
    fix w c' cs w1 assume "get_cluster e key w = (Inr c', cs, w1)"
    then have "k_get_cluster e key w = (Inr c', w1)" by (simp add: io_call_iff)
    moreover have "one_cluster L e c" using assms unfolding role_fits_def by blast
    ultimately have same: "c' = c" unfolding one_cluster_def by blast
    show "only_calls ?P (if PluginName \<notin> set (EnabledPluginNames L (cl_Plugins c')) then io_return 0
     else let configuration = NewFromCluster L c' in
       if length (cfg_BarmanObjectName configuration) = 0
       then io_fail (Errorf ''invalid configuration, missing barman object store reference'' [] None)
       else io_bind (get_object_store e (GetBarmanObjectKey configuration)) (\<lambda>barmanObjectStore.
         io_seq (maintenance L e pod c' barmanObjectStore)
           (io_return (Second * sc_RetentionPolicyIntervalSeconds (os_Sidecar barmanObjectStore)))))"
      unfolding same by (rule rest)
  qed simp
qed

lemma Restore_Job_permitted:
  assumes "role_fits L e c stores"
  shows "only_calls (permitted (BuildRoleRules L stores) (cl_Namespace c)) (Restore_Job_Restore L e impl req)"
  unfolding Restore_Job_Restore_def check_destination_def checkBackupDestination_def CheckBackupDestination_def Let_def
    loadBackupObjectFromExternalCluster_def ensureArchiveContainsLastCheckpointRedoWAL_def restoreDataDir_def
    restoreCustomWalDir_def case_prod_unfold
  by (intro only_calls_config [OF assms] only_calls_get_store role_fits_laws [OF assms] role_fits_access [OF assms] config_keys calls_rules)
    (auto intro!: calls_rules split: option.split exec_failure.split)

section \<open>Within the Role\<close>

text \<open>
  C11. The sidecar stays within its Role. Take the rules the operator builds for the ObjectStores the cluster refers
  to. Whatever the WAL service, the backup service, the metrics, the maintenance and the restore job are asked to
  do for that cluster, and whatever fails meanwhile: every ObjectStore they read and every status they update is
  one those rules let them read or update, in the namespace of the cluster.
\<close>

theorem sidecar_stays_in_role:
  assumes "role_fits L e c stores"
    and "x \<in> set (io_calls (Archive L e s archive) w) \<union> set (io_calls (Restore L e s restore) w) \<union>
      set (io_calls (Backup L e inst j) w) \<union> set (io_calls (Collect_metrics L e j) w) \<union>
      set (io_calls (cycle L e key pod) w) \<union> set (io_calls (Restore_Job_Restore L e impl job) w)"
  shows "permitted (BuildRoleRules L stores) (cl_Namespace c) x"
  using assms(2)
  by (elim UnE) (erule only_callsD [OF Archive_permitted [OF assms(1)]] only_callsD [OF Restore_permitted [OF assms(1)]]
    only_callsD [OF Backup_permitted [OF assms(1)]] only_callsD [OF Collect_permitted [OF assms(1)]]
    only_callsD [OF cycle_permitted [OF assms(1)]] only_callsD [OF Restore_Job_permitted [OF assms(1)]])+

lemma backup_server_fits:
  "role_fits (cluster_lib metrics_cluster) (backup_server (Inr ())) metrics_cluster [sample_store ''store'']"
proof -
  have "ToSortedList (cluster_lib metrics_cluster) = ToSortedList sample_lib" by (simp add: cluster_lib_def)
  with sample_lib_sorted have "sorted_list_law (cluster_lib metrics_cluster)" by (simp only: sorted_list_law_def simp_thms)
  moreover have "get_store_law (backup_server (Inr ()))"
    by (auto simp: get_store_law_def backup_server_def status_server_def stored_store_def split: option.splits if_splits)
  moreover have "one_cluster (cluster_lib metrics_cluster) (backup_server (Inr ())) metrics_cluster"
    by (auto simp: one_cluster_def cluster_lib_def backup_server_def status_server_def sample_ext_def unavailable_def)
  moreover have "GetReferredBarmanObjectsKey (cluster_lib metrics_cluster) (NewFromCluster (cluster_lib metrics_cluster) metrics_cluster) =
      [NamespacedName ''ns'' ''store'']" by code_simp
  then have "role_stores (cluster_lib metrics_cluster) metrics_cluster [sample_store ''store'']"
    by (simp add: role_stores_def) (simp add: sample_store_def object_key_def)
  ultimately show ?thesis unfolding role_fits_def using backup_server_retry by blast
qed

theorem sidecar_stays_in_role_witness:
  "\<exists>x \<in> set (io_calls (Backup (cluster_lib metrics_cluster) (backup_server (Inr ())) ''pg-1'' '''') one_store).
     kube_write x \<and> permitted (BuildRoleRules (cluster_lib metrics_cluster) [sample_store ''store'']) ''ns'' x"
proof -
  have "list_ex kube_write (io_calls (Backup (cluster_lib metrics_cluster) (backup_server (Inr ())) ''pg-1'' '''') one_store)"
    "cl_Namespace metrics_cluster = ''ns''" by code_simp+
  with sidecar_stays_in_role [OF backup_server_fits] show ?thesis by (fastforce simp: list_ex_iff)
qed

end
