(* ===== verification/Status_Writers.thy ===== *)
theory Status_Writers
  imports Cached_Status
begin

text \<open>
  Several sidecars that write recovery windows into one ObjectStore at the same time: the services of
  \<open>internal/cnpgi/instance\<close>, each on the caching client of its own process, as the processes of a step
  relation. A handler is not atomic here. It reads the object (\<open>client_Get\<close>), and later, after anything else
  may have happened, writes the copy it holds, as \<open>updateRecoveryWindow\<close> and the closure of
  \<open>setLastFailedBackupTime\<close> do.
\<close>

section \<open>Versions\<close>

abbreviation version :: "object_store \<Rightarrow> nat" where
  "version os \<equiv> om_ResourceVersion (os_Meta os)"

abbreviation failure_time :: "object_store \<Rightarrow> string \<Rightarrow> gtime option" where
  "failure_time os s \<equiv> rw_LastFailedBackupTime (server_window os s)"

text \<open>
  What Kubernetes promises about versions: there is a current revision, no stored object is newer, and
  whatever changes an object gives it a version above every revision there was before. \<open>moves\<close> is any change by
  others: users, controllers and other clients.
\<close>

definition moves :: "('w \<Rightarrow> namespaced_name \<Rightarrow> object_store option) \<Rightarrow> ('w \<Rightarrow> nat) \<Rightarrow> 'w \<Rightarrow> 'w \<Rightarrow> bool" where
  "moves stores rv w w' \<longleftrightarrow> rv w \<le> rv w' \<and>
     (\<forall>k os. stores w' k = Some os \<longrightarrow> stores w k = Some os \<or> rv w < version os)"

definition revision_law :: "('w \<Rightarrow> namespaced_name \<Rightarrow> object_store option) \<Rightarrow> ('w \<Rightarrow> nat) \<Rightarrow> bool" where
  "revision_law stores rv \<longleftrightarrow> (\<forall>w k os. stores w k = Some os \<longrightarrow> object_key (os_Meta os) = k \<and> version os \<le> rv w)"

text \<open>A read, and a look at the clock, changes nothing and returns what is stored, if it returns an ObjectStore.\<close>

definition base_read_law :: "'w base_client \<Rightarrow> ('w \<Rightarrow> namespaced_name \<Rightarrow> object_store option) \<Rightarrow> ('w \<Rightarrow> nat) \<Rightarrow> bool" where
  "base_read_law b stores rv \<longleftrightarrow>
     (\<forall>ty k w r w'. base_Get b ty k w = (r, w') \<longrightarrow> stores w' = stores w \<and> rv w' = rv w \<and>
       (\<forall>os. r = Inr (Obj_ObjectStore os) \<longrightarrow> stores w k = Some os)) \<and>
     (\<forall>w t w'. base_Now b w = (t, w') \<longrightarrow> stores w' = stores w \<and> rv w' = rv w)"

text \<open>
  A write of the status is applied at most once, and only to the version it was made from. This also allows
  a write that is applied although the caller sees an error, for instance a timeout.
\<close>

definition status_write_law :: "'w ext \<Rightarrow> ('w \<Rightarrow> namespaced_name \<Rightarrow> object_store option) \<Rightarrow> ('w \<Rightarrow> nat) \<Rightarrow> bool" where
  "status_write_law e stores rv \<longleftrightarrow> (\<forall>os w r w'. k_update_object_store_status e os w = (r, w') \<longrightarrow>
     rv w \<le> rv w' \<and> (stores w' = stores w \<or>
       (\<exists>cur v. stores w (object_key (os_Meta os)) = Some cur \<and> version cur = version os \<and> rv w < v \<and> v \<le> rv w' \<and>
         stores w' = (stores w)(object_key (os_Meta os) \<mapsto>
           cur\<lparr>os_Meta := (os_Meta cur)\<lparr>om_ResourceVersion := v\<rparr>, os_Status := os_Status os\<rparr>))))"

section \<open>Processes and their memory\<close>

text \<open>
  A process has a cache, and its threads hold copies. Copies of one process can share their maps of windows
  with each other and with the cache, so writing a window into one of them in memory can change the others.
  \<open>changed S T os os'\<close> bounds how: only windows of the servers in \<open>S\<close> differ, and a time of failure that
  differs is one of those in \<open>T\<close>, the failures somebody has set out to record.
\<close>

type_synonym failures = "(string \<times> gtime) set"

definition changed :: "string set \<Rightarrow> failures \<Rightarrow> object_store \<Rightarrow> object_store \<Rightarrow> bool" where
  "changed S T os os' \<longleftrightarrow> os_Meta os' = os_Meta os \<and>
     (\<forall>s. s \<notin> S \<longrightarrow> server_window os' s = server_window os s) \<and>
     (\<forall>s. failure_time os' s = failure_time os s \<or> (\<exists>t. (s, t) \<in> T \<and> failure_time os' s = Some t))"

fun changed_object :: "string set \<Rightarrow> failures \<Rightarrow> api_object \<Rightarrow> api_object \<Rightarrow> bool" where
  "changed_object S T (Obj_ObjectStore os) obj = (\<exists>os'. obj = Obj_ObjectStore os' \<and> changed S T os os')"
| "changed_object S T obj obj' = (obj' = obj)"

type_synonym copies = "nat \<Rightarrow> object_store option"

record 'w sidecars =
  sy_world :: 'w
  sy_cache :: "string \<Rightarrow> cachedEntry list"
  sy_held :: "string \<Rightarrow> copies"
  sy_tried :: failures

definition memory_changed :: "string set \<Rightarrow> failures \<Rightarrow> cachedEntry list \<times> copies \<Rightarrow> cachedEntry list \<times> copies \<Rightarrow> bool" where
  "memory_changed S T m m' \<longleftrightarrow>
     list_all2 (\<lambda>ce ce'. \<exists>obj. changed_object S T (ce_entry ce) obj \<and> ce' = ce\<lparr>ce_entry := obj\<rparr>) (fst m) (fst m') \<and>
     (\<forall>t os'. snd m' t = Some os' \<longrightarrow> (\<exists>os. snd m t = Some os \<and> changed S T os os'))"

definition hold :: "nat \<Rightarrow> go_error + api_object \<Rightarrow> copies \<Rightarrow> copies" where
  "hold t r held = (case r of Inr (Obj_ObjectStore os) \<Rightarrow> held(t \<mapsto> os) | _ \<Rightarrow> held)"

text \<open>The processes that may take a step, with the servers a process writes windows for.\<close>

datatype actor = Outside | Sidecar string

inductive sw_step ::
  "lib \<Rightarrow> 'w base_client \<Rightarrow> 'w ext \<Rightarrow> ('w \<Rightarrow> namespaced_name \<Rightarrow> object_store option) \<Rightarrow> ('w \<Rightarrow> nat) \<Rightarrow>
   (string \<Rightarrow> string set) \<Rightarrow> actor \<Rightarrow> 'w sidecars \<Rightarrow> 'w sidecars \<Rightarrow> bool"
  for L b e stores rv servers where
  sw_outside: "moves stores rv (sy_world st) w' \<Longrightarrow>
    sw_step L b e stores rv servers Outside st (st\<lparr>sy_world := w'\<rparr>)"
| sw_get: "client_Get b ty k (sy_world st, sy_cache st p) = (r, cs, (w', cache')) \<Longrightarrow>
    sw_step L b e stores rv servers (Sidecar p) st (st\<lparr>sy_world := w', sy_cache := (sy_cache st)(p := cache'),
      sy_held := (sy_held st)(p := hold t r (sy_held st p))\<rparr>)"
| sw_remove: "removeObject obj (sy_world st, sy_cache st p) = (r, cs, (w', cache')) \<Longrightarrow>
    sw_step L b e stores rv servers (Sidecar p) st (st\<lparr>sy_world := w', sy_cache := (sy_cache st)(p := cache')\<rparr>)"
| sw_refresh: "sy_held st p t = Some os \<Longrightarrow> s \<in> servers p \<Longrightarrow>
    updateRecoveryWindow L e backupList os s (sy_world st) = (r, cs, w') \<Longrightarrow>
    memory_changed (servers p) (sy_tried st) (sy_cache st p, (sy_held st p)(t := None)) (cache', held') \<Longrightarrow>
    sw_step L b e stores rv servers (Sidecar p) st (st\<lparr>sy_world := w', sy_cache := (sy_cache st)(p := cache'),
      sy_held := (sy_held st)(p := held')\<rparr>)"
| sw_failure: "sy_held st p t = Some os \<Longrightarrow> s \<in> servers p \<Longrightarrow> T = insert (s, time) (sy_tried st) \<Longrightarrow>
    update_object_store_status e (with_failure s time os) (sy_world st) = (r, cs, w') \<Longrightarrow>
    memory_changed (servers p) T (sy_cache st p, (sy_held st p)(t := None)) (cache', held') \<Longrightarrow>
    sw_step L b e stores rv servers (Sidecar p) st (st\<lparr>sy_world := w', sy_cache := (sy_cache st)(p := cache'),
      sy_held := (sy_held st)(p := held'), sy_tried := T\<rparr>)"

inductive_cases sw_stepE: "sw_step L b e stores rv servers a st st'"

inductive sw_reach ::
  "lib \<Rightarrow> 'w base_client \<Rightarrow> 'w ext \<Rightarrow> ('w \<Rightarrow> namespaced_name \<Rightarrow> object_store option) \<Rightarrow> ('w \<Rightarrow> nat) \<Rightarrow>
   (string \<Rightarrow> string set) \<Rightarrow> 'w sidecars \<Rightarrow> bool"
  for L b e stores rv servers where
  sw_start: "sw_reach L b e stores rv servers
    \<lparr>sy_world = w, sy_cache = (\<lambda>_. []), sy_held = (\<lambda>_ _. None), sy_tried = {}\<rparr>"
| sw_next: "sw_reach L b e stores rv servers st \<Longrightarrow> sw_step L b e stores rv servers a st st' \<Longrightarrow>
    sw_reach L b e stores rv servers st'"

section \<open>Copies of the current version\<close>

text \<open>
  The invariant: a copy is not newer than the current revision, and if it has the version that is stored, it
  differs from the stored object only in windows of the servers of its process.
\<close>

definition copy_ok ::
  "('w \<Rightarrow> namespaced_name \<Rightarrow> object_store option) \<Rightarrow> ('w \<Rightarrow> nat) \<Rightarrow> string set \<Rightarrow> failures \<Rightarrow> 'w \<Rightarrow> object_store \<Rightarrow> bool" where
  "copy_ok stores rv S T w os \<longleftrightarrow> version os \<le> rv w \<and>
     (\<forall>cur. stores w (object_key (os_Meta os)) = Some cur \<longrightarrow> version cur = version os \<longrightarrow> 
        (\<forall>s. s \<notin> S \<longrightarrow> server_window os s = server_window cur s) \<and>
        (\<forall>s. failure_time os s = failure_time cur s \<or> (\<exists>t. (s, t) \<in> T \<and> failure_time os s = Some t)))"

definition objects_of :: "cachedEntry list \<Rightarrow> copies \<Rightarrow> object_store set" where
  "objects_of cache held = {os. Obj_ObjectStore os \<in> ce_entry ` set cache \<or> Some os \<in> range held}"

definition sw_invar ::
  "('w \<Rightarrow> namespaced_name \<Rightarrow> object_store option) \<Rightarrow> ('w \<Rightarrow> nat) \<Rightarrow> (string \<Rightarrow> string set) \<Rightarrow> 'w sidecars \<Rightarrow> bool" where
  "sw_invar stores rv servers st \<longleftrightarrow>
     (\<forall>p. \<forall>os \<in> objects_of (sy_cache st p) (sy_held st p). copy_ok stores rv (servers p) (sy_tried st) (sy_world st) os)"

lemma changed_refl: "changed S T os os"
  by (simp add: changed_def)

lemma changed_catalog: "s \<in> S \<Longrightarrow> changed S T os (with_catalog L s list os)"
  by (auto simp: changed_def with_catalog_def server_window_put)

lemma changed_failure: "s \<in> S \<Longrightarrow> (s, t) \<in> T \<Longrightarrow> changed S T os (with_failure s t os)"
  by (auto simp: changed_def with_failure_def server_window_put)

lemma copy_ok_changed:
  assumes "copy_ok stores rv S T w os" "changed S T' os os'" "T \<subseteq> T'"
  shows "copy_ok stores rv S T' w os'"
proof -
  have meta: "os_Meta os' = os_Meta os" and out: "\<And>s. s \<notin> S \<Longrightarrow> server_window os' s = server_window os s"
    and time: "\<And>s. failure_time os' s = failure_time os s \<or> (\<exists>t. (s, t) \<in> T' \<and> failure_time os' s = Some t)"
    using assms(2) unfolding changed_def by blast+
  have "failure_time os' s = failure_time cur s \<or> (\<exists>t. (s, t) \<in> T' \<and> failure_time os' s = Some t)"
    if "failure_time os s = failure_time cur s \<or> (\<exists>t. (s, t) \<in> T \<and> failure_time os s = Some t)" for cur s
    using that time [of s] assms(3) by (elim disjE exE conjE) auto
  then show ?thesis using assms(1) unfolding copy_ok_def meta by (simp add: out)
qed

text \<open>What others do leaves every copy as good as it was: a changed object has a new version.\<close>

lemma copy_ok_moves:
  assumes "moves stores rv w w'" "copy_ok stores rv S T w os"
  shows "copy_ok stores rv S T w' os"
proof -
  have "stores w k = Some cur" if "stores w' k = Some cur" "version cur = version os" for k cur
    using assms that unfolding moves_def copy_ok_def by (metis leD)
  then show ?thesis using assms unfolding moves_def copy_ok_def by (meson le_trans)
qed

lemma moves_refl: "stores w' = stores w \<Longrightarrow> rv w' = rv w \<Longrightarrow> moves stores rv w w'"
  by (simp add: moves_def)

lemma moves_trans: "moves stores rv w1 w2 \<Longrightarrow> moves stores rv w2 w3 \<Longrightarrow> moves stores rv w1 w3"
  unfolding moves_def by (meson le_less_trans le_trans)

lemma moves_write:
  assumes "status_write_law e stores rv" "k_update_object_store_status e os w = (r, w')"
  shows "moves stores rv w w'"
proof -
  consider "rv w \<le> rv w'" "stores w' = stores w"
    | cur v where "rv w < v" "v \<le> rv w'" "stores w' = (stores w)(object_key (os_Meta os) \<mapsto>
        cur\<lparr>os_Meta := (os_Meta cur)\<lparr>om_ResourceVersion := v\<rparr>, os_Status := os_Status os\<rparr>)"
    using assms unfolding status_write_law_def by blast
  then show ?thesis by cases (auto simp: moves_def split: if_splits)
qed

lemma copy_ok_stored:
  assumes "revision_law stores rv" "stores w k = Some os"
  shows "copy_ok stores rv S T w os"
  using assms unfolding revision_law_def copy_ok_def by auto

section \<open>Every step keeps the copies good\<close>

abbreviation all_ok where
  "all_ok stores rv S T w c held \<equiv> \<forall>os \<in> objects_of c held. copy_ok stores rv S T w os"

lemma objects_of_mono: "set c \<subseteq> set c' \<Longrightarrow> range held \<subseteq> range held' \<Longrightarrow> objects_of c held \<subseteq> objects_of c' held'"
  by (auto simp: objects_of_def)

lemma held_object: "held t = Some os \<Longrightarrow> os \<in> objects_of c held"
  unfolding objects_of_def by (metis (mono_tags, lifting) mem_Collect_eq rangeI)

lemma drop_entry_set: "set (drop_entry k c) \<subseteq> set c"
  by (induction c) auto

lemma cache_put_set: "set (cache_put x c) \<subseteq> insert x (set c)"
  by (induction c) (auto simp: cache_put_simps)

lemma memory_changed_ok:
  assumes "memory_changed S T' (c, held) (c', held')" "all_ok stores rv S T w c held" "T \<subseteq> T'"
  shows "all_ok stores rv S T' w c' held'"
proof
  fix os' assume "os' \<in> objects_of c' held'"
  then consider ce' where "ce' \<in> set c'" "ce_entry ce' = Obj_ObjectStore os'" | t where "held' t = Some os'"
    by (auto simp: objects_of_def image_iff)
  then obtain os where os: "os \<in> objects_of c held" "changed S T' os os'"
  proof cases
    case 1
    then obtain i where i: "i < length c'" "ce' = c' ! i" by (auto simp: in_set_conv_nth)
    then obtain obj where "i < length c" "changed_object S T' (ce_entry (c ! i)) obj" "ce' = (c ! i)\<lparr>ce_entry := obj\<rparr>"
      using assms(1) unfolding memory_changed_def list_all2_conv_all_nth by auto
    then obtain ce obj where ce: "ce \<in> set c" "changed_object S T' (ce_entry ce) obj" "ce' = ce\<lparr>ce_entry := obj\<rparr>"
      using nth_mem by blast
    show ?thesis
    proof (cases "ce_entry ce")
      case (Obj_ObjectStore os)
      then have "changed S T' os os'" using ce 1 by auto
      moreover have "os \<in> objects_of c held" using ce(1) Obj_ObjectStore [symmetric] by (simp add: objects_of_def)
      ultimately show ?thesis using that by blast
    qed (use ce 1 in auto)
  next
    case 2
    then obtain os where "held t = Some os" "changed S T' os os'"
      using assms(1) unfolding memory_changed_def fst_conv snd_conv by blast
    then show ?thesis by (rule that [OF held_object])
  qed
  show "copy_ok stores rv S T' w os'" by (rule copy_ok_changed [OF bspec [OF assms(2) os(1)] os(2) assms(3)])
qed

lemma fetched_objects:
  assumes "base_read_law b stores rv" "fetched b ty k w c = (r, cs, (w', c'))"
  shows "stores w' = stores w \<and> rv w' = rv w \<and>
    (\<forall>os. os \<in> objects_of c' (hold t r held) \<longrightarrow> os \<in> objects_of c held \<or> stores w k = Some os)"
proof (cases "base_Get b ty k w")
  case (Pair r1 w1)
  have 1: "stores w1 = stores w" "rv w1 = rv w" "\<And>os. r1 = Inr (Obj_ObjectStore os) \<Longrightarrow> stores w k = Some os"
    using assms(1) Pair unfolding base_read_law_def by blast+
  show ?thesis
  proof (cases r1)
    case (Inl err)
    then show ?thesis using assms(2) Pair 1 by (auto simp: fetched_def hold_def)
  next
    case (Inr obj)
    obtain tm w2 where 2: "base_Now b w1 = (tm, w2)" by fastforce
    then have "stores w2 = stores w" "rv w2 = rv w" using assms(1) 1 unfolding base_read_law_def by metis+
    moreover have "r = Inr obj" "w' = w2" "c' = cache_put (new_entry obj tm) c"
      using assms(2) Pair Inr 2 by (auto simp: fetched_def)
    ultimately show ?thesis using 1(3) Inr cache_put_set [of "new_entry obj tm" c]
      by (auto simp: objects_of_def hold_def split: api_object.splits if_splits)
  qed
qed

lemma get_objects:
  assumes "base_read_law b stores rv" "base_get_law b" "client_Get b ty k (w, c) = (r, cs, (w', c'))"
  shows "stores w' = stores w \<and> rv w' = rv w \<and>
    (\<forall>os. os \<in> objects_of c' (hold t r held) \<longrightarrow> os \<in> objects_of c held \<or> stores w k = Some os)"
proof (cases "isObjectCached ty")
  case False
  then obtain r1 w1 where 1: "base_Get b ty k w = (r1, w1)" "r = r1" "w' = w1" "c' = c"
    using assms(3) by (auto simp: client_Get_def io_simps split: prod.splits)
  then have "stores w' = stores w" "rv w' = rv w" "\<And>os. r = Inr (Obj_ObjectStore os) \<Longrightarrow> stores w k = Some os"
    using assms(1) unfolding base_read_law_def by blast+
  then show ?thesis unfolding 1(4)
    by (auto simp: objects_of_def hold_def split: sum.splits api_object.splits if_splits)
next
  case True
  then have run: "getCachedObject b ty k (w, c) = (r, cs, (w', c'))" using assms(3) by (simp add: client_Get_def)
  show ?thesis
  proof (cases "cache_look c (ty, k)")
    case None
    then have "fetched b ty k w c = (r, cs, (w', c'))" using run by (simp add: getCachedObject_run [OF assms(2)])
    then show ?thesis by (rule fetched_objects [OF assms(1)])
  next
    case (Some ce)
    obtain tm w1 where 1: "base_Now b w = (tm, w1)" by fastforce
    have w1: "stores w1 = stores w" "rv w1 = rv w" using assms(1) 1 unfolding base_read_law_def by metis+
    show ?thesis
    proof (cases "isExpired tm ce")
      case True
      then obtain cs' where "fetched b ty k w1 c = (r, cs', (w', c'))"
        using run 1 Some by (auto simp: getCachedObject_run [OF assms(2)] split: prod.splits)
      from fetched_objects [OF assms(1) this, of t held] show ?thesis by (simp add: w1)
    next
      case False
      have "ce \<in> set c" using Some by (auto simp: cache_look_def split: option.splits dest: entry_index_nth)
      moreover have "r = Inr (ce_entry ce)" "w' = w1" "c' = c"
        using run 1 Some False by (simp_all add: getCachedObject_run [OF assms(2)])
      ultimately show ?thesis using w1
        by (auto simp: objects_of_def hold_def split: api_object.splits if_splits) (metis image_eqI)
    qed
  qed
qed

text \<open>A step changes the memory of one process only.\<close>

lemma sw_invar_step:
  assumes "sw_invar stores rv servers st" "moves stores rv (sy_world st) w'" "sy_tried st \<subseteq> T"
    and "all_ok stores rv (servers p) T w' cache' held'"
  shows "sw_invar stores rv servers (st\<lparr>sy_world := w', sy_cache := (sy_cache st)(p := cache'),
    sy_held := (sy_held st)(p := held'), sy_tried := T\<rparr>)"
proof -
  have "copy_ok stores rv (servers q) T w' os" if "os \<in> objects_of (sy_cache st q) (sy_held st q)" for q os
    using assms(1,2,3) that unfolding sw_invar_def
    by (blast intro: copy_ok_moves copy_ok_changed [OF _ changed_refl])
  then show ?thesis using assms(4) by (simp add: sw_invar_def)
qed

text \<open>What the steps of the sidecars have in common, when they write: the copy written was good.\<close>

lemma write_step:
  assumes "status_write_law e stores rv" "sw_invar stores rv servers st" "sy_held st p t = Some os"
    and "changed (servers p) T os os'" "sy_tried st \<subseteq> T"
    and "k_update_object_store_status e os' (sy_world st) = (r, w')"
    and "memory_changed (servers p) T (sy_cache st p, (sy_held st p)(t := None)) (cache', held')"
  shows "sw_invar stores rv servers (st\<lparr>sy_world := w', sy_cache := (sy_cache st)(p := cache'),
    sy_held := (sy_held st)(p := held'), sy_tried := T\<rparr>)"
proof (rule sw_invar_step [OF assms(2) _ assms(5)])
  show mv: "moves stores rv (sy_world st) w'" by (rule moves_write [OF assms(1,6)])
  have "objects_of (sy_cache st p) ((sy_held st p)(t := None)) \<subseteq> objects_of (sy_cache st p) (sy_held st p)"
    by (auto simp: objects_of_def split: if_splits) 
  then have "all_ok stores rv (servers p) (sy_tried st) (sy_world st) (sy_cache st p) ((sy_held st p)(t := None))"
    using assms(2) unfolding sw_invar_def by blast
  then have "all_ok stores rv (servers p) T (sy_world st) cache' held'"
    by (rule memory_changed_ok [OF assms(7) _ assms(5)])
  then show "all_ok stores rv (servers p) T w' cache' held'" using copy_ok_moves [OF mv] by simp
qed

lemma sw_invar_reach:
  assumes laws: "base_get_law b" "base_read_law b stores rv" "revision_law stores rv" "status_write_law e stores rv"
    and "sw_reach L b e stores rv servers st"
  shows "sw_invar stores rv servers st"
  using assms(5)
proof induction
  case (sw_start w)
  then show ?case by (simp add: sw_invar_def objects_of_def)
next
  case (sw_next st a st')
  note inv = sw_next.IH
  from sw_next.hyps(2) show ?case
  proof cases
    case (sw_outside w')
    then show ?thesis using inv copy_ok_moves unfolding sw_invar_def by fastforce
  next
    case (sw_get ty k p r cs w' cache' t)
    note g = get_objects [OF laws(2,1) sw_get(3), of t "sy_held st p"]
    have "all_ok stores rv (servers p) (sy_tried st) w' cache' (hold t r (sy_held st p))"
    proof
      fix os assume "os \<in> objects_of cache' (hold t r (sy_held st p))"
      with g have "os \<in> objects_of (sy_cache st p) (sy_held st p) \<or> stores w' k = Some os" by auto
      moreover have "moves stores rv (sy_world st) w'" using g by (simp add: moves_refl)
      ultimately show "copy_ok stores rv (servers p) (sy_tried st) w' os"
        using inv copy_ok_moves copy_ok_stored [OF laws(3)] unfolding sw_invar_def by metis
    qed
    from sw_invar_step [OF inv moves_refl _ this] g show ?thesis unfolding sw_get(2) by simp
  next
    case (sw_remove obj p r cs w' cache')
    then have "w' = sy_world st" "set cache' \<subseteq> set (sy_cache st p)"
      using drop_entry_set by (auto simp: removeObject_def io_simps)
    then have "all_ok stores rv (servers p) (sy_tried st) w' cache' (sy_held st p)"
      using inv objects_of_mono unfolding sw_invar_def by blast
    from sw_invar_step [OF inv moves_refl _ this] show ?thesis unfolding sw_remove(2) by (simp add: \<open>w' = sy_world st\<close>)
  next
    case (sw_refresh p t os s backupList r cs w' cache' held')
    have "k_update_object_store_status e (with_catalog L s backupList os) (sy_world st) = (r, w')"
      using sw_refresh(5) by (auto simp: updateRecoveryWindow_def io_simps split: prod.splits)
    from write_step [OF laws(4) inv sw_refresh(3) changed_catalog [OF sw_refresh(4)] subset_refl this sw_refresh(6)]
    show ?thesis unfolding sw_refresh(2) by simp
  next
    case (sw_failure p t os s T time r cs w' cache' held')
    have "k_update_object_store_status e (with_failure s time os) (sy_world st) = (r, w')"
      using sw_failure(6) by (auto simp: io_simps split: prod.splits)
    from write_step [OF laws(4) inv sw_failure(3) changed_failure [OF sw_failure(4)] _ this sw_failure(7)]
    show ?thesis unfolding sw_failure(2,5) by auto
  qed
qed

section \<open>Isolation\<close>

text \<open>What a write of a good copy does to the stored objects.\<close>

definition isolated ::
  "('w \<Rightarrow> namespaced_name \<Rightarrow> object_store option) \<Rightarrow> string set \<Rightarrow> failures \<Rightarrow> 'w \<Rightarrow> 'w \<Rightarrow> bool" where
  "isolated stores S T w w' \<longleftrightarrow> (\<forall>k. case stores w k of None \<Rightarrow> stores w' k = None
     | Some cur \<Rightarrow> (\<exists>new. stores w' k = Some new \<and> os_Spec new = os_Spec cur \<and>
         (\<forall>s. s \<notin> S \<longrightarrow> server_window new s = server_window cur s) \<and>
         (\<forall>s. failure_time new s = failure_time cur s \<or> (\<exists>t. (s, t) \<in> T \<and> failure_time new s = Some t))))"

lemma isolated_refl: "stores w' = stores w \<Longrightarrow> isolated stores S T w w'"
  by (auto simp: isolated_def split: option.split)

lemma isolatedD:
  "isolated stores S T w w' \<Longrightarrow> stores w k = Some cur \<Longrightarrow> \<exists>new. stores w' k = Some new \<and> os_Spec new = os_Spec cur \<and>
     (\<forall>s. s \<notin> S \<longrightarrow> server_window new s = server_window cur s)"
  unfolding isolated_def by (drule spec [of _ k]) auto

lemma server_window_status: "server_window (os\<lparr>os_Meta := m, os_Status := os_Status os'\<rparr>) = server_window os'"
  by (rule ext) (simp add: server_window_def)

lemma isolated_write:
  assumes "status_write_law e stores rv" "copy_ok stores rv S T w os" "changed S T' os os'" "T \<subseteq> T'"
    and "k_update_object_store_status e os' w = (r, w')"
  shows "isolated stores S T' w w'"
proof -
  consider "stores w' = stores w"
    | cur v where "stores w (object_key (os_Meta os')) = Some cur" "version cur = version os'"
      "stores w' = (stores w)(object_key (os_Meta os') \<mapsto>
         cur\<lparr>os_Meta := (os_Meta cur)\<lparr>om_ResourceVersion := v\<rparr>, os_Status := os_Status os'\<rparr>)"
    using assms(1,5) unfolding status_write_law_def by blast
  then show ?thesis
  proof cases
    case 2
    have "copy_ok stores rv S T' w os'" by (rule copy_ok_changed [OF assms(2-4)])
    then have "(\<forall>s. s \<notin> S \<longrightarrow> server_window os' s = server_window cur s) \<and>
        (\<forall>s. failure_time os' s = failure_time cur s \<or> (\<exists>t. (s, t) \<in> T' \<and> failure_time os' s = Some t))"
      using 2(1,2) unfolding copy_ok_def by blast
    then show ?thesis by (auto simp: isolated_def 2(1,3) server_window_status split: option.split)
  qed (rule isolated_refl)
qed

text \<open>
  C3. Sidecars of different clusters can share an ObjectStore. However their reads, writes, retries and caches
  are interleaved, and whatever users do to the object in between, a step of one sidecar leaves the spec of
  every stored ObjectStore and the windows of the servers of others as they are. And a recorded failure is
  never lost: a step of a sidecar keeps the time of the last failure of every server, or replaces it by that
  of another backup that failed. This holds although copies of one process share their maps in memory,
  windows are written into cached objects that are never stored, and an update may be applied although its
  caller sees an error.
\<close>

theorem windows_isolated:
  assumes "base_get_law b" "base_read_law b stores rv" "revision_law stores rv" "status_write_law e stores rv"
    and "sw_reach L b e stores rv servers st" "sw_step L b e stores rv servers (Sidecar p) st st'"
  shows "isolated stores (servers p) (sy_tried st') (sy_world st) (sy_world st')"
proof -
  have ok: "copy_ok stores rv (servers p) (sy_tried st) (sy_world st) os" if "sy_held st p t = Some os" for t os
    using sw_invar_reach [OF assms(1-5)] that unfolding sw_invar_def objects_of_def by (metis (mono_tags) mem_Collect_eq rangeI)
  from assms(6) show ?thesis
  proof cases
    case (sw_get ty k r cs w' cache' t)
    from get_objects [OF assms(2,1) sw_get(2), of t "sy_held st p"] show ?thesis by (simp add: sw_get(1) isolated_refl)
  next
    case (sw_remove obj r cs w' cache')
    then show ?thesis by (auto simp: removeObject_def io_simps intro: isolated_refl)
  next
    case (sw_refresh t os s backupList r cs w' cache' held')
    have "k_update_object_store_status e (with_catalog L s backupList os) (sy_world st) = (r, w')"
      using sw_refresh(4) by (auto simp: updateRecoveryWindow_def io_simps split: prod.splits)
    from isolated_write [OF assms(4) ok [OF sw_refresh(2)] changed_catalog [OF sw_refresh(3)] subset_refl this]
    show ?thesis by (simp add: sw_refresh(1))
  next
    case (sw_failure t os s T time r cs w' cache' held')
    have "k_update_object_store_status e (with_failure s time os) (sy_world st) = (r, w')"
      using sw_failure(5) by (auto simp: io_simps split: prod.splits)
    from isolated_write [OF assms(4) ok [OF sw_failure(2)] changed_failure [OF sw_failure(3), where T = T] _ this]
    show ?thesis by (auto simp: sw_failure(1,4))
  qed
qed

section \<open>Progress\<close>

text \<open>The cache was filled by the second \<open>since\<close>, and its entries have expired, now and later.\<close>

definition filled_by :: "int \<Rightarrow> cachedEntry list \<Rightarrow> bool" where
  "filled_by since cache \<longleftrightarrow> (\<forall>ce \<in> set cache. ce_fetchUnixTime ce \<le> since \<and> ce_ttlSeconds ce = DefaultTTLSeconds)"

definition late :: "('w \<Rightarrow> bool) \<Rightarrow> 'w base_client \<Rightarrow> int \<Rightarrow> bool" where
  "late P b since \<longleftrightarrow> (\<forall>w. P w \<longrightarrow> (\<exists>t w'. base_Now b w = (t, w') \<and> since + DefaultTTLSeconds < Unix t \<and> P w'))"

definition answers_law :: "('w \<Rightarrow> bool) \<Rightarrow> 'w base_client \<Rightarrow> ('w \<Rightarrow> namespaced_name \<Rightarrow> object_store option) \<Rightarrow> bool" where
  "answers_law P b stores \<longleftrightarrow> (\<forall>w k os. P w \<longrightarrow> stores w k = Some os \<longrightarrow>
     (\<exists>w'. base_Get b T_ObjectStore k w = (Inr (Obj_ObjectStore os), w') \<and> P w'))"

lemma late_read:
  assumes "base_get_law b" "base_read_law b stores rv" "filled_by since cache" "late P b since" "answers_law P b stores"
    and "P w" "stores w k = Some os"
  obtains cs w' cache' where "client_Get b T_ObjectStore k (w, cache) = (Inr (Obj_ObjectStore os), cs, (w', cache'))"
    "stores w' = stores w" "P w'"
proof -
  have fetch: "\<exists>cs w' cache'. fetched b T_ObjectStore k w1 cache = (Inr (Obj_ObjectStore os), cs, (w', cache')) \<and>
      stores w' = stores w1 \<and> P w'" if w1: "P w1" "stores w1 k = Some os" for w1
  proof -
    obtain w2 where 2: "base_Get b T_ObjectStore k w1 = (Inr (Obj_ObjectStore os), w2)" "P w2"
      using assms(5) w1 unfolding answers_law_def by blast
    obtain t w3 where 3: "base_Now b w2 = (t, w3)" "P w3" using assms(4) 2(2) unfolding late_def by blast
    have "stores w2 = stores w1" "stores w3 = stores w2"
      using assms(2) 2(1) 3(1) unfolding base_read_law_def by metis+
    with 2 3 show ?thesis by (simp add: fetched_def)
  qed
  obtain t w1 where 1: "base_Now b w = (t, w1)" "since + DefaultTTLSeconds < Unix t" "P w1"
    using assms(4,6) unfolding late_def by blast
  have w1: "stores w1 = stores w" using assms(2) 1(1) unfolding base_read_law_def by metis
  show thesis
  proof (cases "cache_look cache (T_ObjectStore, k)")
    case None
    with fetch [OF assms(6,7)] that show thesis
      by (auto simp: client_Get_def isObjectCached_def getCachedObject_run [OF assms(1)])
  next
    case (Some ce)
    then have "ce \<in> set cache" by (auto simp: cache_look_def split: option.splits dest: entry_index_nth)
    then have "isExpired t ce" using assms(3) 1(2) unfolding filled_by_def isExpired_def by force
    moreover obtain cs w' cache' where "fetched b T_ObjectStore k w1 cache = (Inr (Obj_ObjectStore os), cs, (w', cache'))"
      "stores w' = stores w1" "P w'" using fetch [of w1] 1(3) assms(7) w1 by auto
    ultimately show thesis using that Some 1(1) w1
      by (auto simp: client_Get_def isObjectCached_def getCachedObject_run [OF assms(1)])
  qed
qed

lemma retry_first:
  assumes "retry_law e" "f 0 w = (Inr u, cs, w')"
  shows "retry_on_conflict e f w = (Inr u, cs, w')"
proof -
  obtain n where "retry_on_conflict e f w = attempts f 0 n w" by (rule retry_lawE [OF assms(1)])
  then show ?thesis by (simp add: attempts_success [where f = f, OF assms(2)])
qed


section \<open>Two sidecars on one store\<close>

text \<open>An API server that numbers all changes of all objects.\<close>

type_synonym rev_world = "nat \<times> status_world"

definition rev_stored :: "rev_world \<Rightarrow> namespaced_name \<Rightarrow> object_store option" where
  "rev_stored w k = (case stored_store (snd w) k of Some os \<Rightarrow> if version os \<le> fst w then Some os else None | None \<Rightarrow> None)"

definition rev_server :: "rev_world ext" where
  "rev_server = sample_ext\<lparr>
     k_update_object_store_status := (\<lambda>os w. case rev_stored w (object_key (os_Meta os)) of
       None \<Rightarrow> (Inl (Api_Error NotFound), w)
     | Some cur \<Rightarrow> if version os \<noteq> version cur then (Inl (Api_Error Conflict), w)
         else (Inr (), (Suc (fst w), (rev_stored w)(object_key (os_Meta os) \<mapsto> cur\<lparr>os_Meta := (os_Meta cur)\<lparr>om_ResourceVersion :=
           Suc (fst w)\<rparr>, os_Status := os_Status os\<rparr>))))\<rparr>"

definition rev_client :: "rev_world base_client" where
  "rev_client = \<lparr>
     base_Get = (\<lambda>ty key w. (case rev_stored w key of
       Some os \<Rightarrow> if ty = T_ObjectStore then Inr (Obj_ObjectStore os) else Inl (Api_Error NotFound)
     | None \<Rightarrow> Inl (Api_Error NotFound), w)),
     base_Update = (\<lambda>obj w. (Inl (Opaque ''unsupported''), w)), base_Delete = (\<lambda>obj w. (Inl (Opaque ''unsupported''), w)),
     base_Patch = (\<lambda>obj w. (Inl (Opaque ''unsupported''), w)), base_Now = (\<lambda>w. (at_second 105, w))\<rparr>"

lemma rev_stored_Some: "rev_stored w k = Some os \<longleftrightarrow> snd w k = Some os \<and> object_key (os_Meta os) = k \<and> version os \<le> fst w"
  by (auto simp: rev_stored_def stored_store_def split: option.splits if_splits)

lemma rev_stored_put:
  assumes "rev_stored w k = Some cur" "os_Meta new = (os_Meta cur)\<lparr>om_ResourceVersion := Suc (fst w)\<rparr>"
  shows "rev_stored (Suc (fst w), (rev_stored w)(k \<mapsto> new)) = (rev_stored w)(k \<mapsto> new)"
proof
  fix j
  have "object_key (os_Meta new) = k" using assms by (simp add: rev_stored_Some object_key_def)
  then have "rev_stored (Suc (fst w), (rev_stored w)(k \<mapsto> new)) j = Some os \<longleftrightarrow> ((rev_stored w)(k \<mapsto> new)) j = Some os" for os
    using assms(2) by (auto simp: rev_stored_Some)
  then show "rev_stored (Suc (fst w), (rev_stored w)(k \<mapsto> new)) j = ((rev_stored w)(k \<mapsto> new)) j"
    by (metis not_None_eq)
qed

lemma rev_server_update:
  "k_update_object_store_status rev_server os w = (case rev_stored w (object_key (os_Meta os)) of
     None \<Rightarrow> (Inl (Api_Error NotFound), w)
   | Some cur \<Rightarrow> if version os \<noteq> version cur then (Inl (Api_Error Conflict), w)
       else (Inr (), (Suc (fst w), (rev_stored w)(object_key (os_Meta os) \<mapsto> cur\<lparr>os_Meta := (os_Meta cur)\<lparr>om_ResourceVersion :=
         Suc (fst w)\<rparr>, os_Status := os_Status os\<rparr>))))"
  by (simp add: rev_server_def)

lemma rev_client_simps:
  "base_Get rev_client ty key w = (case rev_stored w key of
     Some os \<Rightarrow> if ty = T_ObjectStore then Inr (Obj_ObjectStore os) else Inl (Api_Error NotFound)
   | None \<Rightarrow> Inl (Api_Error NotFound), w)"
  "base_Now rev_client w = (at_second 105, w)"
  by (simp_all add: rev_client_def)

lemma rev_laws:
  "base_get_law rev_client" "base_read_law rev_client rev_stored fst" "revision_law rev_stored fst"
  by (auto simp: base_get_law_def base_read_law_def revision_law_def rev_client_def obj_key_def rev_stored_Some
      split: option.splits if_splits prod.splits)

lemma rev_write_law: "status_write_law rev_server rev_stored fst"
  unfolding status_write_law_def
proof (intro allI impI)
  fix os w r w' assume up: "k_update_object_store_status rev_server os w = (r, w')"
  let ?k = "object_key (os_Meta os)"
  show "fst w \<le> fst w' \<and> (rev_stored w' = rev_stored w \<or> (\<exists>cur v. rev_stored w ?k = Some cur \<and> version cur = version os \<and>
      fst w < v \<and> v \<le> fst w' \<and> rev_stored w' = (rev_stored w)(?k \<mapsto>
        cur\<lparr>os_Meta := (os_Meta cur)\<lparr>om_ResourceVersion := v\<rparr>, os_Status := os_Status os\<rparr>)))"
  proof (cases "rev_stored w ?k")
    case (Some cur)
    let ?new = "cur\<lparr>os_Meta := (os_Meta cur)\<lparr>om_ResourceVersion := Suc (fst w)\<rparr>, os_Status := os_Status os\<rparr>"
    show ?thesis
    proof (cases "version os = version cur")
      case True
      then have "w' = (Suc (fst w), (rev_stored w)(?k \<mapsto> ?new))" using up Some by (simp add: rev_server_update)
      moreover have "rev_stored (Suc (fst w), (rev_stored w)(?k \<mapsto> ?new)) = (rev_stored w)(?k \<mapsto> ?new)"
        by (rule rev_stored_put [OF Some]) simp
      ultimately show ?thesis using Some True by (intro conjI disjI2 exI [of _ cur] exI [of _ "Suc (fst w)"]) simp_all
    qed (use up Some in \<open>simp add: rev_server_update\<close>)
  qed (use up in \<open>simp add: rev_server_update\<close>)
qed

lemma rev_status_law: "status_api_law rev_server rev_stored"
  unfolding status_api_law_def
proof (intro conjI allI impI)
  fix os :: object_store and w
  let ?k = "object_key (os_Meta os)"
  show "case rev_stored w ?k of None \<Rightarrow> k_update_object_store_status rev_server os w = (Inl (Api_Error NotFound), w)
     | Some cur \<Rightarrow> if version os \<noteq> version cur then k_update_object_store_status rev_server os w = (Inl (Api_Error Conflict), w)
         else (\<exists>w' v. v \<noteq> version cur \<and> k_update_object_store_status rev_server os w = (Inr (), w') \<and>
           rev_stored w' = (rev_stored w)(?k \<mapsto> cur\<lparr>os_Meta := (os_Meta cur)\<lparr>om_ResourceVersion := v\<rparr>, os_Status := os_Status os\<rparr>))"
  proof (cases "rev_stored w ?k")
    case (Some cur)
    let ?new = "cur\<lparr>os_Meta := (os_Meta cur)\<lparr>om_ResourceVersion := Suc (fst w)\<rparr>, os_Status := os_Status os\<rparr>"
    have "rev_stored (Suc (fst w), (rev_stored w)(?k \<mapsto> ?new)) = (rev_stored w)(?k \<mapsto> ?new)"
      by (rule rev_stored_put [OF Some]) simp
    moreover have "Suc (fst w) \<noteq> version cur" using Some by (auto simp: rev_stored_Some)
    ultimately show ?thesis
      by (simp add: rev_server_update Some) blast
  qed (simp add: rev_server_update)
qed (simp add: rev_stored_Some)

definition shared_store :: rev_world where
  "shared_store = (1, one_store)"

text \<open>
  The sidecar of \<open>pg\<close> and the one of \<open>db\<close> have both read the store. That of \<open>pg\<close> records a failure, then the one of
  \<open>db\<close> writes the copy it still holds.
\<close>

definition sharing_servers :: "string \<Rightarrow> string set" where
  "sharing_servers p = (if p = ''pg-1'' then {''pg''} else {''db''})"

abbreviation sharing_key :: namespaced_name where
  "sharing_key \<equiv> NamespacedName ''ns'' ''store''"

definition sharing_entry :: cachedEntry where
  "sharing_entry = new_entry (Obj_ObjectStore (sample_store ''store'')) (at_second 105)"

definition both_read :: "rev_world sidecars" where
  "both_read = \<lparr>sy_world = shared_store, sy_cache = (\<lambda>_. [])(''pg-1'' := [sharing_entry], ''db-1'' := [sharing_entry]),
     sy_held = (\<lambda>_ _. None)(''pg-1'' := [0 \<mapsto> sample_store ''store''], ''db-1'' := [0 \<mapsto> sample_store ''store'']), sy_tried = {}\<rparr>"

abbreviation sharing_step where
  "sharing_step \<equiv> sw_step sample_lib rev_client rev_server rev_stored fst sharing_servers"

lemma shared_stored: "rev_stored shared_store sharing_key = Some (sample_store ''store'')"
  by (simp add: rev_stored_Some shared_store_def one_store_def sample_store_def object_key_def)

lemma first_read: "client_Get rev_client T_ObjectStore sharing_key (shared_store, []) =
    (Inr (Obj_ObjectStore (sample_store ''store'')), [Ev_Get T_ObjectStore sharing_key (Inr (Obj_ObjectStore (sample_store ''store''))),
      Ev_Now (at_second 105)], (shared_store, [sharing_entry]))"
  by (simp add: client_Get_def isObjectCached_def getCachedObject_run [OF rev_laws(1)] fetched_def shared_stored
      rev_client_simps cache_put_simps sharing_entry_def)

lemma sharing_read:
  assumes "sy_cache st p = []" "sy_world st = shared_store"
  shows "sharing_step (Sidecar p) st (st\<lparr>sy_world := shared_store, sy_cache := (sy_cache st)(p := [sharing_entry]),
    sy_held := (sy_held st)(p := (sy_held st p)(0 \<mapsto> sample_store ''store''))\<rparr>)"
  using sw_get [of rev_client T_ObjectStore sharing_key st p, unfolded assms, OF first_read, where t = 0] by (simp add: hold_def)

lemma both_read_reach: "sw_reach sample_lib rev_client rev_server rev_stored fst sharing_servers both_read"
proof -
  note start = sw_start [of sample_lib rev_client rev_server rev_stored fst sharing_servers shared_store]
  note one = sw_next [OF start sharing_read [of _ "''pg-1''"], simplified]
  show ?thesis using sw_next [OF one sharing_read [of _ "''db-1''"]] by (simp add: both_read_def)
qed

definition pg_failed :: "rev_world sidecars" where
  "pg_failed = both_read\<lparr>sy_world := io_world (update_object_store_status rev_server
       (with_failure ''pg'' (at_second 106) (sample_store ''store''))) shared_store,
     sy_cache := (sy_cache both_read)(''pg-1'' := sy_cache both_read ''pg-1''),
     sy_held := (sy_held both_read)(''pg-1'' := (sy_held both_read ''pg-1'')(0 := None)),
     sy_tried := insert (''pg'', at_second 106) (sy_tried both_read)\<rparr>"

lemma store_key: "object_key (os_Meta (sample_store ''store'')) = sharing_key" "version (sample_store ''store'') = 1"
  by (simp_all add: sample_store_def object_key_def)

lemma memory_same: "memory_changed S T m m"
proof -
  have "changed_object S T obj obj" for obj by (cases obj) (simp_all add: changed_refl)
  then have "\<exists>obj. changed_object S T (ce_entry ce) obj \<and> ce = ce\<lparr>ce_entry := obj\<rparr>" for ce
    by (intro exI [of _ "ce_entry ce"]) simp
  then show ?thesis unfolding memory_changed_def by (auto simp: list_all2_same changed_refl)
qed

text \<open>The store after the failure of \<open>pg\<close> was recorded.\<close>

definition failed_store :: object_store where
  "failed_store = (sample_store ''store'')\<lparr>os_Meta := (os_Meta (sample_store ''store''))\<lparr>om_ResourceVersion := 2\<rparr>,
     os_Status := os_Status (with_failure ''pg'' (at_second 106) (sample_store ''store''))\<rparr>"

lemma failure_written: "io_world (update_object_store_status rev_server
     (with_failure ''pg'' (at_second 106) (sample_store ''store''))) shared_store =
   (2, (rev_stored shared_store)(sharing_key \<mapsto> failed_store))"
  by (simp add: io_world_def io_simps rev_server_update shared_stored store_key failed_store_def)
    (simp add: shared_store_def numeral_2_eq_2)

lemma failure_stored: "rev_stored (sy_world pg_failed) sharing_key = Some failed_store"
  using store_key(1) by (simp add: pg_failed_def failure_written rev_stored_Some) (simp add: failed_store_def object_key_def)

lemma pg_failed_reach: "sw_reach sample_lib rev_client rev_server rev_stored fst sharing_servers pg_failed"
proof (rule sw_next [OF both_read_reach])
  let ?os = "with_failure ''pg'' (at_second 106) (sample_store ''store'')"
  obtain r cs w' where run: "update_object_store_status rev_server ?os (sy_world both_read) = (r, cs, w')" by (metis surj_pair)
  have "sharing_step (Sidecar ''pg-1'') both_read (both_read\<lparr>sy_world := w',
      sy_cache := (sy_cache both_read)(''pg-1'' := sy_cache both_read ''pg-1''),
      sy_held := (sy_held both_read)(''pg-1'' := (sy_held both_read ''pg-1'')(0 := None)),
      sy_tried := insert (''pg'', at_second 106) (sy_tried both_read)\<rparr>)"
    by (rule sw_failure [OF _ _ refl run memory_same]) (simp_all add: both_read_def sharing_servers_def)
  moreover have "w' = io_world (update_object_store_status rev_server ?os) shared_store"
    using run by (simp add: both_read_def io_world_def)
  ultimately show "sharing_step (Sidecar ''pg-1'') both_read pg_failed"
    by (simp add: pg_failed_def)
qed

theorem windows_isolated_witness:
  "\<exists>st'. sw_step sample_lib rev_client rev_server rev_stored fst sharing_servers (Sidecar ''db-1'') pg_failed st' \<and>
     failed_in (rev_stored (sy_world pg_failed) sharing_key) = Some (at_second 106) \<and>
     failed_in (rev_stored (sy_world st') sharing_key) = Some (at_second 106)"
proof -
  let ?os = "with_catalog sample_lib ''db'' [] (sample_store ''store'')"
  obtain r cs w' where run: "updateRecoveryWindow sample_lib rev_server [] (sample_store ''store'') ''db'' (sy_world pg_failed) = (r, cs, w')"
    by (metis surj_pair)
  have "\<exists>st'. sharing_step (Sidecar ''db-1'') pg_failed st' \<and> sy_tried st' = sy_tried pg_failed"
    using sw_refresh [OF _ _ run memory_same, where p = "''db-1''" and t = 0 and servers = sharing_servers
      and rv = fst and b = rev_client and stores = rev_stored]
    by (fastforce simp: pg_failed_def both_read_def sharing_servers_def)
  then obtain st' where st': "sharing_step (Sidecar ''db-1'') pg_failed st'" "sy_tried st' = sy_tried pg_failed" by blast
  have "isolated rev_stored (sharing_servers ''db-1'') (sy_tried st') (sy_world pg_failed) (sy_world st')"
    by (rule windows_isolated [OF rev_laws rev_write_law pg_failed_reach st'(1)])
  moreover have now: "failed_in (rev_stored (sy_world pg_failed) sharing_key) = Some (at_second 106)"
    by (simp add: failure_stored failed_in_def failed_store_def server_window_status)
      (simp add: with_failure_def server_window_put)
  ultimately have "failed_in (rev_stored (sy_world st') sharing_key) = Some (at_second 106)"
    using isolatedD [where stores = rev_stored, OF _ failure_stored] by (fastforce simp: failed_in_def failure_stored sharing_servers_def)
  with st' now show ?thesis by blast
qed


text \<open>A sidecar with a stale entry that was read in second 90, in second 105.\<close>

definition stale_cache :: "cachedEntry list" where
  "stale_cache = [new_entry (Obj_ObjectStore old_store) (at_second 90)]"


end
