(* ===== verification/Deep_Copy.thy ===== *)
theory Deep_Copy
  imports Cached_Status "HOL-Library.State_Monad"
begin

text \<open>
  The copies of \<open>api/v1/zz_generated.deepcopy.go\<close>, on an explicit memory. Elsewhere in this development an
  ObjectStore is a value. In the program it is a struct that points to times, maps and arrays, and two structs
  can share them. This theory says what \<open>DeepCopy\<close> is for, and which parts of a cached object a reader of
  the cache shares with it.
\<close>

section \<open>Memory\<close>

text \<open>
  A struct of another module has fields of its own and cells in memory that it reaches. A slice is a part of
  an array. A pointer or slice that may be nil is an option.
\<close>

type_synonym addr = nat

record foreign =
  fo_Fields :: string
  fo_Cells :: "addr list"

record slice =
  sl_Array :: addr
  sl_From :: nat
  sl_Len :: nat

record window_struct =
  ws_FirstRecoverabilityPoint :: "addr option"
  ws_LastSuccessfulBackupTime :: "addr option"
  ws_LastFailedBackupTime :: "addr option"

record sidecar_struct =
  ss_Env :: "slice option"
  ss_RetentionPolicyIntervalSeconds :: "64 word"
  ss_Resources :: foreign
  ss_AdditionalContainerArgs :: "slice option"
  ss_LogLevel :: string

record spec_struct =
  sp_Configuration :: foreign
  sp_RetentionPolicy :: string
  sp_InstanceSidecarConfiguration :: sidecar_struct

record status_struct =
  st_ServerRecoveryWindow :: "addr option"

record store_struct =
  sr_TypeMeta :: "string \<times> string"
  sr_ObjectMeta :: foreign
  sr_Spec :: spec_struct
  sr_Status :: status_struct

record store_list_struct =
  sls_TypeMeta :: "string \<times> string"
  sls_ListMeta :: foreign
  sls_Items :: "slice option"

text \<open>The cells of the memory, by what they hold; a map is the list of its entries.\<close>

record memory =
  mm_Times :: "gtime list"
  mm_Maps :: "(string \<times> window_struct) list list"
  mm_Envs :: "foreign list list"
  mm_Strings :: "string list list"
  mm_Items :: "store_struct list list"
  mm_Foreign :: "string list"

datatype cell = Time_Cell addr | Map_Cell addr | Env_Array addr | String_Array addr | Item_Array addr | Foreign_Cell addr

datatype content = C_Time gtime | C_Map "(string \<times> window_struct) list" | C_Envs "foreign list"
  | C_Strings "string list" | C_Items "store_struct list" | C_Foreign string

definition nth_opt :: "'a list \<Rightarrow> nat \<Rightarrow> 'a option" where
  "nth_opt xs i = (if i < length xs then Some (xs ! i) else None)"

primrec cell_content :: "memory \<Rightarrow> cell \<Rightarrow> content option" where
  "cell_content h (Time_Cell a) = map_option C_Time (nth_opt (mm_Times h) a)"
| "cell_content h (Map_Cell a) = map_option C_Map (nth_opt (mm_Maps h) a)"
| "cell_content h (Env_Array a) = map_option C_Envs (nth_opt (mm_Envs h) a)"
| "cell_content h (String_Array a) = map_option C_Strings (nth_opt (mm_Strings h) a)"
| "cell_content h (Item_Array a) = map_option C_Items (nth_opt (mm_Items h) a)"
| "cell_content h (Foreign_Cell a) = map_option C_Foreign (nth_opt (mm_Foreign h) a)"

definition allocated :: "memory \<Rightarrow> cell set" where
  "allocated h = {c. cell_content h c \<noteq> None}"

definition same_on :: "cell set \<Rightarrow> memory \<Rightarrow> memory \<Rightarrow> bool" where
  "same_on C h h' \<longleftrightarrow> (\<forall>c \<in> C. cell_content h' c = cell_content h c)"

lemma nth_opt_snoc: "nth_opt (xs @ [x]) i = (if i = length xs then Some x else nth_opt xs i)"
  by (simp add: nth_opt_def nth_append)

lemma same_on_mono: "same_on C h h' \<Longrightarrow> D \<subseteq> C \<Longrightarrow> same_on D h h'"
  by (auto simp: same_on_def)

lemma same_on_trans: "same_on C h h1 \<Longrightarrow> same_on C h1 h2 \<Longrightarrow> same_on C h h2"
  by (simp add: same_on_def)

lemma same_on_refl: "same_on C h h"
  by (simp add: same_on_def)

lemma same_on_allocated: "same_on (allocated h) h h' \<Longrightarrow> allocated h \<subseteq> allocated h'"
  by (auto simp: same_on_def allocated_def)

section \<open>What a deep copy promises\<close>

text \<open>
  \<open>view\<close> is what a value means, read through its pointers, and \<open>cells\<close> the memory it reaches. A copy means
  the same, is made of cells that were not in use, and changes no other.
\<close>

locale deep_copy =
  fixes copy :: "'v \<Rightarrow> (memory, 'v) state" and view :: "memory \<Rightarrow> 'v \<Rightarrow> 'm" and cells :: "memory \<Rightarrow> 'v \<Rightarrow> cell set"
  assumes frame: "same_on (cells h v) h h2 \<Longrightarrow> view h2 v = view h v \<and> cells h2 v = cells h v"
    and copied: "cells h v \<subseteq> allocated h \<Longrightarrow> run_state (copy v) h = (v', h') \<Longrightarrow>
      same_on (allocated h) h h' \<and> view h' v' = view h v \<and> cells h' v' \<subseteq> allocated h' - allocated h"
begin

text \<open>Whoever writes to the memory that was in use before does not change the copy.\<close>

lemma independent:
  assumes "cells h v \<subseteq> allocated h" "run_state (copy v) h = (v', h')" "same_on (- allocated h) h' h2"
  shows "view h2 v' = view h v"
proof -
  from copied [OF assms(1,2)] have c: "view h' v' = view h v" "cells h' v' \<subseteq> - allocated h" by auto
  have "view h2 v' = view h' v'" using frame same_on_mono [OF assms(3) c(2)] by blast
  with c show ?thesis by simp
qed

text \<open>And whoever writes to the copy does not change the original.\<close>

lemma original_kept:
  assumes "cells h v \<subseteq> allocated h" "run_state (copy v) h = (v', h')" "same_on (- cells h' v') h' h2"
  shows "view h2 v = view h v"
proof -
  from copied [OF assms(1,2)] have c: "same_on (cells h v) h h'" "cells h v \<subseteq> - cells h' v'"
    using assms(1) same_on_mono by blast+
  have "same_on (cells h v) h h2" by (rule same_on_trans [OF c(1) same_on_mono [OF assms(3) c(2)]])
  then show ?thesis using frame by blast
qed

lemma kept: "cells h v \<subseteq> allocated h \<Longrightarrow> same_on (allocated h) h h1 \<Longrightarrow> view h1 v = view h v \<and> cells h1 v = cells h v"
  using frame same_on_mono by blast

end


text \<open>Copying one thing after the other, and one field of a value.\<close>

definition frame_at :: "(memory \<Rightarrow> 'v \<Rightarrow> 'm) \<Rightarrow> (memory \<Rightarrow> 'v \<Rightarrow> cell set) \<Rightarrow> memory \<Rightarrow> 'v \<Rightarrow> bool" where
  "frame_at view cells h v \<longleftrightarrow> (\<forall>h2. same_on (cells h v) h h2 \<longrightarrow> view h2 v = view h v \<and> cells h2 v = cells h v)"

definition copied_to :: "(memory \<Rightarrow> 'v \<Rightarrow> 'm) \<Rightarrow> (memory \<Rightarrow> 'v \<Rightarrow> cell set) \<Rightarrow> memory \<Rightarrow> 'v \<Rightarrow> memory \<Rightarrow> 'v \<Rightarrow> bool" where
  "copied_to view cells h v h' v' \<longleftrightarrow> frame_at view cells h' v' \<and> same_on (allocated h) h h' \<and>
     view h' v' = view h v \<and> cells h' v' \<subseteq> allocated h' - allocated h"

definition copies_at :: "('v \<Rightarrow> (memory, 'v) state) \<Rightarrow> (memory \<Rightarrow> 'v \<Rightarrow> 'm) \<Rightarrow> (memory \<Rightarrow> 'v \<Rightarrow> cell set) \<Rightarrow> 'v \<Rightarrow> bool" where
  "copies_at copy view cells v \<longleftrightarrow> (\<forall>h. frame_at view cells h v) \<and>
     (\<forall>h v' h'. cells h v \<subseteq> allocated h \<longrightarrow> run_state (copy v) h = (v', h') \<longrightarrow> copied_to view cells h v h' v')"

lemma frame_atD: "frame_at view cells h v \<Longrightarrow> same_on (cells h v) h h2 \<Longrightarrow> view h2 v = view h v \<and> cells h2 v = cells h v"
  by (simp add: frame_at_def)

lemma copies_atD:
  assumes "copies_at copy view cells v"
  shows "frame_at view cells h v" "cells h v \<subseteq> allocated h \<Longrightarrow> run_state (copy v) h = (v', h') \<Longrightarrow> copied_to view cells h v h' v'"
  using assms by (simp_all add: copies_at_def)

lemma copies_at:
  assumes "deep_copy copy view cells"
  shows "copies_at copy view cells v"
proof -
  have frame: "frame_at view cells h v" for h v
    unfolding frame_at_def by (intro allI impI) (rule deep_copy.frame [OF assms])
  have "copied_to view cells h v h' v'" if "cells h v \<subseteq> allocated h" "run_state (copy v) h = (v', h')" for h v' h'
    using deep_copy.copied [OF assms that] frame by (simp add: copied_to_def)
  with frame show ?thesis unfolding copies_at_def by blast
qed

lemma deep_copyI:
  assumes "\<And>v. copies_at copy view cells v"
  shows "deep_copy copy view cells"
proof
  show "view h2 v = view h v \<and> cells h2 v = cells h v" if "same_on (cells h v) h h2" for h v h2
    by (rule frame_atD [OF copies_atD(1) [OF assms] that])
  show "same_on (allocated h) h h' \<and> view h' v' = view h v \<and> cells h' v' \<subseteq> allocated h' - allocated h"
    if "cells h v \<subseteq> allocated h" "run_state (copy v) h = (v', h')" for h v v' h'
    using copies_atD(2) [OF assms that] by (simp add: copied_to_def)
qed

lemma copy_then:
  assumes "copies_at c1 v1 s1 x" "copies_at c2 v2 s2 y" "s1 h x \<subseteq> allocated h" "s2 h y \<subseteq> allocated h"
    and "run_state (c1 x) h = (x', h1)" "run_state (c2 y) h1 = (y', h2)"
  shows "copied_to v1 s1 h x h2 x'" "copied_to v2 s2 h y h2 y'"
proof -
  have c1: "frame_at v1 s1 h1 x'" "same_on (allocated h) h h1" "v1 h1 x' = v1 h x" "s1 h1 x' \<subseteq> allocated h1 - allocated h"
    using copies_atD(2) [OF assms(1,3,5)] by (simp_all add: copied_to_def)
  have a1: "allocated h \<subseteq> allocated h1" by (rule same_on_allocated [OF c1(2)])
  have k2: "v2 h1 y = v2 h y" "s2 h1 y = s2 h y"
    using frame_atD [OF copies_atD(1) [OF assms(2)] same_on_mono [OF c1(2) assms(4)]] by simp_all
  then have "s2 h1 y \<subseteq> allocated h1" using assms(4) a1 by simp
  from copies_atD(2) [OF assms(2) this assms(6)]
  have c2: "frame_at v2 s2 h2 y'" "same_on (allocated h1) h1 h2" "v2 h2 y' = v2 h1 y" "s2 h2 y' \<subseteq> allocated h2 - allocated h1"
    by (simp_all add: copied_to_def)
  have a2: "allocated h1 \<subseteq> allocated h2" by (rule same_on_allocated [OF c2(2)])
  have s: "same_on (s1 h1 x') h1 h2" by (rule same_on_mono [OF c2(2)]) (use c1(4) in blast)
  have k1: "v1 h2 x' = v1 h1 x'" "s1 h2 x' = s1 h1 x'" using frame_atD [OF c1(1) s] by simp_all
  have f1: "frame_at v1 s1 h2 x'"
    using frame_atD [OF c1(1) same_on_trans [OF s]] by (simp add: frame_at_def k1)
  have all: "same_on (allocated h) h h2" by (rule same_on_trans [OF c1(2) same_on_mono [OF c2(2) a1]])
  show "copied_to v1 s1 h x h2 x'" using f1 all k1 c1(3,4) a2 by (auto simp: copied_to_def)
  show "copied_to v2 s2 h y h2 y'" using c2 all k2 a1 by (auto simp: copied_to_def)
qed

lemma deep_copy_pair:
  assumes "deep_copy c1 v1 s1" "deep_copy c2 v2 s2"
  shows "deep_copy (\<lambda>(x, y). do {x' \<leftarrow> c1 x; y' \<leftarrow> c2 y; State_Monad.return (x', y')})
    (\<lambda>h (x, y). (v1 h x, v2 h y)) (\<lambda>h (x, y). s1 h x \<union> s2 h y)"
proof (standard, goal_cases)
  case (1 h v h2)
  have "same_on (s1 h (fst v)) h h2" "same_on (s2 h (snd v)) h h2"
    using 1 by (auto simp: same_on_def split: prod.splits)
  then show ?case using deep_copy.frame [OF assms(1)] deep_copy.frame [OF assms(2)] by (cases v) simp
next
  case (2 h v v' h')
  obtain x y where v: "v = (x, y)" by fastforce
  obtain x' h1 where 1: "run_state (c1 x) h = (x', h1)" by fastforce
  obtain y' h2 where 3: "run_state (c2 y) h1 = (y', h2)" by fastforce
  have "v' = (x', y')" "h' = h2" using 2(2) v 1 3 by simp_all
  with copy_then [OF copies_at [OF assms(1)] copies_at [OF assms(2)] _ _ 1 3] 2(1) v
  show ?case by (auto simp: copied_to_def)
qed

lemma deep_copy_field:
  assumes "deep_copy copy view cells" "\<And>v x. get (put v x) = x" "\<And>v x. rest (put v x) = rest v"
  shows "deep_copy (\<lambda>v. do {x \<leftarrow> copy (get v); State_Monad.return (put v x)})
    (\<lambda>h v. (rest v, view h (get v))) (\<lambda>h v. cells h (get v))"
proof (standard, goal_cases)
  case (1 h v h2)
  then show ?case using deep_copy.frame [OF assms(1)] by auto
next
  case (2 h v v' h')
  obtain x h1 where 1: "run_state (copy (get v)) h = (x, h1)" by fastforce
  then have "v' = put v x" "h' = h1" using 2(2) by simp_all
  with deep_copy.copied [OF assms(1) 2(1) 1] show ?case by (simp add: assms(2,3))
qed

lemma deep_copy_cong:
  assumes "deep_copy copy view cells" "copy' = copy" "\<And>h v. view' h v = f (view h v)" "\<And>h v. cells' h v = cells h v"
  shows "deep_copy copy' view' cells'"
  using deep_copy.frame [OF assms(1)] deep_copy.copied [OF assms(1)] unfolding assms(2)
  by unfold_locales (simp_all only: assms(3,4))

definition copy_if_set :: "('v \<Rightarrow> (memory, 'v) state) \<Rightarrow> 'v option \<Rightarrow> (memory, 'v option) state" where
  "copy_if_set copy p = (case p of None \<Rightarrow> State_Monad.return None | Some v \<Rightarrow> do {v' \<leftarrow> copy v; State_Monad.return (Some v')})"

definition cells_if_set :: "(memory \<Rightarrow> 'v \<Rightarrow> cell set) \<Rightarrow> memory \<Rightarrow> 'v option \<Rightarrow> cell set" where
  "cells_if_set cells h p = (case p of None \<Rightarrow> {} | Some v \<Rightarrow> cells h v)"

lemma deep_copy_if_set:
  assumes "deep_copy copy view cells"
  shows "deep_copy (copy_if_set copy) (\<lambda>h. map_option (view h)) (cells_if_set cells)"
proof (standard, goal_cases)
  case (1 h v h2)
  then show ?case using deep_copy.frame [OF assms] by (cases v) (auto simp: cells_if_set_def)
next
  case (2 h v v' h')
  show ?case
  proof (cases v)
    case None
    then show ?thesis using 2 by (simp add: copy_if_set_def cells_if_set_def same_on_refl)
  next
    case (Some u)
    obtain u' h1 where 1: "run_state (copy u) h = (u', h1)" by fastforce
    then have "v' = Some u'" "h' = h1" using 2(2) Some by (simp_all add: copy_if_set_def)
    with deep_copy.copied [OF assms _ 1] 2(1) Some show ?thesis by (simp add: cells_if_set_def)
  qed
qed

lemma copies_list:
  assumes "\<And>x. x \<in> set xs \<Longrightarrow> copies_at copy view cells x"
  shows "copies_at (traverse_list copy) (\<lambda>h. map (view h)) (\<lambda>h xs. \<Union>x \<in> set xs. cells h x) xs"
  using assms
proof (induction xs)
  case Nil
  then show ?case by (simp add: copies_at_def copied_to_def frame_at_def same_on_refl)
next
  case (Cons x xs)
  let ?cells = "\<lambda>h xs. \<Union>x \<in> set xs. cells h x"
  have x: "copies_at copy view cells x" and xs: "copies_at (traverse_list copy) (\<lambda>h. map (view h)) ?cells xs"
    using Cons by simp_all
  have parts: "frame_at (\<lambda>h. map (view h)) ?cells h (y # ys)"
    if "frame_at view cells h y" "frame_at (\<lambda>h. map (view h)) ?cells h ys" for h y ys
    unfolding frame_at_def
  proof (intro allI impI)
    fix h2 assume "same_on (?cells h (y # ys)) h h2"
    then have "same_on (cells h y) h h2" "same_on (?cells h ys) h h2" by (auto simp: same_on_def)
    from frame_atD [OF that(1) this(1)] frame_atD [OF that(2) this(2)]
    show "map (view h2) (y # ys) = map (view h) (y # ys) \<and> ?cells h2 (y # ys) = ?cells h (y # ys)" by auto
  qed
  show ?case unfolding copies_at_def
  proof (intro conjI allI impI)
    fix h show "frame_at (\<lambda>h. map (view h)) ?cells h (x # xs)"
      by (rule parts [OF copies_atD(1) [OF x] copies_atD(1) [OF xs]])
  next
    fix h v' h' assume sub: "?cells h (x # xs) \<subseteq> allocated h" and run: "run_state (traverse_list copy (x # xs)) h = (v', h')"
    obtain x' h1 where 1: "run_state (copy x) h = (x', h1)" by fastforce
    obtain xs' h2 where 2: "run_state (traverse_list copy xs) h1 = (xs', h2)" by fastforce
    have out: "v' = x' # xs'" "h' = h2" using run 1 2 by simp_all
    have "copied_to view cells h x h2 x'" "copied_to (\<lambda>h. map (view h)) ?cells h xs h2 xs'"
      using copy_then [OF x xs _ _ 1 2] sub by simp_all
    then show "copied_to (\<lambda>h. map (view h)) ?cells h (x # xs) h' v'"
      unfolding out copied_to_def using parts [of h2 x' xs'] by simp
  qed
qed

lemma deep_copy_list:
  assumes "deep_copy copy view cells"
  shows "deep_copy (traverse_list copy) (\<lambda>h. map (view h)) (\<lambda>h xs. \<Union>x \<in> set xs. cells h x)"
  by (rule deep_copyI, rule copies_list, rule copies_at [OF assms])


text \<open>A value without pointers.\<close>

lemma deep_copy_plain: "deep_copy State_Monad.return (\<lambda>_ v. v) (\<lambda>_ _. {})"
  by unfold_locales (simp_all add: same_on_refl)

section \<open>Maps and arrays\<close>

text \<open>A kind of cell that holds a list: how it is read, and how a new one is made.\<close>

locale box =
  fixes mk :: "addr \<Rightarrow> cell" and read :: "memory \<Rightarrow> addr \<Rightarrow> 'y list" and new :: "'y list \<Rightarrow> (memory, addr) state"
  assumes read_frame: "same_on {mk a} h h2 \<Longrightarrow> read h2 a = read h a"
    and new_box: "run_state (new xs) h = (a, h') \<Longrightarrow>
      mk a \<notin> allocated h \<and> allocated h' = insert (mk a) (allocated h) \<and> same_on (allocated h) h h' \<and> read h' a = xs"
begin

text \<open>A pointer to such a cell that uses a part of it; the copy has a cell with just that part.\<close>

lemma copy_part:
  assumes elems: "deep_copy copy view cells"
    and ref: "\<And>a n. addr_of (made a n) = a" "\<And>a xs. part (made a (length xs)) xs = xs"
  shows "deep_copy (\<lambda>p. do {h \<leftarrow> State_Monad.get; xs \<leftarrow> traverse_list copy (part p (read h (addr_of p)));
      a \<leftarrow> new xs; State_Monad.return (made a (length xs))})
    (\<lambda>h p. map (view h) (part p (read h (addr_of p))))
    (\<lambda>h p. insert (mk (addr_of p)) (\<Union>x \<in> set (part p (read h (addr_of p))). cells h x))"
proof (standard, goal_cases)
  case (1 h p h2)
  then have "same_on {mk (addr_of p)} h h2" "same_on (\<Union>x \<in> set (part p (read h (addr_of p))). cells h x) h h2"
    by (auto simp: same_on_def)
  then show ?case using read_frame deep_copy.frame [OF deep_copy_list [OF elems]] by metis
next
  case (2 h p p' h')
  let ?xs = "part p (read h (addr_of p))"
  obtain xs h1 where 1: "run_state (traverse_list copy ?xs) h = (xs, h1)" by fastforce
  obtain a h2 where 3: "run_state (new xs) h1 = (a, h2)" by fastforce
  have out: "p' = made a (length xs)" "h' = h2" using 2(2) 1 3 by simp_all
  have c: "same_on (allocated h) h h1" "map (view h1) xs = map (view h) ?xs"
    "(\<Union>x \<in> set xs. cells h1 x) \<subseteq> allocated h1 - allocated h"
    using deep_copy.copied [OF deep_copy_list [OF elems] _ 1] 2(1) by auto
  note n = new_box [OF 3]
  have k: "map (view h2) xs = map (view h1) xs" "(\<Union>x \<in> set xs. cells h2 x) = (\<Union>x \<in> set xs. cells h1 x)"
    using deep_copy.kept [OF deep_copy_list [OF elems], of h1 xs h2] c(3) n by auto
  have "same_on (allocated h) h h2"
    using same_on_trans [OF c(1)] same_on_mono [OF _ same_on_allocated [OF c(1)]] n by blast
  then show ?case using c k n same_on_allocated [OF c(1)] by (auto simp: out ref)
qed

end

definition read_map :: "memory \<Rightarrow> addr \<Rightarrow> (string \<times> window_struct) list" where
  "read_map h a = (case nth_opt (mm_Maps h) a of Some m \<Rightarrow> m | None \<Rightarrow> [])"

definition new_map :: "(string \<times> window_struct) list \<Rightarrow> (memory, addr) state" where
  "new_map m = State (\<lambda>h. (length (mm_Maps h), h\<lparr>mm_Maps := mm_Maps h @ [m]\<rparr>))"

definition read_envs :: "memory \<Rightarrow> addr \<Rightarrow> foreign list" where
  "read_envs h a = (case nth_opt (mm_Envs h) a of Some xs \<Rightarrow> xs | None \<Rightarrow> [])"

definition new_envs :: "foreign list \<Rightarrow> (memory, addr) state" where
  "new_envs xs = State (\<lambda>h. (length (mm_Envs h), h\<lparr>mm_Envs := mm_Envs h @ [xs]\<rparr>))"

definition read_strings :: "memory \<Rightarrow> addr \<Rightarrow> string list" where
  "read_strings h a = (case nth_opt (mm_Strings h) a of Some xs \<Rightarrow> xs | None \<Rightarrow> [])"

definition new_strings :: "string list \<Rightarrow> (memory, addr) state" where
  "new_strings xs = State (\<lambda>h. (length (mm_Strings h), h\<lparr>mm_Strings := mm_Strings h @ [xs]\<rparr>))"

definition read_items :: "memory \<Rightarrow> addr \<Rightarrow> store_struct list" where
  "read_items h a = (case nth_opt (mm_Items h) a of Some xs \<Rightarrow> xs | None \<Rightarrow> [])"

definition new_items :: "store_struct list \<Rightarrow> (memory, addr) state" where
  "new_items xs = State (\<lambda>h. (length (mm_Items h), h\<lparr>mm_Items := mm_Items h @ [xs]\<rparr>))"

lemma content_grows:
  "cell_content (h\<lparr>mm_Maps := mm_Maps h @ [m]\<rparr>) c = (if c = Map_Cell (length (mm_Maps h)) then Some (C_Map m) else cell_content h c)"
  "cell_content (h\<lparr>mm_Envs := mm_Envs h @ [es]\<rparr>) c = (if c = Env_Array (length (mm_Envs h)) then Some (C_Envs es) else cell_content h c)"
  "cell_content (h\<lparr>mm_Strings := mm_Strings h @ [ss]\<rparr>) c = (if c = String_Array (length (mm_Strings h)) then Some (C_Strings ss) else cell_content h c)"
  "cell_content (h\<lparr>mm_Items := mm_Items h @ [is]\<rparr>) c = (if c = Item_Array (length (mm_Items h)) then Some (C_Items is) else cell_content h c)"
  by (cases c; simp add: nth_opt_snoc)+

lemma nth_opt_len: "nth_opt xs (length xs) = None"
  by (simp add: nth_opt_def)

lemmas box_simps = same_on_def allocated_def content_grows nth_opt_snoc nth_opt_len

interpretation maps: box Map_Cell read_map new_map
  by unfold_locales (auto simp: box_simps read_map_def new_map_def split: option.splits)

interpretation envs: box Env_Array read_envs new_envs
  by unfold_locales (auto simp: box_simps read_envs_def new_envs_def split: option.splits)

interpretation strings: box String_Array read_strings new_strings
  by unfold_locales (auto simp: box_simps read_strings_def new_strings_def split: option.splits)

interpretation items: box Item_Array read_items new_items
  by unfold_locales (auto simp: box_simps read_items_def new_items_def split: option.splits)

text \<open>The elements of a slice.\<close>

definition slice_part :: "slice \<Rightarrow> 'y list \<Rightarrow> 'y list" where
  "slice_part s xs = take (sl_Len s) (drop (sl_From s) xs)"

definition whole :: "addr \<Rightarrow> nat \<Rightarrow> slice" where
  "whole a n = \<lparr>sl_Array = a, sl_From = 0, sl_Len = n\<rparr>"

lemma whole_simps [simp]: "sl_Array (whole a n) = a" "slice_part (whole a (length xs)) xs = xs"
  by (simp_all add: whole_def slice_part_def)

section \<open>The copies\<close>

text \<open>The copies made by other modules.\<close>

record copiers =
  Time_DeepCopy :: "addr \<Rightarrow> (memory, addr) state"
  ObjectMeta_DeepCopyInto :: "foreign \<Rightarrow> (memory, foreign) state"
  ListMeta_DeepCopyInto :: "foreign \<Rightarrow> (memory, foreign) state"
  Configuration_DeepCopyInto :: "foreign \<Rightarrow> (memory, foreign) state"
  EnvVar_DeepCopyInto :: "foreign \<Rightarrow> (memory, foreign) state"
  ResourceRequirements_DeepCopyInto :: "foreign \<Rightarrow> (memory, foreign) state"

text \<open>
  \<open>in.DeepCopyInto(out)\<close> is a function from the fields of \<open>*in\<close> to those of \<open>*out\<close>; a pointer to a struct is
  nil or its fields. \<open>*out = *in\<close> is the record the fields are put into.
\<close>

definition RecoveryWindow_DeepCopyInto :: "copiers \<Rightarrow> window_struct \<Rightarrow> (memory, window_struct) state" where
  "RecoveryWindow_DeepCopyInto X inp = do {
     t1 \<leftarrow> copy_if_set (Time_DeepCopy X) (ws_FirstRecoverabilityPoint inp);
     t2 \<leftarrow> copy_if_set (Time_DeepCopy X) (ws_LastSuccessfulBackupTime inp);
     t3 \<leftarrow> copy_if_set (Time_DeepCopy X) (ws_LastFailedBackupTime inp);
     State_Monad.return (inp\<lparr>ws_FirstRecoverabilityPoint := t1, ws_LastSuccessfulBackupTime := t2,
       ws_LastFailedBackupTime := t3\<rparr>)}"

definition RecoveryWindow_DeepCopy :: "copiers \<Rightarrow> window_struct option \<Rightarrow> (memory, window_struct option) state" where
  "RecoveryWindow_DeepCopy X = copy_if_set (RecoveryWindow_DeepCopyInto X)"

definition copy_entry :: "copiers \<Rightarrow> string \<times> window_struct \<Rightarrow> (memory, string \<times> window_struct) state" where
  "copy_entry X kv = do {val \<leftarrow> RecoveryWindow_DeepCopy X (Some (snd kv)); State_Monad.return (fst kv, the val)}"

definition ObjectStoreStatus_DeepCopyInto :: "copiers \<Rightarrow> status_struct \<Rightarrow> (memory, status_struct) state" where
  "ObjectStoreStatus_DeepCopyInto X inp = do {
     m \<leftarrow> copy_if_set (\<lambda>a. do {h \<leftarrow> State_Monad.get; kvs \<leftarrow> traverse_list (copy_entry X) (read_map h a); new_map kvs})
       (st_ServerRecoveryWindow inp);
     State_Monad.return (inp\<lparr>st_ServerRecoveryWindow := m\<rparr>)}"

definition ObjectStoreStatus_DeepCopy :: "copiers \<Rightarrow> status_struct option \<Rightarrow> (memory, status_struct option) state" where
  "ObjectStoreStatus_DeepCopy X = copy_if_set (ObjectStoreStatus_DeepCopyInto X)"

definition InstanceSidecarConfiguration_DeepCopyInto :: "copiers \<Rightarrow> sidecar_struct \<Rightarrow> (memory, sidecar_struct) state" where
  "InstanceSidecarConfiguration_DeepCopyInto X inp = do {
     env \<leftarrow> copy_if_set (\<lambda>s. do {h \<leftarrow> State_Monad.get;
       xs \<leftarrow> traverse_list (EnvVar_DeepCopyInto X) (slice_part s (read_envs h (sl_Array s)));
       a \<leftarrow> new_envs xs; State_Monad.return (whole a (length xs))}) (ss_Env inp);
     res \<leftarrow> ResourceRequirements_DeepCopyInto X (ss_Resources inp);
     args \<leftarrow> copy_if_set (\<lambda>s. do {h \<leftarrow> State_Monad.get; let xs = slice_part s (read_strings h (sl_Array s));
       a \<leftarrow> new_strings xs; State_Monad.return (whole a (length xs))}) (ss_AdditionalContainerArgs inp);
     State_Monad.return (inp\<lparr>ss_Env := env, ss_Resources := res, ss_AdditionalContainerArgs := args\<rparr>)}"

definition InstanceSidecarConfiguration_DeepCopy :: "copiers \<Rightarrow> sidecar_struct option \<Rightarrow> (memory, sidecar_struct option) state" where
  "InstanceSidecarConfiguration_DeepCopy X = copy_if_set (InstanceSidecarConfiguration_DeepCopyInto X)"

definition ObjectStoreSpec_DeepCopyInto :: "copiers \<Rightarrow> spec_struct \<Rightarrow> (memory, spec_struct) state" where
  "ObjectStoreSpec_DeepCopyInto X inp = do {
     conf \<leftarrow> Configuration_DeepCopyInto X (sp_Configuration inp);
     sidecar \<leftarrow> InstanceSidecarConfiguration_DeepCopyInto X (sp_InstanceSidecarConfiguration inp);
     State_Monad.return (inp\<lparr>sp_Configuration := conf, sp_InstanceSidecarConfiguration := sidecar\<rparr>)}"

definition ObjectStoreSpec_DeepCopy :: "copiers \<Rightarrow> spec_struct option \<Rightarrow> (memory, spec_struct option) state" where
  "ObjectStoreSpec_DeepCopy X = copy_if_set (ObjectStoreSpec_DeepCopyInto X)"

definition ObjectStore_DeepCopyInto :: "copiers \<Rightarrow> store_struct \<Rightarrow> (memory, store_struct) state" where
  "ObjectStore_DeepCopyInto X inp = do {
     meta \<leftarrow> ObjectMeta_DeepCopyInto X (sr_ObjectMeta inp);
     spec \<leftarrow> ObjectStoreSpec_DeepCopyInto X (sr_Spec inp);
     status \<leftarrow> ObjectStoreStatus_DeepCopyInto X (sr_Status inp);
     State_Monad.return (inp\<lparr>sr_TypeMeta := sr_TypeMeta inp, sr_ObjectMeta := meta, sr_Spec := spec, sr_Status := status\<rparr>)}"

definition ObjectStore_DeepCopy :: "copiers \<Rightarrow> store_struct option \<Rightarrow> (memory, store_struct option) state" where
  "ObjectStore_DeepCopy X = copy_if_set (ObjectStore_DeepCopyInto X)"

definition ObjectStoreList_DeepCopyInto :: "copiers \<Rightarrow> store_list_struct \<Rightarrow> (memory, store_list_struct) state" where
  "ObjectStoreList_DeepCopyInto X inp = do {
     meta \<leftarrow> ListMeta_DeepCopyInto X (sls_ListMeta inp);
     items \<leftarrow> copy_if_set (\<lambda>s. do {h \<leftarrow> State_Monad.get;
       xs \<leftarrow> traverse_list (ObjectStore_DeepCopyInto X) (slice_part s (read_items h (sl_Array s)));
       a \<leftarrow> new_items xs; State_Monad.return (whole a (length xs))}) (sls_Items inp);
     State_Monad.return (inp\<lparr>sls_TypeMeta := sls_TypeMeta inp, sls_ListMeta := meta, sls_Items := items\<rparr>)}"

definition ObjectStoreList_DeepCopy :: "copiers \<Rightarrow> store_list_struct option \<Rightarrow> (memory, store_list_struct option) state" where
  "ObjectStoreList_DeepCopy X = copy_if_set (ObjectStoreList_DeepCopyInto X)"

text \<open>An object of Kubernetes, as \<open>DeepCopyObject\<close> returns it; nil for a nil pointer.\<close>

datatype runtime_object = RT_ObjectStore store_struct | RT_ObjectStoreList store_list_struct

definition ObjectStore_DeepCopyObject :: "copiers \<Rightarrow> store_struct option \<Rightarrow> (memory, runtime_object option) state" where
  "ObjectStore_DeepCopyObject X inp = do {c \<leftarrow> ObjectStore_DeepCopy X inp;
     State_Monad.return (case c of Some os \<Rightarrow> Some (RT_ObjectStore os) | None \<Rightarrow> None)}"

definition ObjectStoreList_DeepCopyObject :: "copiers \<Rightarrow> store_list_struct option \<Rightarrow> (memory, runtime_object option) state" where
  "ObjectStoreList_DeepCopyObject X inp = do {c \<leftarrow> ObjectStoreList_DeepCopy X inp;
     State_Monad.return (case c of Some l \<Rightarrow> Some (RT_ObjectStoreList l) | None \<Rightarrow> None)}"

section \<open>What the copies mean and reach\<close>

definition foreign_view :: "memory \<Rightarrow> foreign \<Rightarrow> string \<times> content option list" where
  "foreign_view h f = (fo_Fields f, map (\<lambda>a. cell_content h (Foreign_Cell a)) (fo_Cells f))"

definition foreign_cells :: "memory \<Rightarrow> foreign \<Rightarrow> cell set" where
  "foreign_cells h f = Foreign_Cell ` set (fo_Cells f)"

definition time_view :: "memory \<Rightarrow> addr \<Rightarrow> gtime" where
  "time_view h a = (case nth_opt (mm_Times h) a of Some t \<Rightarrow> t | None \<Rightarrow> 0)"

definition time_cells :: "memory \<Rightarrow> addr \<Rightarrow> cell set" where
  "time_cells h a = {Time_Cell a}"

definition window_view :: "memory \<Rightarrow> window_struct \<Rightarrow> recovery_window" where
  "window_view h w = \<lparr>rw_FirstRecoverabilityPoint = map_option (time_view h) (ws_FirstRecoverabilityPoint w),
     rw_LastSuccessfulBackupTime = map_option (time_view h) (ws_LastSuccessfulBackupTime w),
     rw_LastFailedBackupTime = map_option (time_view h) (ws_LastFailedBackupTime w)\<rparr>"

definition window_cells :: "memory \<Rightarrow> window_struct \<Rightarrow> cell set" where
  "window_cells h w = cells_if_set time_cells h (ws_FirstRecoverabilityPoint w) \<union>
     (cells_if_set time_cells h (ws_LastSuccessfulBackupTime w) \<union> cells_if_set time_cells h (ws_LastFailedBackupTime w))"

definition map_view :: "memory \<Rightarrow> addr \<Rightarrow> (string \<times> recovery_window) list" where
  "map_view h a = map (\<lambda>kv. (fst kv, window_view h (snd kv))) (read_map h a)"

definition map_cells :: "memory \<Rightarrow> addr \<Rightarrow> cell set" where
  "map_cells h a = insert (Map_Cell a) (\<Union>kv \<in> set (read_map h a). window_cells h (snd kv))"

definition status_view :: "memory \<Rightarrow> status_struct \<Rightarrow> object_store_status" where
  "status_view h st = \<lparr>ost_ServerRecoveryWindow = map_option (map_view h) (st_ServerRecoveryWindow st)\<rparr>"

definition status_cells :: "memory \<Rightarrow> status_struct \<Rightarrow> cell set" where
  "status_cells h st = cells_if_set map_cells h (st_ServerRecoveryWindow st)"

definition env_view :: "memory \<Rightarrow> slice \<Rightarrow> (string \<times> content option list) list" where
  "env_view h s = map (foreign_view h) (slice_part s (read_envs h (sl_Array s)))"

definition env_cells :: "memory \<Rightarrow> slice \<Rightarrow> cell set" where
  "env_cells h s = insert (Env_Array (sl_Array s)) (\<Union>x \<in> set (slice_part s (read_envs h (sl_Array s))). foreign_cells h x)"

definition args_view :: "memory \<Rightarrow> slice \<Rightarrow> string list" where
  "args_view h s = slice_part s (read_strings h (sl_Array s))"

definition args_cells :: "memory \<Rightarrow> slice \<Rightarrow> cell set" where
  "args_cells h s = {String_Array (sl_Array s)}"

definition sidecar_view where
  "sidecar_view h c = ((ss_RetentionPolicyIntervalSeconds c, ss_LogLevel c), map_option (env_view h) (ss_Env c),
     foreign_view h (ss_Resources c), map_option (args_view h) (ss_AdditionalContainerArgs c))"

definition sidecar_cells :: "memory \<Rightarrow> sidecar_struct \<Rightarrow> cell set" where
  "sidecar_cells h c = cells_if_set env_cells h (ss_Env c) \<union>
     (foreign_cells h (ss_Resources c) \<union> cells_if_set args_cells h (ss_AdditionalContainerArgs c))"

definition spec_view where
  "spec_view h sp = (sp_RetentionPolicy sp, foreign_view h (sp_Configuration sp), sidecar_view h (sp_InstanceSidecarConfiguration sp))"

definition spec_cells :: "memory \<Rightarrow> spec_struct \<Rightarrow> cell set" where
  "spec_cells h sp = foreign_cells h (sp_Configuration sp) \<union> sidecar_cells h (sp_InstanceSidecarConfiguration sp)"

definition store_view where
  "store_view h os = (sr_TypeMeta os, foreign_view h (sr_ObjectMeta os), spec_view h (sr_Spec os), status_view h (sr_Status os))"

definition store_cells :: "memory \<Rightarrow> store_struct \<Rightarrow> cell set" where
  "store_cells h os = foreign_cells h (sr_ObjectMeta os) \<union> (spec_cells h (sr_Spec os) \<union> status_cells h (sr_Status os))"

definition items_view where
  "items_view h s = map (store_view h) (slice_part s (read_items h (sl_Array s)))"

definition items_cells :: "memory \<Rightarrow> slice \<Rightarrow> cell set" where
  "items_cells h s = insert (Item_Array (sl_Array s)) (\<Union>x \<in> set (slice_part s (read_items h (sl_Array s))). store_cells h x)"

definition store_list_view where
  "store_list_view h l = (sls_TypeMeta l, foreign_view h (sls_ListMeta l), map_option (items_view h) (sls_Items l))"

definition store_list_cells :: "memory \<Rightarrow> store_list_struct \<Rightarrow> cell set" where
  "store_list_cells h l = foreign_cells h (sls_ListMeta l) \<union> cells_if_set items_cells h (sls_Items l)"

text \<open>The copies of other modules are deep copies.\<close>

definition copiers_law :: "copiers \<Rightarrow> bool" where
  "copiers_law X \<longleftrightarrow> deep_copy (Time_DeepCopy X) time_view time_cells \<and>
     (\<forall>c \<in> {ObjectMeta_DeepCopyInto X, ListMeta_DeepCopyInto X, Configuration_DeepCopyInto X, EnvVar_DeepCopyInto X,
       ResourceRequirements_DeepCopyInto X}. deep_copy c foreign_view foreign_cells)"

lemma copiers_lawD:
  assumes "copiers_law X"
  shows "deep_copy (Time_DeepCopy X) time_view time_cells"
    "deep_copy (ObjectMeta_DeepCopyInto X) foreign_view foreign_cells"
    "deep_copy (ListMeta_DeepCopyInto X) foreign_view foreign_cells"
    "deep_copy (Configuration_DeepCopyInto X) foreign_view foreign_cells"
    "deep_copy (EnvVar_DeepCopyInto X) foreign_view foreign_cells"
    "deep_copy (ResourceRequirements_DeepCopyInto X) foreign_view foreign_cells"
  using assms by (simp_all add: copiers_law_def)

lemma deep_copy_window:
  assumes "copiers_law X"
  shows "deep_copy (RecoveryWindow_DeepCopyInto X) window_view window_cells"
proof -
  note t = deep_copy_if_set [OF copiers_lawD(1) [OF assms]]
  note f = deep_copy_field [where get = "\<lambda>w. (ws_FirstRecoverabilityPoint w, ws_LastSuccessfulBackupTime w, ws_LastFailedBackupTime w)"
    and put = "\<lambda>w (x, y, z). w\<lparr>ws_FirstRecoverabilityPoint := x, ws_LastSuccessfulBackupTime := y, ws_LastFailedBackupTime := z\<rparr>"
    and rest = "\<lambda>_. ()", OF deep_copy_pair [OF t deep_copy_pair [OF t t]]]
  show ?thesis
    by (rule deep_copy_cong [where f = "\<lambda>(_, x, y, z). \<lparr>rw_FirstRecoverabilityPoint = x, rw_LastSuccessfulBackupTime = y,
        rw_LastFailedBackupTime = z\<rparr>", OF f])
      (auto simp: fun_eq_iff RecoveryWindow_DeepCopyInto_def window_view_def window_cells_def)
qed

lemma deep_copy_entry:
  assumes "copiers_law X"
  shows "deep_copy (copy_entry X) (\<lambda>h kv. (fst kv, window_view h (snd kv))) (\<lambda>h kv. window_cells h (snd kv))"
  by (rule deep_copy_cong [where f = id, OF deep_copy_field [where get = snd and put = "\<lambda>kv w. (fst kv, w)" and rest = fst,
        OF deep_copy_window [OF assms]]])
    (simp_all add: fun_eq_iff copy_entry_def RecoveryWindow_DeepCopy_def copy_if_set_def)

lemma deep_copy_map:
  assumes "copiers_law X"
  shows "deep_copy (\<lambda>a. do {h \<leftarrow> State_Monad.get; kvs \<leftarrow> traverse_list (copy_entry X) (read_map h a); new_map kvs}) map_view map_cells"
  by (rule deep_copy_cong [where f = id, OF maps.copy_part [where addr_of = id and part = "\<lambda>_ xs. xs" and made = "\<lambda>a _. a",
        OF deep_copy_entry [OF assms]]])
    (simp_all add: fun_eq_iff map_view_def map_cells_def)

lemma deep_copy_status:
  assumes "copiers_law X"
  shows "deep_copy (ObjectStoreStatus_DeepCopyInto X) status_view status_cells"
  by (rule deep_copy_cong [where f = "\<lambda>(_, m). \<lparr>ost_ServerRecoveryWindow = m\<rparr>",
        OF deep_copy_field [where get = st_ServerRecoveryWindow and put = "\<lambda>st m. st\<lparr>st_ServerRecoveryWindow := m\<rparr>" and rest = "\<lambda>_. ()",
          OF deep_copy_if_set [OF deep_copy_map [OF assms]]]])
    (simp_all add: fun_eq_iff ObjectStoreStatus_DeepCopyInto_def status_view_def status_cells_def)

lemma deep_copy_envs:
  assumes "copiers_law X"
  shows "deep_copy (\<lambda>s. do {h \<leftarrow> State_Monad.get; xs \<leftarrow> traverse_list (EnvVar_DeepCopyInto X) (slice_part s (read_envs h (sl_Array s)));
    a \<leftarrow> new_envs xs; State_Monad.return (whole a (length xs))}) env_view env_cells"
  by (rule deep_copy_cong [where f = id, OF envs.copy_part [where addr_of = sl_Array and part = slice_part and made = whole,
        OF copiers_lawD(5) [OF assms]]])
    (simp_all add: fun_eq_iff env_view_def env_cells_def)

lemma traverse_plain: "traverse_list State_Monad.return xs = State_Monad.return xs"
  by (induction xs) simp_all

lemma deep_copy_args:
  "deep_copy (\<lambda>s. do {h \<leftarrow> State_Monad.get; let xs = slice_part s (read_strings h (sl_Array s));
    a \<leftarrow> new_strings xs; State_Monad.return (whole a (length xs))}) args_view args_cells"
  by (rule deep_copy_cong [where f = id, OF strings.copy_part [where addr_of = sl_Array and part = slice_part and made = whole,
        OF deep_copy_plain]])
    (simp_all add: fun_eq_iff args_view_def args_cells_def traverse_plain Let_def)

lemma deep_copy_sidecar:
  assumes "copiers_law X"
  shows "deep_copy (InstanceSidecarConfiguration_DeepCopyInto X) sidecar_view sidecar_cells"
proof -
  note f = deep_copy_field [where get = "\<lambda>c. (ss_Env c, ss_Resources c, ss_AdditionalContainerArgs c)"
    and put = "\<lambda>c (x, y, z). c\<lparr>ss_Env := x, ss_Resources := y, ss_AdditionalContainerArgs := z\<rparr>"
    and rest = "\<lambda>c. (ss_RetentionPolicyIntervalSeconds c, ss_LogLevel c)", OF deep_copy_pair [OF deep_copy_if_set [OF deep_copy_envs [OF assms]]
      deep_copy_pair [OF copiers_lawD(6) [OF assms] deep_copy_if_set [OF deep_copy_args]]]]
  show ?thesis
    by (rule deep_copy_cong [where f = id, OF f])
      (auto simp: fun_eq_iff InstanceSidecarConfiguration_DeepCopyInto_def sidecar_view_def sidecar_cells_def)
qed

lemma deep_copy_spec:
  assumes "copiers_law X"
  shows "deep_copy (ObjectStoreSpec_DeepCopyInto X) spec_view spec_cells"
proof -
  note f = deep_copy_field [where get = "\<lambda>c. (sp_Configuration c, sp_InstanceSidecarConfiguration c)"
    and put = "\<lambda>c (x, y). c\<lparr>sp_Configuration := x, sp_InstanceSidecarConfiguration := y\<rparr>" and rest = sp_RetentionPolicy,
    OF deep_copy_pair [OF copiers_lawD(4) [OF assms] deep_copy_sidecar [OF assms]]]
  show ?thesis
    by (rule deep_copy_cong [where f = id, OF f])
      (auto simp: fun_eq_iff ObjectStoreSpec_DeepCopyInto_def spec_view_def spec_cells_def)
qed

lemma deep_copy_store:
  assumes "copiers_law X"
  shows "deep_copy (ObjectStore_DeepCopyInto X) store_view store_cells"
proof -
  note f = deep_copy_field [where get = "\<lambda>c. (sr_ObjectMeta c, sr_Spec c, sr_Status c)"
    and put = "\<lambda>c (x, y, z). c\<lparr>sr_ObjectMeta := x, sr_Spec := y, sr_Status := z\<rparr>" and rest = sr_TypeMeta,
    OF deep_copy_pair [OF copiers_lawD(2) [OF assms] deep_copy_pair [OF deep_copy_spec [OF assms] deep_copy_status [OF assms]]]]
  show ?thesis
    by (rule deep_copy_cong [where f = id, OF f])
      (auto simp: fun_eq_iff ObjectStore_DeepCopyInto_def store_view_def store_cells_def)
qed

lemma deep_copy_items:
  assumes "copiers_law X"
  shows "deep_copy (\<lambda>s. do {h \<leftarrow> State_Monad.get; xs \<leftarrow> traverse_list (ObjectStore_DeepCopyInto X) (slice_part s (read_items h (sl_Array s)));
    a \<leftarrow> new_items xs; State_Monad.return (whole a (length xs))}) items_view items_cells"
  by (rule deep_copy_cong [where f = id, OF items.copy_part [where addr_of = sl_Array and part = slice_part and made = whole,
        OF deep_copy_store [OF assms]]])
    (simp_all add: fun_eq_iff items_view_def items_cells_def)

lemma deep_copy_store_list:
  assumes "copiers_law X"
  shows "deep_copy (ObjectStoreList_DeepCopyInto X) store_list_view store_list_cells"
proof -
  note f = deep_copy_field [where get = "\<lambda>c. (sls_ListMeta c, sls_Items c)"
    and put = "\<lambda>c (x, y). c\<lparr>sls_ListMeta := x, sls_Items := y\<rparr>" and rest = sls_TypeMeta,
    OF deep_copy_pair [OF copiers_lawD(3) [OF assms] deep_copy_if_set [OF deep_copy_items [OF assms]]]]
  show ?thesis
    by (rule deep_copy_cong [where f = id, OF f])
      (auto simp: fun_eq_iff ObjectStoreList_DeepCopyInto_def store_list_view_def store_list_cells_def)
qed

section \<open>Copies are independent\<close>

text \<open>
  C27. \<open>DeepCopyObject\<close> of an ObjectStore, or of a list of them, returns an object that means the same and shares
  no memory with the original: it changes nothing that was in use; whatever is then written to memory that
  was in use before does not change the copy, and whatever is written to the memory of the copy does not
  change the original.
\<close>

theorem DeepCopyObject_independent:
  assumes "copiers_law X"
  shows "(\<forall>h os r h'. store_cells h os \<subseteq> allocated h \<longrightarrow> run_state (ObjectStore_DeepCopyObject X (Some os)) h = (r, h') \<longrightarrow>
      (\<exists>os'. r = Some (RT_ObjectStore os') \<and> store_view h' os' = store_view h os \<and> same_on (allocated h) h h' \<and>
        (\<forall>h2. same_on (- allocated h) h' h2 \<longrightarrow> store_view h2 os' = store_view h os) \<and>
        (\<forall>h2. same_on (- store_cells h' os') h' h2 \<longrightarrow> store_view h2 os = store_view h os))) \<and>
    (\<forall>h l r h'. store_list_cells h l \<subseteq> allocated h \<longrightarrow> run_state (ObjectStoreList_DeepCopyObject X (Some l)) h = (r, h') \<longrightarrow>
      (\<exists>l'. r = Some (RT_ObjectStoreList l') \<and> store_list_view h' l' = store_list_view h l \<and> same_on (allocated h) h h' \<and>
        (\<forall>h2. same_on (- allocated h) h' h2 \<longrightarrow> store_list_view h2 l' = store_list_view h l) \<and>
        (\<forall>h2. same_on (- store_list_cells h' l') h' h2 \<longrightarrow> store_list_view h2 l = store_list_view h l)))"
proof (intro conjI allI impI)
  fix h os r h' assume h: "store_cells h os \<subseteq> allocated h" "run_state (ObjectStore_DeepCopyObject X (Some os)) h = (r, h')"
  then obtain os' where run: "run_state (ObjectStore_DeepCopyInto X os) h = (os', h')" and r: "r = Some (RT_ObjectStore os')"
    by (auto simp: ObjectStore_DeepCopyObject_def ObjectStore_DeepCopy_def copy_if_set_def split: prod.splits)
  note D = deep_copy_store [OF assms]
  from r show "\<exists>os'. r = Some (RT_ObjectStore os') \<and> store_view h' os' = store_view h os \<and> same_on (allocated h) h h' \<and>
        (\<forall>h2. same_on (- allocated h) h' h2 \<longrightarrow> store_view h2 os' = store_view h os) \<and>
        (\<forall>h2. same_on (- store_cells h' os') h' h2 \<longrightarrow> store_view h2 os = store_view h os)"
    using deep_copy.copied [OF D h(1) run] deep_copy.independent [OF D h(1) run] deep_copy.original_kept [OF D h(1) run] by blast
next
  fix h l r h' assume h: "store_list_cells h l \<subseteq> allocated h" "run_state (ObjectStoreList_DeepCopyObject X (Some l)) h = (r, h')"
  then obtain l' where run: "run_state (ObjectStoreList_DeepCopyInto X l) h = (l', h')" and r: "r = Some (RT_ObjectStoreList l')"
    by (auto simp: ObjectStoreList_DeepCopyObject_def ObjectStoreList_DeepCopy_def copy_if_set_def split: prod.splits)
  note D = deep_copy_store_list [OF assms]
  from r show "\<exists>l'. r = Some (RT_ObjectStoreList l') \<and> store_list_view h' l' = store_list_view h l \<and> same_on (allocated h) h h' \<and>
        (\<forall>h2. same_on (- allocated h) h' h2 \<longrightarrow> store_list_view h2 l' = store_list_view h l) \<and>
        (\<forall>h2. same_on (- store_list_cells h' l') h' h2 \<longrightarrow> store_list_view h2 l = store_list_view h l)"
    using deep_copy.copied [OF D h(1) run] deep_copy.independent [OF D h(1) run] deep_copy.original_kept [OF D h(1) run] by blast
qed

section \<open>What a reader of the cache shares with it\<close>

text \<open>
  The two ways \<open>getCachedObject\<close> fills the struct of its caller. After a read from the API server the cache keeps a
  deep copy of it; on a hit the fields of the cached struct are assigned to it.
\<close>

definition cache_entry_of :: "copiers \<Rightarrow> store_struct \<Rightarrow> (memory, runtime_object option) state" where
  "cache_entry_of X obj = ObjectStore_DeepCopyObject X (Some obj)"

definition cache_hit_fields :: "store_struct \<Rightarrow> store_struct" where
  "cache_hit_fields entry = entry"

text \<open>The closure of \<open>setLastFailedBackupTime\<close> between the read and the update, in memory.\<close>

definition new_time :: "gtime \<Rightarrow> (memory, addr) state" where
  "new_time t = State (\<lambda>h. (length (mm_Times h), h\<lparr>mm_Times := mm_Times h @ [t]\<rparr>))"

definition put_map :: "addr \<Rightarrow> string \<Rightarrow> window_struct \<Rightarrow> (memory, unit) state" where
  "put_map a k w = State (\<lambda>h. ((), h\<lparr>mm_Maps := (mm_Maps h)[a := AList.update k w (read_map h a)]\<rparr>))"

definition zero_window_struct :: window_struct where
  "zero_window_struct = \<lparr>ws_FirstRecoverabilityPoint = None, ws_LastSuccessfulBackupTime = None, ws_LastFailedBackupTime = None\<rparr>"

definition get_map :: "memory \<Rightarrow> addr option \<Rightarrow> string \<Rightarrow> window_struct" where
  "get_map h m k = (case m of None \<Rightarrow> zero_window_struct | Some a \<Rightarrow> (case map_of (read_map h a) k of
     None \<Rightarrow> zero_window_struct | Some w \<Rightarrow> w))"

definition memory_with_failure :: "string \<Rightarrow> gtime \<Rightarrow> store_struct \<Rightarrow> (memory, store_struct) state" where
  "memory_with_failure serverName lastFailedBackupTime objectStore = do {
     h \<leftarrow> State_Monad.get;
     let recoveryWindow = get_map h (st_ServerRecoveryWindow (sr_Status objectStore)) serverName;
     t \<leftarrow> new_time lastFailedBackupTime;
     m \<leftarrow> (case st_ServerRecoveryWindow (sr_Status objectStore) of None \<Rightarrow> new_map [] | Some a \<Rightarrow> State_Monad.return a);
     put_map m serverName (recoveryWindow\<lparr>ws_LastFailedBackupTime := Some t\<rparr>);
     State_Monad.return (objectStore\<lparr>sr_Status := (sr_Status objectStore)\<lparr>st_ServerRecoveryWindow := Some m\<rparr>\<rparr>)}"

lemma map_update_view:
  "map (\<lambda>kv. (fst kv, f (snd kv))) (AList.update k w xs) = AList.update k (f w) (map (\<lambda>kv. (fst kv, f (snd kv))) xs)"
  by (induction xs) auto

lemma map_of_view: "map_of (map (\<lambda>kv. (fst kv, f (snd kv))) xs) k = map_option f (map_of xs k)"
  by (induction xs) auto

text \<open>The memory after it: what it leaves alone, and what the map then holds.\<close>

lemma memory_with_failure_run:
  assumes "run_state (memory_with_failure s t os) h = (os', h')" "status_cells h (sr_Status os) \<subseteq> allocated h"
  obtains a where "os' = os\<lparr>sr_Status := \<lparr>st_ServerRecoveryWindow = Some a\<rparr>\<rparr>"
    "st_ServerRecoveryWindow (sr_Status os) = Some a \<or> st_ServerRecoveryWindow (sr_Status os) = None \<and> Map_Cell a \<notin> allocated h"
    "same_on (allocated h - {Map_Cell a}) h h'"
    "read_map h' a = AList.update s ((get_map h (st_ServerRecoveryWindow (sr_Status os)) s)\<lparr>ws_LastFailedBackupTime := Some (length (mm_Times h))\<rparr>)
       (case st_ServerRecoveryWindow (sr_Status os) of None \<Rightarrow> [] | Some a \<Rightarrow> read_map h a)"
    "mm_Times h' = mm_Times h @ [t]"
proof -
  let ?w = "(get_map h (st_ServerRecoveryWindow (sr_Status os)) s)\<lparr>ws_LastFailedBackupTime := Some (length (mm_Times h))\<rparr>"
  show thesis
  proof (cases "st_ServerRecoveryWindow (sr_Status os)")
    case None
    let ?a = "length (mm_Maps h)"
    have h': "h' = h\<lparr>mm_Times := mm_Times h @ [t], mm_Maps := mm_Maps h @ [AList.update s ?w []]\<rparr>" "os' = os\<lparr>sr_Status := \<lparr>st_ServerRecoveryWindow = Some ?a\<rparr>\<rparr>"
      using assms(1) None by (auto simp: memory_with_failure_def new_time_def new_map_def put_map_def read_map_def nth_opt_def)
    show thesis
    proof (rule that [of ?a])
      show "same_on (allocated h - {Map_Cell ?a}) h h'"
        unfolding same_on_def
      proof
        fix c assume "c \<in> allocated h - {Map_Cell ?a}"
        then show "cell_content h' c = cell_content h c"
          by (cases c) (auto simp: h' allocated_def nth_opt_snoc nth_opt_len)
      qed
    qed (auto simp: h' None allocated_def nth_opt_len read_map_def nth_opt_snoc)
  next
    case (Some a)
    then have a: "a < length (mm_Maps h)" using assms(2)
      by (auto simp: status_cells_def cells_if_set_def map_cells_def allocated_def nth_opt_def split: if_splits)
    have h': "h' = h\<lparr>mm_Times := mm_Times h @ [t], mm_Maps := (mm_Maps h)[a := AList.update s ?w (read_map h a)]\<rparr>" "os' = os\<lparr>sr_Status := \<lparr>st_ServerRecoveryWindow = Some a\<rparr>\<rparr>"
      using assms(1) Some by (auto simp: memory_with_failure_def new_time_def put_map_def read_map_def)
    show thesis
    proof (rule that [of a])
      show "same_on (allocated h - {Map_Cell a}) h h'"
        unfolding same_on_def
      proof
        fix c assume "c \<in> allocated h - {Map_Cell a}"
        then show "cell_content h' c = cell_content h c"
          by (cases c) (auto simp: h' allocated_def nth_opt_def nth_append split: if_splits)
      qed
    qed (use a in \<open>auto simp: h' Some read_map_def nth_opt_def\<close>)
  qed
qed

text \<open>The window of an entry whose times were there before.\<close>

lemma window_kept:
  assumes "mm_Times h' = mm_Times h @ [t]" "window_cells h w \<subseteq> allocated h"
  shows "window_view h' w = window_view h w"
proof -
  have "time_view h' a = time_view h a" if "Time_Cell a \<in> allocated h" for a
    using that assms(1) by (auto simp: time_view_def allocated_def nth_opt_def nth_append split: if_splits)
  then have "map_option (time_view h') p = map_option (time_view h) p" if "cells_if_set time_cells h p \<subseteq> allocated h" for p
    using that by (cases p) (auto simp: cells_if_set_def time_cells_def)
  then show ?thesis using assms(2) by (simp add: window_view_def window_cells_def)
qed

lemma map_kept:
  assumes "mm_Times h' = mm_Times h @ [t]" "map_cells h a \<subseteq> allocated h"
  shows "map (\<lambda>kv. (fst kv, window_view h' (snd kv))) (read_map h a) = map_view h a"
  using window_kept [OF assms(1)] assms(2) by (auto simp: map_view_def map_cells_def)

lemma window_view_failed:
  "window_view h (w\<lparr>ws_LastFailedBackupTime := Some a\<rparr>) = (window_view h w)\<lparr>rw_LastFailedBackupTime := Some (time_view h a)\<rparr>"
  by (simp add: window_view_def)

text \<open>The memory does what the value does.\<close>

lemma memory_with_failure_value:
  assumes run: "run_state (memory_with_failure s t os) h = (os', h')" and sub: "status_cells h (sr_Status os) \<subseteq> allocated h"
    and val: "os_Status o1 = status_view h (sr_Status os)"
  shows "status_view h' (sr_Status os') = os_Status (with_failure s t o1)"
proof -
  obtain a where a: "os' = os\<lparr>sr_Status := \<lparr>st_ServerRecoveryWindow = Some a\<rparr>\<rparr>"
    "read_map h' a = AList.update s ((get_map h (st_ServerRecoveryWindow (sr_Status os)) s)\<lparr>ws_LastFailedBackupTime := Some (length (mm_Times h))\<rparr>)
       (case st_ServerRecoveryWindow (sr_Status os) of None \<Rightarrow> [] | Some a \<Rightarrow> read_map h a)"
    "mm_Times h' = mm_Times h @ [t]"
    by (rule memory_with_failure_run [OF run sub]) blast
  let ?m = "st_ServerRecoveryWindow (sr_Status os)"
  let ?old = "case ?m of None \<Rightarrow> [] | Some a \<Rightarrow> read_map h a"
  have win: "window_view h' w = window_view h w" if "w \<in> snd ` set ?old" for w
    by (rule window_kept [OF a(3)])
      (use that sub in \<open>auto simp: status_cells_def cells_if_set_def map_cells_def split: option.splits\<close>)
  have old: "map (\<lambda>kv. (fst kv, window_view h' (snd kv))) ?old = gm_entries (ost_ServerRecoveryWindow (os_Status o1))"
    using win by (auto simp: val status_view_def map_view_def gm_entries_def split: option.splits)
  have "window_view h' (get_map h ?m s) = server_window o1 s"
  proof (cases "map_of ?old s")
    case None
    then have "get_map h ?m s = zero_window_struct" by (auto simp: get_map_def split: option.splits)
    moreover have "gm_lookup (ost_ServerRecoveryWindow (os_Status o1)) s = None"
      using None unfolding gm_lookup_def old [symmetric] map_of_view by simp
    ultimately show ?thesis
      by (simp add: server_window_def window_view_def zero_window_struct_def zero_recovery_window_def)
  next
    case (Some w)
    then have "get_map h ?m s = w" by (auto simp: get_map_def split: option.splits)
    moreover have "gm_lookup (ost_ServerRecoveryWindow (os_Status o1)) s = Some (window_view h' w)"
      using Some unfolding gm_lookup_def old [symmetric] map_of_view by simp
    ultimately show ?thesis by (simp add: server_window_def)
  qed
  moreover have "time_view h' (length (mm_Times h)) = t" by (simp add: time_view_def a(3) nth_opt_snoc)
  ultimately have "window_view h' ((get_map h ?m s)\<lparr>ws_LastFailedBackupTime := Some (length (mm_Times h))\<rparr>) =
      (server_window o1 s)\<lparr>rw_LastFailedBackupTime := Some t\<rparr>" by (simp add: window_view_failed)
  then show ?thesis
    by (simp add: a(1,2) status_view_def map_view_def map_update_view old with_failure_def put_window_def gm_put_def)
qed

text \<open>
  C26. What the caches of the sidecar share. Recording a failure in memory does what the model of values does.
  If the object was just read from the API server, the entry of the cache does not notice. If it was a hit,
  the cached entry gets the same recovery windows as the copy, unless its map was nil, and it is then
  as before; which is what \<open>share_windows\<close> says.
\<close>

theorem cache_shares_windows:
  assumes "copiers_law X"
  shows "(\<forall>h entry os' h' o1. status_cells h (sr_Status entry) \<subseteq> allocated h \<longrightarrow>
      run_state (memory_with_failure s t (cache_hit_fields entry)) h = (os', h') \<longrightarrow> os_Status o1 = status_view h (sr_Status entry) \<longrightarrow>
      status_view h' (sr_Status os') = os_Status (with_failure s t o1) \<and>
      share_windows (with_failure s t o1) [new_entry (Obj_ObjectStore o1) now] =
        [new_entry (Obj_ObjectStore (o1\<lparr>os_Status := status_view h' (sr_Status entry)\<rparr>)) now]) \<and>
    (\<forall>h obj entry h1 os' h'. store_cells h obj \<subseteq> allocated h \<longrightarrow> run_state (cache_entry_of X obj) h = (Some (RT_ObjectStore entry), h1) \<longrightarrow>
      run_state (memory_with_failure s t obj) h1 = (os', h') \<longrightarrow> store_view h' entry = store_view h obj)"
proof (intro conjI allI impI)
  fix h entry os' h' and o1 :: object_store
  assume sub: "status_cells h (sr_Status entry) \<subseteq> allocated h"
    and run: "run_state (memory_with_failure s t (cache_hit_fields entry)) h = (os', h')"
    and val: "os_Status o1 = status_view h (sr_Status entry)"
  have run': "run_state (memory_with_failure s t entry) h = (os', h')" using run by (simp add: cache_hit_fields_def)
  show eq: "status_view h' (sr_Status os') = os_Status (with_failure s t o1)"
    by (rule memory_with_failure_value [OF run' sub val])
  obtain a where a: "os' = entry\<lparr>sr_Status := \<lparr>st_ServerRecoveryWindow = Some a\<rparr>\<rparr>"
    "st_ServerRecoveryWindow (sr_Status entry) = Some a \<or> st_ServerRecoveryWindow (sr_Status entry) = None \<and> Map_Cell a \<notin> allocated h"
    by (rule memory_with_failure_run [OF run' sub]) blast
  have nil: "status_view h' (sr_Status entry) = status_view h (sr_Status entry)" if "st_ServerRecoveryWindow (sr_Status entry) = None"
    using that by (simp add: status_view_def)
  have set: "status_view h' (sr_Status entry) = status_view h' (sr_Status os')" if "st_ServerRecoveryWindow (sr_Status entry) \<noteq> None"
    using that a by (auto simp: status_view_def)
  have "ost_ServerRecoveryWindow (os_Status o1) \<noteq> None \<longleftrightarrow> st_ServerRecoveryWindow (sr_Status entry) \<noteq> None"
    by (simp add: val status_view_def)
  then show "share_windows (with_failure s t o1) [new_entry (Obj_ObjectStore o1) now] =
        [new_entry (Obj_ObjectStore (o1\<lparr>os_Status := status_view h' (sr_Status entry)\<rparr>)) now]"
    using nil set eq val by (simp add: share_windows_def new_entry_def)
next
  fix h obj entry h1 os' h'
  assume sub: "store_cells h obj \<subseteq> allocated h" and "run_state (cache_entry_of X obj) h = (Some (RT_ObjectStore entry), h1)"
    and run: "run_state (memory_with_failure s t obj) h1 = (os', h')"
  then have copy: "run_state (ObjectStore_DeepCopyInto X obj) h = (entry, h1)"
    by (auto simp: cache_entry_of_def ObjectStore_DeepCopyObject_def ObjectStore_DeepCopy_def copy_if_set_def split: prod.splits)
  note D = deep_copy_store [OF assms]
  note c = deep_copy.copied [OF D sub copy]
  have st: "status_cells h (sr_Status obj) \<subseteq> allocated h" using sub by (simp add: store_cells_def)
  have same: "status_cells h1 (sr_Status obj) = status_cells h (sr_Status obj)"
    using deep_copy.kept [OF deep_copy_status [OF assms] st] c by blast
  have a1: "allocated h \<subseteq> allocated h1" using c same_on_allocated by blast
  then have st1: "status_cells h1 (sr_Status obj) \<subseteq> allocated h1" using st same by simp
  obtain a where a: "st_ServerRecoveryWindow (sr_Status obj) = Some a \<or>
      st_ServerRecoveryWindow (sr_Status obj) = None \<and> Map_Cell a \<notin> allocated h1" "same_on (allocated h1 - {Map_Cell a}) h1 h'"
    by (rule memory_with_failure_run [OF run st1]) blast
  have "Map_Cell a \<notin> store_cells h1 entry"
  proof (cases "st_ServerRecoveryWindow (sr_Status obj)")
    case None
    then show ?thesis using a(1) c by auto
  next
    case (Some b)
    then have "Map_Cell a \<in> allocated h" using a(1) st by (auto simp: status_cells_def cells_if_set_def map_cells_def)
    then show ?thesis using c by blast
  qed
  then have "same_on (store_cells h1 entry) h1 h'" using same_on_mono [OF a(2)] c by blast
  then have "store_view h' entry = store_view h1 entry" using deep_copy.frame [OF D] by blast
  then show "store_view h' entry = store_view h obj" using c by simp
qed

section \<open>A memory with one store\<close>

definition copy_time :: "addr \<Rightarrow> (memory, addr) state" where
  "copy_time a = State (\<lambda>h. (length (mm_Times h), h\<lparr>mm_Times := mm_Times h @ [time_view h a]\<rparr>))"

definition copy_foreign :: "foreign \<Rightarrow> (memory, foreign) state" where
  "copy_foreign f = State (\<lambda>h. let n = length (mm_Foreign h); k = length (fo_Cells f) in
     (f\<lparr>fo_Cells := [n..<n + k]\<rparr>, h\<lparr>mm_Foreign := mm_Foreign h @ map (\<lambda>a. mm_Foreign h ! a) (fo_Cells f)\<rparr>))"

definition sample_copiers :: copiers where
  "sample_copiers = \<lparr>Time_DeepCopy = copy_time, ObjectMeta_DeepCopyInto = copy_foreign, ListMeta_DeepCopyInto = copy_foreign,
     Configuration_DeepCopyInto = copy_foreign, EnvVar_DeepCopyInto = copy_foreign, ResourceRequirements_DeepCopyInto = copy_foreign\<rparr>"

lemma copy_time_law: "deep_copy copy_time time_view time_cells"
proof (standard, goal_cases)
  case (1 h a h2)
  then have "map_option C_Time (nth_opt (mm_Times h2) a) = map_option C_Time (nth_opt (mm_Times h) a)"
    by (simp add: time_cells_def same_on_def)
  then show ?case by (auto simp: time_view_def time_cells_def split: option.splits)
next
  case (2 h a a' h')
  then have "a' = length (mm_Times h)" "h' = h\<lparr>mm_Times := mm_Times h @ [time_view h a]\<rparr>" by (auto simp: copy_time_def)
  moreover have "cell_content (h\<lparr>mm_Times := mm_Times h @ [t]\<rparr>) c =
      (if c = Time_Cell (length (mm_Times h)) then Some (C_Time t) else cell_content h c)" for c t
    by (cases c) (simp_all add: nth_opt_snoc)
  ultimately show ?case
    by (auto simp: same_on_def allocated_def time_cells_def nth_opt_len) (simp add: time_view_def nth_opt_snoc)
qed

lemma copy_foreign_law: "deep_copy copy_foreign foreign_view foreign_cells"
proof (standard, goal_cases)
  case (1 h f h2)
  then show ?case by (simp add: foreign_view_def foreign_cells_def same_on_def del: cell_content.simps)
next
  case (2 h f f' h')
  let ?n = "length (mm_Foreign h)" and ?xs = "map (\<lambda>a. mm_Foreign h ! a) (fo_Cells f)"
  have out: "f' = f\<lparr>fo_Cells := [?n..<?n + length (fo_Cells f)]\<rparr>" "h' = h\<lparr>mm_Foreign := mm_Foreign h @ ?xs\<rparr>"
    using 2(2) by (auto simp: copy_foreign_def Let_def)
  have old: "cell_content h' c = cell_content h c" if "c \<in> allocated h" for c
    using that by (cases c) (auto simp: out(2) allocated_def nth_opt_def nth_append split: if_splits)
  have "cell_content h' (Foreign_Cell (?n + i)) = cell_content h (Foreign_Cell (fo_Cells f ! i))" if "i < length (fo_Cells f)" for i
  proof -
    have "Foreign_Cell (fo_Cells f ! i) \<in> allocated h" using 2(1) that by (auto simp: foreign_cells_def)
    then show ?thesis using that by (auto simp: out(2) allocated_def nth_opt_def nth_append split: if_splits)
  qed
  then have "foreign_view h' f' = foreign_view h f"
    by (auto simp: foreign_view_def out(1) intro!: nth_equalityI simp del: cell_content.simps)
  moreover have "foreign_cells h' f' \<subseteq> allocated h' - allocated h"
    by (auto simp: foreign_cells_def out allocated_def nth_opt_def)
  ultimately show ?case using old by (simp add: same_on_def)
qed

lemma sample_copiers_law: "copiers_law sample_copiers"
  by (simp add: copiers_law_def sample_copiers_def copy_time_law copy_foreign_law)

interpretation args: deep_copy "\<lambda>s. do {h \<leftarrow> State_Monad.get; let xs = slice_part s (read_strings h (sl_Array s));
    a \<leftarrow> new_strings xs; State_Monad.return (whole a (length xs))}" args_view args_cells
  by (rule deep_copy_args)

interpretation sample_stores: deep_copy "ObjectStore_DeepCopyInto sample_copiers" store_view store_cells
  by (rule deep_copy_store [OF sample_copiers_law])

definition sample_memory :: memory where
  "sample_memory = \<lparr>mm_Times = [7], mm_Maps = [[(''pg'', zero_window_struct\<lparr>ws_LastSuccessfulBackupTime := Some 0\<rparr>)]], mm_Envs = [],
     mm_Strings = [[''--verbose'', ''--debug'']], mm_Items = [], mm_Foreign = [''labels'']\<rparr>"

definition sample_struct :: store_struct where
  "sample_struct = \<lparr>sr_TypeMeta = (''ObjectStore'', ''barmancloud.cnpg.io/v1''),
     sr_ObjectMeta = \<lparr>fo_Fields = ''store'', fo_Cells = [0]\<rparr>,
     sr_Spec = \<lparr>sp_Configuration = \<lparr>fo_Fields = '''', fo_Cells = []\<rparr>, sp_RetentionPolicy = ''30d'',
       sp_InstanceSidecarConfiguration = \<lparr>ss_Env = None, ss_RetentionPolicyIntervalSeconds = 1800,
         ss_Resources = \<lparr>fo_Fields = '''', fo_Cells = []\<rparr>, ss_AdditionalContainerArgs = Some \<lparr>sl_Array = 0, sl_From = 1, sl_Len = 1\<rparr>,
         ss_LogLevel = ''info''\<rparr>\<rparr>,
     sr_Status = \<lparr>st_ServerRecoveryWindow = Some 0\<rparr>\<rparr>"

lemma sample_struct_cells: "store_cells sample_memory sample_struct \<subseteq> allocated sample_memory"
  by (auto simp: store_cells_def sample_memory_def sample_struct_def foreign_cells_def spec_cells_def sidecar_cells_def
      status_cells_def cells_if_set_def args_cells_def map_cells_def window_cells_def time_cells_def read_map_def nth_opt_def
      allocated_def zero_window_struct_def)

theorem DeepCopyObject_independent_witness:
  "\<exists>os' h'. run_state (ObjectStore_DeepCopyObject sample_copiers (Some sample_struct)) sample_memory = (Some (RT_ObjectStore os'), h') \<and>
     store_view h' os' = store_view sample_memory sample_struct \<and> sr_Status os' \<noteq> sr_Status sample_struct"
proof -
  obtain r h' where run: "run_state (ObjectStore_DeepCopyObject sample_copiers (Some sample_struct)) sample_memory = (r, h')" by fastforce
  obtain os' where os': "r = Some (RT_ObjectStore os')" "store_view h' os' = store_view sample_memory sample_struct"
    using DeepCopyObject_independent [OF sample_copiers_law] sample_struct_cells run by blast
  have "map_option (\<lambda>obj. case obj of RT_ObjectStore os \<Rightarrow> sr_Status os | _ \<Rightarrow> sr_Status sample_struct)
      (fst (run_state (ObjectStore_DeepCopyObject sample_copiers (Some sample_struct)) sample_memory)) =
    Some \<lparr>st_ServerRecoveryWindow = Some 1\<rparr>" by code_simp
  then have "sr_Status os' = \<lparr>st_ServerRecoveryWindow = Some 1\<rparr>" unfolding run os'(1) by simp
  then have "sr_Status os' \<noteq> sr_Status sample_struct" by (simp add: sample_struct_def)
  with run os' show ?thesis by blast
qed

theorem cache_shares_windows_witness:
  "\<exists>os' h'. run_state (memory_with_failure ''pg'' 9 (cache_hit_fields sample_struct)) sample_memory = (os', h') \<and>
     status_view h' (sr_Status sample_struct) = status_view h' (sr_Status os') \<and>
     rw_LastFailedBackupTime (window_view h' (get_map h' (st_ServerRecoveryWindow (sr_Status sample_struct)) ''pg'')) = Some 9"
proof -
  obtain os' h' where run: "run_state (memory_with_failure ''pg'' 9 (cache_hit_fields sample_struct)) sample_memory = (os', h')" by fastforce
  let ?o1 = "(sample_store ''store'')\<lparr>os_Status := status_view sample_memory (sr_Status sample_struct)\<rparr>"
  have "status_cells sample_memory (sr_Status sample_struct) \<subseteq> allocated sample_memory"
    using sample_struct_cells by (simp add: store_cells_def)
  with run have eq: "status_view h' (sr_Status os') = os_Status (with_failure ''pg'' 9 ?o1)"
    "share_windows (with_failure ''pg'' 9 ?o1) [new_entry (Obj_ObjectStore ?o1) 0] =
      [new_entry (Obj_ObjectStore (?o1\<lparr>os_Status := status_view h' (sr_Status sample_struct)\<rparr>)) 0]"
    using cache_shares_windows [OF sample_copiers_law, of "''pg''" 9 0] by simp_all
  have "ost_ServerRecoveryWindow (os_Status ?o1) \<noteq> None" by (simp add: status_view_def sample_struct_def)
  then have "status_view h' (sr_Status sample_struct) = os_Status (with_failure ''pg'' 9 ?o1)"
    using eq(2) by (auto simp: share_windows_def new_entry_def dest: arg_cong [where f = os_Status])
  moreover have "(case run_state (memory_with_failure ''pg'' 9 (cache_hit_fields sample_struct)) sample_memory of (os', h') \<Rightarrow>
      rw_LastFailedBackupTime (window_view h' (get_map h' (st_ServerRecoveryWindow (sr_Status sample_struct)) ''pg''))) = Some 9"
    by code_simp
  ultimately show ?thesis using run eq(1) by simp
qed

end
