(* ===== verification/Pod_Validity.thy ===== *)
theory Pod_Validity
  imports Lifecycle_Props
begin

text \<open>
  The Pods the lifecycle hook returns are ones the API server accepts: what Kubernetes requires of the names
  of containers and volumes and of the mounts of a Pod, as a well-formedness invariant of the injection.
\<close>

section \<open>Well-formed Pods\<close>

definition all_containers :: "pod_spec \<Rightarrow> container list" where
  "all_containers spec = ps_InitContainers spec @ ps_Containers spec"

text \<open>Every mount is of a volume of the Pod, and no two of a container are at the same path.\<close>

definition mounts_valid :: "string set \<Rightarrow> volume_mount list \<Rightarrow> bool" where
  "mounts_valid vols ms \<longleftrightarrow> vm_Name ` set ms \<subseteq> vols \<and> distinct (map vm_MountPath ms)"

definition pod_valid :: "pod_spec \<Rightarrow> bool" where
  "pod_valid spec \<longleftrightarrow> distinct (map ct_Name (all_containers spec)) \<and> distinct (map vol_Name (ps_Volumes spec)) \<and>
     (\<forall>c \<in> set (all_containers spec). mounts_valid (vol_Name ` set (ps_Volumes spec)) (ct_VolumeMounts c))"

text \<open>
  The names and paths the plugin keeps for itself. No other container has the name of the sidecar or mounts
  the volume of its certificates; and at the two paths of the plugin nothing else is mounted.
\<close>

abbreviation own_mount :: "volume_mount \<Rightarrow> bool" where
  "own_mount x \<equiv> (vm_MountPath x = BarmanCertificatesPath \<longrightarrow> vm_Name x = barmanCertificatesVolumeName) \<and>
     (vm_MountPath x = pluginMountPath \<longrightarrow> vm_Name x = pluginVolumeName)"

definition names_reserved :: "pod_spec \<Rightarrow> bool" where
  "names_reserved spec \<longleftrightarrow> ''plugin-barman-cloud'' \<notin> ct_Name ` set (ps_Containers spec) \<and>
     (\<forall>c \<in> set (all_containers spec). \<forall>x \<in> set (ct_VolumeMounts c). own_mount x \<and>
       (vm_Name x = barmanCertificatesVolumeName \<longrightarrow> ct_Name c = ''plugin-barman-cloud''))"

section \<open>Mounts\<close>

lemma ensure_mount_set: "set (ensure_mount ms m) \<subseteq> insert m (set ms)"
  by (induction ms) auto

lemma ensure_mount_snoc: "vm_Name m \<notin> vm_Name ` set ms \<Longrightarrow> ensure_mount ms m = ms @ [m]"
  by (induction ms) auto

lemma ensure_mounts_set: "set (foldl ensure_mount ms ns) \<subseteq> set ms \<union> set ns"
  using ensure_mount_set by (induction ns arbitrary: ms) fastforce+

lemma distinct_paths:
  assumes "distinct (map vm_Name ms)" "\<And>x y. x \<in> set ms \<Longrightarrow> y \<in> set ms \<Longrightarrow> vm_MountPath x = vm_MountPath y \<Longrightarrow> x = y"
  shows "distinct (map vm_MountPath ms)"
proof -
  have "distinct ms" using assms(1) distinct_map by blast
  moreover have "inj_on vm_MountPath (set ms)" using assms(2) by (auto simp: inj_on_def)
  ultimately show ?thesis by (simp add: distinct_map)
qed

text \<open>Putting valid mounts over some whose paths are not among them.\<close>

lemma mounts_valid_fold:
  assumes "mounts_valid vols ms" "mounts_valid vols ns" "distinct (map vm_Name ms)"
    and "vm_MountPath ` set ms \<inter> vm_MountPath ` set ns = {}"
  shows "mounts_valid vols (foldl ensure_mount ms ns)"
proof -
  have sub: "set (foldl ensure_mount ms ns) \<subseteq> set ms \<union> set ns" by (rule ensure_mounts_set)
  have inj: "x = y" if "mounts_valid vols zs" "x \<in> set zs" "y \<in> set zs" "vm_MountPath x = vm_MountPath y" for zs x y
    using that by (auto simp: mounts_valid_def distinct_map inj_on_def)
  have eq: "x = y" if xy: "x \<in> set ms \<union> set ns" "y \<in> set ms \<union> set ns" "vm_MountPath x = vm_MountPath y" for x y
  proof -
    have "x \<in> set ms \<and> y \<in> set ms \<or> x \<in> set ns \<and> y \<in> set ns" using xy assms(4) by (auto simp: disjoint_iff)
    then show ?thesis using inj assms(1,2) xy(3) by blast
  qed
  have "distinct (map vm_MountPath (foldl ensure_mount ms ns))"
    by (rule distinct_paths [OF mounts.fold_distinct [OF assms(3)]]) (use sub eq in blast)
  then show ?thesis using assms(1,2) sub unfolding mounts_valid_def by blast
qed

lemma mounts_valid_mono: "mounts_valid vols ms \<Longrightarrow> vols \<subseteq> vols' \<Longrightarrow> mounts_valid vols' ms"
  by (auto simp: mounts_valid_def)

section \<open>The edits\<close>

text \<open>Without certificates their volume goes; only the sidecar mounted it.\<close>

lemma certificate_volumes_names:
  "vol_Name ` set (certificate_volumes certs vs) =
     (if certs \<noteq> [] then insert barmanCertificatesVolumeName (vol_Name ` set vs) else vol_Name ` set vs - {barmanCertificatesVolumeName})"
  by (auto simp: certificate_volumes_def volumes.set_put_names volumes.remove_set)

lemma certificate_volumes_distinct: "distinct (map vol_Name vs) \<Longrightarrow> distinct (map vol_Name (certificate_volumes certs vs))"
  by (simp add: certificate_volumes_def volumes.put_distinct volumes.remove_distinct)

definition plugin_mount :: volume_mount where
  "plugin_mount = \<lparr>vm_Name = pluginVolumeName, vm_MountPath = pluginMountPath, vm_Rest = ''''\<rparr>"

lemma plugin_names: "pluginVolumeName \<noteq> barmanCertificatesVolumeName" "pluginMountPath \<noteq> BarmanCertificatesPath"
  by (simp_all add: pluginVolumeName_def barmanCertificatesVolumeName_def pluginMountPath_def BarmanCertificatesPath_def)

text \<open>The main container gets the volume of the plugins, at a path where it had nothing.\<close>

lemma inject_volume_containers:
  "ps_Containers (InjectPluginVolumePodSpec spec m) = (if pluginVolumeName \<in> vol_Name ` set (ps_Volumes spec) then ps_Containers spec
     else map (\<lambda>c. if ct_Name c = m then c\<lparr>ct_VolumeMounts := foldl ensure_mount (ct_VolumeMounts c) [plugin_mount]\<rparr> else c) (ps_Containers spec))"
proof -
  have "list_ex (\<lambda>v. vol_Name v = pluginVolumeName) (ps_Volumes spec) \<longleftrightarrow> pluginVolumeName \<in> vol_Name ` set (ps_Volumes spec)"
    by (simp only: list_ex_iff image_iff) metis
  then show ?thesis by (simp add: InjectPluginVolumePodSpec_def Let_def ensureVolumeMount_def plugin_mount_def)
qed


section \<open>Injecting keeps Pods valid\<close>

text \<open>What becomes of a container that is not the sidecar.\<close>

lemma other_container_valid:
  assumes "pod_valid spec" "names_reserved spec" "c \<in> set (all_containers spec)" "ct_Name c \<noteq> ''plugin-barman-cloud''"
    and "vols = insert pluginVolumeName (vol_Name ` set (certificate_volumes certs (ps_Volumes spec)))"
  shows "mounts_valid vols (ct_VolumeMounts c)"
    "pluginVolumeName \<notin> vol_Name ` set (ps_Volumes spec) \<Longrightarrow> mounts_valid vols (foldl ensure_mount (ct_VolumeMounts c) [plugin_mount])"
proof -
  let ?old = "vol_Name ` set (ps_Volumes spec)"
  have ok: "mounts_valid ?old (ct_VolumeMounts c)" using assms(1,3) by (simp add: pod_valid_def)
  have own: "own_mount x" "vm_Name x \<noteq> barmanCertificatesVolumeName" if "x \<in> set (ct_VolumeMounts c)" for x
    using assms(2,3,4) that unfolding names_reserved_def by blast+
  have "?old - {barmanCertificatesVolumeName} \<subseteq> vols" unfolding assms(5) certificate_volumes_names by auto
  then show valid: "mounts_valid vols (ct_VolumeMounts c)" using ok own(2) unfolding mounts_valid_def by blast
  assume new: "pluginVolumeName \<notin> ?old"
  then have "vm_Name plugin_mount \<notin> vm_Name ` set (ct_VolumeMounts c)" using ok by (auto simp: mounts_valid_def plugin_mount_def)
  then have app: "ensure_mount (ct_VolumeMounts c) plugin_mount = ct_VolumeMounts c @ [plugin_mount]"
    by (rule ensure_mount_snoc)
  have "vm_MountPath x \<noteq> pluginMountPath" if "x \<in> set (ct_VolumeMounts c)" for x
    using own(1) [OF that] imageI [OF that, of vm_Name] ok new unfolding mounts_valid_def by auto
  then have "pluginMountPath \<notin> vm_MountPath ` set (ct_VolumeMounts c)" by (metis imageE)
  then show "mounts_valid vols (foldl ensure_mount (ct_VolumeMounts c) [plugin_mount])"
    using valid unfolding mounts_valid_def foldl.simps app by (auto simp: plugin_mount_def assms(5))
qed

lemma distinct_map_filter_single:
  "distinct (map f xs) \<Longrightarrow> k \<in> f ` set xs \<Longrightarrow> \<exists>x \<in> set xs. filter (\<lambda>y. f y = k) xs = [x]"
  by (induction xs) (auto simp: filter_empty_conv, (metis imageI)+)

lemma replace_container_names:
  "map ct_Name (replace_container s cs) = (if ct_Name s \<in> ct_Name ` set cs then map ct_Name cs else map ct_Name cs @ [ct_Name s])"
  "set (replace_container s cs) \<subseteq> insert s {c \<in> set cs. ct_Name c \<noteq> ct_Name s}"
proof -
  have ex: "list_ex (\<lambda>c. ct_Name c = ct_Name s) cs \<longleftrightarrow> ct_Name s \<in> ct_Name ` set cs" by (simp only: list_ex_iff image_iff) metis
  show "map ct_Name (replace_container s cs) = (if ct_Name s \<in> ct_Name ` set cs then map ct_Name cs else map ct_Name cs @ [ct_Name s])"
    by (auto simp: replace_container_def ex)
  show "set (replace_container s cs) \<subseteq> insert s {c \<in> set cs. ct_Name c \<noteq> ct_Name s}"
  proof (cases "ct_Name s \<in> ct_Name ` set cs")
    case False
    then have "ct_Name x \<noteq> ct_Name s" if "x \<in> set cs" for x using that by (metis imageI)
    with False show ?thesis by (auto simp: replace_container_def ex)
  qed (auto simp: replace_container_def ex)
qed

text \<open>The containers after the volume of the plugins was injected.\<close>

lemma edited_containers:
  assumes "pod_valid spec" "names_reserved spec" "vols = vol_Name ` set (ps_Volumes spec2)"
    and "spec2 = InjectPluginVolumePodSpec (spec\<lparr>ps_Volumes := certificate_volumes certs (ps_Volumes spec)\<rparr>) m"
  shows "map ct_Name (ps_Containers spec2) = map ct_Name (ps_Containers spec)"
    "d \<in> set (ps_Containers spec2) \<Longrightarrow> mounts_valid vols (ct_VolumeMounts d) \<and>
      (\<forall>x \<in> set (ct_VolumeMounts d). own_mount x \<and> vm_Name x \<noteq> barmanCertificatesVolumeName)"
proof -
  let ?c1 = "certificate_volumes certs (ps_Volumes spec)"
  have conts: "ps_Containers spec2 = (if pluginVolumeName \<in> vol_Name ` set ?c1 then ps_Containers spec
     else map (\<lambda>c. if ct_Name c = m then c\<lparr>ct_VolumeMounts := foldl ensure_mount (ct_VolumeMounts c) [plugin_mount]\<rparr> else c) (ps_Containers spec))"
    unfolding assms(4) inject_volume_containers by simp
  have vols: "vols = insert pluginVolumeName (vol_Name ` set ?c1)"
    unfolding assms(3,4) InjectPluginVolume_simps(4) by auto
  show "map ct_Name (ps_Containers spec2) = map ct_Name (ps_Containers spec)" by (simp add: conts)
  assume d: "d \<in> set (ps_Containers spec2)"
  then obtain c where c: "c \<in> set (ps_Containers spec)" "d = c \<or> pluginVolumeName \<notin> vol_Name ` set ?c1 \<and>
      d = c\<lparr>ct_VolumeMounts := foldl ensure_mount (ct_VolumeMounts c) [plugin_mount]\<rparr>"
    by (auto simp: conts split: if_splits)
  have all: "c \<in> set (all_containers spec)" using c(1) by (simp add: all_containers_def)
  have name: "ct_Name c \<noteq> ''plugin-barman-cloud''" using assms(2) imageI [OF c(1), of ct_Name] by (auto simp: names_reserved_def)
  have own: "own_mount x \<and> vm_Name x \<noteq> barmanCertificatesVolumeName" if "x \<in> set (ct_VolumeMounts c)" for x
    using assms(2) all name that unfolding names_reserved_def by blast
  have old: "pluginVolumeName \<notin> vol_Name ` set ?c1 \<Longrightarrow> pluginVolumeName \<notin> vol_Name ` set (ps_Volumes spec)"
    using plugin_names(1) by (auto simp: certificate_volumes_names split: if_splits)
  note valid = other_container_valid [OF assms(1,2) all name vols]
  have plug: "own_mount plugin_mount" "vm_Name plugin_mount \<noteq> barmanCertificatesVolumeName"
    using plugin_names by (simp_all add: plugin_mount_def)
  show "mounts_valid vols (ct_VolumeMounts d) \<and> (\<forall>x \<in> set (ct_VolumeMounts d). own_mount x \<and> vm_Name x \<noteq> barmanCertificatesVolumeName)"
    using c(2)
  proof
    assume "d = c"
    then show ?thesis using valid(1) own by blast
  next
    assume new: "pluginVolumeName \<notin> vol_Name ` set ?c1 \<and> d = c\<lparr>ct_VolumeMounts := foldl ensure_mount (ct_VolumeMounts c) [plugin_mount]\<rparr>"
    then have "set (ct_VolumeMounts d) \<subseteq> insert plugin_mount (set (ct_VolumeMounts c))" using ensure_mount_set by fastforce
    moreover have "mounts_valid vols (ct_VolumeMounts d)" using new valid(2) old by simp
    ultimately show ?thesis using own plug by blast
  qed
qed

text \<open>
  C34. The hook returns valid Pods. In a Pod whose containers and volumes have different names, whose mounts are
  of its own volumes and at different paths, and that leaves the names and paths of the plugin alone, the
  hook injects the sidecar so that all of this holds again; with and without certificates, and whether or
  not the sidecar was injected before.
\<close>

theorem reconcilePodSpec_valid:
  assumes "pod_valid spec" "names_reserved spec" "reconcilePodSpec P c spec m (container_template args) conf = Inr spec'"
  shows "pod_valid spec' \<and> names_reserved spec'"
proof -
  define spec2 where "spec2 = InjectPluginVolumePodSpec (spec\<lparr>ps_Volumes := certificate_volumes (sdc_certificates conf) (ps_Volumes spec)\<rparr>) m"
  let ?vols = "vol_Name ` set (ps_Volumes spec2)" and ?certs = "certificate_mounts (sdc_certificates conf) []"
  define s where "s = (sidecar_container P c spec m (container_template args) conf)\<lparr>ct_VolumeMounts :=
    mounts_of_main ?certs (ps_Containers spec2) m\<rparr>"
  have run: "m \<in> ct_Name ` set (ps_Containers spec2)" "spec' = spec2\<lparr>ps_InitContainers := replace_container s (ps_InitContainers spec)\<rparr>"
    using assms(3) unfolding reconcilePodSpec_eq Let_def by (auto simp: spec2_def s_def container_template_def split: if_splits)
  note conts = edited_containers [OF assms(1,2) refl spec2_def]
  have s_name: "ct_Name s = ''plugin-barman-cloud''" by (simp add: s_def)
  have vols: "?vols = insert pluginVolumeName (vol_Name ` set (certificate_volumes (sdc_certificates conf) (ps_Volumes spec)))"
    unfolding spec2_def InjectPluginVolume_simps(4) by auto
  have init: "mounts_valid ?vols (ct_VolumeMounts d) \<and> (\<forall>x \<in> set (ct_VolumeMounts d). own_mount x \<and> vm_Name x \<noteq> barmanCertificatesVolumeName)"
    if "d \<in> set (ps_InitContainers spec)" "ct_Name d \<noteq> ''plugin-barman-cloud''" for d
  proof -
    have "d \<in> set (all_containers spec)" using that(1) by (simp add: all_containers_def)
    then show ?thesis using other_container_valid(1) [OF assms(1,2) _ that(2) vols] assms(2) that(2)
      unfolding names_reserved_def by blast
  qed
  obtain main where main: "main \<in> set (ps_Containers spec2)" "filter (\<lambda>c. ct_Name c = m) (ps_Containers spec2) = [main]"
  proof -
    have "distinct (map ct_Name (ps_Containers spec2))" using assms(1) conts(1) by (simp add: pod_valid_def all_containers_def)
    then show ?thesis using that run(1) by (auto dest: distinct_map_filter_single)
  qed
  have certs: "?certs = (if sdc_certificates conf \<noteq> [] then [certificates_mount] else [])"
    by (simp add: certificate_mounts_def ensureVolumeMount_def removeVolumeMount_def certificates_mount_def)
  have s_mounts: "ct_VolumeMounts s = foldl ensure_mount ?certs (ct_VolumeMounts main)" by (simp add: s_def mounts_of_main_eq main(2))
  note main_ok = conts(2) [OF main(1)]
  have "mounts_valid ?vols (ct_VolumeMounts s)"
    unfolding s_mounts
  proof (rule mounts_valid_fold)
    show "mounts_valid ?vols ?certs" unfolding vols certificate_volumes_names by (simp add: certs mounts_valid_def certificates_mount_def)
    show "vm_MountPath ` set ?certs \<inter> vm_MountPath ` set (ct_VolumeMounts main) = {}"
      using main_ok by (auto simp: certs certificates_mount_def)
  qed (use main_ok in \<open>simp_all add: certs\<close>)
  moreover have "own_mount x" if "x \<in> set (ct_VolumeMounts s)" for x
    using that ensure_mounts_set [of ?certs "ct_VolumeMounts main"] main_ok plugin_names
    by (auto simp: s_mounts certs certificates_mount_def split: if_splits)
  moreover have "distinct (map vol_Name (ps_Volumes spec2))"
    using certificate_volumes_distinct assms(1) by (simp add: spec2_def InjectPluginVolume_simps(4) pod_valid_def)
  moreover have "distinct (map ct_Name (all_containers spec'))" "''plugin-barman-cloud'' \<notin> ct_Name ` set (ps_Containers spec')"
  proof -
    have "ct_Name ` set (ps_Containers spec2) = ct_Name ` set (ps_Containers spec)"
      using arg_cong [OF conts(1), of set] by simp
    then show *: "''plugin-barman-cloud'' \<notin> ct_Name ` set (ps_Containers spec')" using assms(2) by (simp add: run(2) names_reserved_def)
    define ns cs where "ns = map ct_Name (ps_InitContainers spec)" and "cs = map ct_Name (ps_Containers spec)"
    have "distinct (ns @ cs)" "''plugin-barman-cloud'' \<notin> set cs"
      using assms(1,2) by (simp_all add: ns_def cs_def pod_valid_def all_containers_def names_reserved_def)
    moreover have "map ct_Name (all_containers spec') = (if ''plugin-barman-cloud'' \<in> set ns then ns else ns @ [''plugin-barman-cloud'']) @ cs"
      by (simp add: all_containers_def run(2) conts(1) replace_container_names(1) s_name ns_def cs_def)
    ultimately show "distinct (map ct_Name (all_containers spec'))" by auto
  qed
  ultimately show ?thesis
    using init conts(2) replace_container_names(2) [of s "ps_InitContainers spec"]
    by (auto simp: pod_valid_def names_reserved_def all_containers_def run(2) s_name)
qed

text \<open>A Pod with two mounts of one volume, before and after the injection.\<close>

theorem reconcilePodSpec_valid_witness:
  "pod_valid sample_pod_spec \<and> pod_valid injected_spec \<and> names_reserved injected_spec \<and>
     map ct_Name (all_containers injected_spec) = [''bootstrap-controller'', ''plugin-barman-cloud'', ''postgres'']"
proof -
  have valid: "pod_valid sample_pod_spec" "names_reserved sample_pod_spec" by code_simp+
  from reconcilePodSpec_valid [OF valid injected_spec_run]
  have "pod_valid injected_spec \<and> names_reserved injected_spec" .
  moreover have "map ct_Name (all_containers injected_spec) = [''bootstrap-controller'', ''plugin-barman-cloud'', ''postgres'']"
    by code_simp
  ultimately show ?thesis using valid by blast
qed

end
