(* ===== verification/Main_Program.thy ===== *)
theory Main_Program
  imports Commands
begin

text \<open>
  The main program, \<open>cmd/manager/main.go\<close>, and the commands it is made of, \<open>internal/cmd/*/main.go\<close>, with
  their flags. The commands are data that \<open>cobra\<close> interprets, and the settings are what \<open>viper\<close> makes of
  flags and environment; both are parameters.
\<close>

section \<open>Commands as data\<close>

text \<open>
  A flag with its default value. The effect of a command gives \<open>Some n\<close> when it left the process with
  \<open>os.Exit(n)\<close>, and \<open>None\<close> when it returned nil. \<open>GetString\<close> and \<open>GetBool\<close> are read when the command runs.
\<close>

datatype flag_value = String_Flag string | Bool_Flag bool

type_synonym flag = "string \<times> flag_value"

type_synonym 'w run = "(manager_call, 'w, nat option) io"

datatype 'w command = Command
  (cmd_Use: string)
  (cmd_Flags: "flag list")
  (cmd_BindPFlags: "string list")
  (cmd_BindEnv: "(string \<times> string) list")
  (cmd_PersistentPreRun: "(manager_call, 'w, unit) io option")
  (cmd_RunE: "((string \<Rightarrow> string) \<Rightarrow> (string \<Rightarrow> bool) \<Rightarrow> 'w run) option")
  (cmd_Commands: "'w command list")

text \<open>\<open>Name\<close> is the first word of \<open>Use\<close>.\<close>

definition command_Name :: "'w command \<Rightarrow> string" where
  "command_Name c = takeWhile (\<lambda>x. x \<noteq> CHR '' '') (cmd_Use c)"

definition returns :: "(manager_call, 'w, unit) io \<Rightarrow> 'w run" where
  "returns m = io_seq m (io_return None)"

definition instance_NewCmd :: "group_version \<Rightarrow> 'w mgr \<Rightarrow> 'w command" where
  "instance_NewCmd S M = Command ''instance'' [(''pprof-server'', String_Flag '''')] [''pprof-server''] instance_bindings None
     (Some (\<lambda>GetString GetBool. returns (instance_RunE S M GetString))) []"

definition restore_NewCmd :: "group_version \<Rightarrow> 'w mgr \<Rightarrow> 'w command" where
  "restore_NewCmd S M = Command ''restore'' [] [] restore_bindings None
     (Some (\<lambda>GetString GetBool. returns (restore_RunE S M GetString))) []"

definition operator_flags :: "flag list" where
  "operator_flags = [(''metrics-bind-address'', String_Flag ''0''), (''health-probe-bind-address'', String_Flag '':8081''),
     (''leader-elect'', Bool_Flag False), (''metrics-secure'', Bool_Flag True), (''enable-http2'', Bool_Flag False),
     (''plugin-path'', String_Flag ''''), (''server-cert'', String_Flag ''''), (''server-key'', String_Flag ''''),
     (''client-cert'', String_Flag ''''), (''server-address'', String_Flag '''')]"

definition operator_NewCmd :: "'w mgr \<Rightarrow> 'w command" where
  "operator_NewCmd M = Command ''operator'' operator_flags
     [''metrics-bind-address'', ''health-probe-bind-address'', ''leader-elect'', ''metrics-secure'', ''enable-http2'',
      ''plugin-path'', ''server-cert'', ''server-key'', ''client-cert'', ''server-address'']
     operator_bindings (Some (io_return ())) (Some (\<lambda>GetString GetBool. returns (operator_RunE M GetString GetBool))) []"

definition unixHealthCheck_cmd ::
  "(string \<Rightarrow> go_error + 'cli) \<Rightarrow> ('cli \<Rightarrow> go_error + serving_status) \<Rightarrow> 'w command" where
  "unixHealthCheck_cmd NewClient Check = Command ''unix'' [] [] [] None
     (Some (\<lambda>GetString GetBool. io_lift (map_sum id Some (unixHealthCheck NewClient Check)))) []"

definition healthcheck_NewCmd ::
  "(string \<Rightarrow> go_error + 'cli) \<Rightarrow> ('cli \<Rightarrow> go_error + serving_status) \<Rightarrow> 'w command" where
  "healthcheck_NewCmd NewClient Check = Command ''healthcheck'' [] [] [] None None [unixHealthCheck_cmd NewClient Check]"

text \<open>
  The root command. Its hook configures the logger, which this model leaves out; \<open>log_flags\<close> are the flags the
  logger adds.
\<close>

definition rootCmd ::
  "flag list \<Rightarrow> group_version \<Rightarrow> 'w mgr \<Rightarrow> (string \<Rightarrow> go_error + 'cli) \<Rightarrow> ('cli \<Rightarrow> go_error + serving_status) \<Rightarrow> 'w command" where
  "rootCmd log_flags S M NewClient Check = Command ''manager [cmd]'' log_flags [] [] (Some (io_return ())) None
     [instance_NewCmd S M, operator_NewCmd M, restore_NewCmd S M, healthcheck_NewCmd NewClient Check]"

section \<open>The main program\<close>

text \<open>\<open>errors.Is(err, context.Canceled)\<close>\<close>

definition Canceled :: go_error where
  "Canceled = Opaque ''context canceled''"

fun is_Canceled :: "go_error \<Rightarrow> bool" where
  "is_Canceled (Errorf _ _ (Some e)) = is_Canceled e"
| "is_Canceled (SpoolManagementError _ e) = is_Canceled e"
| "is_Canceled (Joined es) = list_ex is_Canceled es"
| "is_Canceled e = (e = Canceled)"

text \<open>The exit code of \<open>main\<close>, where \<open>execute\<close> is \<open>rootCmd.ExecuteContext\<close> on the arguments of the process.\<close>

definition main_program :: "('w command \<Rightarrow> string list \<Rightarrow> 'w run) \<Rightarrow> 'w command \<Rightarrow> string list \<Rightarrow> (manager_call, 'w, nat) io" where
  "main_program execute root args = io_try (execute root args) (\<lambda>r. case r of
     Inl err \<Rightarrow> if \<not> is_Canceled err then io_return 1 else io_return 0
   | Inr None \<Rightarrow> io_return 0
   | Inr (Some n) \<Rightarrow> io_return n)"

section \<open>What cobra and viper do\<close>

text \<open>
  The documented behaviour of \<open>Execute\<close>, for arguments that name a command by its path: the hooks of the
  commands on the path run from the root down (\<open>EnableTraverseRunHooks\<close>), then the command itself.
\<close>

fun command_path :: "'w command \<Rightarrow> string list \<Rightarrow> 'w command list option" where
  "command_path c [] = Some [c]"
| "command_path c (a # args) = (case find (\<lambda>d. command_Name d = a) (cmd_Commands c) of
     None \<Rightarrow> None | Some d \<Rightarrow> map_option (Cons c) (command_path d args))"

fun run_hooks :: "'w command list \<Rightarrow> (manager_call, 'w, unit) io" where
  "run_hooks [] = io_return ()"
| "run_hooks (c # cs) = (case cmd_PersistentPreRun c of None \<Rightarrow> run_hooks cs | Some h \<Rightarrow> io_seq h (run_hooks cs))"

definition cobra_law ::
  "('w command \<Rightarrow> string list \<Rightarrow> 'w run) \<Rightarrow> (string \<Rightarrow> string) \<Rightarrow> (string \<Rightarrow> bool) \<Rightarrow> bool" where
  "cobra_law execute GetString GetBool \<longleftrightarrow> (\<forall>root args path f. command_path root args = Some path \<longrightarrow> cmd_RunE (last path) = Some f \<longrightarrow>
     execute root args = io_seq (run_hooks path) (f GetString GetBool))"

text \<open>
  The settings of \<open>viper\<close>, when no flag is given on the command line. All commands are built before one runs, so the
  bindings of all of them count. A setting is the value of its variable, if that is set and not empty, and
  otherwise the default of the flag bound to it.
\<close>

fun bound_env :: "'w command \<Rightarrow> (string \<times> string) list" where
  "bound_env (Command u fs bf be h r cs) = be @ concat (map bound_env cs)"

fun bound_flags :: "'w command \<Rightarrow> flag list" where
  "bound_flags (Command u fs bf be h r cs) = filter (\<lambda>(n, _). n \<in> set bf) fs @ concat (map bound_flags cs)"

definition default_setting :: "'w command \<Rightarrow> string \<Rightarrow> string" where
  "default_setting root k = (case map_of (bound_flags root) k of Some (String_Flag s) \<Rightarrow> s
     | Some (Bool_Flag b) \<Rightarrow> if b then ''true'' else ''false'' | None \<Rightarrow> '''')"

definition settings_law :: "'w command \<Rightarrow> (string \<Rightarrow> string) \<Rightarrow> (string \<Rightarrow> string) \<Rightarrow> bool" where
  "settings_law root env GetString \<longleftrightarrow> (\<forall>k. GetString k = (case map_of (bound_env root) k of
     Some v \<Rightarrow> if env v \<noteq> '''' then env v else default_setting root k | None \<Rightarrow> default_setting root k))"

section \<open>Which command runs\<close>

lemma command_Names [simp]:
  "command_Name (instance_NewCmd S M) = ''instance''" "command_Name (restore_NewCmd S M) = ''restore''"
  "command_Name (operator_NewCmd M) = ''operator''" "command_Name (healthcheck_NewCmd N C) = ''healthcheck''"
  "command_Name (unixHealthCheck_cmd N C) = ''unix''"
  by (simp_all add: command_Name_def instance_NewCmd_def restore_NewCmd_def operator_NewCmd_def healthcheck_NewCmd_def unixHealthCheck_cmd_def)

lemma sub_commands [simp]:
  "cmd_Commands (rootCmd fs S M N C) = [instance_NewCmd S M, operator_NewCmd M, restore_NewCmd S M, healthcheck_NewCmd N C]"
  "cmd_Commands (healthcheck_NewCmd N C) = [unixHealthCheck_cmd N C]"
  "cmd_PersistentPreRun (rootCmd fs S M N C) = Some (io_return ())" "cmd_PersistentPreRun (instance_NewCmd S M) = None"
  "cmd_PersistentPreRun (restore_NewCmd S M) = None" "cmd_PersistentPreRun (operator_NewCmd M) = Some (io_return ())"
  "cmd_PersistentPreRun (healthcheck_NewCmd N C) = None" "cmd_PersistentPreRun (unixHealthCheck_cmd N C) = None"
  by (simp_all add: rootCmd_def healthcheck_NewCmd_def instance_NewCmd_def restore_NewCmd_def operator_NewCmd_def unixHealthCheck_cmd_def)

lemma io_seq_return: "io_seq (io_return ()) m = m"
  by (simp add: io_seq_def io_bind_return_left)

text \<open>What each command line executes.\<close>

lemma executes:
  assumes "cobra_law execute GetString GetBool"
  shows "execute (rootCmd fs S M N C) [''instance''] = returns (instance_RunE S M GetString)"
    "execute (rootCmd fs S M N C) [''restore''] = returns (restore_RunE S M GetString)"
    "execute (rootCmd fs S M N C) [''operator''] = returns (operator_RunE M GetString GetBool)"
    "execute (rootCmd fs S M N C) [''healthcheck'', ''unix''] = io_lift (map_sum id Some (unixHealthCheck N C))"
proof -
  have run: "execute root args = io_seq (run_hooks path) (f GetString GetBool)"
    if "command_path root args = Some path" "cmd_RunE (last path) = Some f" for root args path f
    using assms that unfolding cobra_law_def by blast
  show "execute (rootCmd fs S M N C) [''instance''] = returns (instance_RunE S M GetString)"
    by (subst run [where path = "[rootCmd fs S M N C, instance_NewCmd S M]"])
      (simp_all add: io_seq_return, simp_all add: instance_NewCmd_def)
  show "execute (rootCmd fs S M N C) [''restore''] = returns (restore_RunE S M GetString)"
    by (subst run [where path = "[rootCmd fs S M N C, restore_NewCmd S M]"])
      (simp_all add: io_seq_return, simp_all add: restore_NewCmd_def)
  show "execute (rootCmd fs S M N C) [''operator''] = returns (operator_RunE M GetString GetBool)"
    by (subst run [where path = "[rootCmd fs S M N C, operator_NewCmd M]"])
      (simp_all add: io_seq_return, simp_all add: operator_NewCmd_def)
  show "execute (rootCmd fs S M N C) [''healthcheck'', ''unix''] = io_lift (map_sum id Some (unixHealthCheck N C))"
    by (subst run [where path = "[rootCmd fs S M N C, healthcheck_NewCmd N C, unixHealthCheck_cmd N C]"])
      (simp_all add: io_seq_return, simp_all add: unixHealthCheck_cmd_def id_def)
qed

text \<open>The exit code of a process whose command returned.\<close>

definition exit_code :: "go_error + 'a \<Rightarrow> nat" where
  "exit_code r = (case r of Inl err \<Rightarrow> if is_Canceled err then 0 else 1 | Inr _ \<Rightarrow> 0)"

lemma main_program_returns:
  assumes "execute root args = returns m"
  shows "main_program execute root args w = (Inr (exit_code (io_result m w)), io_calls m w, io_world m w)"
  by (auto simp: main_program_def assms returns_def io_simps exit_code_def io_result_def io_calls_def io_world_def
      split: prod.splits sum.splits)

lemma main_program_probe:
  assumes "cobra_law execute GetString GetBool"
  shows "main_program execute (rootCmd fs S M N C) [''healthcheck'', ''unix''] w =
    (Inr (case unixHealthCheck N C of Inl err \<Rightarrow> exit_code (Inl err) | Inr n \<Rightarrow> n), [], w)"
  by (auto simp: main_program_def executes [OF assms] io_simps exit_code_def split: sum.splits)

text \<open>The exit code of the probe, for each answer of the health service.\<close>

lemma probe_exits:
  assumes "cobra_law execute GetString GetBool" "N health_dial_path = Inr cli" "C cli = Inr st"
  shows "main_program execute (rootCmd fs S M N C) [''healthcheck'', ''unix''] w =
    (Inr (case st of SERVING \<Rightarrow> 0 | UNKNOWN \<Rightarrow> 2 | NOT_SERVING \<Rightarrow> 3 | _ \<Rightarrow> 125), [], w)"
  by (rule trans [OF main_program_probe [OF assms(1)]]) (cases st, simp_all add: unixHealthCheck_def assms(2,3))

lemma bindings_apart:
  "\<forall>(k, v) \<in> set instance_bindings. map_of (instance_bindings @ operator_bindings @ restore_bindings) k = Some v \<and>
     map_of ((''pprof-server'', String_Flag []) # operator_flags) k = None"
  by code_simp

text \<open>
  The settings of the sidecars: their variables, since no flag has the name of one of these settings.
\<close>

lemma sidecar_settings:
  assumes "settings_law (rootCmd fs S M N C) env GetString" "(k, v) \<in> set instance_bindings"
  shows "GetString k = env v"
proof -
  have env: "bound_env (rootCmd fs S M N C) = instance_bindings @ operator_bindings @ restore_bindings"
    by (simp add: rootCmd_def instance_NewCmd_def operator_NewCmd_def restore_NewCmd_def healthcheck_NewCmd_def unixHealthCheck_cmd_def)
  have flags: "bound_flags (rootCmd fs S M N C) = (''pprof-server'', String_Flag '''') # operator_flags"
    by (simp add: rootCmd_def instance_NewCmd_def operator_NewCmd_def restore_NewCmd_def healthcheck_NewCmd_def
        unixHealthCheck_cmd_def operator_flags_def)
  have "map_of (bound_env (rootCmd fs S M N C)) k = Some v" "map_of (bound_flags (rootCmd fs S M N C)) k = None"
    using assms(2) bindings_apart unfolding env flags by blast+
  then have "default_setting (rootCmd fs S M N C) k = ''''" "GetString k = (if env v \<noteq> '''' then env v else default_setting (rootCmd fs S M N C) k)"
    using assms(1) unfolding settings_law_def default_setting_def by simp_all
  then show ?thesis by simp
qed

end
