(* ===== verification/Catalog_Race.thy ===== *)
theory Catalog_Race
  imports Retention
begin

text \<open>
  The maintenance of the catalog while other Pods take backups. \<open>maintenance\<close> first reads the catalog in the
  bucket and then lists the Backup objects; the two are answers about two moments, and what happens in between is
  up to the outside world.
\<close>

section \<open>Two observations\<close>

text \<open>
  \<open>catalog\<close> and \<open>backups\<close> are what the bucket and the API server hold in a world; reading answers with what was
  there when the call was made. The world after a call may have moved on in any way.
\<close>

definition catalog_read_law ::
  "lib \<Rightarrow> 'w ext \<Rightarrow> ('w \<Rightarrow> barman_configuration \<Rightarrow> string \<Rightarrow> string set) \<Rightarrow> bool" where
  "catalog_read_law L e bucket \<longleftrightarrow> (\<forall>conf server env w list w'. b_backup_list e conf server env w = (Inr list, w') \<longrightarrow>
     set (GetBackupIDs L list) = bucket w conf server)"

definition backups_read_law :: "'w ext \<Rightarrow> ('w \<Rightarrow> string \<Rightarrow> backup set) \<Rightarrow> bool" where
  "backups_read_law e objects \<longleftrightarrow> (\<forall>ns w bs w'. k_list_backups e ns w = (Inr bs, w') \<longrightarrow> set bs = objects w ns)"

text \<open>A Backup that this plugin completed for the cluster.\<close>

definition own_backup :: "lib \<Rightarrow> cluster \<Rightarrow> backup \<Rightarrow> bool" where
  "own_backup L c b \<longleftrightarrow> stale_backup L c [] b"

lemma stale_own_backup: "stale_backup L c ids b \<longleftrightarrow> own_backup L c b \<and> bs_BackupID (bk_Status b) \<notin> set ids"
  by (auto simp: own_backup_def stale_backup_def)

lemma deleteBackups_deletes:
  assumes "deleteBackupsNotInCatalog L e c ids w = (Inr u, cs, w')" "backups_read_law e objects"
  shows "Kube (Delete_Backup b) \<in> set cs \<longleftrightarrow> b \<in> objects w (cl_Namespace c) \<and> stale_backup L c ids b"
proof -
  obtain bs w1 errs cs1 w2 where cs: "cs = Kube (List_Backups (cl_Namespace c)) # cs1"
    and list: "k_list_backups e (cl_Namespace c) w = (Inr bs, w1)" and loop: "delete_loop L e c ids bs w1 = (Inr errs, cs1, w2)"
    using assms(1) by (auto simp: deleteBackupsNotInCatalog_def run_iffs split: if_splits)
  have "cs1 = map (\<lambda>b. Kube (Delete_Backup b)) (filter (stale_backup L c ids) bs)"
    using delete_loop_run [of L e c ids bs w1] loop by auto
  moreover have "set bs = objects w (cl_Namespace c)" using assms(2) list unfolding backups_read_law_def by blast
  ultimately show ?thesis unfolding cs by auto
qed

text \<open>What has happened before the catalog is read: the credentials are prepared and the policy is enforced.\<close>

definition before_catalog :: "'w ext \<Rightarrow> config \<Rightarrow> object_store \<Rightarrow> 'w \<Rightarrow> string list \<Rightarrow> 'w \<Rightarrow> bool" where
  "before_catalog e conf os w env w1 \<longleftrightarrow> (\<exists>w0. b_set_credentials e (os_Namespace os) (os_Configuration os) (environ e)
       (BuildCertificateFilePath (os_Name os)) w = (Inr env, w0) \<and>
     (if oss_RetentionPolicy (os_Spec os) = '''' then w1 = w0
      else b_delete_by_policy e (os_Configuration os) (cfg_ServerName conf) env (oss_RetentionPolicy (os_Spec os)) w0 = (Inr (), w1)))"

lemma enforce_policy_world:
  "enforce_policy e os c env w0 = (Inr u, cs, w1) \<Longrightarrow> if oss_RetentionPolicy (os_Spec os) = '''' then w1 = w0
    else b_delete_by_policy e (os_Configuration os) (cfg_ServerName c) env (oss_RetentionPolicy (os_Spec os)) w0 = (Inr (), w1)"
  by (auto simp: enforce_policy_def Let_def io_simps split: if_splits sum.splits prod.splits)

text \<open>The two moments of a maintenance that succeeds: the catalog is read at \<open>w1\<close>, the Backups are listed at \<open>w2\<close>.\<close>

lemma maintenance_moments:
  assumes "maintenance L e pod c os w = (Inr (), cs, w')" "cl_CurrentPrimary c = pod"
  obtains env w1 list w2 cs1 w3 where "before_catalog e (NewFromCluster L c) os w env w1"
    "b_backup_list e (os_Configuration os) (cfg_ServerName (NewFromCluster L c)) env w1 = (Inr list, w2)"
    "deleteBackupsNotInCatalog L e c (GetBackupIDs L list) w2 = (Inr (), cs1, w3)"
    "\<forall>b. Kube (Delete_Backup b) \<in> set cs \<longleftrightarrow> Kube (Delete_Backup b) \<in> set cs1"
proof -
  let ?c = "NewFromCluster L c"
  have "\<exists>env w0 u cs0 w1 list w2 v cs1 w3. b_set_credentials e (os_Namespace os) (os_Configuration os) (environ e)
        (BuildCertificateFilePath (os_Name os)) w = (Inr env, w0) \<and> enforce_policy e os ?c env w0 = (Inr u, cs0, w1) \<and>
      b_backup_list e (os_Configuration os) (cfg_ServerName ?c) env w1 = (Inr list, w2) \<and>
      deleteBackupsNotInCatalog L e c (GetBackupIDs L list) w2 = (Inr v, cs1, w3) \<and>
      cs = Barman (Set_Credentials (os_Namespace os) (BuildCertificateFilePath (os_Name os))) # cs0 @
        Barman (Backup_List (cfg_ServerName ?c)) # cs1 @
        [Kube (Update_ObjectStore_Status (with_catalog L (cfg_ServerName ?c) list os))]"
    using assms(1) [unfolded maintenance_cases(2) [OF assms(2)]]
    apply (simp only: run_iffs append_Cons append_Nil append_Nil2)
    apply (elim exE conjE, hypsubst)
    apply (intro exI conjI, assumption, assumption, assumption, assumption, simp only: append_Cons append_Nil append_Nil2)
    done
  then obtain env w0 cs0 w1 list w2 cs1 w3 where cred: "b_set_credentials e (os_Namespace os) (os_Configuration os) (environ e)
        (BuildCertificateFilePath (os_Name os)) w = (Inr env, w0)" and policy: "enforce_policy e os ?c env w0 = (Inr (), cs0, w1)"
    and list: "b_backup_list e (os_Configuration os) (cfg_ServerName ?c) env w1 = (Inr list, w2)"
    and del: "deleteBackupsNotInCatalog L e c (GetBackupIDs L list) w2 = (Inr (), cs1, w3)"
    and cs: "cs = Barman (Set_Credentials (os_Namespace os) (BuildCertificateFilePath (os_Name os))) # cs0 @
        Barman (Backup_List (cfg_ServerName ?c)) # cs1 @
        [Kube (Update_ObjectStore_Status (with_catalog L (cfg_ServerName ?c) list os))]"
    by auto
  have "\<forall>b. Kube (Delete_Backup b) \<in> set cs \<longleftrightarrow> Kube (Delete_Backup b) \<in> set cs1"
    using enforce_policy_run [OF policy] by (auto simp: cs)
  moreover have "before_catalog e ?c os w env w1"
    unfolding before_catalog_def using cred enforce_policy_world [OF policy] by (intro exI [of _ w0] conjI)
  ultimately show thesis using list del that by blast
qed

text \<open>
  C21. Which Backups a maintenance deletes while others take backups. When it succeeds on the primary there are
  two moments: after the policy has been enforced the catalog is read, and right after that call the Backup
  objects are listed. Deleted are the Backups this plugin completed for this cluster, by the second moment, whose
  backups were not in the bucket at the first. So a Backup whose data was in the bucket at the first moment is
  kept; and a backup that arrived in the bucket and completed while the catalog was being read loses its object,
  although the bucket has it.
\<close>

theorem maintenance_race:
  assumes "maintenance L e pod c os w = (Inr (), cs, w')" "cl_CurrentPrimary c = pod"
    and "catalog_read_law L e bucket" "backups_read_law e objects"
  shows "\<exists>env w1 w2. before_catalog e (NewFromCluster L c) os w env w1 \<and>
    w2 = snd (b_backup_list e (os_Configuration os) (cfg_ServerName (NewFromCluster L c)) env w1) \<and>
    (\<forall>b. Kube (Delete_Backup b) \<in> set cs \<longleftrightarrow> b \<in> objects w2 (cl_Namespace c) \<and> own_backup L c b \<and>
      bs_BackupID (bk_Status b) \<notin> bucket w1 (os_Configuration os) (cfg_ServerName (NewFromCluster L c)))"
proof -
  let ?server = "cfg_ServerName (NewFromCluster L c)"
  obtain env w1 list w2 cs1 w3 where before: "before_catalog e (NewFromCluster L c) os w env w1"
    and read: "b_backup_list e (os_Configuration os) ?server env w1 = (Inr list, w2)"
    and del: "deleteBackupsNotInCatalog L e c (GetBackupIDs L list) w2 = (Inr (), cs1, w3)"
    and same: "\<forall>b. Kube (Delete_Backup b) \<in> set cs \<longleftrightarrow> Kube (Delete_Backup b) \<in> set cs1"
    by (rule maintenance_moments [OF assms(1,2)])
  have "set (GetBackupIDs L list) = bucket w1 (os_Configuration os) ?server"
    using assms(3) read unfolding catalog_read_law_def by blast
  then have "\<forall>b. Kube (Delete_Backup b) \<in> set cs \<longleftrightarrow> b \<in> objects w2 (cl_Namespace c) \<and> own_backup L c b \<and>
      bs_BackupID (bk_Status b) \<notin> bucket w1 (os_Configuration os) ?server"
    using same deleteBackups_deletes [OF del assms(4)] by (simp add: stale_own_backup)
  with before read show ?thesis by (intro exI [of _ env] exI [of _ w1] exI [of _ w2]) simp
qed

section \<open>A backup that completes while the catalog is read\<close>

text \<open>The world says whether the standby has completed its backup, which it does while the catalog is read.\<close>

definition racing_backup :: backup where
  "racing_backup = sample_backup ''20240202T000000''"

definition bucket_of :: "bool \<Rightarrow> string set" where
  "bucket_of finished = (if finished then {''20240101T000000'', ''20240202T000000''} else {''20240101T000000''})"

definition objects_at :: "bool \<Rightarrow> backup list" where
  "objects_at finished = sample_backup ''20240101T000000'' # (if finished then [racing_backup] else [])"

definition racing_server :: "bool ext" where
  "racing_server = sample_ext\<lparr>b_set_credentials := (\<lambda>_ _ env _ w. (Inr env, w)),
     b_backup_list := (\<lambda>_ _ _ w. (Inr (if w then [sample_info, sample_info\<lparr>bb_ID := ''20240202T000000''\<rparr>] else [sample_info]), True)),
     k_list_backups := (\<lambda>_ w. (Inr (objects_at w), w)), k_delete_backup := (\<lambda>_ w. (Inr (), w)),
     k_update_object_store_status := (\<lambda>_ w. (Inr (), w))\<rparr>"

theorem maintenance_race_witness:
  "\<exists>cs. maintenance sample_lib racing_server ''pg-1'' metrics_cluster (sample_store ''store'') False = (Inr (), cs, True) \<and>
     Kube (Delete_Backup racing_backup) \<in> set cs \<and> bs_BackupID (bk_Status racing_backup) \<in> bucket_of True"
proof -
  let ?m = "maintenance sample_lib racing_server ''pg-1'' metrics_cluster (sample_store ''store'') False"
  have "fst ?m = Inr ()" "snd (snd ?m)" and primary: "cl_CurrentPrimary metrics_cluster = ''pg-1''" by code_simp+
  then obtain cs where m: "?m = (Inr (), cs, True)" by (cases ?m) auto
  have ids: "bb_ID sample_info = ''20240101T000000''" and own: "own_backup sample_lib metrics_cluster racing_backup" by code_simp+
  have law1: "catalog_read_law sample_lib racing_server (\<lambda>w _ _. bucket_of w)"
    by (auto simp: catalog_read_law_def racing_server_def bucket_of_def sample_lib_def ids)
  have law2: "backups_read_law racing_server (\<lambda>w _. set (objects_at w))"
    by (auto simp: backups_read_law_def racing_server_def)
  show ?thesis
  proof (intro exI conjI)
    show "?m = (Inr (), cs, True)" by (rule m)
    have new: "racing_backup \<in> set (objects_at True)" "bs_BackupID (bk_Status racing_backup) \<notin> bucket_of False"
      by (simp add: objects_at_def) code_simp
    have "before_catalog racing_server conf (sample_store ''store'') False env w1 \<Longrightarrow> w1 = False" for conf env w1
      by (simp add: before_catalog_def racing_server_def sample_store_def)
    moreover have "snd (b_backup_list racing_server conf server env w1) = True" for conf server env w1
      by (simp add: racing_server_def)
    ultimately show "Kube (Delete_Backup racing_backup) \<in> set cs"
      using maintenance_race [OF m primary law1 law2] own new by fastforce
    show "bs_BackupID (bk_Status racing_backup) \<in> bucket_of True" by code_simp
  qed
qed

end
