(* ===== verification/Process_Services.thy ===== *)
theory Process_Services
  imports Permissions Main_Program
begin

text \<open>
  What the processes serve, \<open>CNPGI.Start\<close> in \<open>start.go\<close> of the three processes, and how the reads of their services
  fit the manager they run in. The gRPC server of \<open>cnpg-i-machinery\<close> is the parameter \<open>serve\<close>.
\<close>

section \<open>The plugin servers\<close>

record http_server =
  hs_Metadata :: plugin_metadata
  hs_Capabilities :: "plugin_service list"
  hs_Ready :: bool
  hs_Registrations :: "registration list"
  hs_PluginPath :: string
  hs_ServerCertPath :: string
  hs_ServerKeyPath :: string
  hs_ClientCertPath :: string
  hs_ServerAddress :: string

text \<open>\<open>GetPluginMetadata\<close> is the same in each process.\<close>

definition GetPluginMetadata :: plugin_metadata where
  "GetPluginMetadata = Data"

definition instance_CNPGI_Start :: "(http_server \<Rightarrow> 'r) \<Rightarrow> instance_plugin \<Rightarrow> 'r" where
  "instance_CNPGI_Start serve c = serve \<lparr>hs_Metadata = GetPluginMetadata, hs_Capabilities = instance_GetPluginCapabilities,
     hs_Ready = instance_Probe, hs_Registrations = instance_enrich c, hs_PluginPath = ip_PluginPath c,
     hs_ServerCertPath = '''', hs_ServerKeyPath = '''', hs_ClientCertPath = '''', hs_ServerAddress = ''''\<rparr>"

definition restore_CNPGI_Start :: "(http_server \<Rightarrow> 'r) \<Rightarrow> restore_plugin \<Rightarrow> 'r" where
  "restore_CNPGI_Start serve c = serve \<lparr>hs_Metadata = GetPluginMetadata, hs_Capabilities = restore_GetPluginCapabilities,
     hs_Ready = restore_Probe, hs_Registrations = restore_enrich c, hs_PluginPath = rp_PluginPath c,
     hs_ServerCertPath = '''', hs_ServerKeyPath = '''', hs_ClientCertPath = '''', hs_ServerAddress = ''''\<rparr>"

definition operator_CNPGI_Start :: "(http_server \<Rightarrow> 'r) \<Rightarrow> operator_plugin \<Rightarrow> 'r" where
  "operator_CNPGI_Start serve c = serve \<lparr>hs_Metadata = GetPluginMetadata, hs_Capabilities = operator_GetPluginCapabilities,
     hs_Ready = operator_Probe, hs_Registrations = operator_enrich c, hs_PluginPath = op_PluginPath c,
     hs_ServerCertPath = op_ServerCertPath c, hs_ServerKeyPath = op_ServerKeyPath c, hs_ClientCertPath = op_ClientCertPath c,
     hs_ServerAddress = op_ServerAddress c\<rparr>"

text \<open>The capability a registered service stands for; the health service stands for none.\<close>

fun service_type :: "registration \<Rightarrow> plugin_service option" where
  "service_type (WALServer s) = Some TYPE_WAL_SERVICE"
| "service_type (BackupServer n) = Some TYPE_BACKUP_SERVICE"
| "service_type MetricsServer = Some TYPE_METRICS"
| "service_type HealthServer = None"
| "service_type (RestoreJobHooksServer j) = Some TYPE_RESTORE_JOB"
| "service_type ReconcilerHooksServer = Some TYPE_RECONCILER_HOOKS"
| "service_type OperatorLifecycleServer = Some TYPE_LIFECYCLE_SERVICE"

text \<open>
  Every server announces the services it registers, and no others; injecting sidecars is a capability of the
  operator that has no service of its own.
\<close>

definition announces :: "plugin_service set \<Rightarrow> http_server \<Rightarrow> bool" where
  "announces extra s \<longleftrightarrow> Some ` set (hs_Capabilities s) = (service_type ` set (hs_Registrations s) - {None}) \<union> Some ` extra"

lemma services_announced:
  "instance_CNPGI_Start (announces {}) c1" "restore_CNPGI_Start (announces {}) c2"
  "operator_CNPGI_Start (announces {TYPE_INSTANCE_SIDECAR_INJECTION}) c3"
  by (auto simp: announces_def instance_CNPGI_Start_def restore_CNPGI_Start_def operator_CNPGI_Start_def
      instance_GetPluginCapabilities_def restore_GetPluginCapabilities_def operator_GetPluginCapabilities_def
      instance_enrich_def restore_enrich_def operator_enrich_def)

section \<open>Reads of the sidecars\<close>

text \<open>
  The kind of object a call reads with the client of the manager; credentials are read from Secrets. Unless its
  cache is disabled for the kind, the client of controller-runtime answers from an informer, for which it lists and
  watches all objects of that kind.
\<close>

fun kind_read :: "call \<Rightarrow> string option" where
  "kind_read (Kube (Get_ObjectStore k)) = Some ''ObjectStore''"
| "kind_read (Kube (Get_Cluster k)) = Some ''Cluster''"
| "kind_read (Kube (Get_Role k)) = Some ''Role''"
| "kind_read (Kube (List_Roles n l)) = Some ''Role''"
| "kind_read (Kube (Get_RoleBinding k)) = Some ''RoleBinding''"
| "kind_read (Kube (List_Backups n)) = Some ''Backup''"
| "kind_read (Barman (Set_Credentials n f)) = Some ''Secret''"
| "kind_read x = None"

text \<open>
  The calls a service can make for some request, and those of what the manager of a sidecar runs. The operator is not
  a sidecar.
\<close>

definition can_make :: "(call, 'w, 'a) io \<Rightarrow> call \<Rightarrow> bool" where
  "can_make m x \<longleftrightarrow> (\<exists>w. x \<in> set (io_calls m w))"

fun service_call :: "lib \<Rightarrow> 'w ext \<Rightarrow> registration \<Rightarrow> call \<Rightarrow> bool" where
  "service_call L e (WALServer s) x = ((\<exists>r. can_make (Archive L e s r) x) \<or> (\<exists>r. can_make (Restore L e s r) x))"
| "service_call L e (BackupServer n) x = (\<exists>j. can_make (Backup L e n j) x)"
| "service_call L e MetricsServer x = (\<exists>j. can_make (Collect_metrics L e j) x)"
| "service_call L e (RestoreJobHooksServer h) x = (\<exists>r. can_make (Restore_Job_Restore L e h r) x)"
| "service_call L e _ x = False"

fun runnable_call :: "lib \<Rightarrow> 'w ext \<Rightarrow> runnable \<Rightarrow> call \<Rightarrow> bool" where
  "runnable_call L e (Instance_Plugin c) x =
     instance_CNPGI_Start (\<lambda>s. \<exists>r \<in> set (hs_Registrations s). service_call L e r x) c"
| "runnable_call L e (Restore_Plugin c) x =
     restore_CNPGI_Start (\<lambda>s. \<exists>r \<in> set (hs_Registrations s). service_call L e r x) c"
| "runnable_call L e (Catalog_Maintenance c) x = can_make (cycle L e (cm_ClusterKey c) (cm_CurrentPodName c)) x"
| "runnable_call L e (Operator_Plugin c) x = False"

definition reads_in :: "string set \<Rightarrow> call \<Rightarrow> bool" where
  "reads_in K x \<longleftrightarrow> (\<forall>k. kind_read x = Some k \<longrightarrow> k \<in> K)"

lemma reads_in_simps [simp]:
  "reads_in K (Os o1)" "reads_in K (Kube (Get_ObjectStore key)) \<longleftrightarrow> ''ObjectStore'' \<in> K"
  "reads_in K (Kube (Get_Cluster key)) \<longleftrightarrow> ''Cluster'' \<in> K" "reads_in K (Kube (List_Backups ns)) \<longleftrightarrow> ''Backup'' \<in> K"
  "reads_in K (Kube (Delete_Backup b))" "reads_in K (Kube (Update_ObjectStore_Status os))" "reads_in K (Kube (Record_Event r1 r2))"
  "reads_in K (Barman (Set_Credentials ns f)) \<longleftrightarrow> ''Secret'' \<in> K"
  by (auto simp: reads_in_def)

lemma reads_in_barman [simp]: "(\<And>n f. b \<noteq> Set_Credentials n f) \<Longrightarrow> reads_in K (Barman b)"
  by (cases b) (auto simp: reads_in_def)

text \<open>The services read ObjectStores and Secrets; the maintenance reads Clusters and Backups, too.\<close>

lemma service_reads:
  assumes "''ObjectStore'' \<in> K" "''Secret'' \<in> K"
  shows "only_calls (reads_in K) (Archive L e s a)" "only_calls (reads_in K) (Restore L e s r)"
    "only_calls (reads_in K) (Collect_metrics L e j)" "only_calls (reads_in K) (Restore_Job_Restore L e impl req)"
proof -
  show "only_calls (reads_in K) (Archive L e s a)"
    unfolding Archive_def Let_def archive_wals_def CheckBackupDestination_def resolveArchiveEmptyWalArchiveCheck_def
    by (intro calls_rules) (simp_all add: assms)
  have wal: "only_calls (reads_in K) (restoreFromBarmanObjectStore L e s c' os server wal dest rewind)" for c' os server wal dest rewind
    unfolding restoreFromBarmanObjectStore_def restore_wal_def restore_steps_def download_wals_def
      clearEndOfWALStreamFlag_def checkEndOfWALStreamFlag_def Let_def
    by (intro calls_rules) (auto intro!: calls_rules simp: assms split: list.split)
  show "only_calls (reads_in K) (Restore L e s r)"
    unfolding Restore_def Let_def case_prod_unfold by (intro calls_rules wal) (simp add: assms)
  show "only_calls (reads_in K) (Collect_metrics L e j)"
    unfolding Collect_metrics_def by (intro calls_rules) (auto intro!: calls_rules simp: assms Let_def split: option.split)
  show "only_calls (reads_in K) (Restore_Job_Restore L e impl req)"
    unfolding Restore_Job_Restore_def check_destination_def checkBackupDestination_def CheckBackupDestination_def Let_def
      loadBackupObjectFromExternalCluster_def ensureArchiveContainsLastCheckpointRedoWAL_def restoreDataDir_def
      restoreCustomWalDir_def case_prod_unfold
    by (intro calls_rules) (auto intro!: calls_rules simp: assms split: option.split exec_failure.split)
qed

lemma Backup_reads:
  assumes "retry_law e" "''ObjectStore'' \<in> K" "''Secret'' \<in> K"
  shows "only_calls (reads_in K) (Backup L e n j)"
proof -
  have failure: "only_calls (reads_in K) (handleBackupError e cfg)" for cfg
    unfolding handleBackupError_def setLastFailedBackupTime_def
    by (intro calls_rules only_calls_retry [OF assms(1)]) (simp_all add: assms)
  have taken: "only_calls (reads_in K) (backup_taken L e inst cfg os env name)" for inst cfg os env name
    unfolding backup_taken_def updateRecoveryWindow_def by (intro calls_rules) simp_all
  show ?thesis unfolding Backup_def Let_def by (intro calls_rules failure taken) (simp_all add: assms)
qed

lemma cycle_reads:
  assumes "{''ObjectStore'', ''Secret'', ''Cluster'', ''Backup''} \<subseteq> K"
  shows "only_calls (reads_in K) (cycle L e key pod)"
proof -
  have loop: "only_calls (reads_in K) (delete_loop L e c ids bs)" for c ids bs
    by (induction bs) (auto intro!: calls_rules)
  have main: "only_calls (reads_in K) (maintenance L e pod c os)" for c os
    unfolding maintenance_def Let_def enforce_policy_def deleteBackupsNotInCatalog_def updateRecoveryWindow_def
    by (intro calls_rules loop) (use assms in simp_all)
  show ?thesis unfolding cycle_def Let_def by (intro calls_rules main) (use assms in simp_all)
qed

lemma can_makeD: "can_make m x \<Longrightarrow> only_calls P m \<Longrightarrow> P x"
  by (auto simp: can_make_def only_calls_def)

lemma instance_reads:
  assumes "retry_law e" "runnable_call L e r x"
    and "r \<in> {Instance_Plugin (instance_plugin_of GetString), Catalog_Maintenance (catalog_maintenance_of GetString)}"
  shows "reads_in {''Secret'', ''ObjectStore'', ''Cluster'', ''Backup''} x"
  using assms(2,3) by (auto simp: instance_CNPGI_Start_def instance_enrich_def
      elim!: can_makeD intro!: service_reads Backup_reads assms(1) cycle_reads)

lemma restore_reads:
  assumes "runnable_call L e (Restore_Plugin (restore_plugin_of GetString)) x"
  shows "reads_in {''Secret'', ''ObjectStore''} x"
  using assms by (auto simp: restore_CNPGI_Start_def restore_enrich_def elim!: can_makeD intro!: service_reads)

text \<open>What a process does before it serves: the options of its manager and the runnables it adds.\<close>

lemma instance_Start_calls:
  "NewManager opts \<in> set (io_calls (instance_Start S M GetString) w) \<Longrightarrow>
     mo_DisableFor opts = [''Secret'', ''ObjectStore'', ''Cluster'', ''Backup''] \<and> mo_Scheme opts = GenerateScheme S GetString"
  "Add_Runnable r \<in> set (io_calls (instance_Start S M GetString) w) \<Longrightarrow>
     r \<in> {Instance_Plugin (instance_plugin_of GetString), Catalog_Maintenance (catalog_maintenance_of GetString)}"
  by (auto simp: instance_Start_def io_calls_def io_simps no_options_def split: prod.splits sum.splits)

lemma restore_Start_calls:
  "NewManager opts \<in> set (io_calls (restore_Start S M GetString) w) \<Longrightarrow>
     mo_DisableFor opts = [''Secret'', ''ObjectStore''] \<and> mo_Scheme opts = GenerateScheme S GetString"
  "Add_Runnable r \<in> set (io_calls (restore_Start S M GetString) w) \<Longrightarrow> r = Restore_Plugin (restore_plugin_of GetString)"
  by (auto simp: restore_Start_def io_calls_def io_simps no_options_def split: prod.splits sum.splits)

lemma GenerateScheme_kinds:
  "((GroupVersion_Group, GroupVersion_Version), ''ObjectStore'') \<in> set (GenerateScheme S GetString)"
  "k \<in> {''Cluster'', ''Backup''} \<Longrightarrow> (cnpg_group_version S GetString, k) \<in> set (GenerateScheme S GetString)"
  by (auto simp: GenerateScheme_def barman_known_types_def cnpg_kinds_def)

text \<open>
  C12. The sidecars read with the permissions they have. A sidecar may get single objects, not list or watch all
  objects of a kind. Whatever a service or the maintenance of the instance process, or a service of the restore
  job process, reads for any request: the manager the process made has its cache disabled for that kind, so that
  the read does not start an informer; and it is the kind of a Secret or one the scheme of that manager has, in
  the API group of this plugin for ObjectStores and in that of the settings for Clusters and Backups.
\<close>

theorem reads_bypass_cache:
  assumes "retry_law e" "start \<in> {instance_Start S M GetString, restore_Start S M GetString}"
    and "NewManager opts \<in> set (io_calls start w)" "Add_Runnable r \<in> set (io_calls start w)"
    and "runnable_call L e r x" "kind_read x = Some k"
  shows "k \<in> set (mo_DisableFor opts) \<and> (k = ''Secret'' \<or>
    ((if k = ''ObjectStore'' then (GroupVersion_Group, GroupVersion_Version) else cnpg_group_version S GetString), k) \<in> set (mo_Scheme opts))"
proof (cases "start = instance_Start S M GetString")
  case True
  have opts: "mo_DisableFor opts = [''Secret'', ''ObjectStore'', ''Cluster'', ''Backup'']" "mo_Scheme opts = GenerateScheme S GetString"
    using instance_Start_calls(1) [OF assms(3) [unfolded True]] by simp_all
  have "reads_in {''Secret'', ''ObjectStore'', ''Cluster'', ''Backup''} x"
    using assms(4) unfolding True by (rule instance_reads [OF assms(1,5) instance_Start_calls(2)])
  then have "k \<in> {''Secret'', ''ObjectStore'', ''Cluster'', ''Backup''}" using assms(6) by (auto simp: reads_in_def)
  then show ?thesis unfolding opts using GenerateScheme_kinds [where S = S and GetString = GetString] by auto
next
  case False
  then have start: "start = restore_Start S M GetString" using assms(2) by blast
  have opts: "mo_DisableFor opts = [''Secret'', ''ObjectStore'']" "mo_Scheme opts = GenerateScheme S GetString"
    using restore_Start_calls(1) [OF assms(3) [unfolded start]] by simp_all
  have "r = Restore_Plugin (restore_plugin_of GetString)" using assms(4) unfolding start by (rule restore_Start_calls(2))
  then have "reads_in {''Secret'', ''ObjectStore''} x" using restore_reads assms(5) by blast
  then have "k \<in> {''Secret'', ''ObjectStore''}" using assms(6) by (auto simp: reads_in_def)
  then show ?thesis unfolding opts using GenerateScheme_kinds [where S = S and GetString = GetString] by auto
qed

text \<open>A manager whose calls succeed.\<close>

definition boot_mgr :: "unit mgr" where
  "boot_mgr = \<lparr>m_NewManager = (\<lambda>_ w. (Inr (), w)), m_Complete = (\<lambda>w. (Inr (), w)), m_AddHealthzCheck = (\<lambda>_ w. (Inr (), w)),
     m_AddReadyzCheck = (\<lambda>_ w. (Inr (), w)), m_Add = (\<lambda>_ w. (Inr (), w)), m_Start = (\<lambda>w. (Inr (), w))\<rparr>"

theorem reads_bypass_cache_witness:
  "Kube (Get_ObjectStore (NamespacedName ''ns'' ''store'')) \<in>
     set (io_calls (Backup (cluster_lib metrics_cluster) (backup_server (Inr ())) '''' '''') one_store) \<and>
   ''ObjectStore'' \<in> set [''Secret'', ''ObjectStore'', ''Cluster'', ''Backup'']"
proof -
  let ?L = "cluster_lib metrics_cluster" and ?e = "backup_server (Inr ())" and ?G = "\<lambda>_. ''''" and ?S = "(''default'', ''v0'')"
  let ?x = "Kube (Get_ObjectStore (NamespacedName ''ns'' ''store''))" and ?start = "instance_Start ?S boot_mgr ?G"
  let ?opts = "(no_options (GenerateScheme ?S ?G))\<lparr>mo_PprofBindAddress := '''',
       mo_DisableFor := [''Secret'', ''ObjectStore'', ''Cluster'', ''Backup'']\<rparr>"
  have "List.member (io_calls (Backup ?L ?e '''' '''') one_store) ?x" by code_simp
  then have x: "?x \<in> set (io_calls (Backup ?L ?e '''' '''') one_store)" by simp
  then have call: "runnable_call ?L ?e (Instance_Plugin (instance_plugin_of ?G)) ?x"
    by (auto simp: instance_CNPGI_Start_def instance_enrich_def instance_plugin_of_def can_make_def)
  have "NewManager ?opts \<in> set (io_calls ?start ())" "Add_Runnable (Instance_Plugin (instance_plugin_of ?G)) \<in> set (io_calls ?start ())"
    by (simp_all add: instance_Start_def io_calls_def io_simps boot_mgr_def)
  from reads_bypass_cache [OF backup_server_retry _ this call] x show ?thesis by simp
qed

end
