(* ===== verification/Build_Tooling.thy ===== *)
theory Build_Tooling
  imports Prelude
begin

text \<open>
  The modules of continuous integration, \<open>dagger/*/main.go\<close>. A container of dagger is built lazily: it is the list
  of the steps that make it, and only \<open>Stdout\<close>, \<open>Sync\<close> and the operations on a service run something; these are
  parameters. Directories and files are values of some type.
\<close>

section \<open>Containers\<close>

datatype 'd dag_step = From string | With_Exec "string list" | With_User string | With_Env_Variable string string
  | With_Mounted_Cache string string string | With_Directory string 'd | Without_Directory string | With_Workdir string
  | With_Mounted_File string 'd | With_New_File string string | With_Service_Binding string "'d dag_step list"
  | Go_Base string | With_Cgo_Disabled | With_Source 'd | K3S_Base string

type_synonym 'd dag_container = "'d dag_step list"

section \<open>The check of the documentation\<close>

text \<open>What the tools print as a number.\<close>

definition is_digit :: "char \<Rightarrow> bool" where
  "is_digit x \<longleftrightarrow> of_char x \<in> {48..57 :: nat}"

text \<open>\<open>strings.TrimSpace\<close>, for texts in ASCII.\<close>

definition is_space :: "char \<Rightarrow> bool" where
  "is_space x \<longleftrightarrow> x \<in> {CHR '' '', CHR 0x09, CHR 0x0A, CHR 0x0B, CHR 0x0C, CHR 0x0D}"

definition TrimSpace :: "string \<Rightarrow> string" where
  "TrimSpace s = rev (dropWhile is_space (rev (dropWhile is_space s)))"

definition quoted :: "string \<Rightarrow> string" where
  "quoted s = [CHR 0x22] @ s @ [CHR 0x22]"

definition manifest_query :: "string list" where
  "manifest_query = [''jq'', ''-r'', ''.['' @ quoted ''.'' @ '']'', ''.release-please-manifest.json'']"

definition versions_query :: "string \<Rightarrow> string list" where
  "versions_query v = [''jq'', ''-r'', ''. | index('' @ quoted v @ '')'', ''web/versions.json'']"

definition HasVersionDocumentation ::
  "('d dag_container \<Rightarrow> ('c, 'w, string) io) \<Rightarrow> 'd \<Rightarrow> ('c, 'w, bool) io" where
  "HasVersionDocumentation Stdout src =
     (let ctr = [From ''alpine:latest'', With_Directory ''/src'' src, With_Workdir ''/src'', With_Exec [''apk'', ''add'', ''jq'']] in
      io_bind (io_map_error (\<lambda>err. Errorf ''cannot find proposed release-please version in %v: %w''
          [''.release-please-manifest.json''] (Some err)) (Stdout (ctr @ [With_Exec manifest_query]))) (\<lambda>nextVersion.
      let nextVersion = TrimSpace nextVersion in
      io_bind (io_map_error (\<lambda>err. Errorf ''error querying versions in %v: %w'' [''web/versions.json''] (Some err))
          (Stdout (ctr @ [With_Exec (versions_query nextVersion)]))) (\<lambda>currVersion.
      if TrimSpace currVersion = ''null'' then io_return False else io_return True)))"

text \<open>
  What the tools print, in a directory whose manifest names \<open>v\<close> and whose documentation has the list \<open>versions\<close>: the
  version, and the index of a version in the list or \<open>null\<close>.
\<close>

definition prints :: "string \<Rightarrow> string \<Rightarrow> bool" where
  "prints out s \<longleftrightarrow> out = s @ [CHR 0x0A]"

definition jq_law :: "('d dag_container \<Rightarrow> ('c, 'w, string) io) \<Rightarrow> string \<Rightarrow> string list \<Rightarrow> bool" where
  "jq_law Stdout v versions \<longleftrightarrow>
     (\<forall>ctr w out cs w'. Stdout (ctr @ [With_Exec manifest_query]) w = (Inr out, cs, w') \<longrightarrow> prints out v) \<and>
     (\<forall>ctr x w out cs w'. Stdout (ctr @ [With_Exec (versions_query x)]) w = (Inr out, cs, w') \<longrightarrow>
       (if x \<in> set versions then \<exists>c n. prints out (c # n) \<and> (\<forall>x \<in> set (c # n). is_digit x)
        else prints out ''null''))"

lemma TrimSpace_line: "(\<forall>x \<in> set s. \<not> is_space x) \<Longrightarrow> prints out s \<Longrightarrow> TrimSpace out = s"
proof -
  assume s: "\<forall>x \<in> set s. \<not> is_space x" and out: "prints out s"
  have keep: "dropWhile is_space xs = xs" if "\<forall>x \<in> set xs. \<not> is_space x" for xs
    using that by (cases xs) auto
  have "is_space (CHR 0x0A)" by (simp add: is_space_def)
  then show ?thesis using s out
    by (cases s) (auto simp: TrimSpace_def prints_def keep)
qed

lemma digit_no_space: "is_digit x \<Longrightarrow> \<not> is_space x"
  by (auto simp: is_digit_def is_space_def)

text \<open>The check answers whether the documentation has the version that is to be released.\<close>

lemma HasVersionDocumentation_correct:
  assumes "jq_law Stdout v versions" "\<forall>x \<in> set v. \<not> is_space x"
    and "HasVersionDocumentation Stdout src w = (Inr found, cs, w')"
  shows "found \<longleftrightarrow> v \<in> set versions"
proof -
  let ?ctr = "[From ''alpine:latest'', With_Directory ''/src'' src, With_Workdir ''/src'', With_Exec [''apk'', ''add'', ''jq'']]"
  obtain out cs1 w1 out2 cs2 where 1: "Stdout (?ctr @ [With_Exec manifest_query]) w = (Inr out, cs1, w1)"
    and 2: "Stdout (?ctr @ [With_Exec (versions_query (TrimSpace out))]) w1 = (Inr out2, cs2, w')"
    and found: "found \<longleftrightarrow> TrimSpace out2 \<noteq> ''null''"
    using assms(3) by (auto simp: HasVersionDocumentation_def Let_def io_simps split: prod.splits sum.splits if_splits)
  have "prints out v" using assms(1) 1 unfolding jq_law_def by blast
  then have v: "TrimSpace out = v" by (rule TrimSpace_line [OF assms(2)])
  have law2: "if v \<in> set versions then \<exists>c n. prints out2 (c # n) \<and> (\<forall>x \<in> set (c # n). is_digit x) else prints out2 ''null''"
    using assms(1) 2 unfolding jq_law_def v by blast
  show ?thesis
  proof (cases "v \<in> set versions")
    case True
    then obtain c n where "prints out2 (c # n)" and digits: "(\<forall>x \<in> set (c # n). is_digit x)" using law2 by auto
    moreover have "\<forall>x \<in> set (c # n). \<not> is_space x" using digits digit_no_space by blast
    ultimately have "TrimSpace out2 = c # n" using TrimSpace_line by blast
    then show ?thesis using True digits found by (auto simp: is_digit_def)
  next
    case False
    then have "TrimSpace out2 = ''null''" using law2 by (intro TrimSpace_line) (auto simp: is_space_def)
    then show ?thesis using False found by simp
  qed
qed

section \<open>The unit tests\<close>

record 'd gotest =
  gt_Ctr :: "'d dag_container"
  gt_KubeVersion :: string

definition New :: "string \<Rightarrow> string \<Rightarrow> string \<Rightarrow> 'd dag_container option \<Rightarrow> 'd gotest" where
  "New goVersion setupEnvtestVersion kubeVersion ctr = (case ctr of
     Some ctr \<Rightarrow> \<lparr>gt_Ctr = ctr, gt_KubeVersion = ''''\<rparr>
   | None \<Rightarrow>
      let user = ''noroot''; modCachePath = ''/home/'' @ user @ ''/go/pkg/mod''; goCachePath = ''/home/'' @ user @ ''/.cache/go-build'';
        ctr = [From (''golang:'' @ goVersion),
          With_Exec [''curl'', ''-L'', ''https://dl.k8s.io/release/v'' @ kubeVersion @ ''/bin/linux/amd64/kubectl'',
            ''-o'', ''/usr/local/bin/kubectl''],
          With_Exec [''chmod'', ''+x'', ''/usr/local/bin/kubectl''],
          With_Exec [''curl'', ''-L'', ''https://github.com/kubernetes-sigs/controller-runtime/releases/download/v'' @
            setupEnvtestVersion @ ''/setup-envtest-linux-amd64'', ''-o'', ''/usr/local/bin/setup-envtest''],
          With_Exec [''chmod'', ''+x'', ''/usr/local/bin/setup-envtest''], With_Exec [''useradd'', ''-m'', user], With_User user,
          With_Env_Variable ''CGO_ENABLED'' ''0'', With_Env_Variable ''GOMODCACHE'' modCachePath,
          With_Env_Variable ''GOCACHE'' goCachePath, With_Mounted_Cache modCachePath ''go-mod'' user,
          With_Mounted_Cache goCachePath ''go-build'' user]
      in \<lparr>gt_Ctr = ctr, gt_KubeVersion = kubeVersion\<rparr>)"

definition UnitTest :: "'d gotest \<Rightarrow> 'd \<Rightarrow> 'd dag_container" where
  "UnitTest m src = gt_Ctr m @ [With_Directory ''/src'' src,
     With_Exec [''setup-envtest'', ''use'', ''-p'', ''path'', gt_KubeVersion m],
     With_Env_Variable ''KUBEBUILDER_ASSETS''
       (''/home/noroot/.local/share/kubebuilder-envtest/k8s/'' @ gt_KubeVersion m @ ''-linux-amd64''),
     With_Workdir ''/src'', Without_Directory ''/src/test/e2e'', With_Exec [''go'', ''test'', ''./...'']]"

text \<open>
  The binaries of Kubernetes the tests use are those of the version that was asked for, but for a container of the
  caller: then the version is lost.
\<close>

lemma UnitTest_version:
  "With_Exec [''setup-envtest'', ''use'', ''-p'', ''path'', kube] \<in> set (UnitTest (New go envtest kube None) src)"
  "UnitTest (New go envtest kube (Some ctr)) src = UnitTest (New go envtest '''' (Some ctr)) src"
  by (simp_all add: UnitTest_def New_def Let_def)

section \<open>The end-to-end tests\<close>

definition Run ::
  "('d dag_container \<Rightarrow> ('c, 'w, string) io) \<Rightarrow> 'd \<Rightarrow> 'd \<Rightarrow> 'd dag_container option \<Rightarrow> string \<Rightarrow> ('c, 'w, string) io" where
  "Run Stdout source kubeconfig svc goVersion =
     (let goDag = [Go_Base goVersion, With_Cgo_Disabled, With_Source source];
        goDag = (case svc of Some s \<Rightarrow> goDag @ [With_Service_Binding ''kubernetes'' s] | None \<Rightarrow> goDag)
      in Stdout (goDag @ [With_Mounted_File ''/kubeconfig'' kubeconfig, With_Env_Variable ''KUBECONFIG'' ''/kubeconfig'',
        With_Exec [''go'', ''run'', ''github.com/onsi/ginkgo/v2/ginkgo'', ''--procs=4'', ''--randomize-all'', ''--randomize-suites'',
          ''--fail-on-pending'', ''--fail-on-empty'', ''--keep-going'', ''--timeout=45m'', ''--github-output'', ''./test/e2e'']]))"

definition registries_yaml :: "string \<Rightarrow> string" where
  "registries_yaml registry = (let nl = [CHR 0x0A] in nl @ ''configs:'' @ nl @ ''  '' @ quoted registry @ '':'' @ nl @
     ''    tls:'' @ nl @ ''      ca_file: '' @ quoted ''/usr/local/share/ca-certificates/ca.crt'' @ nl)"

text \<open>
  The service of the cluster, which is the container it runs. The error of the deferred \<open>Stop\<close> is dropped.
\<close>

definition RunEphemeral ::
  "('d dag_container \<Rightarrow> ('c, 'w, string) io) \<Rightarrow> ('d dag_container \<Rightarrow> ('c, 'w, 'd dag_container) io) \<Rightarrow>
   ('d dag_container \<Rightarrow> ('c, 'w, 'd dag_container) io) \<Rightarrow> ('d dag_container \<Rightarrow> ('c, 'w, unit) io) \<Rightarrow> (string \<Rightarrow> 'd) \<Rightarrow>
   'd \<Rightarrow> string \<Rightarrow> 'd option \<Rightarrow> string \<Rightarrow> string \<Rightarrow> ('c, 'w, string) io" where
  "RunEphemeral Stdout Sync Start Stop Config source registry ca name goVersion =
     (let ctr = [K3S_Base name];
        ctr = (case ca of Some f \<Rightarrow> ctr @ [With_Mounted_File ''/usr/local/share/ca-certificates/ca.crt'' f] | None \<Rightarrow> ctr);
        ctr = (if registry \<noteq> '''' then ctr @ [With_New_File ''/registries.yaml'' (registries_yaml registry),
          With_Exec [''sh'', ''-c'', ''cat /registries.yaml > /etc/rancher/k3s/registries.yaml'']] else ctr)
      in io_bind (Sync ctr) (\<lambda>ctr. io_bind (Start ctr) (\<lambda>kServer.
        io_try (Run Stdout source (Config name) (Some kServer) goVersion) (\<lambda>r. io_try (Stop kServer) (\<lambda>_. io_lift r)))))"

text \<open>
  The cluster that was started for the tests is stopped, whatever became of them, and their result is not
  affected by it.
\<close>

lemma RunEphemeral_stops:
  assumes "Sync ctr w = (Inr ctr', [], w1)" "Start ctr' w1 = (Inr srv, [start], w2)"
    and "\<And>w. \<exists>r w'. Stop srv w = (r, [stop], w')" "ctr = [K3S_Base name]"
    and "Run Stdout source (Config name) (Some srv) go w2 = (res, cs, w3)"
  shows "\<exists>w4. RunEphemeral Stdout Sync Start Stop Config source '''' None name go w = (res, start # cs @ [stop], w4)"
proof -
  obtain r w4 where "Stop srv w3 = (r, [stop], w4)" using assms(3) by blast
  then show ?thesis using assms(1,2,4,5) by (auto simp: RunEphemeral_def io_simps)
qed

end
