(* ===== verification/Spec2Isabelle.thy ===== *)
theory Spec2Isabelle
  imports Prelude Go_Lib Metadata Api_Types Externals Config Common_Env Wal_Segment Wal_Service
    Wal_Restore_Protocol Specs Merging Rbac Operator_Hooks Role_Writers Pod_Spec Lifecycle Lifecycle_Props
    Extended_Client Recovery_Window Backup Cached_Status Retention Restore_Job Commands Permissions
    Status_Writers Deep_Copy Pod_Validity Main_Program Catalog_Race Process_Services
    Build_Tooling
begin

text \<open>
  The Barman Cloud plugin of CloudNativePG, as definitions translated from its Go sources, with the theorems
  that make it correct.

  The program runs as three kinds of process. The \<^emph>\<open>operator\<close> reconciles the RBAC of every Cluster that uses the
  plugin and injects a sidecar into its Pods and recovery Jobs. The \<^emph>\<open>instance sidecar\<close> archives and restores WAL
  files, takes backups, reports metrics and maintains the catalog of backups. The \<^emph>\<open>restore job sidecar\<close> recovers a
  data directory and serves WAL files meanwhile. They share the ObjectStore resource, through the Kubernetes API.

  How the code is modelled. A function that reads or changes something outside its own memory is an effect
  (\<open>io\<close>, theory \<open>Prelude\<close>): a function of the outside world that returns an error or a result, the list of the
  external calls it made, in order, and the world after them. Errors are values of \<open>go_error\<close>, every early return is a
  branch, and a nil dereference is the value \<open>Panic\<close>. What is not in this repository is a parameter: the record \<open>lib\<close>
  of library functions that only compute, the record \<open>'w ext\<close> of operations on the outside world (the Kubernetes
  API, the barman-cloud tools, files, the clock, \<open>retry.RetryOnConflict\<close>), \<open>pod_lib\<close> for decoders and JSON patches,
  \<open>'w base_client\<close> for the client the cache extends, \<open>'w mgr\<close> for the managers of controller-runtime, \<open>copiers\<close> for
  the deep copies of imported types, and functions for the settings of \<open>viper\<close> and for what \<open>cobra\<close> executes. What a theorem relies on of them is a hypothesis whose name ends in \<open>_law\<close> and that
  states documented behaviour; each has an instance, with which the witness of the theorem discharges it. A Go map is
  an association list or nil (\<open>gomap\<close>, theory \<open>Go_Lib\<close>), a string a list of characters, an integer of fixed width a
  word, a time the nanoseconds since 1970. Log lines and contexts are left out.

  \<^item> \<open>Prelude\<close>, \<open>Go_Lib\<close>, \<open>Metadata\<close>, \<open>Api_Types\<close>, \<open>Externals\<close>: errors, effects, the rules for the calls an effect can
    make (\<open>only_calls\<close>), their order (\<open>guarded\<close>), what it leaves unchanged (\<open>keeps\<close>) and how its runs end
    (\<open>run_iffs\<close>); Go's strings, paths and maps; \<open>internal/cnpgi/metadata\<close>, \<open>api/v1\<close>; the parameters.
  \<^item> \<open>Config\<close>, \<open>Common_Env\<close>: \<open>operator/config/config.go\<close> and \<open>common/common.go\<close>. Where each name of a
    configuration comes from; merging environments is overriding.
  \<^item> \<open>Wal_Segment\<close>: \<open>common/wal_import.go\<close>, with its regular expressions run by a small matcher and its 32-bit
    numbers. Reading and printing segment names are inverse; enumeration is consecutive below the overflow.
  \<^item> \<open>Wal_Service\<close>, \<open>Wal_Restore_Protocol\<close>: \<open>common/wal.go\<close>, \<open>check.go\<close>, \<open>errors.go\<close>. What an archive request does and
    in which order; which files a restore request fetches; and the flag of the end of the WAL stream, refined to a
    two-state machine, over any sequence of requests.
  \<^item> \<open>Specs\<close>, \<open>Merging\<close>, \<open>Rbac\<close>, \<open>Operator_Hooks\<close>: \<open>operator/specs\<close>, \<open>operator/rbac/ensure.go\<close>, \<open>operator/reconciler.go\<close> and
    \<open>internal/controller\<close>. What the rules allow; labels and subjects are merged by one abstract scheme, the locale
    of \<open>Merging\<close>; the Role converges to its specification on an API server with optimistic locking; what is never
    written; the contract between the hook and the controller.
  \<^item> \<open>Role_Writers\<close>: the hook and the controller at the same time, call by call, with users and with stale reads. By
    rely and guarantee (locale \<open>interference\<close>) each leaves sound what the other relies on, so that no interleaving
    gives a Role more than its Cluster asked for.
  \<^item> \<open>Pod_Spec\<close>, \<open>Lifecycle\<close>, \<open>Lifecycle_Props\<close>: \<open>operator/lifecycle*.go\<close>. The injected sidecar, its environment,
    mounts and settings; injecting twice changes nothing; the hook only reads.
  \<^item> \<open>Extended_Client\<close>: \<open>instance/internal/client/client.go\<close>. The cache refines a map (locale \<open>entry_map\<close>); a step
    relation over all uses of the client shows how old an answer can be, and how a write is lost to readers.
  \<^item> \<open>Recovery_Window\<close>, \<open>Backup\<close>, \<open>Cached_Status\<close>: \<open>instance/recovery_window.go\<close>, \<open>metrics.go\<close>, \<open>backup.go\<close>, \<open>types.go\<close>.
    What a reported backup and a failed backup leave behind; and what the cache does to the record of a failure. Maps
    are values here; where the code shares a map between a cached object and its copy, \<open>Cached_Status\<close> makes that explicit.
  \<^item> \<open>Retention\<close>: \<open>instance/retention.go\<close>. Which Backups are deleted, the calls of one maintenance, the waiting times as
    64-bit numbers, and when the endless loop, a \<open>partial_function\<close> that may have no value, returns.
  \<^item> \<open>Catalog_Race\<close>: what the maintenance deletes when other Pods complete backups meanwhile.
  \<^item> \<open>Restore_Job\<close>: \<open>restore/restore.go\<close>. What happens before and after the data directory is restored.
  \<^item> \<open>Commands\<close> and this theory: \<open>internal/cmd\<close>, \<open>manager.go\<close>, \<open>start.go\<close> and \<open>identity.go\<close> of the three processes,
    \<open>common/health.go\<close>, \<open>common/scheme.go\<close>, \<open>internal/scheme\<close>. The environment that the lifecycle hook gives to a sidecar
    is the one its commands need.
  \<^item> \<open>Main_Program\<close>: \<open>cmd/manager/main.go\<close> and \<open>NewCmd\<close> of each command, as data: names, flags, bindings and
    effects. Which command a command line runs, with which settings, and the exit code of the process. This theory
    joins it with the lifecycle hook: the command of the injected container and of its probe.
  \<^item> \<open>Permissions\<close>, \<open>Process_Services\<close>: every access to an ObjectStore by the services of the sidecars is one that the
    Role built by the operator allows; what each process serves and announces; and no read of a sidecar goes
    through the cache of controller-runtime, which would list and watch.
  \<^item> \<open>Status_Writers\<close>: several sidecars on one ObjectStore. A step relation interleaves their cached reads, status
    writes and retries with the changes of users; nobody's window is touched by another. And a failure that meets
    no other writer is recorded.
  \<^item> \<open>Deep_Copy\<close>: \<open>api/v1/zz_generated.deepcopy.go\<close>, on an explicit memory of arrays, maps and times. A locale says what
    a deep copy is; each type is an instance of it. It shows where the cache shares memory with its readers,
    and that \<open>Cached_Status\<close> and \<open>Status_Writers\<close> account for that.
  \<^item> \<open>Pod_Validity\<close>: the hook turns valid Pods into valid Pods.
  \<^item> \<open>Build_Tooling\<close>: the modules of continuous integration, \<open>dagger\<close>.

  Bounds and fuel. \<open>retry.RetryOnConflict\<close> makes some number of attempts that no theorem fixes (\<open>retry_law\<close>). All
  other loops of the code are structural recursions, but the maintenance loop.

  Not modelled: the text of errors of gRPC, log lines and help texts; gRPC, controller-runtime, cobra, viper and the
  barman-cloud tools, which are parameters; the interleaving of goroutines, except on the cache, whose mutex makes
  its operations the steps of a relation, between the writers of a status and between those of Roles; the
  end-to-end tests and scripts.
\<close>

section \<open>From the injected sidecar to the running instance\<close>

text \<open>What Kubernetes and \<open>viper\<close> promise about the variables of a container and the settings bound to them.\<close>

definition runs_with :: "(string \<Rightarrow> string) \<Rightarrow> container \<Rightarrow> bool" where
  "runs_with env s \<longleftrightarrow> (\<forall>n x. find (\<lambda>x. ev_Name x = n) (ct_Env s) = Some x \<longrightarrow> ev_Source x = '''' \<longrightarrow> env n = ev_Value x)"

definition viper_law :: "(string \<Rightarrow> string) \<Rightarrow> (string \<Rightarrow> string) \<Rightarrow> (string \<times> string) list \<Rightarrow> bool" where
  "viper_law GetString env bindings \<longleftrightarrow> (\<forall>(k, v) \<in> set bindings. GetString k = env v)"

lemma find_by_key: "distinct (map f xs) \<Longrightarrow> d \<in> set xs \<Longrightarrow> find (\<lambda>x. f x = f d) xs = Some d"
  by (induction xs) auto

lemma default_envs_distinct: "distinct (map ev_Name (default_envs c))"
  by (simp add: default_envs_def)

lemma default_env_value:
  assumes "reconcilePodSpec P c spec m (container_template args) conf = Inr spec'"
    and "s \<in> set (ps_InitContainers spec')" "ct_Name s = ''plugin-barman-cloud''" "runs_with env s"
    and agree: "\<forall>x \<in> set (main_container_env (ps_Containers spec) m). ev_Name x \<in> ev_Name ` set (default_envs c) \<longrightarrow> x \<in> set (default_envs c)"
    and d: "d \<in> set (default_envs c)"
  shows "env (ev_Name d) = ev_Value d"
proof -
  have distinct: "x = d" if "x \<in> set (default_envs c)" "ev_Name x = ev_Name d" for x
    using that d default_envs_distinct [of c] by (auto simp: distinct_map inj_on_def)
  have "find (\<lambda>x. ev_Name x = ev_Name d) (default_envs c) = Some d"
    by (rule find_by_key [OF default_envs_distinct d])
  moreover have "find (\<lambda>x. ev_Name x = ev_Name d) (main_container_env (ps_Containers spec) m) \<in> {None, Some d}"
  proof (cases "find (\<lambda>x. ev_Name x = ev_Name d) (main_container_env (ps_Containers spec) m)")
    case (Some x)
    then have x: "x \<in> set (main_container_env (ps_Containers spec) m)" "ev_Name x = ev_Name d"
      by (auto simp: find_Some_iff in_set_conv_nth)
    moreover have "ev_Name x \<in> ev_Name ` set (default_envs c)" unfolding x(2) using d by (rule imageI)
    ultimately have "x \<in> set (default_envs c)" using agree by blast
    then have "x = d" using x(2) by (rule distinct)
    with Some show ?thesis by simp
  qed simp
  ultimately have "find (\<lambda>x. ev_Name x = ev_Name d) (ct_Env s) = Some d"
    unfolding sidecar_env [OF assms(1-3)] by (auto simp: env_of_sidecar)
  moreover have "ev_Source d = ''''" using d by (auto simp: default_envs_def)
  ultimately show ?thesis using assms(4) unfolding runs_with_def by blast
qed

text \<open>The settings of a process started with the environment of the sidecar.\<close>

lemma sidecar_values:
  assumes "reconcilePodSpec P c spec m (container_template args) conf = Inr spec'"
    and "s \<in> set (ps_InitContainers spec')" "ct_Name s = ''plugin-barman-cloud''"
    and "runs_with env s" "viper_law GetString env instance_bindings"
    and agree: "\<forall>x \<in> set (main_container_env (ps_Containers spec) m). ev_Name x \<in> ev_Name ` set (default_envs c) \<longrightarrow> x \<in> set (default_envs c)"
  shows "GetString ''namespace'' = cl_Namespace c" "GetString ''cluster-name'' = cl_Name c"
    "GetString ''pod-name'' = env ''POD_NAME''" "GetString ''pgdata'' = env ''PGDATA''"
    "GetString ''spool-directory'' = ''/controller/wal-restore-spool''"
    "GetString ''custom-cnpg-group'' = cl_Group c" "GetString ''custom-cnpg-version'' = cl_Version c"
proof -
  note val = default_env_value [OF assms(1-4) agree]
  have env: "env ''NAMESPACE'' = cl_Namespace c" "env ''CLUSTER_NAME'' = cl_Name c"
    "env ''SPOOL_DIRECTORY'' = ''/controller/wal-restore-spool''"
    "env ''CUSTOM_CNPG_GROUP'' = cl_Group c" "env ''CUSTOM_CNPG_VERSION'' = cl_Version c"
    using val [of "default_envs c ! 0"] val [of "default_envs c ! 1"] val [of "default_envs c ! 2"]
      val [of "default_envs c ! 3"] val [of "default_envs c ! 4"]
    by (simp_all add: default_envs_def)
  show "GetString ''namespace'' = cl_Namespace c" "GetString ''cluster-name'' = cl_Name c"
    "GetString ''pod-name'' = env ''POD_NAME''" "GetString ''pgdata'' = env ''PGDATA''"
    "GetString ''spool-directory'' = ''/controller/wal-restore-spool''"
    "GetString ''custom-cnpg-group'' = cl_Group c" "GetString ''custom-cnpg-version'' = cl_Version c"
    using assms(5) by (simp_all add: viper_law_def instance_bindings_def env)
qed

text \<open>
  C9. The injected sidecar starts, and works on its own cluster. Take a Pod the lifecycle hook has edited,
  whose main container sets the variables of the sidecar, if at all, to the values the hook would have
  chosen, and which knows its Pod name. A process started with the environment of the sidecar has every
  setting the \<open>instance\<close> and the \<open>restore\<close> commands require. The instance process then maintains the catalog
  of the cluster the hook was called for, as the Pod it runs in; its WAL service works on the spool directory
  the hook chose and on the data directory of the Pod; and it reads Clusters in the API group and version of
  that cluster.
\<close>

theorem sidecar_boots:
  assumes "reconcilePodSpec P c spec m (container_template args) conf = Inr spec'"
    and "s \<in> set (ps_InitContainers spec')" "ct_Name s = ''plugin-barman-cloud''"
    and "runs_with env s" "viper_law GetString env instance_bindings"
    and "\<forall>x \<in> set (main_container_env (ps_Containers spec) m). ev_Name x \<in> ev_Name ` set (default_envs c) \<longrightarrow> x \<in> set (default_envs c)"
    and "env ''POD_NAME'' \<noteq> ''''" "cl_Namespace c \<noteq> ''''" "cl_Name c \<noteq> ''''"
  shows "instance_RunE S M GetString = instance_Start S M GetString \<and>
    restore_RunE S M GetString = restore_Start S M GetString \<and>
    catalog_maintenance_of GetString =
      \<lparr>cm_ClusterKey = NamespacedName (cl_Namespace c) (cl_Name c), cm_CurrentPodName = env ''POD_NAME''\<rparr> \<and>
    hd (instance_enrich (instance_plugin_of GetString)) = WALServer \<lparr>ws_InstanceName = env ''POD_NAME'',
      ws_SpoolDirectory = ''/controller/wal-restore-spool'', ws_PGDataPath = env ''PGDATA'',
      ws_PGWALPath = path_Join [env ''PGDATA'', ''pg_wal'']\<rparr> \<and>
    cnpg_group_version S GetString =
      (if cl_Group c = '''' then fst S else cl_Group c, if cl_Version c = '''' then snd S else cl_Version c)"
proof -
  note set = sidecar_values [OF assms(1-6)]
  show ?thesis using assms(7-9)
    by (simp add: instance_RunE_def restore_RunE_def set catalog_maintenance_of_def instance_enrich_def
        instance_plugin_of_def cnpg_group_version_def Let_def)
qed

text \<open>
  C10. The injected container is a working process of the plugin. Its arguments are the command it was injected
  for (when the store adds none), and the main program run with them, in the environment the hook gave to
  the container, starts the manager of that command with all settings it requires: the process makes the
  calls of that manager and exits with 0 when it ends without an error or was cancelled, and with 1
  otherwise. Its startup probe is a command of the same program, which exits with 0 when the health service
  answers what the health service of the plugin answers, and with 2, 3 or 125 on any other status.
\<close>

theorem sidecar_process:
  assumes "reconcilePodSpec P c spec m (container_template args) conf = Inr spec'"
    and "s \<in> set (ps_InitContainers spec')" "ct_Name s = ''plugin-barman-cloud''" "runs_with env s"
    and "cobra_law execute GetString GetBool" "settings_law (rootCmd fs S M N C) env GetString"
    and "\<forall>x \<in> set (main_container_env (ps_Containers spec) m). ev_Name x \<in> ev_Name ` set (default_envs c) \<longrightarrow> x \<in> set (default_envs c)"
    and "env ''POD_NAME'' \<noteq> ''''" "cl_Namespace c \<noteq> ''''" "cl_Name c \<noteq> ''''"
    and "(args, start) \<in> {([''instance''], instance_Start S M GetString), ([''restore''], restore_Start S M GetString)}"
    and "sdc_additionalArgs conf = []"
  shows "main_program execute (rootCmd fs S M N C) (ct_Args s) w =
      (Inr (exit_code (io_result start w)), io_calls start w, io_world start w) \<and>
    (\<exists>p probe_args. ct_StartupProbe s = Some p \<and> pb_ExecCommand p = ''/manager'' # probe_args \<and>
      (\<forall>cli. N health_dial_path = Inr cli \<longrightarrow> C cli = Inr health_Check \<longrightarrow>
        main_program execute (rootCmd fs S M N C) probe_args w = (Inr 0, [], w)) \<and>
      (\<forall>cli st. N health_dial_path = Inr cli \<longrightarrow> C cli = Inr st \<longrightarrow> st \<noteq> health_Check \<longrightarrow>
        (\<exists>n \<in> {2, 3, 125}. main_program execute (rootCmd fs S M N C) probe_args w = (Inr n, [], w))))"
proof -
  have "viper_law GetString env instance_bindings" using sidecar_settings [OF assms(6)] by (auto simp: viper_law_def)
  note set = sidecar_values [OF assms(1-4) this assms(7)]
  note s = reconcilePodSpec_injected [OF assms(1-3)]
  have args: "ct_Args s = args" unfolding s by (simp add: sidecar_container_def container_template_def assms(12))
  have "execute (rootCmd fs S M N C) args = returns start"
    using assms(8-11) executes(1,2) [OF assms(5), of fs S M N C] by (auto simp: instance_RunE_def restore_RunE_def set)
  then have run: "main_program execute (rootCmd fs S M N C) (ct_Args s) w =
      (Inr (exit_code (io_result start w)), io_calls start w, io_world start w)" unfolding args by (rule main_program_returns)
  have probe: "ct_StartupProbe s = Some sidecar_probe" "pb_ExecCommand sidecar_probe = ''/manager'' # [''healthcheck'', ''unix'']"
    unfolding s by (simp_all add: sidecar_container_def sidecar_probe_def)
  have "main_program execute (rootCmd fs S M N C) [''healthcheck'', ''unix''] w = (Inr 0, [], w)"
    if "N health_dial_path = Inr cli" "C cli = Inr health_Check" for cli
    using probe_exits [where N = N and C = C, OF assms(5) that] by (simp add: health_Check_def)
  moreover have "\<exists>n \<in> {2, 3, 125}. main_program execute (rootCmd fs S M N C) [''healthcheck'', ''unix''] w = (Inr n, [], w)"
    if "N health_dial_path = Inr cli" "C cli = Inr st" "st \<noteq> health_Check" for cli st
    using that(3) probe_exits [where N = N and C = C, OF assms(5) that(1,2)] by (cases st) (auto simp: health_Check_def)
  ultimately show ?thesis using run probe by blast
qed

text \<open>A Pod of CloudNativePG, and the environment and settings of its sidecar.\<close>

definition boot_pod_spec :: pod_spec where
  "boot_pod_spec = sample_pod_spec\<lparr>ps_Containers := [(container_template [''run''])\<lparr>ct_Name := ''postgres'',
       ct_Env := [\<lparr>ev_Name = ''PGDATA'', ev_Value = ''/pgdata'', ev_Source = ''''\<rparr>,
         \<lparr>ev_Name = ''NAMESPACE'', ev_Value = ''ns'', ev_Source = ''''\<rparr>,
         \<lparr>ev_Name = ''POD_NAME'', ev_Value = ''pg-1'', ev_Source = ''''\<rparr>]\<rparr>]\<rparr>"

definition boot_spec :: pod_spec where
  "boot_spec = (case reconcilePodSpec sample_pod_lib sample_cluster boot_pod_spec ''postgres''
     (container_template [''instance'']) sample_sidecar of Inr spec \<Rightarrow> spec | Inl _ \<Rightarrow> boot_pod_spec)"

definition boot_env :: "string \<Rightarrow> string" where
  "boot_env n = (case find (\<lambda>x. ev_Name x = n) (ct_Env (ps_InitContainers boot_spec ! 1)) of
     Some x \<Rightarrow> ev_Value x | None \<Rightarrow> '''')"

definition boot_settings :: "string \<Rightarrow> string" where
  "boot_settings k = (case map_of instance_bindings k of Some v \<Rightarrow> boot_env v | None \<Rightarrow> '''')"

theorem sidecar_boots_witness:
  "io_result (instance_RunE (''default'', ''v0'') boot_mgr boot_settings) () = Inr () \<and>
   catalog_maintenance_of boot_settings = \<lparr>cm_ClusterKey = NamespacedName ''ns'' ''pg'', cm_CurrentPodName = ''pg-1''\<rparr> \<and>
   cnpg_group_version (''default'', ''v0'') boot_settings = (''postgresql.cnpg.io'', ''v1'')"
proof -
  have run: "reconcilePodSpec sample_pod_lib sample_cluster boot_pod_spec ''postgres'' (container_template [''instance''])
      sample_sidecar = Inr boot_spec" by code_simp
  have s: "ps_InitContainers boot_spec ! 1 \<in> set (ps_InitContainers boot_spec)"
    "ct_Name (ps_InitContainers boot_spec ! 1) = ''plugin-barman-cloud''" by code_simp+
  have env: "runs_with boot_env (ps_InitContainers boot_spec ! 1)" by (simp add: runs_with_def boot_env_def)
  have vip: "viper_law boot_settings boot_env instance_bindings"
    by (simp add: viper_law_def boot_settings_def instance_bindings_def)
  have agree: "\<forall>x \<in> set (main_container_env (ps_Containers boot_pod_spec) ''postgres'').
      ev_Name x \<in> ev_Name ` set (default_envs sample_cluster) \<longrightarrow> x \<in> set (default_envs sample_cluster)" by code_simp
  have c: "boot_env ''POD_NAME'' = ''pg-1''" "cl_Namespace sample_cluster = ''ns''" "cl_Name sample_cluster = ''pg''"
    "cl_Group sample_cluster = ''postgresql.cnpg.io''" "cl_Version sample_cluster = ''v1''" by code_simp+
  have "io_result (instance_Start (''default'', ''v0'') boot_mgr boot_settings) () = Inr ()"
    by (simp add: instance_Start_def io_result_def io_simps boot_mgr_def)
  with sidecar_boots [where S = "(''default'', ''v0'')" and M = boot_mgr, OF run s env vip agree] c
  show ?thesis by simp
qed

text \<open>A process of the sidecar of that Pod, in a store without further arguments.\<close>

definition process_sidecar :: container where
  "process_sidecar = (case reconcilePodSpec sample_pod_lib sample_cluster boot_pod_spec ''postgres''
     (container_template [''instance'']) (sample_sidecar\<lparr>sdc_additionalArgs := []\<rparr>) of
     Inr spec \<Rightarrow> ps_InitContainers spec ! 1 | Inl _ \<Rightarrow> container_template [])"

definition process_env :: "string \<Rightarrow> string" where
  "process_env n = (case find (\<lambda>x. ev_Name x = n) (ct_Env process_sidecar) of Some x \<Rightarrow> ev_Value x | None \<Rightarrow> '''')"

definition process_root :: "unit command" where
  "process_root = rootCmd [] (''default'', ''v0'') boot_mgr (\<lambda>_. Inr ()) (\<lambda>_. Inr SERVING)"

definition process_settings :: "string \<Rightarrow> string" where
  "process_settings k = (case map_of (bound_env process_root) k of
     Some v \<Rightarrow> if process_env v \<noteq> '''' then process_env v else default_setting process_root k
   | None \<Rightarrow> default_setting process_root k)"

definition process_execute :: "unit command \<Rightarrow> string list \<Rightarrow> unit run" where
  "process_execute root args = (case command_path root args of None \<Rightarrow> io_return (Some 1)
   | Some path \<Rightarrow> (case cmd_RunE (last path) of None \<Rightarrow> io_return None
     | Some f \<Rightarrow> io_seq (run_hooks path) (f process_settings (\<lambda>_. False))))"

theorem sidecar_process_witness:
  "main_program process_execute process_root (ct_Args process_sidecar) () =
     (Inr 0, io_calls (instance_Start (''default'', ''v0'') boot_mgr process_settings) (), ()) \<and>
   main_program process_execute process_root [''healthcheck'', ''unix''] () = (Inr 0, [], ())"
proof -
  obtain spec' where run: "reconcilePodSpec sample_pod_lib sample_cluster boot_pod_spec ''postgres''
      (container_template [''instance'']) (sample_sidecar\<lparr>sdc_additionalArgs := []\<rparr>) = Inr spec'"
    and s: "process_sidecar \<in> set (ps_InitContainers spec')"
  proof -
    have "case reconcilePodSpec sample_pod_lib sample_cluster boot_pod_spec ''postgres''
      (container_template [''instance'']) (sample_sidecar\<lparr>sdc_additionalArgs := []\<rparr>) of
      Inl _ \<Rightarrow> False | Inr spec' \<Rightarrow> List.member (ps_InitContainers spec') process_sidecar" by code_simp
    then show thesis using that by (simp split: sum.splits)
  qed
  have name: "ct_Name process_sidecar = ''plugin-barman-cloud''" and probe: "ct_StartupProbe process_sidecar = Some sidecar_probe"
    by code_simp+
  have env: "runs_with process_env process_sidecar" by (simp add: runs_with_def process_env_def)
  have cobra: "cobra_law process_execute process_settings (\<lambda>_. False)" by (simp add: cobra_law_def process_execute_def)
  have settings: "settings_law process_root process_env process_settings" by (simp add: settings_law_def process_settings_def)
  have agree: "\<forall>x \<in> set (main_container_env (ps_Containers boot_pod_spec) ''postgres'').
      ev_Name x \<in> ev_Name ` set (default_envs sample_cluster) \<longrightarrow> x \<in> set (default_envs sample_cluster)" by code_simp
  have ne: "process_env ''POD_NAME'' \<noteq> ''''" "cl_Namespace sample_cluster \<noteq> ''''" "cl_Name sample_cluster \<noteq> ''''" by code_simp+
  let ?start = "instance_Start (''default'', ''v0'') boot_mgr process_settings"
  have "io_result ?start () = Inr ()" "io_world ?start () = ()"
    by (simp_all add: instance_Start_def io_result_def io_simps boot_mgr_def)
  with sidecar_process [where w = "()" and start = ?start, OF run s name env cobra settings [unfolded process_root_def] agree ne]
  show ?thesis by (auto simp: probe sidecar_probe_def exit_code_def health_Check_def process_root_def)
qed

end
